(* ===== verification/Prelude.thy ===== *)
theory Prelude
  imports Main
begin

text \<open>
  Shared vocabulary of the development: the collections of simplification rules, the result
  type of calls that can fail, and the list idioms that the web client uses again and again
  (\<open>find\<close> and mutate, \<open>findIndex\<close> and replace or \<open>push\<close>, \<open>filter\<close> by identifier). Each idiom
  comes with its laws here, once, and the components only instantiate them.
\<close>

named_theorems num_simps \<open>evaluation of JavaScript numbers\<close>
named_theorems str_simps \<open>evaluation of JavaScript strings\<close>
named_theorems store_defs \<open>definitions of store operations, for step-wise unfolding\<close>

section \<open>Results\<close>

text \<open>
  A promise that rejects is \<open>Inl\<close> of its reason and a promise that resolves is \<open>Inr\<close> of its
  value.
\<close>

definition bind_result :: "'e + 'a \<Rightarrow> ('a \<Rightarrow> 'e + 'b) \<Rightarrow> 'e + 'b" where
  "bind_result r k = (case r of Inl e \<Rightarrow> Inl e | Inr a \<Rightarrow> k a)"

text \<open>\<open>Promise.all\<close> of two requests whose settlement order is the list order.\<close>

definition both :: "'e + 'a \<Rightarrow> 'e + 'b \<Rightarrow> 'e + ('a \<times> 'b)" where
  "both r1 r2 = bind_result r1 (\<lambda>a. bind_result r2 (\<lambda>b. Inr (a, b)))"

section \<open>Array idioms\<close>

text \<open>\<open>const t = xs.find(p); if (t) mutate t\<close>: the first hit is updated in place.\<close>

fun update_first :: "('a \<Rightarrow> bool) \<Rightarrow> ('a \<Rightarrow> 'a) \<Rightarrow> 'a list \<Rightarrow> 'a list" where
  "update_first p f [] = []"
| "update_first p f (x # xs) = (if p x then f x # xs else x # update_first p f xs)"

text \<open>\<open>const i = xs.findIndex(p); if (i >= 0) xs[i] = v; else xs.push(v)\<close>.\<close>

definition replace_or_push :: "('a \<Rightarrow> bool) \<Rightarrow> 'a \<Rightarrow> 'a list \<Rightarrow> 'a list" where
  "replace_or_push p v xs =
     (if List.find p xs = None then xs @ [v] else update_first p (\<lambda>_. v) xs)"

text \<open>\<open>new Set(xs)\<close> spread back into an array: first occurrences, in insertion order.\<close>

definition set_array :: "'a list \<Rightarrow> 'a list" where
  "set_array xs = rev (remdups (rev xs))"

lemma bind_result_simps [simp]:
  "bind_result (Inl e) k = Inl e" "bind_result (Inr a) k = k a"
  by (simp_all add: bind_result_def)

lemma both_simps [simp]:
  "both (Inl e) r = Inl e" "both (Inr a) (Inl e) = Inl e" "both (Inr a) (Inr b) = Inr (a, b)"
  by (simp_all add: both_def)

lemma both_eq_Inr: "both r1 r2 = Inr (a, b) \<longleftrightarrow> r1 = Inr a \<and> r2 = Inr b"
  by (cases r1; cases r2) auto

lemma length_update_first [simp]: "length (update_first p f xs) = length xs"
  by (induction xs) auto

lemma update_first_none: "List.find p xs = None \<Longrightarrow> update_first p f xs = xs"
  by (induction xs) (auto split: if_splits)

lemma map_update_first_frame:
  "(\<And>x. p x \<Longrightarrow> g (f x) = g x) \<Longrightarrow> map g (update_first p f xs) = map g xs"
  by (induction xs) auto

lemma set_update_first: "set (update_first p f xs) \<subseteq> set xs \<union> f ` {x \<in> set xs. p x}"
  by (induction xs) auto

lemma find_update_first_same:
  "(\<And>x. p (f x) = p x) \<Longrightarrow> List.find p (update_first p f xs) = map_option f (List.find p xs)"
  by (induction xs) auto

lemma find_update_first_other:
  "(\<And>x. p x \<Longrightarrow> \<not> q x \<and> \<not> q (f x)) \<Longrightarrow> List.find q (update_first p f xs) = List.find q xs"
  by (induction xs) auto

lemma update_first_commute:
  assumes "\<And>x. p x \<Longrightarrow> \<not> q x" "\<And>x. p (g x) = p x" "\<And>x. q (f x) = q x"
  shows "update_first p f (update_first q g xs) = update_first q g (update_first p f xs)"
  using assms by (induction xs) auto

lemma find_Some_mem: "List.find p xs = Some x \<Longrightarrow> x \<in> set xs \<and> p x"
  by (induction xs) (auto split: if_splits)

lemma find_None_iff_all: "List.find p xs = None \<longleftrightarrow> (\<forall>x \<in> set xs. \<not> p x)"
  by (induction xs) auto

lemma distinct_set_array [simp]: "distinct (set_array xs)"
  by (simp add: set_array_def)

lemma set_set_array [simp]: "set (set_array xs) = set xs"
  by (simp add: set_array_def)

lemma find_key_None: "List.find (\<lambda>x. key x = k) xs = None \<longleftrightarrow> k \<notin> key ` set xs"
  by (induction xs) auto

lemma find_append_none: "List.find p xs = None \<Longrightarrow> List.find p (xs @ ys) = List.find p ys"
  by (induction xs) (auto split: if_splits)

section \<open>Objects\<close>

text \<open>
  An object with arbitrary keys is an association list in the order of its keys. \<open>object[key] = value\<close>
  replaces the value of an existing key in place and adds a new key at the end.
\<close>

definition assign :: "'k \<Rightarrow> 'v \<Rightarrow> ('k \<times> 'v) list \<Rightarrow> ('k \<times> 'v) list" where
  "assign k v ps = replace_or_push (\<lambda>p. fst p = k) (k, v) ps"

lemma assign_Nil [simp]: "assign k v [] = [(k, v)]"
  by (simp add: assign_def replace_or_push_def)

lemma assign_Cons [simp]: "assign k v (p # ps) = (if fst p = k then (k, v) # ps else p # assign k v ps)"
  by (simp add: assign_def replace_or_push_def)

lemma map_of_assign [simp]: "map_of (assign k v ps) = (map_of ps)(k \<mapsto> v)"
  by (induction ps) (auto simp: fun_eq_iff)

lemma assign_assign [simp]: "assign k v (assign k w ps) = assign k v ps"
  by (induction ps) auto

lemma assign_same: "map_of ps k = Some v \<Longrightarrow> assign k v ps = ps"
  by (induction ps) (auto split: if_splits)

lemma assign_new: "k \<notin> fst ` set ps \<Longrightarrow> assign k v ps = ps @ [(k, v)]"
  by (induction ps) auto

section \<open>Tables\<close>

text \<open>
  What an administrator sees of a list of records is a table from identifiers to records. Its
  abstract operations are replacing the whole table, storing a record and deleting one.
\<close>

definition lookup :: "('a \<Rightarrow> 'k) \<Rightarrow> 'a list \<Rightarrow> 'k \<Rightarrow> 'a option" where
  "lookup key xs k = List.find (\<lambda>x. key x = k) xs"

lemma lookup_Nil [simp]: "lookup key [] = (\<lambda>_. None)"
  by (simp add: lookup_def fun_eq_iff)

datatype ('k, 'a) table_op = TLoad "'k \<Rightarrow> 'a option" | TPut 'k 'a | TDelete 'k

fun table_step :: "('k, 'a) table_op \<Rightarrow> ('k \<Rightarrow> 'a option) \<Rightarrow> 'k \<Rightarrow> 'a option" where
  "table_step (TLoad m') m = m'"
| "table_step (TPut k v) m = m(k \<mapsto> v)"
| "table_step (TDelete k) m = m(k := None)"

section \<open>Keyed collections\<close>

text \<open>
  The admin pages keep arrays of records with an identifier. The contract below is what their
  handlers rely on: storing the server's copy of a record that the page has makes exactly that copy
  the one found under its key, keeps the order of the rows and every other row, and removing a
  key removes exactly its rows. \<open>valid\<close> are the keys that are equal to themselves.
\<close>

locale keyed_rows =
  fixes key :: "'a \<Rightarrow> 'k"
    and valid :: "'k \<Rightarrow> bool"
    and save :: "'a \<Rightarrow> 'a list \<Rightarrow> 'a list"
    and drop_key :: "'k \<Rightarrow> 'a list \<Rightarrow> 'a list"
  assumes keys_save_known: "valid (key v) \<Longrightarrow> key v \<in> key ` set xs \<Longrightarrow> map key (save v xs) = map key xs"
    and find_save_known: "valid (key v) \<Longrightarrow> key v \<in> key ` set xs \<Longrightarrow> List.find (\<lambda>x. key x = key v) (save v xs) = Some v"
    and find_save_other: "valid (key v) \<Longrightarrow> k \<noteq> key v \<Longrightarrow>
      List.find (\<lambda>x. key x = k) (save v xs) = List.find (\<lambda>x. key x = k) xs"
    and drop_key_rows: "valid k \<Longrightarrow> drop_key k xs = filter (\<lambda>x. key x \<noteq> k) xs"
begin

lemma find_drop_key: "valid k \<Longrightarrow> List.find (\<lambda>x. key x = k) (drop_key k xs) = None"
  by (simp add: find_None_iff_all drop_key_rows)

lemma distinct_drop_key: "valid k \<Longrightarrow> distinct (map key xs) \<Longrightarrow> distinct (map key (drop_key k xs))"
  by (simp add: drop_key_rows distinct_map inj_on_def)

lemma drop_key_keeps: "valid k \<Longrightarrow> k' \<noteq> k \<Longrightarrow>
    List.find (\<lambda>x. key x = k') (drop_key k xs) = List.find (\<lambda>x. key x = k') xs"
  by (induction xs) (auto simp: drop_key_rows)

lemma lookup_drop: "valid k \<Longrightarrow> lookup key (drop_key k xs) = table_step (TDelete k) (lookup key xs)"
  by (rule ext) (simp add: lookup_def find_drop_key drop_key_keeps)

lemma lookup_save_known: "valid (key v) \<Longrightarrow> key v \<in> key ` set xs \<Longrightarrow>
    lookup key (save v xs) = table_step (TPut (key v) v) (lookup key xs)"
  by (rule ext) (simp add: lookup_def find_save_known find_save_other)

lemma save_keeps_others: "valid (key v) \<Longrightarrow> x \<in> set xs \<Longrightarrow> distinct (map key xs) \<Longrightarrow> key x \<noteq> key v \<Longrightarrow>
    List.find (\<lambda>y. key y = key x) (save v xs) = Some x"
proof -
  assume v: "valid (key v)" and x: "x \<in> set xs" and d: "distinct (map key xs)" and n: "key x \<noteq> key v"
  have "List.find (\<lambda>y. key y = key x) xs = Some x"
    using x d by (induction xs) (auto simp: image_iff)
  then show ?thesis using find_save_other [OF v n] by simp
qed

end

text \<open>Pages that create records add a record with a new key at the end.\<close>

locale keyed = keyed_rows +
  assumes save_new: "valid (key v) \<Longrightarrow> key v \<notin> key ` set xs \<Longrightarrow> save v xs = xs @ [v]"
begin

lemma find_save: "valid (key v) \<Longrightarrow> List.find (\<lambda>x. key x = key v) (save v xs) = Some v"
proof (cases "key v \<in> key ` set xs")
  case False
  moreover assume "valid (key v)"
  moreover have "List.find (\<lambda>x. key x = key v) xs = None"
    using False by (simp only: find_key_None not_False_eq_True)
  ultimately show ?thesis by (simp add: save_new find_append_none)
qed (rule find_save_known)

lemma lookup_save: "valid (key v) \<Longrightarrow> lookup key (save v xs) = table_step (TPut (key v) v) (lookup key xs)"
  by (rule ext) (simp add: lookup_def find_save find_save_other)

lemma distinct_save: "valid (key v) \<Longrightarrow> distinct (map key xs) \<Longrightarrow> distinct (map key (save v xs))"
  by (cases "key v \<in> key ` set xs") (auto simp: keys_save_known save_new)

lemma keys_save: "valid (key v) \<Longrightarrow> set (map key (save v xs)) = insert (key v) (set (map key xs))"
proof (cases "key v \<in> key ` set xs")
  case True
  moreover assume "valid (key v)"
  ultimately show ?thesis by (simp add: keys_save_known insert_absorb del: set_map) (simp add: insert_absorb)
qed (simp add: save_new)

end

lemma keys_update_first: "key v = k \<Longrightarrow> List.find (\<lambda>x. key x = k) xs \<noteq> None \<Longrightarrow>
    map key (update_first (\<lambda>x. key x = k) (\<lambda>_. v) xs) = map key xs"
  by (induction xs) auto

lemma find_update_first_const: "key v = k \<Longrightarrow> List.find (\<lambda>x. key x = k) xs \<noteq> None \<Longrightarrow>
    List.find (\<lambda>x. key x = k) (update_first (\<lambda>x. key x = k) (\<lambda>_. v) xs) = Some v"
  by (induction xs) auto

lemma find_append_single: "\<not> p v \<Longrightarrow> List.find p (xs @ [v]) = List.find p xs"
  by (induction xs) auto

text \<open>\<open>same\<close> is the comparison that the page uses for keys.\<close>

lemma keyed_rows_update_first:
  assumes same: "\<And>a k. valid k \<Longrightarrow> same a k = (a = k)"
  shows "keyed_rows key valid (\<lambda>v. update_first (\<lambda>x. same (key x) (key v)) (\<lambda>_. v)) (\<lambda>k. filter (\<lambda>x. \<not> same (key x) k))"
proof
  fix v xs k assume "valid (key v)" and "k \<noteq> key v"
  then show "List.find (\<lambda>x. key x = k) (update_first (\<lambda>x. same (key x) (key v)) (\<lambda>_. v) xs) = List.find (\<lambda>x. key x = k) xs"
    by (auto simp: same intro!: find_update_first_other)
qed (simp_all add: same find_key_None keys_update_first find_update_first_const del: not_None_eq)

lemma keyed_rows_map:
  assumes same: "\<And>a k. valid k \<Longrightarrow> same a k = (a = k)"
  shows "keyed_rows key valid (\<lambda>v. map (\<lambda>x. if same (key x) (key v) then v else x)) (\<lambda>k. filter (\<lambda>x. \<not> same (key x) k))"
proof
  fix v xs k assume "valid (key v)" and "k \<noteq> key v"
  then show "List.find (\<lambda>x. key x = k) (map (\<lambda>x. if same (key x) (key v) then v else x) xs) = List.find (\<lambda>x. key x = k) xs"
    by (induction xs) (auto simp: same)
next
  fix v xs assume "valid (key v)" and "key v \<in> key ` set xs"
  then show "List.find (\<lambda>x. key x = key v) (map (\<lambda>x. if same (key x) (key v) then v else x) xs) = Some v"
    by (induction xs) (auto simp: same)
qed (simp_all add: same)

lemma replace_or_push_known: "List.find p xs \<noteq> None \<Longrightarrow> replace_or_push p v xs = update_first p (\<lambda>_. v) xs"
  by (simp add: replace_or_push_def del: not_None_eq)

lemma keyed_replace_or_push:
  assumes same: "\<And>a k. valid k \<Longrightarrow> same a k = (a = k)"
  shows "keyed key valid (\<lambda>v. replace_or_push (\<lambda>x. same (key x) (key v)) v) (\<lambda>k. filter (\<lambda>x. \<not> same (key x) k))"
proof
  fix v xs k assume "valid (key v)" and "k \<noteq> key v"
  then show "List.find (\<lambda>x. key x = k) (replace_or_push (\<lambda>x. same (key x) (key v)) v xs) = List.find (\<lambda>x. key x = k) xs"
    by (auto simp: same replace_or_push_def find_append_single intro!: find_update_first_other)
next
  fix v xs assume "valid (key v)" and "key v \<notin> key ` set xs"
  then show "replace_or_push (\<lambda>x. same (key x) (key v)) v xs = xs @ [v]"
    by (simp add: same replace_or_push_def find_key_None)
qed (simp_all add: same replace_or_push_known find_key_None keys_update_first find_update_first_const del: not_None_eq)

section \<open>Stores as state machines\<close>

text \<open>
  A store is changed by events in any order. Its contract is an invariant that every allowed event
  keeps; the client gets it for every run of allowed events.
\<close>

locale store =
  fixes step :: "'e \<Rightarrow> 's \<Rightarrow> 's"
    and allowed :: "'e \<Rightarrow> bool"
    and inv :: "'s \<Rightarrow> bool"
  assumes step_keeps: "inv s \<Longrightarrow> allowed e \<Longrightarrow> inv (step e s)"
begin

lemma run_keeps: "inv s \<Longrightarrow> list_all allowed es \<Longrightarrow> inv (fold step es s)"
  by (induction es arbitrary: s) (simp_all add: step_keeps)

end

text \<open>An observation of the state that the allowed events leave alone.\<close>

locale observed_store = store +
  fixes obs :: "'b \<Rightarrow> 'o"
  assumes obs_keeps: "inv s \<Longrightarrow> allowed e \<Longrightarrow> obs (step e s) = obs s"
begin

lemma run_unobserved: "inv s \<Longrightarrow> list_all allowed es \<Longrightarrow> obs (fold step es s) = obs s"
  by (induction es arbitrary: s) (simp_all add: obs_keeps step_keeps)

end

text \<open>
  A store that implements an abstract machine: every allowed event is an operation of the machine on
  the abstraction of the state, or invisible there. Then every run of the store is a run of the machine.
\<close>

locale refined_store = store +
  fixes astep :: "'o \<Rightarrow> 'm \<Rightarrow> 'm"
    and action :: "'a \<Rightarrow> 'o option"
    and abs_state :: "'b \<Rightarrow> 'm"
  assumes simulation: "inv s \<Longrightarrow> allowed e \<Longrightarrow>
    abs_state (step e s) = (case action e of None \<Rightarrow> abs_state s | Some a \<Rightarrow> astep a (abs_state s))"
begin

lemma run_refines: "inv s \<Longrightarrow> list_all allowed es \<Longrightarrow>
    abs_state (fold step es s) = fold astep (List.map_filter action es) (abs_state s)"
  by (induction es arbitrary: s) (auto simp: simulation step_keeps map_filter_simps split: option.split)

end

section \<open>Runs of a step relation\<close>

inductive runs :: "('s \<Rightarrow> 'e \<Rightarrow> 's \<Rightarrow> bool) \<Rightarrow> 's \<Rightarrow> 'e list \<Rightarrow> 's \<Rightarrow> bool" for step where
  runs_none: "runs step s [] s"
| runs_step: "runs step s es t \<Longrightarrow> step t e u \<Longrightarrow> runs step s (es @ [e]) u"

text \<open>What was written last, by the events that write (\<open>w\<close>), or the value before.\<close>

definition newest :: "('e \<Rightarrow> 'v option) \<Rightarrow> 'v \<Rightarrow> 'e list \<Rightarrow> 'v" where
  "newest w v es = last (v # List.map_filter w es)"

lemma newest_Nil [simp]: "newest w v [] = v"
  by (simp add: newest_def map_filter_def)

lemma newest_Cons [simp]: "newest w v (e # es) = newest w (case w e of None \<Rightarrow> v | Some u \<Rightarrow> u) es"
  by (simp add: newest_def map_filter_def split: option.split)

lemma newest_append: "newest w v (es @ es') = newest w (newest w v es) es'"
  by (induction es arbitrary: v) simp_all

text \<open>
  A register of a machine: some events write it and no other event touches it. After a run it
  holds what was written last.
\<close>

locale register =
  fixes step :: "'s \<Rightarrow> 'e \<Rightarrow> 's \<Rightarrow> bool"
    and written :: "'e \<Rightarrow> 'v option"
    and content :: "'s \<Rightarrow> 'v"
  assumes step_content: "step s e t \<Longrightarrow> content t = (case written e of None \<Rightarrow> content s | Some v \<Rightarrow> v)"
begin

lemma run_content: "runs step s es t \<Longrightarrow> content t = newest written (content s) es"
proof (induction rule: runs.induct)
  case (runs_step s es t e u)
  then show ?case using step_content [OF runs_step(2)] by (simp add: newest_append split: option.split)
qed simp

end

abbreviation any_event :: "'e \<Rightarrow> bool" where
  "any_event \<equiv> \<lambda>_. True"

end
