(* ===== verification/JSNumber.thy ===== *)
theory JSNumber
  imports Complex_Main "HOL-Library.Log_Nat" Prelude
begin

text \<open>
  JavaScript's Number type: IEEE 754 binary64 with round to nearest, ties to even, NaN and the
  two infinities, as ECMAScript prescribes for \<open>+\<close>, \<open>-\<close>, \<open>*\<close>, \<open>/\<close>, \<open>%\<close>, the comparisons and the
  functions of \<open>Math\<close> and \<open>Number\<close> that the web client calls. A finite Number is the real it
  denotes; \<open>round64\<close> maps a real to the nearest representable one and \<open>fl\<close> adds overflow.
  The two zeros are identified: no modelled code divides by a zero or inspects its sign.

  The rounding function is executable, and what clients use of it is the small contract of the
  locale \<open>grid_rounding\<close> (monotone, exact on representable values, closed), which \<open>round64\<close>
  is proved to satisfy.
\<close>

section \<open>Rounding to binary64\<close>

definition expo :: "real \<Rightarrow> int" where
  "expo x = (if 1 \<le> x then bitlen \<lfloor>x\<rfloor> - 1 else - bitlen (\<lceil>1 / x\<rceil> - 1))"

definition quantum :: "real \<Rightarrow> int" where
  "quantum x = max (expo x - 52) (- 1074)"

definition rne :: "real \<Rightarrow> int" where
  "rne r = (let f = \<lfloor>r\<rfloor>; d = r - of_int f in
     if d < 1 / 2 then f else if d > 1 / 2 then f + 1
     else if even f then f else f + 1)"

definition round_pos :: "real \<Rightarrow> real" where
  "round_pos x = of_int (rne (x / 2 powi quantum x)) * 2 powi quantum x"

definition round64 :: "real \<Rightarrow> real" where
  "round64 x = (if x = 0 then 0 else if x > 0 then round_pos x else - round_pos (- x))"

definition representable :: "real \<Rightarrow> bool" where
  "representable x \<longleftrightarrow> (\<exists>m e::int. x = of_int m * 2 powi e \<and> \<bar>m\<bar> \<le> 2 ^ 53 \<and> -1074 \<le> e)"

section \<open>The Number type\<close>

datatype number = NaN | PosInf | NegInf | Fin real

text \<open>Results of this magnitude or more overflow to an infinity.\<close>

definition overflow_limit :: real where
  "overflow_limit = 2 ^ 1024"

definition fl :: "real \<Rightarrow> number" where
  "fl x = (let r = round64 x in
     if r \<ge> overflow_limit then PosInf else if r \<le> - overflow_limit then NegInf else Fin r)"

fun is_double :: "number \<Rightarrow> bool" where
  "is_double (Fin x) \<longleftrightarrow> representable x \<and> \<bar>x\<bar> < overflow_limit"
| "is_double _ \<longleftrightarrow> True"

definition sign_inf :: "real \<Rightarrow> number" where
  "sign_inf s = (if s > 0 then PosInf else if s < 0 then NegInf else NaN)"

fun num_sgn :: "number \<Rightarrow> real" where
  "num_sgn NaN = 0"
| "num_sgn PosInf = 1"
| "num_sgn NegInf = -1"
| "num_sgn (Fin x) = sgn x"

instantiation number :: "{plus, minus, times, inverse, ord}"
begin

fun plus_number :: "number \<Rightarrow> number \<Rightarrow> number" where
  "plus_number (Fin a) (Fin b) = fl (a + b)"
| "plus_number NaN _ = NaN"
| "plus_number _ NaN = NaN"
| "plus_number PosInf NegInf = NaN"
| "plus_number NegInf PosInf = NaN"
| "plus_number PosInf _ = PosInf"
| "plus_number NegInf _ = NegInf"
| "plus_number _ PosInf = PosInf"
| "plus_number _ NegInf = NegInf"

fun minus_number :: "number \<Rightarrow> number \<Rightarrow> number" where
  "minus_number a NaN = NaN"
| "minus_number a PosInf = a + NegInf"
| "minus_number a NegInf = a + PosInf"
| "minus_number a (Fin b) = a + Fin (- b)"

fun times_number :: "number \<Rightarrow> number \<Rightarrow> number" where
  "times_number (Fin a) (Fin b) = fl (a * b)"
| "times_number a b = (if a = NaN \<or> b = NaN then NaN else sign_inf (num_sgn a * num_sgn b))"

fun divide_number :: "number \<Rightarrow> number \<Rightarrow> number" where
  "divide_number (Fin a) (Fin b) = (if b = 0 then sign_inf a else fl (a / b))"
| "divide_number NaN _ = NaN"
| "divide_number _ NaN = NaN"
| "divide_number (Fin a) _ = Fin 0"
| "divide_number a (Fin b) = (if b = 0 then a else sign_inf (num_sgn a * sgn b))"
| "divide_number _ _ = NaN"

definition inverse_number :: "number \<Rightarrow> number" where
  "inverse_number a = divide (Fin 1) a"

fun less_number :: "number \<Rightarrow> number \<Rightarrow> bool" where
  "less_number (Fin a) (Fin b) \<longleftrightarrow> a < b"
| "less_number NegInf (Fin b) \<longleftrightarrow> True"
| "less_number NegInf PosInf \<longleftrightarrow> True"
| "less_number (Fin a) PosInf \<longleftrightarrow> True"
| "less_number _ _ \<longleftrightarrow> False"

definition less_eq_number :: "number \<Rightarrow> number \<Rightarrow> bool" where
  "less_eq_number a b \<longleftrightarrow> (a < b \<or> (a = b \<and> a \<noteq> NaN))"

instance ..

end

definition strict_equal :: "number \<Rightarrow> number \<Rightarrow> bool" where
  "strict_equal a b \<longleftrightarrow> a = b \<and> a \<noteq> NaN"

fun isFinite :: "number \<Rightarrow> bool" where
  "isFinite (Fin x) \<longleftrightarrow> True"
| "isFinite _ \<longleftrightarrow> False"

fun math_max :: "number \<Rightarrow> number \<Rightarrow> number" where
  "math_max a b = (if a = NaN \<or> b = NaN then NaN else if a < b then b else a)"

fun math_min :: "number \<Rightarrow> number \<Rightarrow> number" where
  "math_min a b = (if a = NaN \<or> b = NaN then NaN else if b < a then b else a)"

definition js_rem :: "real \<Rightarrow> real \<Rightarrow> real" where
  "js_rem a b = a - b * (sgn (a / b) * of_int \<lfloor>\<bar>a / b\<bar>\<rfloor>)"

fun num_rem :: "number \<Rightarrow> number \<Rightarrow> number" where
  "num_rem (Fin a) (Fin b) = (if b = 0 then NaN else fl (js_rem a b))"
| "num_rem (Fin a) PosInf = Fin a"
| "num_rem (Fin a) NegInf = Fin a"
| "num_rem _ _ = NaN"

fun math_floor :: "number \<Rightarrow> number" where
  "math_floor (Fin x) = Fin (of_int \<lfloor>x\<rfloor>)"
| "math_floor a = a"

fun math_ceil :: "number \<Rightarrow> number" where
  "math_ceil (Fin x) = Fin (of_int \<lceil>x\<rceil>)"
| "math_ceil a = a"

fun math_round :: "number \<Rightarrow> number" where
  "math_round (Fin x) = Fin (of_int \<lfloor>x + 1 / 2\<rfloor>)"
| "math_round a = a"

definition max_safe_integer :: int where
  "max_safe_integer = 2 ^ 53 - 1"

fun isSafeInteger :: "number \<Rightarrow> bool" where
  "isSafeInteger (Fin x) \<longleftrightarrow> x = of_int \<lfloor>x\<rfloor> \<and> \<bar>x\<bar> \<le> of_int max_safe_integer"
| "isSafeInteger _ \<longleftrightarrow> False"

text \<open>A Number in a condition: NaN and zero are falsy.\<close>

definition truthy_num :: "number \<Rightarrow> bool" where
  "truthy_num a \<longleftrightarrow> a \<noteq> NaN \<and> a \<noteq> Fin 0"

text \<open>The length of an array or of a string, as a Number.\<close>

abbreviation num_of_nat :: "nat \<Rightarrow> number" where
  "num_of_nat n \<equiv> Fin (of_nat n)"

section \<open>Correctness of rounding\<close>

lemma two_powi_mono: "i \<le> j \<Longrightarrow> (2::real) powi i \<le> 2 powi j"
  by (rule power_int_increasing) auto

lemma two_powi_le_iff: "(2::real) powi i \<le> 2 powi j \<longleftrightarrow> i \<le> j"
  by (metis linorder_not_le one_less_numeral_iff order_less_imp_not_less
      power_int_strict_increasing semiring_norm(76) two_powi_mono)

lemma two_powi_less_iff: "(2::real) powi i < 2 powi j \<longleftrightarrow> i < j"
  using two_powi_le_iff [of j i] by linarith

lemma two_powi_pos [simp]: "(2::real) powi i > 0"
  by simp

lemma two_powi_add: "(2::real) powi (i + j) = 2 powi i * 2 powi j"
  by (simp add: power_int_add)

lemma two_powi_diff_int:
  assumes "j \<le> i"
  shows "(2::real) powi i / 2 powi j = of_int (2 ^ nat (i - j))"
proof -
  have "(2::real) powi i = 2 powi (i - j) * 2 powi j"
    by (simp add: two_powi_add [symmetric])
  moreover have "(2::real) powi (i - j) = of_int (2 ^ nat (i - j))"
    using assms by (simp add: power_int_def)
  ultimately show ?thesis by simp
qed

lemma expo_bounds_large:
  assumes "1 \<le> x"
  shows "2 powi expo x \<le> x \<and> x < 2 powi (expo x + 1)"
proof -
  define n where "n = \<lfloor>x\<rfloor>"
  have n: "1 \<le> n" using assms by (simp add: n_def)
  then have b: "2 ^ nat (bitlen n - 1) \<le> n" "n < 2 ^ nat (bitlen n)"
    using bitlen_bounds [of n] by auto
  have bl: "1 \<le> bitlen n"
    using n by (metis bitlen_eq_zero_iff bitlen_nonneg int_one_le_iff_zero_less
        linorder_not_le order_le_less)
  have "(2::real) ^ nat (bitlen n - 1) \<le> of_int n"
    using b(1) by (metis of_int_le_iff of_int_numeral of_int_power)
  moreover have "of_int (n + 1) \<le> (2::real) ^ nat (bitlen n)"
    using b(2) by (metis of_int_le_iff of_int_numeral of_int_power zless_imp_add1_zle)
  moreover have "of_int n \<le> x" "x < of_int (n + 1)"
    unfolding n_def by linarith+
  moreover have e: "expo x = bitlen n - 1" using assms by (simp add: expo_def n_def)
  ultimately have "(2::real) ^ nat (bitlen n - 1) \<le> x \<and> x < 2 ^ nat (bitlen n)"
    by linarith
  then show ?thesis using bl e by (simp add: power_int_def)
qed

lemma expo_bounds_small:
  assumes "0 < x" and False: "\<not> 1 \<le> x"
  shows "2 powi expo x \<le> x \<and> x < 2 powi (expo x + 1)"
proof -
  define m where "m = \<lceil>1 / x\<rceil>"
  define k where "k = bitlen (m - 1)"
  have "1 < 1 / x" using False assms(1) by (simp add: field_simps)
  then have m: "2 \<le> m" by (simp add: m_def less_ceiling_iff int_one_le_iff_zero_less)
  then have b: "2 ^ nat (k - 1) \<le> m - 1" "m - 1 < 2 ^ nat k"
    using bitlen_bounds [of "m - 1"] by (auto simp: k_def)
  have kl: "1 \<le> k"
    using m bitlen_nonneg [of "m - 1"] bitlen_eq_zero_iff [of "m - 1"] unfolding k_def by linarith
  have lo: "of_int (m - 1) < 1 / x" and hi: "1 / x \<le> of_int m"
    unfolding m_def by linarith+
  have "of_int m \<le> (2::real) ^ nat k"
    using b(2) by (metis of_int_le_iff of_int_numeral of_int_power zle_diff1_eq
        diff_add_cancel zless_imp_add1_zle)
  with hi have "1 / x \<le> 2 ^ nat k" by linarith
  then have L: "1 / 2 ^ nat k \<le> x" using assms(1) by (simp add: field_simps)
  have "(2::real) ^ nat (k - 1) \<le> of_int (m - 1)"
    using b(1) by (metis of_int_le_iff of_int_numeral of_int_power)
  with lo have "2 ^ nat (k - 1) < 1 / x" by linarith
  then have U: "x < 1 / 2 ^ nat (k - 1)" using assms(1) by (simp add: field_simps)
  have e: "expo x = - k" using False by (simp add: expo_def k_def m_def)
  have "(2::real) powi (- k) = 1 / 2 ^ nat k" using kl by (simp add: power_int_def field_simps)
  moreover have "(2::real) powi (- k + 1) = 1 / 2 ^ nat (k - 1)"
    using kl by (auto simp: power_int_def field_simps nat_diff_distrib)
  ultimately show ?thesis using L U e by simp
qed

lemma expo_bounds:
  assumes "0 < x"
  shows "2 powi expo x \<le> x" and "x < 2 powi (expo x + 1)"
  using expo_bounds_large [of x] expo_bounds_small [of x] assms by blast+

lemma expo_mono: "0 < x \<Longrightarrow> x \<le> y \<Longrightarrow> expo x \<le> expo y"
proof -
  assume a: "0 < x" "x \<le> y"
  have "2 powi expo x < (2::real) powi (expo y + 1)"
    using expo_bounds [of x] expo_bounds [of y] a by linarith
  then have "expo x < expo y + 1" by (simp only: two_powi_less_iff)
  then show ?thesis by simp
qed

lemma rne_mono: "r \<le> s \<Longrightarrow> rne r \<le> rne s"
proof -
  assume a: "r \<le> s"
  then have f: "\<lfloor>r\<rfloor> \<le> \<lfloor>s\<rfloor>" by (rule floor_mono)
  show ?thesis
  proof (cases "\<lfloor>r\<rfloor> = \<lfloor>s\<rfloor>")
    case True
    with a show ?thesis by (auto simp: rne_def Let_def)
  next
    case False
    with f have "\<lfloor>r\<rfloor> + 1 \<le> \<lfloor>s\<rfloor>" by simp
    moreover have "rne r \<le> \<lfloor>r\<rfloor> + 1" "\<lfloor>s\<rfloor> \<le> rne s"
      by (auto simp: rne_def Let_def)
    ultimately show ?thesis by linarith
  qed
qed

lemma rne_of_int [simp]: "rne (of_int n) = n"
  by (simp add: rne_def Let_def)

lemma rne_error: "\<bar>of_int (rne r) - r\<bar> \<le> 1 / 2"
  by (auto simp: rne_def Let_def abs_if) linarith+

lemma quantum_mono: "0 < x \<Longrightarrow> x \<le> y \<Longrightarrow> quantum x \<le> quantum y"
  using expo_mono [of x y] by (auto simp: quantum_def)

lemma round_pos_le_pow:
  assumes "0 < x" and "x \<le> 2 powi k" and "quantum x \<le> k"
  shows "round_pos x \<le> 2 powi k"
proof -
  let ?u = "(2::real) powi quantum x"
  have "x / ?u \<le> of_int (2 ^ nat (k - quantum x))"
    using assms(2) two_powi_diff_int [OF assms(3)] by (metis divide_right_mono less_imp_le two_powi_pos)
  then have "rne (x / ?u) \<le> 2 ^ nat (k - quantum x)"
    using rne_mono rne_of_int by metis
  then have "of_int (rne (x / ?u)) \<le> (2::real) powi k / ?u"
    unfolding two_powi_diff_int [OF assms(3)] by (simp only: of_int_le_iff)
  then show ?thesis by (simp add: round_pos_def field_simps)
qed

lemma round_pos_ge_pow:
  assumes "0 < x" and "2 powi k \<le> x" and "quantum x \<le> k"
  shows "2 powi k \<le> round_pos x"
proof -
  let ?u = "(2::real) powi quantum x"
  have "of_int (2 ^ nat (k - quantum x)) \<le> x / ?u"
    using assms(2) two_powi_diff_int [OF assms(3)] by (metis divide_right_mono less_imp_le two_powi_pos)
  then have "2 ^ nat (k - quantum x) \<le> rne (x / ?u)"
    using rne_mono rne_of_int by metis
  then have "(2::real) powi k / ?u \<le> of_int (rne (x / ?u))"
    unfolding two_powi_diff_int [OF assms(3)] by (simp only: of_int_le_iff)
  then show ?thesis by (simp add: round_pos_def field_simps)
qed

lemma round_pos_mono:
  assumes "0 < x" and "x \<le> y"
  shows "round_pos x \<le> round_pos y"
proof (cases "quantum x = quantum y")
  case True
  have "rne (x / 2 powi quantum x) \<le> rne (y / 2 powi quantum x)"
    using assms by (intro rne_mono divide_right_mono) auto
  with True show ?thesis by (simp add: round_pos_def mult_right_mono)
next
  case False
  let ?k = "expo y"
  have lt: "quantum x < quantum y" using quantum_mono [OF assms] False by simp
  then have e: "expo x < expo y" and k: "quantum x \<le> ?k" "quantum y \<le> ?k"
    by (auto simp: quantum_def)
  have "2 powi (expo x + 1) \<le> (2::real) powi ?k" using e by (intro two_powi_mono) simp
  then have "x \<le> 2 powi ?k" using expo_bounds(2) [OF assms(1)] by linarith
  then have "round_pos x \<le> 2 powi ?k" using assms k by (intro round_pos_le_pow) auto
  also have "2 powi ?k \<le> round_pos y"
    using assms k expo_bounds(1) [of y] by (intro round_pos_ge_pow) auto
  finally show ?thesis .
qed

lemma round_pos_nonneg: "0 < x \<Longrightarrow> 0 \<le> round_pos x"
proof -
  assume "0 < x"
  then have "rne 0 \<le> rne (x / 2 powi quantum x)" by (intro rne_mono) simp
  then show ?thesis using rne_of_int [of 0] by (simp add: round_pos_def)
qed

lemma round64_mono: "x \<le> y \<Longrightarrow> round64 x \<le> round64 y"
  using round_pos_mono [of x y] round_pos_mono [of "- y" "- x"]
    round_pos_nonneg [of y] round_pos_nonneg [of "- x"]
  by (auto simp: round64_def)

lemma round64_minus [simp]: "round64 (- x) = - round64 x"
  by (simp add: round64_def)


lemma round_pos_exact:
  assumes "0 < x" and "x = of_int m * 2 powi e" and "\<bar>m\<bar> \<le> 2 ^ 53" and "- 1074 \<le> e"
  shows "round_pos x = x"
proof -
  have "0 < (of_int m :: real)" using assms(1,2) two_powi_pos [of e] by (metis zero_less_mult_pos2)
  then have m: "0 < m" "m \<le> 2 ^ 53" using assms(3) by auto
  have ex: "\<exists>n. x / 2 powi quantum x = of_int n"
  proof (cases "quantum x \<le> e")
    case True
    then show ?thesis
      using two_powi_diff_int [OF True] assms(2) by (metis of_int_mult times_divide_eq_right)
  next
    case False
    then have q: "quantum x = expo x - 52" "e + 53 \<le> expo x"
      using assms(4) by (auto simp: quantum_def)
    have "(2::real) powi (e + 53) \<le> of_int m * 2 powi e"
      using two_powi_mono [OF q(2)] expo_bounds(1) [OF assms(1)] assms(2) by linarith
    then have "2 powi e * 2 ^ 53 \<le> (2::real) powi e * of_int m"
      by (simp add: two_powi_add mult.commute)
    then have "2 ^ 53 \<le> (of_int m :: real)" by (simp only: mult_le_cancel_left_pos two_powi_pos)
    then have "m = 2 ^ 53" using m(2) by simp
    then have x: "x = 2 powi (e + 53)" by (simp add: assms(2) two_powi_add mult.commute)
    have "expo x < e + 53 + 1"
      using expo_bounds(1) [OF assms(1)] x two_powi_less_iff [of "expo x" "e + 53 + 1"]
        two_powi_less_iff [of "e + 53" "e + 53 + 1"] by linarith
    with q have "quantum x \<le> e + 53" by simp
    from two_powi_diff_int [OF this] show ?thesis using x by metis
  qed
  then obtain n where n: "x / 2 powi quantum x = of_int n" by blast
  then have "x = of_int n * 2 powi quantum x" by (simp add: field_simps)
  with n show ?thesis by (simp add: round_pos_def)
qed

lemma round64_exact: "representable x \<Longrightarrow> round64 x = x"
proof -
  assume "representable x"
  then obtain m e :: int where x: "x = of_int m * 2 powi e" and m: "\<bar>m\<bar> \<le> 2 ^ 53" "- 1074 \<le> e"
    by (auto simp: representable_def)
  then have x': "- x = of_int (- m) * 2 powi e" and m': "\<bar>- m\<bar> \<le> 2 ^ 53" by auto
  show ?thesis
  proof (cases x "0::real" rule: linorder_cases)
    case less
    then have "round_pos (- x) = - x" by (intro round_pos_exact [OF _ x' m' m(2)]) simp
    with less show ?thesis by (simp add: round64_def)
  next
    case greater
    with round_pos_exact [OF _ x m] show ?thesis by (simp add: round64_def)
  qed (simp add: round64_def)
qed

lemma representable_round_pos:
  assumes "0 < x"
  shows "representable (round_pos x)"
proof -
  let ?q = "quantum x"
  have "x / 2 powi ?q \<le> 2 powi (expo x + 1) / 2 powi ?q"
    using expo_bounds(2) [OF assms] by (intro divide_right_mono) auto
  also have "\<dots> \<le> 2 powi (?q + 53) / 2 powi ?q"
    by (intro divide_right_mono two_powi_mono) (auto simp: quantum_def)
  also have "\<dots> = of_int (2 ^ 53)" using two_powi_diff_int [of ?q "?q + 53"] by simp
  finally have "rne (x / 2 powi ?q) \<le> 2 ^ 53" using rne_mono rne_of_int by metis
  moreover have "0 \<le> rne (x / 2 powi ?q)"
    using assms rne_mono [of 0 "x / 2 powi ?q"] rne_of_int [of 0] by simp
  ultimately show ?thesis unfolding representable_def round_pos_def
    by (intro exI [of _ "rne (x / 2 powi ?q)"] exI [of _ ?q]) (auto simp: quantum_def)
qed

lemma representable_minus [simp]: "representable (- x) \<longleftrightarrow> representable x"
proof -
  have "representable (- x)" if "representable x" for x
  proof -
    from that obtain m e :: int where "x = of_int m * 2 powi e" "\<bar>m\<bar> \<le> 2 ^ 53" "- 1074 \<le> e"
      by (auto simp: representable_def)
    then show ?thesis unfolding representable_def
      by (intro exI [of _ "- m"] exI [of _ e]) auto
  qed
  from this [of x] this [of "- x"] show ?thesis by auto
qed

lemma representable_of_int: "\<bar>n\<bar> \<le> 2 ^ 53 \<Longrightarrow> representable (of_int n)"
  unfolding representable_def by (intro exI [of _ n] exI [of _ 0]) auto

lemma representable_round64: "representable (round64 x)"
  using representable_round_pos [of x] representable_round_pos [of "- x"] representable_of_int [of 0]
  by (auto simp: round64_def)

lemma representable_scale:
  assumes "\<bar>n\<bar> \<le> 2 ^ 53" and "- 1074 \<le> e"
  shows "representable (of_int n * 2 powi e)"
  using assms unfolding representable_def by blast

section \<open>The contract of rounding\<close>

locale grid_rounding =
  fixes rnd :: "real \<Rightarrow> real"
    and grid :: "real \<Rightarrow> bool"
  assumes rnd_mono: "x \<le> y \<Longrightarrow> rnd x \<le> rnd y"
    and rnd_exact: "grid x \<Longrightarrow> rnd x = x"
    and rnd_grid: "grid (rnd x)"
begin

lemma rnd_idem: "rnd (rnd x) = rnd x"
  by (simp add: rnd_exact rnd_grid)

lemma rnd_le: "x \<le> c \<Longrightarrow> grid c \<Longrightarrow> rnd x \<le> c"
  using rnd_mono [of x c] by (simp add: rnd_exact)

lemma rnd_ge: "c \<le> x \<Longrightarrow> grid c \<Longrightarrow> c \<le> rnd x"
  using rnd_mono [of c x] by (simp add: rnd_exact)

lemma rounded_sum_bounds:
  assumes "\<And>k. k \<le> n \<Longrightarrow> grid (of_nat k * c)" and "0 \<le> c"
    and "\<And>v. v \<in> set vs \<Longrightarrow> 0 \<le> v \<and> v \<le> c"
    and "0 \<le> acc" and "acc \<le> of_nat i * c" and "i + length vs \<le> n"
  shows "0 \<le> foldl (\<lambda>a v. rnd (a + v)) acc vs \<and>
    foldl (\<lambda>a v. rnd (a + v)) acc vs \<le> of_nat (i + length vs) * c"
  using assms(3-6)
proof (induction vs arbitrary: acc i)
  case Nil
  then show ?case by simp
next
  case (Cons v vs)
  have v: "0 \<le> v" "v \<le> c" using Cons.prems(1) by auto
  have z: "grid 0" using assms(1) [of 0] by simp
  have "rnd (acc + v) \<le> of_nat (Suc i) * c"
    using v Cons.prems(3,4) assms(1) [of "Suc i"] by (intro rnd_le) (auto simp: algebra_simps)
  moreover have "0 \<le> rnd (acc + v)"
    using v Cons.prems(2) z by (intro rnd_ge) auto
  ultimately show ?case using Cons.IH [of "rnd (acc + v)" "Suc i"] Cons.prems by simp
qed

end

interpretation b64: grid_rounding round64 representable
  by unfold_locales (simp_all add: round64_mono round64_exact representable_round64)

section \<open>Closure and exactness\<close>

lemma big_numeral: "(2::real) ^ 53 < overflow_limit"
  unfolding overflow_limit_def by (rule power_strict_increasing) auto

lemma fl_exact: "representable x \<Longrightarrow> \<bar>x\<bar> < overflow_limit \<Longrightarrow> fl x = Fin x"
  by (auto simp: fl_def Let_def b64.rnd_exact)

lemma double_fl [simp]: "is_double (fl x)"
  by (auto simp: fl_def Let_def b64.rnd_grid)

lemma fl_of_int: "\<bar>n\<bar> \<le> 2 ^ 53 \<Longrightarrow> fl (of_int n) = Fin (of_int n)"
proof -
  assume n: "\<bar>n\<bar> \<le> 2 ^ 53"
  then have "real_of_int \<bar>n\<bar> \<le> 2 ^ 53" by (metis of_int_le_iff of_int_numeral of_int_power)
  then have "\<bar>real_of_int n\<bar> < overflow_limit" using big_numeral by simp
  with n show ?thesis by (intro fl_exact representable_of_int)
qed

lemma fl_of_nat: "n \<le> 2 ^ 53 \<Longrightarrow> fl (of_nat n) = Fin (of_nat n)"
proof -
  assume "n \<le> 2 ^ 53"
  then have "int n \<le> 2 ^ 53" by (metis of_nat_le_iff of_nat_numeral of_nat_power)
  with fl_of_int [of "int n"] show ?thesis by simp
qed

lemma fl_numerals [num_simps]:
  "fl 0 = Fin 0" "fl 1 = Fin 1" "fl (- 1) = Fin (- 1)"
  "numeral w \<le> (2 ^ 53 :: int) \<Longrightarrow> fl (numeral w) = Fin (numeral w)"
  "numeral w \<le> (2 ^ 53 :: int) \<Longrightarrow> fl (- numeral w) = Fin (- numeral w)"
  using fl_of_int [of 0] fl_of_int [of 1] fl_of_int [of "-1"]
    fl_of_int [of "numeral w"] fl_of_int [of "- numeral w"] by simp_all

lemma fl_between:
  assumes "representable a" "representable b" "\<bar>a\<bar> < overflow_limit" "\<bar>b\<bar> < overflow_limit" "a \<le> x" "x \<le> b"
  obtains y where "fl x = Fin y" "a \<le> y" "y \<le> b"
proof
  have "a \<le> round64 x" "round64 x \<le> b"
    using assms by (auto intro: b64.rnd_ge b64.rnd_le)
  with assms show "fl x = Fin (round64 x)" "a \<le> round64 x" "round64 x \<le> b"
    by (auto simp: fl_def Let_def)
qed

lemma fl_between_int:
  assumes "\<bar>a\<bar> \<le> 2 ^ 53" "\<bar>b\<bar> \<le> 2 ^ 53" "of_int a \<le> x" "x \<le> of_int b"
  obtains y where "fl x = Fin y" "of_int a \<le> y" "y \<le> of_int b"
proof -
  have "\<bar>real_of_int c\<bar> < overflow_limit" if "\<bar>c\<bar> \<le> 2 ^ 53" for c
  proof -
    have "real_of_int \<bar>c\<bar> \<le> 2 ^ 53" using that by (metis of_int_le_iff of_int_numeral of_int_power)
    then show ?thesis using big_numeral by simp
  qed
  then show ?thesis using assms fl_between [of "of_int a" "of_int b" x] that
    by (auto simp: representable_of_int)
qed

lemma fl_scale:
  assumes "\<bar>n\<bar> \<le> 2 ^ 53" and "- 1074 \<le> e" and "e \<le> 970"
  shows "fl (of_int n * 2 powi e) = Fin (of_int n * 2 powi e)"
proof (rule fl_exact)
  show "representable (of_int n * 2 powi e)" using assms by (intro representable_scale)
  have "real_of_int \<bar>n\<bar> \<le> 2 ^ 53" using assms(1) by (metis of_int_le_iff of_int_numeral of_int_power)
  then have "\<bar>real_of_int n * 2 powi e\<bar> \<le> 2 ^ 53 * 2 powi e"
    by (simp add: abs_mult)
  also have "\<dots> = 2 powi (53 + e)" by (simp add: two_powi_add)
  also have "\<dots> < 2 powi (1024::int)" using assms(3) by (intro power_int_strict_increasing) auto
  finally show "\<bar>real_of_int n * 2 powi e\<bar> < overflow_limit" by (simp add: overflow_limit_def)
qed

lemma double_arith [simp]:
  fixes a b :: number
  assumes "is_double a" and "is_double b"
  shows "is_double (a + b)" "is_double (a - b)" "is_double (a * b)" "is_double (a / b)"
proof -
  have plus: "is_double (a + b)" if "is_double a" "is_double b" for a b
    using that by (cases a; cases b) auto
  show "is_double (a + b)" using plus assms by simp
  show "is_double (a - b)" using assms plus by (cases b) auto
  show "is_double (a * b)" by (cases a; cases b) (auto simp: sign_inf_def)
  show "is_double (a / b)" using assms by (cases a; cases b)
      (auto simp: sign_inf_def representable_of_int [of 0, simplified])
qed

lemma representable_floor: "representable x \<Longrightarrow> representable (of_int \<lfloor>x\<rfloor>)"
proof (cases "\<bar>x\<bar> \<le> 2 ^ 53")
  case True
  then have "- (2 ^ 53) \<le> \<lfloor>x\<rfloor>" "\<lfloor>x\<rfloor> \<le> 2 ^ 53"
    by (simp_all add: abs_le_iff floor_le_iff le_floor_iff)
  then have "\<bar>\<lfloor>x\<rfloor>\<bar> \<le> 2 ^ 53" by (simp only: abs_le_iff minus_le_iff simp_thms)
  then show ?thesis by (rule representable_of_int)
next
  case False
  assume "representable x"
  then obtain m e :: int where x: "x = of_int m * 2 powi e" and m: "\<bar>m\<bar> \<le> 2 ^ 53"
    by (auto simp: representable_def)
  have "0 \<le> e"
  proof (rule ccontr)
    assume "\<not> 0 \<le> e"
    then have "(2::real) powi e \<le> 1" using two_powi_mono [of e 0] by simp
    moreover have "\<bar>real_of_int m\<bar> \<le> 2 ^ 53"
      using m by (metis of_int_abs of_int_le_iff of_int_numeral of_int_power)
    ultimately have "\<bar>real_of_int m\<bar> * 2 powi e \<le> 2 ^ 53 * 1" by (intro mult_mono) auto
    with False x show False by (simp add: abs_mult)
  qed
  then have "x = of_int (m * 2 ^ nat e)" by (simp add: x power_int_def)
  then have "of_int \<lfloor>x\<rfloor> = x" by (metis floor_of_int)
  with \<open>representable x\<close> show ?thesis by metis
qed

section \<open>Comparisons and the functions of Math\<close>

lemma Fin_less [simp]: "Fin a < Fin b \<longleftrightarrow> a < b"
  by simp

lemma Fin_le [simp]: "Fin a \<le> Fin b \<longleftrightarrow> a \<le> b"
  by (auto simp: less_eq_number_def)

lemma math_max_Fin [simp]: "math_max (Fin a) (Fin b) = Fin (max a b)"
  by auto

lemma math_min_Fin [simp]: "math_min (Fin a) (Fin b) = Fin (min a b)"
  by auto

declare math_max.simps [simp del] math_min.simps [simp del]

lemma isFinite_iff: "isFinite a \<longleftrightarrow> (\<exists>x. a = Fin x)"
  by (cases a) auto

lemma NaN_never_compares: "\<not> NaN < a" "\<not> a < NaN" "\<not> NaN \<le> a" "\<not> a \<le> NaN"
  by (cases a; simp add: less_eq_number_def)+

lemma safe_integerE:
  assumes "isSafeInteger a"
  obtains n where "a = Fin (of_int n)" "\<bar>n\<bar> \<le> 2 ^ 53 - 1"
proof (cases a)
  case (Fin x)
  with assms have x: "x = of_int \<lfloor>x\<rfloor>" and b: "\<bar>x\<bar> \<le> of_int max_safe_integer" by simp_all
  from b have "real_of_int \<bar>\<lfloor>x\<rfloor>\<bar> \<le> of_int max_safe_integer" using x by simp
  then have "\<bar>\<lfloor>x\<rfloor>\<bar> \<le> 2 ^ 53 - 1" unfolding of_int_le_iff max_safe_integer_def .
  with that [of "\<lfloor>x\<rfloor>"] Fin x show thesis by simp
qed (use assms in auto)

lemma fl_small: "0 \<le> x \<Longrightarrow> x \<le> 2 ^ 53 \<Longrightarrow> fl x = Fin (round64 x)"
proof -
  assume x: "0 \<le> x" "x \<le> 2 ^ 53"
  have "representable (2 ^ 53)" using representable_of_int [of "2 ^ 53"] by simp
  then have "round64 x \<le> 2 ^ 53" "0 \<le> round64 x"
    using x representable_of_int [of 0] by (auto intro: b64.rnd_le b64.rnd_ge)
  then show ?thesis using big_numeral by (simp add: fl_def Let_def)
qed

text \<open>Rounding keeps a value on its side of every dyadic bound of moderate size.\<close>

lemma round_below:
  assumes "x \<le> of_int m / 2 ^ j" and "\<bar>m\<bar> \<le> 2 ^ 53" and "j \<le> 1074"
  shows "round64 x \<le> of_int m / 2 ^ j"
proof -
  have "representable (of_int m * 2 powi (- int j))" using assms(2,3) by (intro representable_scale) auto
  then show ?thesis using assms(1) by (intro b64.rnd_le) (auto simp: power_int_minus field_simps)
qed

lemma round_above:
  assumes "of_int m / 2 ^ j \<le> x" and "\<bar>m\<bar> \<le> 2 ^ 53" and "j \<le> 1074"
  shows "of_int m / 2 ^ j \<le> round64 x"
proof -
  have "representable (of_int m * 2 powi (- int j))" using assms(2,3) by (intro representable_scale) auto
  then show ?thesis using assms(1) by (intro b64.rnd_ge) (auto simp: power_int_minus field_simps)
qed

text \<open>
  A quotient strictly below a dyadic number stays below it after rounding, as the quotients of
  two integers are spaced at least as widely as the divisor allows.
\<close>

lemma round_quotient_less:
  assumes "0 < d" and "d \<le> 2 ^ j" and "\<bar>c * 2 ^ j - 1\<bar> \<le> 2 ^ 53" and "j \<le> 1074"
    and "n < c * d"
  shows "round64 (of_int n / of_int d) < of_int c"
proof -
  have "n \<le> c * d - 1" using assms(5) by simp
  then have "real_of_int n \<le> of_int (c * d - 1)" by (simp only: of_int_le_iff)
  then have "of_int n / of_int d \<le> of_int (c * d - 1) / (of_int d :: real)"
    using assms(1) by (intro divide_right_mono) simp_all
  also have "\<dots> = of_int c - 1 / of_int d" using assms(1) by (simp add: field_simps)
  also have "\<dots> \<le> of_int c - 1 / 2 ^ j"
  proof -
    have "of_int d \<le> (2::real) ^ j" using assms(2) by (metis of_int_le_iff of_int_numeral of_int_power)
    then show ?thesis using assms(1) by (simp add: frac_le)
  qed
  also have "\<dots> = of_int (c * 2 ^ j - 1) / 2 ^ j" by (simp add: field_simps)
  finally have "round64 (of_int n / of_int d) \<le> of_int (c * 2 ^ j - 1) / 2 ^ j"
    using assms(3,4) by (intro round_below)
  also have "\<dots> < of_int c" by (simp add: field_simps)
  finally show ?thesis .
qed

lemma floor_round_div:
  assumes "0 < d" and "d \<le> 2 ^ j" and "0 \<le> n" and "(n div d + 1) * 2 ^ j \<le> 2 ^ 53" and "j \<le> 1074"
  shows "\<lfloor>round64 (of_int n / of_int d)\<rfloor> = n div d"
proof (rule floor_unique)
  let ?k = "n div d"
  have k: "0 \<le> ?k" using assms(1,3) by (simp add: pos_imp_zdiv_nonneg_iff)
  have k2: "?k + 1 \<le> (?k + 1) * 2 ^ j" using k mult_left_mono [of 1 "2 ^ j" "?k + 1"] by simp
  then have k1: "1 \<le> (?k + 1) * 2 ^ j" using k by (intro order_trans [OF _ k2]) simp
  then have le: "\<bar>?k\<bar> \<le> 2 ^ 53" using order_trans [OF k2 assms(4)] k by simp
  have "?k * d \<le> n" using pos_mod_sign [OF assms(1), of n] div_mult_mod_eq [of n d] by linarith
  then have "of_int (?k * d) \<le> (of_int n :: real)" by (simp only: of_int_le_iff)
  then have "of_int ?k / 2 ^ 0 \<le> (of_int n / of_int d :: real)" using assms(1) by (simp add: field_simps)
  from round_above [OF this le] show "real_of_int ?k \<le> round64 (of_int n / of_int d)" by simp
  have "n < (?k + 1) * d" using assms(1)
    by (metis add.commute div_mult_mod_eq distrib_right mult_1 add_strict_left_mono pos_mod_bound)
  moreover have "\<bar>(?k + 1) * 2 ^ j - 1\<bar> \<le> 2 ^ 53" using assms(4) k1 by (simp only: abs_le_iff) linarith
  ultimately show "round64 (of_int n / of_int d) < of_int ?k + 1"
    using round_quotient_less [of d j "?k + 1" n] assms by simp
qed

lemma ceiling_round_div:
  assumes "0 < d" and "d \<le> 2 ^ j" and "0 < n" and "((n + d - 1) div d) * 2 ^ j \<le> 2 ^ 53" and "j \<le> 1074"
  shows "\<lceil>round64 (of_int n / of_int d)\<rceil> = (n + d - 1) div d"
proof (rule ceiling_unique)
  let ?c = "(n + d - 1) div d"
  have e: "?c * d \<le> n + d - 1" "n + d - 1 < ?c * d + d"
    using assms(1) div_mult_mod_eq [of "n + d - 1" d] pos_mod_sign [of d "n + d - 1"] pos_mod_bound [of d "n + d - 1"]
    by linarith+
  have c: "1 \<le> ?c" using assms(1,3) by (simp add: pos_imp_zdiv_pos_iff int_one_le_iff_zero_less)
  have "?c * 1 \<le> ?c * 2 ^ j" using c by (intro mult_left_mono) auto
  then have c2: "?c \<le> 2 ^ 53" using order_trans [OF _ assms(4), of ?c] by simp
  have "real_of_int n \<le> of_int (?c * d)" using e by (simp only: of_int_le_iff)
  then have "of_int n / of_int d \<le> real_of_int ?c / 2 ^ 0" using assms(1) by (simp add: field_simps)
  then have "round64 (of_int n / of_int d) \<le> of_int ?c / 2 ^ 0" using c c2 by (intro round_below) auto
  then show "round64 (of_int n / of_int d) \<le> of_int ?c" by simp
  have dj: "real_of_int d \<le> 2 ^ j" using assms(2) by (metis of_int_le_iff of_int_numeral of_int_power)
  have "real_of_int ((?c - 1) * d + 1) \<le> of_int n" using e by (simp only: of_int_le_iff) (simp add: algebra_simps)
  then have "of_int ((?c - 1) * d + 1) / of_int d \<le> (of_int n / of_int d :: real)"
    using assms(1) by (intro divide_right_mono) auto
  moreover have "of_int ((?c - 1) * d + 1) / of_int d = of_int (?c - 1) + 1 / real_of_int d"
    using assms(1) by (simp add: add_divide_distrib)
  moreover have "1 / 2 ^ j \<le> 1 / real_of_int d" using dj assms(1) by (intro divide_left_mono) auto
  moreover have eq: "of_int ((?c - 1) * 2 ^ j + 1) / 2 ^ j = of_int (?c - 1) + 1 / (2 ^ j :: real)"
    by (simp add: add_divide_distrib)
  ultimately have "of_int ((?c - 1) * 2 ^ j + 1) / 2 ^ j \<le> (of_int n / of_int d :: real)" by linarith
  moreover have "\<bar>(?c - 1) * 2 ^ j + 1\<bar> \<le> 2 ^ 53"
  proof -
    have "(?c - 1) * 2 ^ j + 1 \<le> ?c * 2 ^ j" by (simp add: left_diff_distrib)
    moreover have "0 \<le> (?c - 1) * 2 ^ j" using c by simp
    ultimately show ?thesis using assms(4) by linarith
  qed
  ultimately have le: "of_int ((?c - 1) * 2 ^ j + 1) / 2 ^ j \<le> round64 (of_int n / of_int d)"
    using assms(5) by (intro round_above)
  have "real_of_int (?c - 1) < of_int ((?c - 1) * 2 ^ j + 1) / 2 ^ j" unfolding eq by simp
  from less_le_trans [OF this le] show "of_int ?c - 1 < round64 (of_int n / of_int d)" by simp
qed

end
