(* ===== verification/JSString.thy ===== *)
theory JSString
  imports JSNumber "HOL-Library.Sublist" "HOL-Library.List_Lexorder"
begin

text \<open>
  JavaScript strings: sequences of UTF-16 code units, with the methods of \<open>String.prototype\<close>,
  \<open>Array.prototype.join\<close>, the conversions between Numbers and strings (\<open>toFixed\<close>, \<open>String(n)\<close>,
  \<open>Number(s)\<close>) and the comma-separated form fields that the admin pages edit lists with.
  A literal of the source is \<open>js ''...''\<close>; a code unit outside ASCII is written as its number.
  What ECMAScript leaves to the host (Unicode case tables, \<open>Intl\<close>, the time zone, the accuracy of
  \<open>Math.log\<close>) is a field of the record \<open>host\<close> that the operations take as an argument.
\<close>

type_synonym jsstring = "nat list"

section \<open>Operations\<close>

definition js :: "string \<Rightarrow> jsstring" where
  "js s = map of_char s"

definition white_units :: "nat list" where
  "white_units = [9, 10, 11, 12, 13, 32, 160, 5760, 8192, 8193, 8194, 8195, 8196, 8197, 8198,
     8199, 8200, 8201, 8202, 8232, 8233, 8239, 8287, 12288, 65279]"

definition is_white :: "nat \<Rightarrow> bool" where
  "is_white c \<longleftrightarrow> c \<in> set white_units"

definition trim :: "jsstring \<Rightarrow> jsstring" where
  "trim s = rev (dropWhile is_white (rev (dropWhile is_white s)))"

definition startsWith :: "jsstring \<Rightarrow> jsstring \<Rightarrow> bool" where
  "startsWith s t \<longleftrightarrow> take (length t) s = t"

fun includes_str :: "jsstring \<Rightarrow> jsstring \<Rightarrow> bool" where
  "includes_str [] t \<longleftrightarrow> t = []"
| "includes_str (c # cs) t \<longleftrightarrow> startsWith (c # cs) t \<or> includes_str cs t"

text \<open>\<open>s.replace(c, d)\<close> with single-unit strings: the first occurrence only.\<close>

fun replace_first :: "nat \<Rightarrow> nat \<Rightarrow> jsstring \<Rightarrow> jsstring" where
  "replace_first c d [] = []"
| "replace_first c d (x # xs) = (if x = c then d # xs else x # replace_first c d xs)"

text \<open>\<open>s.split(sep)\<close> for a separator of at least one unit.\<close>

function split_from :: "jsstring \<Rightarrow> jsstring \<Rightarrow> jsstring \<Rightarrow> jsstring list" where
  "split_from sep acc [] = [rev acc]"
| "split_from sep acc (c # cs) =
     (if sep \<noteq> [] \<and> startsWith (c # cs) sep
      then rev acc # split_from sep [] (drop (length sep) (c # cs))
      else split_from sep (c # acc) cs)"
  by pat_completeness auto
termination
  by (relation "measure (\<lambda>(sep, acc, s). length s)") (auto simp: startsWith_def)

definition split :: "jsstring \<Rightarrow> jsstring \<Rightarrow> jsstring list" where
  "split sep s = split_from sep [] s"

text \<open>\<open>s.split(re)\<close> for a character class: every unit of the class separates.\<close>

fun split_class :: "(nat \<Rightarrow> bool) \<Rightarrow> jsstring \<Rightarrow> jsstring \<Rightarrow> jsstring list" where
  "split_class p acc [] = [rev acc]"
| "split_class p acc (c # cs) =
     (if p c then rev acc # split_class p [] cs else split_class p (c # acc) cs)"

fun join :: "jsstring \<Rightarrow> jsstring list \<Rightarrow> jsstring" where
  "join sep [] = []"
| "join sep [x] = x"
| "join sep (x # xs) = x @ sep @ join sep xs"

definition slice :: "nat \<Rightarrow> nat \<Rightarrow> jsstring \<Rightarrow> jsstring" where
  "slice a b s = drop a (take b s)"

section \<open>The host\<close>

text \<open>
  \<open>unicode_lower\<close> and \<open>unicode_upper\<close> are the Unicode case conversions of a string that has a
  unit outside ASCII; \<open>math_log\<close> is the implementation-approximated \<open>Math.log\<close>; \<open>utc_of_local\<close>
  maps a local time value to the UTC one; then come \<open>Intl.DateTimeFormat\<close>,
  \<open>Intl.NumberFormat\<close> and \<open>toLocaleTimeString\<close>; \<open>error_message\<close> is the message that the engine
  puts into an error of the given class (\<open>TypeError\<close>, \<open>URIError\<close>, ...) which it throws itself.
\<close>

record host =
  unicode_lower :: "jsstring \<Rightarrow> jsstring"
  unicode_upper :: "jsstring \<Rightarrow> jsstring"
  math_log :: "number \<Rightarrow> number"
  utc_of_local :: "int \<Rightarrow> int"
  intl_datetime :: "jsstring \<Rightarrow> number \<Rightarrow> jsstring"
  intl_number :: "jsstring \<Rightarrow> number \<Rightarrow> jsstring"
  locale_time :: "number \<Rightarrow> jsstring"
  error_message :: "jsstring \<Rightarrow> jsstring"

definition lower_unit :: "nat \<Rightarrow> nat" where
  "lower_unit c = (if 65 \<le> c \<and> c \<le> 90 then c + 32 else c)"

definition upper_unit :: "nat \<Rightarrow> nat" where
  "upper_unit c = (if 97 \<le> c \<and> c \<le> 122 then c - 32 else c)"

definition is_ascii :: "jsstring \<Rightarrow> bool" where
  "is_ascii s \<longleftrightarrow> list_all (\<lambda>c. c < 128) s"

definition toLowerCase :: "host \<Rightarrow> jsstring \<Rightarrow> jsstring" where
  "toLowerCase h s = (if is_ascii s then map lower_unit s else unicode_lower h s)"

definition toUpperCase :: "host \<Rightarrow> jsstring \<Rightarrow> jsstring" where
  "toUpperCase h s = (if is_ascii s then map upper_unit s else unicode_upper h s)"

section \<open>Numbers to strings and back\<close>

fun nat_digits :: "nat \<Rightarrow> jsstring" where
  "nat_digits n = (if n < 10 then [48 + n] else nat_digits (n div 10) @ [48 + n mod 10])"

declare nat_digits.simps [simp del]

definition is_digit :: "nat \<Rightarrow> bool" where
  "is_digit c \<longleftrightarrow> 48 \<le> c \<and> c \<le> 57"

definition digits_value :: "jsstring \<Rightarrow> nat" where
  "digits_value s = foldl (\<lambda>a c. 10 * a + (c - 48)) 0 s"

text \<open>The exponent \<open>n\<close> with \<open>10 ^ (n - 1) \<le> x < 10 ^ n\<close>, for \<open>x > 0\<close>.\<close>

definition dec_expo :: "real \<Rightarrow> int" where
  "dec_expo x = (if 1 \<le> x then int (floorlog 10 (nat \<lfloor>x\<rfloor>))
     else 1 - int (floorlog 10 (nat (\<lceil>1 / x\<rceil> - 1))))"

text \<open>The digits \<open>s\<close> of length \<open>k\<close> with \<open>s * 10 ^ (n - k)\<close> rounding to \<open>x\<close>, nearest first.\<close>

definition digits_at :: "real \<Rightarrow> nat \<Rightarrow> (int \<times> int) option" where
  "digits_at x k = (let n = dec_expo x; u = 10 powi (n - int k); q = x / u;
     ok = (\<lambda>s. fl (of_int s * u) = Fin x);
     norm = (\<lambda>s. if s = 10 ^ k then (10 ^ (k - 1), n + 1) else (s, n)) in
     if ok \<lfloor>q\<rfloor> \<and> (q - of_int \<lfloor>q\<rfloor> \<le> of_int \<lceil>q\<rceil> - q \<or> \<not> ok \<lceil>q\<rceil>) then Some (norm \<lfloor>q\<rfloor>)
     else if ok \<lceil>q\<rceil> then Some (norm \<lceil>q\<rceil>) else None)"

fun shortest_digits :: "real \<Rightarrow> nat \<Rightarrow> nat \<Rightarrow> int \<times> int \<times> nat" where
  "shortest_digits x k 0 = (0, 0, k)"
| "shortest_digits x k (Suc fuel) = (case digits_at x k of
     Some (s, n) \<Rightarrow> (s, n, k) | None \<Rightarrow> shortest_digits x (Suc k) fuel)"

definition positive_string :: "real \<Rightarrow> jsstring" where
  "positive_string x = (let (s, n, k) = shortest_digits x 1 17; d = nat_digits (nat s) in
     if int k \<le> n \<and> n \<le> 21 then d @ replicate (nat (n - int k)) 48
     else if 0 < n \<and> n \<le> 21 then take (nat n) d @ [46] @ drop (nat n) d
     else if - 6 < n \<and> n \<le> 0 then [48, 46] @ replicate (nat (- n)) 48 @ d
     else take 1 d @ (if k = 1 then [] else 46 # drop 1 d) @ [101] @
       (if n - 1 < 0 then [45] else [43]) @ nat_digits (nat \<bar>n - 1\<bar>))"

definition int_string :: "int \<Rightarrow> jsstring" where
  "int_string n = (if n < 0 then 45 # nat_digits (nat (- n)) else nat_digits (nat n))"

fun num_string :: "number \<Rightarrow> jsstring" where
  "num_string NaN = js ''NaN''"
| "num_string PosInf = js ''Infinity''"
| "num_string NegInf = js ''-Infinity''"
| "num_string (Fin x) =
     (if x = of_int \<lfloor>x\<rfloor> \<and> \<bar>x\<bar> < 2 ^ 53 then int_string \<lfloor>x\<rfloor>
      else if x < 0 then 45 # positive_string (- x) else positive_string x)"

definition fixed_digits :: "nat \<Rightarrow> nat \<Rightarrow> jsstring" where
  "fixed_digits d n = (let m = nat_digits n;
     p = replicate (Suc d - length m) 48 @ m;
     k = length p - d in
     if d = 0 then m else take k p @ [46] @ drop k p)"

fun toFixed :: "number \<Rightarrow> nat \<Rightarrow> jsstring" where
  "toFixed (Fin x) d =
     (if \<bar>x\<bar> \<ge> 10 ^ 21 then num_string (Fin x)
      else (if x < 0 then [45] else []) @ fixed_digits d (nat \<lfloor>\<bar>x\<bar> * 10 ^ d + 1 / 2\<rfloor>))"
| "toFixed a d = num_string a"

definition parse_exponent :: "jsstring \<Rightarrow> int option" where
  "parse_exponent s = (let neg = (s \<noteq> [] \<and> hd s = 45);
     ds = (if s \<noteq> [] \<and> (hd s = 45 \<or> hd s = 43) then tl s else s) in
     if ds \<noteq> [] \<and> list_all is_digit ds
     then Some (if neg then - int (digits_value ds) else int (digits_value ds)) else None)"

definition parse_decimal :: "jsstring \<Rightarrow> number" where
  "parse_decimal s = (let i = takeWhile is_digit s; r = dropWhile is_digit s;
     f = (if r \<noteq> [] \<and> hd r = 46 then takeWhile is_digit (tl r) else []);
     t = (if r \<noteq> [] \<and> hd r = 46 then dropWhile is_digit (tl r) else r);
     m = of_nat (digits_value i) + of_nat (digits_value f) / 10 ^ length f in
     if i = [] \<and> f = [] then NaN
     else if t = [] then fl m
     else if hd t = 101 \<or> hd t = 69 then
       (case parse_exponent (tl t) of None \<Rightarrow> NaN | Some e \<Rightarrow> fl (m * 10 powi e))
     else NaN)"

definition radix_digit :: "nat \<Rightarrow> nat" where
  "radix_digit c = (if is_digit c then c - 48
     else if 97 \<le> c \<and> c \<le> 102 then c - 87 else if 65 \<le> c \<and> c \<le> 70 then c - 55 else 99)"

definition parse_radix :: "nat \<Rightarrow> jsstring \<Rightarrow> number" where
  "parse_radix b s = (if s \<noteq> [] \<and> list_all (\<lambda>c. radix_digit c < b) s
     then fl (of_nat (foldl (\<lambda>a c. b * a + radix_digit c) 0 s)) else NaN)"

fun negate_num :: "number \<Rightarrow> number" where
  "negate_num (Fin x) = Fin (- x)"
| "negate_num PosInf = NegInf"
| "negate_num NegInf = PosInf"
| "negate_num NaN = NaN"

definition parse_unsigned :: "jsstring \<Rightarrow> number" where
  "parse_unsigned s = (if s = js ''Infinity'' then PosInf else parse_decimal s)"

text \<open>\<open>Number(s)\<close> of a string.\<close>

definition parse_number :: "jsstring \<Rightarrow> number" where
  "parse_number s = (let t = trim s; p = map lower_unit (take 2 t) in
     if t = [] then Fin 0
     else if p = js ''0x'' then parse_radix 16 (drop 2 t)
     else if p = js ''0o'' then parse_radix 8 (drop 2 t)
     else if p = js ''0b'' then parse_radix 2 (drop 2 t)
     else if hd t = 45 then negate_num (parse_unsigned (tl t))
     else if hd t = 43 then parse_unsigned (tl t)
     else parse_unsigned t)"

section \<open>Comma-separated fields\<close>

text \<open>\<open>text.split(',').map((x) => x.trim()).filter(Boolean)\<close>, and its inverse \<open>xs.join(', ')\<close>.\<close>

definition trimmed_parts :: "jsstring list \<Rightarrow> jsstring list" where
  "trimmed_parts ps = filter (\<lambda>p. p \<noteq> []) (map trim ps)"

definition split_field :: "jsstring \<Rightarrow> jsstring \<Rightarrow> jsstring list" where
  "split_field sep s = trimmed_parts (split sep s)"

definition csv_field :: "jsstring list \<Rightarrow> jsstring" where
  "csv_field xs = join (js '', '') xs"

section \<open>Laws of the string operations\<close>

lemma js_simps [simp]: "js [] = []" "js (c # cs) = of_char c # js cs"
  by (simp_all add: js_def)

lemma js_append: "js (s @ t) = js s @ js t"
  by (simp add: js_def)

lemma js_inject: "js s = js t \<longleftrightarrow> s = t"
  using inj_map_eq_map [of "of_char :: char \<Rightarrow> nat"] by (simp add: js_def inj_def)

lemma trim_Nil [simp]: "trim [] = []"
  by (simp add: trim_def)

lemma trim_white_Cons [simp]: "is_white c \<Longrightarrow> trim (c # s) = trim s"
  by (simp add: trim_def)

lemma is_white_space [simp]: "is_white 32"
  by (simp add: is_white_def white_units_def)

lemma trim_id_iff: "trim s = s \<longleftrightarrow> s = [] \<or> \<not> is_white (hd s) \<and> \<not> is_white (last s)"
proof
  assume t: "trim s = s"
  have "dropWhile is_white s = s"
  proof (rule ccontr)
    assume "dropWhile is_white s \<noteq> s"
    then have "length (dropWhile is_white s) < length s"
      by (metis append_self_conv2 length_append length_greater_0_conv less_add_same_cancel2
          takeWhile_dropWhile_id)
    moreover have "length (trim s) \<le> length (dropWhile is_white s)"
      unfolding trim_def using length_dropWhile_le [of is_white "rev (dropWhile is_white s)"] by simp
    ultimately show False using t by simp
  qed
  moreover from this t have "dropWhile is_white (rev s) = rev s"
    unfolding trim_def by (metis rev_rev_ident)
  ultimately show "s = [] \<or> \<not> is_white (hd s) \<and> \<not> is_white (last s)"
    by (cases "s = []") (auto simp: dropWhile_eq_self_iff hd_rev)
next
  assume "s = [] \<or> \<not> is_white (hd s) \<and> \<not> is_white (last s)"
  then show "trim s = s"
    by (auto simp: trim_def dropWhile_eq_self_iff [THEN iffD2] hd_rev)
qed

lemma trim_trim [simp]: "trim (trim s) = trim s"
proof (cases "trim s = []")
  case False
  let ?d = "dropWhile is_white s"
  have n: "dropWhile is_white (rev ?d) \<noteq> []" using False by (simp add: trim_def)
  have "last (trim s) = hd (dropWhile is_white (rev ?d))" by (simp add: trim_def last_rev n)
  moreover have "\<not> is_white (hd (dropWhile is_white (rev ?d)))" using n by (rule hd_dropWhile)
  moreover have "hd (trim s) = hd ?d"
  proof -
    obtain p where "rev ?d = p @ dropWhile is_white (rev ?d)"
      by (metis takeWhile_dropWhile_id)
    then have "?d = trim s @ rev p" unfolding trim_def by (metis rev_append rev_rev_ident)
    then show ?thesis using False by (metis hd_append2)
  qed
  moreover have "?d \<noteq> []" using n by (metis dropWhile.simps(1) rev.simps(1))
  then have "\<not> is_white (hd ?d)" by (rule hd_dropWhile)
  ultimately show ?thesis by (simp add: trim_id_iff)
qed simp

lemma trim_hd_not_white: "trim s \<noteq> [] \<Longrightarrow> \<not> is_white (hd (trim s))"
  using trim_id_iff [of "trim s"] by simp

lemma startsWith_single [simp]: "startsWith (d # ds) [c] \<longleftrightarrow> d = c"
  by (auto simp: startsWith_def)

lemma startsWith_iff_prefix: "startsWith s t \<longleftrightarrow> prefix t s"
  by (metis append_eq_conv_conj prefix_def startsWith_def append_take_drop_id)

lemma includes_iff: "includes_str s t \<longleftrightarrow> (\<exists>a b. s = a @ t @ b)"
proof (induction s)
  case (Cons c cs)
  show ?case
  proof
    assume "includes_str (c # cs) t"
    then consider "startsWith (c # cs) t" | "includes_str cs t" by auto
    then show "\<exists>a b. c # cs = a @ t @ b"
    proof cases
      case 1
      then show ?thesis by (metis append_Nil prefix_def startsWith_iff_prefix)
    next
      case 2
      then obtain a b where "cs = a @ t @ b" using Cons.IH by blast
      then have "c # cs = (c # a) @ t @ b" by simp
      then show ?thesis by blast
    qed
  next
    assume "\<exists>a b. c # cs = a @ t @ b"
    then obtain a b where ab: "c # cs = a @ t @ b" by blast
    show "includes_str (c # cs) t"
    proof (cases a)
      case Nil
      with ab have "startsWith (c # cs) t" by (simp add: startsWith_iff_prefix)
      then show ?thesis by simp
    next
      case (Cons d a')
      with ab Cons.IH show ?thesis by auto
    qed
  qed
qed auto

lemma split_from_single: "split_from [c] acc s = split_class (\<lambda>x. x = c) acc s"
  by (induction "(\<lambda>x. x = c)" acc s rule: split_class.induct) auto

lemma split_single: "split [c] s = split_class (\<lambda>x. x = c) [] s"
  by (simp add: split_def split_from_single)

lemma split_class_append:
  "(\<And>d. d \<in> set x \<Longrightarrow> \<not> p d) \<Longrightarrow>
   split_class p acc (x @ s) = split_class p (rev x @ acc) s"
  by (induction x arbitrary: acc) auto

lemma split_class_parts: "y \<in> set (split_class p acc s) \<Longrightarrow> (\<And>d. d \<in> set acc \<Longrightarrow> \<not> p d) \<Longrightarrow>
    d \<in> set y \<Longrightarrow> \<not> p d"
  by (induction p acc s rule: split_class.induct) (auto split: if_splits)

lemma split_class_join:
  assumes "p c" and "\<forall>x \<in> set xs. \<forall>d \<in> set x. \<not> p d" and "\<not> p 32"
    and "xs \<noteq> []"
  shows "split_class p acc (join [c, 32] xs) = (rev acc @ hd xs) # map ((#) 32) (tl xs)"
  using assms(2,4)
proof (induction xs arbitrary: acc)
  case (Cons x xs)
  have x: "\<And>d. d \<in> set x \<Longrightarrow> \<not> p d" using Cons.prems(1) by auto
  show ?case
  proof (cases xs)
    case Nil
    then show ?thesis using split_class_append [of x p acc "[]"] x by simp
  next
    case (Cons y ys)
    have "split_class p acc (join [c, 32] (x # xs))
        = split_class p (rev x @ acc) (c # 32 # join [c, 32] xs)"
      using split_class_append [of x p acc] x Cons by simp
    also have "\<dots> = (rev acc @ x) # split_class p [32] (join [c, 32] xs)"
      using assms(1,3) by simp
    also have "\<dots> = (rev acc @ x) # (32 # y) # map ((#) 32) ys"
      using Cons.IH [of "[32]"] Cons.prems Cons by simp
    finally show ?thesis using Cons by simp
  qed
qed simp

text \<open>A list survives a comma-separated field when its entries are clean.\<close>

definition clean_entry :: "jsstring \<Rightarrow> bool" where
  "clean_entry x \<longleftrightarrow> x \<noteq> [] \<and> trim x = x \<and> 44 \<notin> set x"

lemma comma_unit: "js '','' = [44]" "js '', '' = [44, 32]"
  by simp_all

lemma csv_roundtrip:
  assumes "\<And>x. x \<in> set xs \<Longrightarrow> clean_entry x"
  shows "split_field (js '','') (csv_field xs) = xs"
proof (cases xs)
  case Nil
  then show ?thesis by (simp add: split_field_def csv_field_def split_def trimmed_parts_def)
next
  case (Cons y ys)
  have "split (js '','') (csv_field xs) = hd xs # map ((#) 32) (tl xs)"
    unfolding comma_unit csv_field_def split_single
    using assms Cons by (subst split_class_join) (auto simp: clean_entry_def)
  then have "split_field (js '','') (csv_field xs) = trimmed_parts (y # map ((#) 32) ys)"
    by (simp add: split_field_def Cons)
  moreover have "map trim (y # map ((#) 32) ys) = y # ys"
    using assms Cons by (auto simp: clean_entry_def comp_def intro: map_idI)
  ultimately show ?thesis using assms Cons by (auto simp: trimmed_parts_def clean_entry_def intro: filter_True)
qed

lemma trim_subset: "set (trim s) \<subseteq> set s"
  unfolding trim_def by (metis set_dropWhileD set_rev subsetI)

lemma split_field_clean: "x \<in> set (split_field (js '','') s) \<Longrightarrow> clean_entry x"
proof -
  assume "x \<in> set (split_field (js '','') s)"
  then obtain y where y: "y \<in> set (split_class (\<lambda>x. x = 44) [] s)" "x = trim y" "x \<noteq> []"
    by (auto simp: split_field_def trimmed_parts_def split_single)
  then have "44 \<notin> set y" using split_class_parts [of y "\<lambda>x. x = 44" "[]" s] by auto
  then show ?thesis using y trim_subset [of y] by (auto simp: clean_entry_def)
qed

section \<open>Printing and reading numbers\<close>

lemma digits_value_append: "digits_value (s @ [c]) = 10 * digits_value s + (c - 48)"
  by (simp add: digits_value_def)

lemma digits_value_nat_digits [simp]: "digits_value (nat_digits n) = n"
proof (induction n rule: nat_digits.induct)
  case (1 n)
  show ?case
  proof (cases "n < 10")
    case True
    then show ?thesis by (simp add: nat_digits.simps [of n] digits_value_def)
  next
    case False
    with 1 show ?thesis by (simp add: nat_digits.simps [of n] digits_value_append)
  qed
qed

lemma nat_digits_are_digits: "c \<in> set (nat_digits n) \<Longrightarrow> is_digit c"
proof (induction n rule: nat_digits.induct)
  case (1 n)
  then show ?case
    by (cases "n < 10") (auto simp: nat_digits.simps [of n] is_digit_def)
qed

lemma nat_digits_nonempty [simp]: "nat_digits n \<noteq> []"
  by (subst nat_digits.simps) simp

lemma nat_digits_inject: "nat_digits m = nat_digits n \<longleftrightarrow> m = n"
  by (metis digits_value_nat_digits)


lemma digits_value_split: "digits_value (a @ b) = digits_value a * 10 ^ length b + digits_value b"
  by (induction b rule: rev_induct)
     (simp_all add: digits_value_append append_assoc [symmetric] algebra_simps
       del: append_assoc, simp add: digits_value_def)

lemma digits_value_zeros [simp]: "digits_value (replicate k 48 @ m) = digits_value m"
proof -
  have "digits_value (replicate k 48) = 0"
    by (induction k) (simp_all add: digits_value_def)
  then show ?thesis by (simp add: digits_value_split)
qed

lemma digit_not_white: "is_digit c \<Longrightarrow> \<not> is_white c"
  by (auto simp: is_digit_def is_white_def white_units_def)

lemma parse_number_plain:
  assumes "s \<noteq> []" "is_digit (hd s)" "\<not> is_white (last s)" "\<And>c. c \<in> set (tl s) \<Longrightarrow> c < 65"
  shows "parse_number s = parse_decimal s"
proof -
  have t: "trim s = s" using assms digit_not_white by (simp add: trim_id_iff)
  have h: "hd s \<noteq> 45" "hd s \<noteq> 43" "hd s \<noteq> 73" using assms(2) by (auto simp: is_digit_def)
  have "map lower_unit (take 2 s) \<noteq> [48, x]" if "97 \<le> x" for x
  proof (cases s)
    case (Cons a as)
    then show ?thesis using assms(4) that by (cases as) (force simp: lower_unit_def)+
  qed (simp add: assms)
  then have "map lower_unit (take 2 s) \<noteq> [48, 120]" "map lower_unit (take 2 s) \<noteq> [48, 111]"
    "map lower_unit (take 2 s) \<noteq> [48, 98]" by auto
  moreover have "s \<noteq> js ''Infinity''" using h by auto
  ultimately show ?thesis using h assms(1) by (simp add: parse_number_def parse_unsigned_def t)
qed

text \<open>Reading back what \<open>toFixed\<close> prints gives the decimal it denotes, rounded to a Number.\<close>

lemma parse_whole_digits: "parse_number (fixed_digits 0 n) = fl (of_nat n)"
proof -
  have all: "\<And>c. c \<in> set (nat_digits n) \<Longrightarrow> is_digit c" by (rule nat_digits_are_digits)
  have "parse_number (nat_digits n) = parse_decimal (nat_digits n)"
  proof (rule parse_number_plain)
    show "c < 65" if "c \<in> set (tl (nat_digits n))" for c
    proof -
      have "c \<in> set (nat_digits n)" using that by (metis list.set_sel(2) nat_digits_nonempty)
      then show ?thesis using all by (force simp: is_digit_def)
    qed
  qed (simp_all add: all digit_not_white)
  moreover have "takeWhile is_digit (nat_digits n) = nat_digits n"
    "dropWhile is_digit (nat_digits n) = []" using all by (simp_all add: takeWhile_eq_all_conv)
  ultimately show ?thesis
    by (simp add: fixed_digits_def parse_decimal_def Let_def digits_value_def [of "[]"])
qed

text \<open>A number with a fraction is read from its two blocks of digits.\<close>

lemma parse_fraction_digits:
  assumes ai: "\<And>c. c \<in> set i \<Longrightarrow> is_digit c" and af: "\<And>c. c \<in> set f \<Longrightarrow> is_digit c" and i0: "i \<noteq> []" and f0: "f \<noteq> []"
  shows "parse_number (i @ 46 # f) = fl (of_nat (digits_value i * 10 ^ length f + digits_value f) / 10 ^ length f)"
proof -
  have "parse_number (i @ 46 # f) = parse_decimal (i @ 46 # f)"
  proof (rule parse_number_plain)
    show "c < 65" if "c \<in> set (tl (i @ 46 # f))" for c
      using that ai af i0 by (cases i) (fastforce simp: is_digit_def)+
  qed (use ai af i0 f0 in \<open>auto simp: digit_not_white\<close>)
  moreover have "\<not> is_digit 46" by (simp add: is_digit_def)
  then have "takeWhile is_digit (i @ 46 # f) = i" "dropWhile is_digit (i @ 46 # f) = 46 # f"
    using ai by (simp_all add: takeWhile_append2 dropWhile_append2)
  moreover have "takeWhile is_digit f = f" "dropWhile is_digit f = []"
    using af by (simp_all add: takeWhile_eq_all_conv)
  moreover have "real (digits_value i) + real (digits_value f) / 10 ^ length f =
      of_nat (digits_value i * 10 ^ length f + digits_value f) / 10 ^ length f"
    by (simp add: field_simps)
  ultimately show ?thesis using i0 by (simp add: parse_decimal_def Let_def)
qed

lemma parse_fixed_digits: "parse_number (fixed_digits d n) = fl (of_nat n / 10 ^ d)"
proof (cases "d = 0")
  case False
  define p where "p = replicate (Suc d - length (nat_digits n)) 48 @ nat_digits n"
  define i where "i = take (length p - d) p"
  define f where "f = drop (length p - d) p"
  have pd: "\<And>c. c \<in> set p \<Longrightarrow> is_digit c"
    by (auto simp: p_def is_digit_def dest: nat_digits_are_digits)
  have len: "Suc d \<le> length p" by (simp add: p_def)
  then have lf: "length f = d" and i0: "i \<noteq> []" and f0: "f \<noteq> []"
    using False by (auto simp: f_def i_def)
  have ai: "\<And>c. c \<in> set i \<Longrightarrow> is_digit c" and af: "\<And>c. c \<in> set f \<Longrightarrow> is_digit c"
    using pd by (auto simp: i_def f_def dest: in_set_takeD in_set_dropD)
  have e: "fixed_digits d n = i @ 46 # f"
    using False by (simp add: fixed_digits_def Let_def p_def i_def f_def)
  have "i @ f = p" by (simp add: i_def f_def)
  then have "digits_value (i @ f) = n" by (simp add: p_def)
  then have "digits_value i * 10 ^ d + digits_value f = n" by (simp add: digits_value_split lf)
  then show ?thesis using parse_fraction_digits [OF ai af i0 f0] by (simp add: e lf)
qed (simp add: parse_whole_digits)

lemma parse_toFixed:
  "0 \<le> x \<Longrightarrow> x < 10 ^ 21 \<Longrightarrow>
   parse_number (toFixed (Fin x) d) = fl (of_int \<lfloor>x * 10 ^ d + 1 / 2\<rfloor> / 10 ^ d)"
proof -
  assume x: "0 \<le> x" "x < 10 ^ 21"
  then have "0 \<le> \<lfloor>x * 10 ^ d + 1 / 2\<rfloor>" by simp
  then have "real (nat \<lfloor>x * 10 ^ d + 1 / 2\<rfloor>) = of_int \<lfloor>x * 10 ^ d + 1 / 2\<rfloor>" by simp
  with x show ?thesis using parse_fixed_digits [of d "nat \<lfloor>x * 10 ^ d + 1 / 2\<rfloor>"] by simp
qed


end
