(* ===== verification/Traffic.thy ===== *)
theory Traffic
  imports JSString
begin

text \<open>
  \<open>web/src/traffic.ts\<close>: monthly traffic accounting. Byte counters arrive as Numbers (or are
  missing), quotas are edited in binary units, and the API takes whole bytes within the safe
  integer range.
\<close>

section \<open>Definitions\<close>

datatype TrafficCorrectionUnit = B | KiB | MiB | GiB | TiB

fun trafficCorrectionUnits :: "TrafficCorrectionUnit \<Rightarrow> number" where
  "trafficCorrectionUnits B = Fin 1"
| "trafficCorrectionUnits KiB = Fin 1024"
| "trafficCorrectionUnits MiB = Fin (1024 ^ 2)"
| "trafficCorrectionUnits GiB = Fin (1024 ^ 3)"
| "trafficCorrectionUnits TiB = Fin (1024 ^ 4)"

definition maximumTrafficLimitGiB :: number where
  "maximumTrafficLimitGiB =
     math_floor (Fin (of_int max_safe_integer) / trafficCorrectionUnits GiB)"

definition counter :: "number option \<Rightarrow> number" where
  "counter value = (case value of
     None \<Rightarrow> Fin 0
   | Some v \<Rightarrow> if isFinite v then math_max (Fin 0) v else Fin 0)"

definition trafficUsage :: "number option \<Rightarrow> number option \<Rightarrow> jsstring option \<Rightarrow> number" where
  "trafficUsage rxBytes txBytes mode =
     (let rx = counter rxBytes; tx = counter txBytes in
      if mode = Some (js ''max'') then math_max rx tx
      else if mode = Some (js ''up'') then tx
      else if mode = Some (js ''down'') then rx
      else rx + tx)"

definition trafficUtilization :: "number \<Rightarrow> number option \<Rightarrow> number" where
  "trafficUtilization usedBytes limitBytes =
     (let limit = counter limitBytes in
      if strict_equal limit (Fin 0) then Fin 0
      else math_min (math_max (counter (Some usedBytes) / limit * Fin 100) (Fin 0)) (Fin 100))"

definition trafficBytesFrom :: "number \<Rightarrow> TrafficCorrectionUnit \<Rightarrow> number" where
  "trafficBytesFrom value unit =
     (let bytes = math_round (value * trafficCorrectionUnits unit) in
      if isFinite bytes \<and> value \<ge> Fin 0 \<and> isSafeInteger bytes then bytes else NaN)"

definition trafficValueInUnit :: "number \<Rightarrow> TrafficCorrectionUnit \<Rightarrow> number" where
  "trafficValueInUnit bytes unit =
     (let value = counter (Some bytes) / trafficCorrectionUnits unit in
      parse_number (toFixed value (if unit = B then 0 else 3)))"

definition trafficLimitInGiB :: "number option \<Rightarrow> number" where
  "trafficLimitInGiB bytes = counter bytes / trafficCorrectionUnits GiB"

definition trafficLimitBytesFromGiB :: "number \<Rightarrow> number" where
  "trafficLimitBytesFromGiB value = trafficBytesFrom value GiB"

definition suggestedTrafficUnit :: "number list \<Rightarrow> TrafficCorrectionUnit" where
  "suggestedTrafficUnit values =
     (let maximum = foldl math_max (Fin 0) (map (\<lambda>v. counter (Some v)) values) in
      if maximum \<ge> trafficCorrectionUnits TiB then TiB
      else if maximum \<ge> trafficCorrectionUnits GiB then GiB
      else if maximum \<ge> trafficCorrectionUnits MiB then MiB
      else if maximum \<ge> trafficCorrectionUnits KiB then KiB
      else B)"

text \<open>The exponent of each unit: a unit is a power of two, so scaling by it is exact.\<close>

fun unit_bits :: "TrafficCorrectionUnit \<Rightarrow> nat" where
  "unit_bits B = 0"
| "unit_bits KiB = 10"
| "unit_bits MiB = 20"
| "unit_bits GiB = 30"
| "unit_bits TiB = 40"

section \<open>Counters\<close>

lemma unit_is_power: "trafficCorrectionUnits u = Fin (2 ^ unit_bits u)"
  by (cases u) simp_all

lemma unit_bits_le: "unit_bits u \<le> 40"
  by (cases u) simp_all

lemma counter_Fin: "counter (Some (Fin x)) = Fin (max 0 x)"
  by (simp add: counter_def)

lemma counter_finite: obtains x where "counter v = Fin x" "0 \<le> x"
proof (cases v)
  case (Some w)
  then show ?thesis using that [of "max 0 y" for y] that [of 0]
    by (cases w) (auto simp: counter_def)
qed (use that in \<open>simp add: counter_def\<close>)

lemma representable_0 [simp]: "representable 0"
  using representable_of_int [of 0] by simp

lemma round64_nonneg: "0 \<le> x \<Longrightarrow> 0 \<le> round64 x"
  by (rule b64.rnd_ge) auto

lemma overflow_limit_pos [simp]: "0 < overflow_limit"
  by (simp add: overflow_limit_def)

text \<open>
  Clamping absorbs overflow: for a non-negative quotient the clamped percentage has a closed
  form over the reals, from which range, saturation and monotonicity follow.
\<close>

lemma overflow_limit_ge: "100 \<le> overflow_limit"
proof -
  have "(2::real) ^ 7 \<le> 2 ^ 1024" by (rule power_increasing) auto
  then show ?thesis by (simp add: overflow_limit_def)
qed

lemma fl_nonneg: "0 \<le> x \<Longrightarrow> fl x = (if overflow_limit \<le> round64 x then PosInf else Fin (round64 x))"
  using round64_nonneg [of x] overflow_limit_ge by (simp add: fl_def Let_def)

lemma clamp_fl: "0 \<le> x \<Longrightarrow>
    math_min (math_max (fl x) (Fin 0)) (Fin 100) = Fin (min 100 (round64 x))"
  using round64_nonneg [of x] overflow_limit_ge
  by (auto simp: fl_nonneg math_max.simps math_min.simps)

lemma clamped_percent:
  assumes "0 \<le> q"
  shows "math_min (math_max (fl q * Fin 100) (Fin 0)) (Fin 100) = Fin (min 100 (round64 (round64 q * 100)))"
proof (cases "overflow_limit \<le> round64 q")
  case True
  have "100 \<le> round64 (round64 q * 100)"
    using True overflow_limit_ge representable_of_int [of 100] by (intro b64.rnd_ge) auto
  with True assms show ?thesis
    by (simp add: fl_nonneg sign_inf_def math_max.simps math_min.simps)
next
  case False
  with assms show ?thesis using round64_nonneg [OF assms] clamp_fl [of "round64 q * 100"]
    by (simp add: fl_nonneg)
qed

lemma trafficUtilization_closed:
  "counter (Some used) = Fin u \<Longrightarrow> counter limit = Fin l \<Longrightarrow>
   trafficUtilization used limit =
     Fin (if l = 0 then 0 else min 100 (round64 (round64 (u / l) * 100)))"
proof -
  assume u: "counter (Some used) = Fin u" and l: "counter limit = Fin l"
  have "0 \<le> u" using u by (metis counter_finite number.inject)
  moreover have "0 \<le> l" using l by (metis counter_finite number.inject)
  ultimately show ?thesis using clamped_percent [of "u / l"] u l
    by (simp add: trafficUtilization_def strict_equal_def Let_def)
qed

lemma percent_mono: "q \<le> r \<Longrightarrow>
    min 100 (round64 (round64 q * 100)) \<le> min 100 (round64 (round64 r * 100))"
  using b64.rnd_mono [of "round64 q * 100" "round64 r * 100"] b64.rnd_mono [of q r] by auto

lemma percent_full: "1 \<le> q \<Longrightarrow> min 100 (round64 (round64 q * 100)) = 100"
proof -
  assume "1 \<le> q"
  then have "1 \<le> round64 q" using representable_of_int [of 1] by (intro b64.rnd_ge) auto
  then have "100 \<le> round64 (round64 q * 100)"
    using representable_of_int [of 100] by (intro b64.rnd_ge) auto
  then show ?thesis by simp
qed

lemma percent_nonneg: "0 \<le> q \<Longrightarrow> 0 \<le> min 100 (round64 (round64 q * 100))"
  using round64_nonneg [of q] round64_nonneg [of "round64 q * 100"] by simp

section \<open>Properties of quota utilization\<close>

lemma utilization_percent:
  obtains p where "trafficUtilization used limit = Fin p" "0 \<le> p" "p \<le> 100"
proof -
  obtain u l where u: "counter (Some used) = Fin u" "0 \<le> u" and l: "counter limit = Fin l" "0 \<le> l"
    by (metis counter_finite)
  then show thesis
    using that trafficUtilization_closed [OF u(1) l(1)] percent_nonneg [of "u / l"] by auto
qed

text \<open>
  C16: Whatever the byte counter and the quota are (missing, NaN, infinite, negative or
  overflowing), the utilization is a finite percentage between 0 and 100.
\<close>

theorem trafficUtilization_range:
  "\<exists>p. trafficUtilization used limit = Fin p \<and> 0 \<le> p \<and> p \<le> 100"
  by (rule utilization_percent) blast

theorem trafficUtilization_saturates:
  assumes "counter limit = Fin l" and "0 < l" and "counter (Some used) = Fin u"
  shows "(l \<le> u \<longrightarrow> trafficUtilization used limit = Fin 100) \<and>
    (u = 0 \<longrightarrow> trafficUtilization used limit = Fin 0)"
  using assms(2) trafficUtilization_closed [OF assms(3,1)] percent_full [of "u / l"]
  by (simp add: b64.rnd_exact)

theorem trafficUtilization_saturates_witness:
  "counter (Some (Fin 8)) = Fin 8 \<and> counter (Some (Fin 9)) = Fin 9 \<and>
   trafficUtilization (Fin 9) (Some (Fin 8)) = Fin 100"
  using trafficUtilization_saturates [of "Some (Fin 8)" 8 "Fin 9" 9] by (simp add: counter_Fin)

theorem trafficUtilization_mono:
  assumes "counter (Some used) \<le> counter (Some used')"
  shows "trafficUtilization used limit \<le> trafficUtilization used' limit"
proof -
  obtain u u' l where u: "counter (Some used) = Fin u" and u': "counter (Some used') = Fin u'"
    and l: "counter limit = Fin l" "0 \<le> l"
    by (metis counter_finite)
  then have "u / l \<le> u' / l" using assms by (intro divide_right_mono) auto
  then show ?thesis
    using trafficUtilization_closed [OF u l(1)] trafficUtilization_closed [OF u' l(1)] percent_mono
    by auto
qed

theorem trafficUtilization_mono_witness:
  "counter (Some (Fin 3)) \<le> counter (Some (Fin 5)) \<and>
   trafficUtilization (Fin 3) (Some (Fin 8)) \<le> trafficUtilization (Fin 5) (Some (Fin 8))"
  using trafficUtilization_mono [of "Fin 3" "Fin 5" "Some (Fin 8)"] by (simp add: counter_Fin)

text \<open>
  Short of the quota the percentage stays below 100: a quotient of safe integers below one is at
  most the largest number below one, and its hundredfold rounds below 100.
\<close>

lemma round_below_hundred:
  assumes "x \<le> 100 - 100 / 2 ^ 53"
  shows "round64 x < 100"
proof (cases "x < 64")
  case True
  then have "round64 x \<le> 64" using representable_of_int [of 64] by (intro b64.rnd_le) auto
  then show ?thesis by simp
next
  case False
  then have x: "0 < x" "64 \<le> x" "x < 128" using assms by auto
  have "(2::real) powi 6 < 2 powi (expo x + 1)" "(2::real) powi expo x < 2 powi 7"
    using expo_bounds [OF x(1)] x by auto
  then have "expo x = 6" by (simp only: two_powi_less_iff)
  then have q: "quantum x = - 46" by (simp add: quantum_def)
  let ?r = "x / 2 powi (- 46)"
  have r: "?r = x * 2 ^ 46" by (simp add: power_int_minus field_simps)
  have "of_int (rne ?r) \<le> ?r + 1 / 2" using rne_error [of ?r] by linarith
  also have "\<dots> < 100 * 2 ^ 46" unfolding r using assms by simp
  finally have "of_int (rne ?r) < (100 * 2 ^ 46 :: real)" .
  then show ?thesis using x(1) by (simp add: round64_def round_pos_def q power_int_minus field_simps)
qed

lemma percent_short:
  assumes "u < l" and "0 < l" and "l \<le> 2 ^ 53"
  shows "round64 (round64 (of_int u / of_int l) * 100) < 100"
proof -
  have "real_of_int l \<le> 2 ^ 53" using assms(3) of_int_le_iff [of l "2 ^ 53", where 'a = real]
    by (simp only: of_int_power of_int_numeral)
  then have l: "1 / 2 ^ 53 \<le> 1 / real_of_int l" using assms(2) by (intro divide_left_mono) auto
  have "real_of_int u \<le> of_int (l - 1)" using assms(1) by (simp only: of_int_le_iff zle_diff1_eq)
  then have "of_int u / of_int l \<le> (of_int (l - 1) :: real) / of_int l"
    using assms(2) by (intro divide_right_mono) auto
  also have "\<dots> = 1 - 1 / of_int l" using assms(2) by (simp add: field_simps)
  also have "\<dots> \<le> of_int (2 ^ 53 - 1) / 2 ^ 53" using l by simp
  finally have "round64 (of_int u / of_int l) \<le> of_int (2 ^ 53 - 1) / 2 ^ 53" by (intro round_below) auto
  then show ?thesis by (intro round_below_hundred) simp
qed

text \<open>
  C15: For whole byte counts the utilization reads 100 percent exactly when the quota is used up:
  rounding never reports an unfinished quota as exhausted.
\<close>

theorem quota_exhausted_iff:
  assumes "0 \<le> u" and "0 < l" and "l \<le> 2 ^ 53"
  shows "trafficUtilization (Fin (of_int u)) (Some (Fin (of_int l))) = Fin 100 \<longleftrightarrow> l \<le> u"
proof -
  have c: "counter (Some (Fin (of_int u))) = Fin (of_int u)" "counter (Some (Fin (of_int l))) = Fin (of_int l)"
    using assms by (simp_all add: counter_Fin)
  show ?thesis
  proof (cases "l \<le> u")
    case True
    then have "1 \<le> real_of_int u / of_int l" using assms(2) by simp
    then show ?thesis using trafficUtilization_closed [OF c] percent_full [of "of_int u / of_int l"] True assms(2) by simp
  next
    case False
    then show ?thesis using trafficUtilization_closed [OF c] percent_short [of u l] assms by simp
  qed
qed

theorem quota_exhausted_iff_witness:
  "trafficUtilization (Fin (of_int 9007199254740990)) (Some (Fin (of_int 9007199254740991))) \<noteq> Fin 100"
  using quota_exhausted_iff [of 9007199254740990 9007199254740991] by simp

section \<open>Unit conversion\<close>

lemma math_round_int [simp]: "math_round (Fin (of_int n)) = Fin (of_int n)"
proof -
  have "\<lfloor>real_of_int n + 1 / 2\<rfloor> = n" by linarith
  then show ?thesis by simp
qed

lemma isSafeInteger_of_int: "isSafeInteger (Fin (of_int n)) \<longleftrightarrow> \<bar>n\<bar> \<le> max_safe_integer"
  by (simp only: isSafeInteger.simps floor_of_int of_int_abs [symmetric] of_int_le_iff simp_thms)

lemma fl_div_unit:
  assumes "\<bar>n\<bar> \<le> 2 ^ 53"
  shows "fl (of_int n / 2 ^ unit_bits u) = Fin (of_int n / 2 ^ unit_bits u)"
proof -
  have "of_int n / 2 ^ unit_bits u = of_int n * (2::real) powi (- int (unit_bits u))"
    by (simp add: power_int_minus field_simps)
  with fl_scale [OF assms, of "- int (unit_bits u)"] unit_bits_le [of u] show ?thesis by simp
qed

lemma fl_times_unit:
  assumes "\<bar>n\<bar> \<le> 2 ^ 53"
  shows "fl (of_int n * 2 ^ unit_bits u) = Fin (of_int n * 2 ^ unit_bits u)"
  using fl_scale [OF assms, of "int (unit_bits u)"] unit_bits_le [of u] by simp

lemma trafficBytesFrom_int:
  assumes "\<bar>g\<bar> \<le> 2 ^ 53"
  shows "trafficBytesFrom (Fin (of_int g)) u =
    (if 0 \<le> g \<and> g * 2 ^ unit_bits u \<le> max_safe_integer then Fin (of_int (g * 2 ^ unit_bits u)) else NaN)"
proof -
  have b: "math_round (Fin (of_int g) * trafficCorrectionUnits u) = Fin (of_int (g * 2 ^ unit_bits u))"
    using fl_times_unit [OF assms] math_round_int [of "g * 2 ^ unit_bits u"] by (simp add: unit_is_power)
  show ?thesis unfolding trafficBytesFrom_def b Let_def isSafeInteger_of_int
    by (auto simp: max_safe_integer_def)
qed

text \<open>A byte count divided by a unit and multiplied back is the byte count, without rounding.\<close>

lemma trafficBytesFrom_div:
  assumes "0 \<le> n" and "n \<le> max_safe_integer"
  shows "trafficBytesFrom (Fin (of_int n / 2 ^ unit_bits u)) u = Fin (of_int n)"
proof -
  have n: "\<bar>n\<bar> \<le> 2 ^ 53" using assms by (simp add: max_safe_integer_def)
  have "Fin (of_int n / 2 ^ unit_bits u) * trafficCorrectionUnits u = Fin (of_int n)"
    using fl_of_int [OF n] by (simp add: unit_is_power)
  then have b: "math_round (Fin (of_int n / 2 ^ unit_bits u) * trafficCorrectionUnits u) = Fin (of_int n)"
    by (simp only: math_round_int)
  show ?thesis unfolding trafficBytesFrom_def b Let_def isSafeInteger_of_int
    using assms by simp
qed

lemma math_round_nonneg: "Fin 0 \<le> a \<Longrightarrow> math_round (a * Fin (2 ^ k)) = Fin x \<Longrightarrow> 0 \<le> x"
proof (cases a)
  case (Fin y)
  assume "Fin 0 \<le> a" "math_round (a * Fin (2 ^ k)) = Fin x"
  then show ?thesis using Fin round64_nonneg [of "y * 2 ^ k"]
    by (auto simp: fl_nonneg split: if_splits)
qed (auto simp: less_eq_number_def sign_inf_def)

theorem trafficBytesFrom_safe:
  "trafficBytesFrom value unit = NaN \<or>
   (\<exists>n. trafficBytesFrom value unit = Fin (of_int n) \<and> 0 \<le> n \<and> n \<le> max_safe_integer)"
proof (cases "trafficBytesFrom value unit = NaN")
  case False
  let ?b = "math_round (value * trafficCorrectionUnits unit)"
  have v: "value \<ge> Fin 0" and s: "isSafeInteger ?b" and eq: "trafficBytesFrom value unit = ?b"
    using False by (auto simp: trafficBytesFrom_def Let_def split: if_splits)
  from s obtain n where n: "?b = Fin (of_int n)" "\<bar>n\<bar> \<le> 2 ^ 53 - 1" by (rule safe_integerE)
  have "0 \<le> real_of_int n" using math_round_nonneg [OF v] n(1) unfolding unit_is_power by blast
  with n eq show ?thesis by (auto simp: max_safe_integer_def)
qed simp

lemma quota_bytes_roundtrip:
  assumes "isSafeInteger bytes" and "Fin 0 \<le> bytes"
  shows "trafficLimitBytesFromGiB (trafficLimitInGiB (Some bytes)) = bytes"
proof -
  obtain n where b: "bytes = Fin (of_int n)" and n: "\<bar>n\<bar> \<le> 2 ^ 53 - 1"
    using assms(1) by (rule safe_integerE)
  have n0: "0 \<le> n" using assms(2) b by simp
  have "trafficLimitInGiB (Some bytes) = Fin (of_int n / 2 ^ unit_bits GiB)"
    using fl_div_unit [of n GiB] n n0 by (simp add: trafficLimitInGiB_def b counter_Fin unit_is_power)
  then show ?thesis
    using trafficBytesFrom_div [of n GiB] n n0 b
    by (simp add: trafficLimitBytesFromGiB_def max_safe_integer_def)
qed

text \<open>
  C17: Showing a quota in GiB and converting it back yields the same number of bytes for every
  non-negative safe integer.
\<close>

theorem traffic_quota_roundtrip:
  assumes "isSafeInteger bytes" and "Fin 0 \<le> bytes"
  shows "trafficLimitBytesFromGiB (trafficLimitInGiB (Some bytes)) = bytes"
  using assms by (rule quota_bytes_roundtrip)

theorem traffic_quota_roundtrip_witness:
  "isSafeInteger (Fin 1500000000) \<and>
   trafficLimitBytesFromGiB (trafficLimitInGiB (Some (Fin 1500000000))) = Fin 1500000000"
  using traffic_quota_roundtrip [of "Fin 1500000000"] by (simp add: max_safe_integer_def)

lemma maximumTrafficLimitGiB_value: "maximumTrafficLimitGiB = Fin 8388607"
proof -
  have "fl (of_int max_safe_integer / 2 ^ unit_bits GiB) = Fin (of_int max_safe_integer / 2 ^ unit_bits GiB)"
    by (rule fl_div_unit) (simp add: max_safe_integer_def)
  then show ?thesis
    by (simp add: maximumTrafficLimitGiB_def max_safe_integer_def)
qed

text \<open>
  C18: A whole number of GiB is accepted exactly up to the advertised maximum, and then yields the
  exact byte count; everything else is NaN.
\<close>

theorem traffic_quota_limit:
  assumes "\<bar>g\<bar> \<le> 2 ^ 53"
  shows "trafficLimitBytesFromGiB (Fin (of_int g)) =
    (if 0 \<le> g \<and> Fin (of_int g) \<le> maximumTrafficLimitGiB then Fin (of_int (g * 2 ^ 30)) else NaN)"
proof -
  have "g * 2 ^ 30 \<le> max_safe_integer \<longleftrightarrow> g \<le> 8388607" by (auto simp: max_safe_integer_def)
  then show ?thesis using trafficBytesFrom_int [OF assms, of GiB]
    by (simp add: trafficLimitBytesFromGiB_def maximumTrafficLimitGiB_value)
qed

theorem traffic_quota_limit_witness:
  "trafficLimitBytesFromGiB (Fin (of_int 8388607)) = Fin (of_int (8388607 * 2 ^ 30)) \<and>
   trafficLimitBytesFromGiB (Fin (of_int 8388608)) = NaN"
  using traffic_quota_limit [of 8388607] traffic_quota_limit [of 8388608]
  by (simp add: maximumTrafficLimitGiB_value)

theorem suggestedTrafficUnit_fits:
  assumes "foldl math_max (Fin 0) (map (\<lambda>v. counter (Some v)) values) = Fin m"
  shows "(suggestedTrafficUnit values \<noteq> B \<longrightarrow> 2 ^ unit_bits (suggestedTrafficUnit values) \<le> m) \<and>
    (suggestedTrafficUnit values \<noteq> TiB \<longrightarrow> m < 1024 * 2 ^ unit_bits (suggestedTrafficUnit values))"
  unfolding suggestedTrafficUnit_def assms Let_def by auto

theorem suggestedTrafficUnit_fits_witness:
  "foldl math_max (Fin 0) (map (\<lambda>v. counter (Some v)) [Fin 10, Fin 5000]) = Fin 5000 \<and>
   (2::real) ^ unit_bits (suggestedTrafficUnit [Fin 10, Fin 5000]) \<le> 5000 \<and>
   (5000::real) < 1024 * 2 ^ unit_bits (suggestedTrafficUnit [Fin 10, Fin 5000])"
proof -
  have m: "foldl math_max (Fin 0) (map (\<lambda>v. counter (Some v)) [Fin 10, Fin 5000]) = Fin 5000"
    by (simp add: counter_Fin)
  have "suggestedTrafficUnit [Fin 10, Fin 5000] = KiB" unfolding suggestedTrafficUnit_def m Let_def by simp
  then show ?thesis using m suggestedTrafficUnit_fits [OF m] by simp
qed

lemma maximum_counter_finite:
  "\<exists>m. foldl math_max (Fin a) (map (\<lambda>v. counter (Some v)) values) = Fin m"
proof (induction "values" arbitrary: a)
  case (Cons v vs)
  obtain x where "counter (Some v) = Fin x" by (metis counter_finite)
  with Cons show ?case by simp
qed simp

text \<open>In bytes the correction field loses nothing.\<close>

theorem traffic_bytes_field_exact:
  assumes "isSafeInteger bytes" and "Fin 0 \<le> bytes"
  shows "trafficBytesFrom (trafficValueInUnit bytes B) B = bytes"
proof -
  obtain n where b: "bytes = Fin (of_int n)" and n: "\<bar>n\<bar> \<le> 2 ^ 53 - 1"
    using assms(1) by (rule safe_integerE)
  have n0: "0 \<le> n" using assms(2) b by simp
  have f: "fl (of_int n) = Fin (of_int n)" using n by (intro fl_of_int) simp
  have lt: "real_of_int n < 10 ^ 21"
  proof -
    have "n \<le> 2 ^ 53" using n by simp
    then have "real_of_int n \<le> of_int (2 ^ 53)" unfolding of_int_le_iff .
    then show ?thesis by simp
  qed
  have fl0: "\<lfloor>real_of_int n + 1 / 2\<rfloor> = n" by linarith
  have "trafficValueInUnit bytes B = Fin (of_int n)"
    using parse_toFixed [of "of_int n" 0] n0 lt f fl0
    by (simp add: trafficValueInUnit_def b counter_Fin Let_def del: toFixed.simps)
  then show ?thesis using trafficBytesFrom_div [of n B] n n0 b by (simp add: max_safe_integer_def)
qed


theorem traffic_bytes_field_exact_witness:
  "isSafeInteger (Fin 123456789) \<and>
   trafficBytesFrom (trafficValueInUnit (Fin 123456789) B) B = Fin 123456789"
  using traffic_bytes_field_exact [of "Fin 123456789"] by (simp add: max_safe_integer_def)

end
