(* ===== verification/I18n.thy ===== *)
theory I18n
  imports JSString
begin

text \<open>
  \<open>web/src/i18n.ts\<close>: the interface language. The module keeps the current locale and whether
  the user chose it, mirrors it into the document and into \<open>localStorage\<close>, and follows the
  browser's \<open>languagechange\<close> event as long as no explicit choice was made.
\<close>

section \<open>Detection\<close>

datatype AppLocale = zh_CN | en_US

fun locale_string :: "AppLocale \<Rightarrow> jsstring" where
  "locale_string zh_CN = js ''zh-CN''"
| "locale_string en_US = js ''en-US''"

definition localePreferenceKey :: jsstring where
  "localePreferenceKey = js ''hostpin-locale-preference''"

definition legacyLocaleKey :: jsstring where
  "legacyLocaleKey = js ''hostpin-locale''"

definition supportedLocale :: "host \<Rightarrow> jsstring option \<Rightarrow> AppLocale option" where
  "supportedLocale h value = (case value of None \<Rightarrow> None
     | Some v \<Rightarrow>
       (let normalized = toLowerCase h (replace_first 95 45 (trim v)) in
        if normalized = [] then None
        else if normalized = js ''zh'' \<or> startsWith normalized (js ''zh-'') then Some zh_CN
        else if normalized = js ''en'' \<or> startsWith normalized (js ''en-'') then Some en_US
        else None))"

text \<open>
  \<open>localStorage\<close> may be missing, or every access may throw (blocked by the browser); otherwise
  it is a map from keys to strings.
\<close>

datatype storage = NoStorage | BlockedStorage | Storage "jsstring \<rightharpoonup> jsstring"

definition storedLocalePreference :: "host \<Rightarrow> storage \<Rightarrow> AppLocale option" where
  "storedLocalePreference h st = (case st of
     NoStorage \<Rightarrow> None
   | BlockedStorage \<Rightarrow> None
   | Storage m \<Rightarrow> supportedLocale h (m localePreferenceKey))"

text \<open>\<open>navigator\<close>: the array \<open>languages\<close> where the browser has one, and \<open>language\<close>.\<close>

record browser =
  nav_languages :: "jsstring list option"
  nav_language :: jsstring

definition browserLanguages :: "browser option \<Rightarrow> jsstring list" where
  "browserLanguages nav = (case nav of None \<Rightarrow> []
     | Some n \<Rightarrow> (case nav_languages n of
         Some ls \<Rightarrow> if ls \<noteq> [] then ls else if nav_language n \<noteq> [] then [nav_language n] else []
       | None \<Rightarrow> if nav_language n \<noteq> [] then [nav_language n] else []))"

fun detectBrowserLocale :: "host \<Rightarrow> jsstring list \<Rightarrow> AppLocale" where
  "detectBrowserLocale h [] = en_US"
| "detectBrowserLocale h (language # languages) =
     (case supportedLocale h (Some language) of
        Some detected \<Rightarrow> detected
      | None \<Rightarrow> detectBrowserLocale h languages)"

definition resolveInitialLocale :: "host \<Rightarrow> jsstring option \<Rightarrow> jsstring list \<Rightarrow> AppLocale" where
  "resolveInitialLocale h stored languages =
     (case supportedLocale h stored of
        Some l \<Rightarrow> l | None \<Rightarrow> detectBrowserLocale h languages)"

section \<open>The module's state\<close>

text \<open>
  \<open>doc_lang\<close> is \<open>document.documentElement.lang\<close> (and \<open>dataset.locale\<close>, which is always set
  together with it); \<open>watching\<close> says whether the \<open>languagechange\<close> listener is registered.
\<close>

record i18n =
  app_locale :: AppLocale
  hasExplicitPreference :: bool
  doc_lang :: "jsstring option"
  doc_locale :: "jsstring option"
  local_storage :: storage
  watching :: bool

definition persistLocalePreference :: "AppLocale \<Rightarrow> storage \<Rightarrow> storage" where
  "persistLocalePreference value st = (case st of
     NoStorage \<Rightarrow> NoStorage
   | BlockedStorage \<Rightarrow> BlockedStorage
   | Storage m \<Rightarrow> Storage (m(localePreferenceKey \<mapsto> locale_string value,
       legacyLocaleKey \<mapsto> locale_string value)))"

definition applyLocale :: "AppLocale \<Rightarrow> i18n \<Rightarrow> i18n" where
  "applyLocale value s =
     s\<lparr>doc_lang := Some (locale_string value), doc_locale := Some (locale_string value)\<rparr>"

text \<open>Loading the module.\<close>

definition i18n_init :: "host \<Rightarrow> storage \<Rightarrow> browser option \<Rightarrow> i18n" where
  "i18n_init h st nav =
     (let storedLocale = storedLocalePreference h st;
          l = (case storedLocale of Some v \<Rightarrow> v | None \<Rightarrow> detectBrowserLocale h (browserLanguages nav)) in
      applyLocale l \<lparr>app_locale = l, hasExplicitPreference = (storedLocale \<noteq> None),
        doc_lang = None, doc_locale = None, local_storage = st, watching = False\<rparr>)"

definition setLocale :: "AppLocale \<Rightarrow> i18n \<Rightarrow> i18n" where
  "setLocale value s = applyLocale value
     (s\<lparr>hasExplicitPreference := True, app_locale := value,
        local_storage := persistLocalePreference value (local_storage s)\<rparr>)"

definition syncLocaleWithBrowser :: "host \<Rightarrow> browser option \<Rightarrow> i18n \<Rightarrow> i18n" where
  "syncLocaleWithBrowser h nav s =
     (if hasExplicitPreference s then s
      else (let l = detectBrowserLocale h (browserLanguages nav) in
        applyLocale l (s\<lparr>app_locale := l\<rparr>)))"

definition watchBrowserLocale :: "host \<Rightarrow> browser option \<Rightarrow> i18n \<Rightarrow> i18n" where
  "watchBrowserLocale h nav s = (syncLocaleWithBrowser h nav s)\<lparr>watching := True\<rparr>"

definition stopWatching :: "i18n \<Rightarrow> i18n" where
  "stopWatching s = s\<lparr>watching := False\<rparr>"

definition text_in :: "AppLocale \<Rightarrow> jsstring \<Rightarrow> jsstring \<Rightarrow> jsstring" where
  "text_in l chinese english = (if l = zh_CN then chinese else english)"

text \<open>What can happen to the module after it is loaded.\<close>

datatype i18n_event = SetLocale AppLocale | Watch "browser option" | LanguageChange "browser option"
  | Unwatch

fun i18n_step :: "host \<Rightarrow> i18n_event \<Rightarrow> i18n \<Rightarrow> i18n" where
  "i18n_step h (SetLocale l) s = setLocale l s"
| "i18n_step h (Watch nav) s = watchBrowserLocale h nav s"
| "i18n_step h (LanguageChange nav) s = (if watching s then syncLocaleWithBrowser h nav s else s)"
| "i18n_step h Unwatch s = stopWatching s"

definition i18n_run :: "host \<Rightarrow> i18n_event list \<Rightarrow> i18n \<Rightarrow> i18n" where
  "i18n_run h es s = fold (i18n_step h) es s"

section \<open>Lemmas\<close>

lemmas i18n_defs = setLocale_def syncLocaleWithBrowser_def watchBrowserLocale_def stopWatching_def
  applyLocale_def persistLocalePreference_def

lemma supportedLocale_locale_string [simp]: "supportedLocale h (Some (locale_string l)) = Some l"
  by (cases l) (simp_all add: supportedLocale_def trim_def is_white_def white_units_def
      toLowerCase_def is_ascii_def lower_unit_def startsWith_def)

lemma preference_keys_differ [simp]: "localePreferenceKey \<noteq> legacyLocaleKey"
  by (simp add: localePreferenceKey_def legacyLocaleKey_def)

lemma stored_after_persist:
  "storedLocalePreference h (persistLocalePreference l (Storage m)) = Some l"
  by (simp add: storedLocalePreference_def persistLocalePreference_def)

text \<open>The document always shows the current locale.\<close>

definition doc_synced :: "i18n \<Rightarrow> bool" where
  "doc_synced s \<longleftrightarrow> doc_lang s = Some (locale_string (app_locale s)) \<and>
     doc_locale s = Some (locale_string (app_locale s))"

lemma doc_synced_init: "doc_synced (i18n_init h st nav)"
  by (simp add: doc_synced_def i18n_init_def applyLocale_def Let_def split: option.splits)

lemma doc_synced_step: "doc_synced s \<Longrightarrow> doc_synced (i18n_step h e s)"
  by (cases e) (auto simp: doc_synced_def i18n_defs Let_def)

interpretation doc: store "i18n_step h" any_event doc_synced
  by unfold_locales (rule doc_synced_step)

text \<open>
  Once a preference is explicit only another choice changes what the user sees and what is stored.
\<close>

definition not_a_choice :: "i18n_event \<Rightarrow> bool" where
  "not_a_choice e \<longleftrightarrow> (case e of SetLocale l \<Rightarrow> False | _ \<Rightarrow> True)"

interpretation choice: observed_store "i18n_step h" not_a_choice hasExplicitPreference
    "\<lambda>s. (app_locale s, local_storage s)"
proof
  fix s e
  show "hasExplicitPreference s \<Longrightarrow> hasExplicitPreference (i18n_step h e s)"
    by (cases e) (auto simp: i18n_defs)
  show "hasExplicitPreference s \<Longrightarrow> not_a_choice e \<Longrightarrow>
      (app_locale (i18n_step h e s), local_storage (i18n_step h e s)) = (app_locale s, local_storage s)"
    by (cases e) (auto simp: i18n_defs not_a_choice_def)
qed

lemma detect_none: "(\<And>l. l \<in> set ls \<Longrightarrow> supportedLocale h (Some l) = None) \<Longrightarrow>
    detectBrowserLocale h (ls @ ms) = detectBrowserLocale h ms"
  by (induction ls) auto

section \<open>Properties\<close>

text \<open>
  C19: After loading and any sequence of locale choices, watches and browser language changes, the
  language and locale attributes of the document are those of the current locale.
\<close>

theorem document_follows_locale:
  "doc_synced (i18n_run h es (i18n_init h st nav))"
  unfolding i18n_run_def by (rule doc.run_keeps) (simp_all add: doc_synced_init list_all_iff)

text \<open>
  C20: A language chosen by the user survives every later browser language change, whatever the
  storage; with a working storage it is the language of the next page load, and with a blocked or
  missing one the next load decides by the languages of the browser.
\<close>

theorem explicit_choice_persists:
  assumes "\<And>e l. e \<in> set es \<Longrightarrow> e \<noteq> SetLocale l"
  shows "app_locale (i18n_run h es (setLocale l s)) = l \<and>
    app_locale (i18n_init h' (local_storage (i18n_run h es (setLocale l s))) nav) =
      (case local_storage s of Storage m \<Rightarrow> l | _ \<Rightarrow> detectBrowserLocale h' (browserLanguages nav))"
proof -
  let ?t = "setLocale l s"
  have t: "hasExplicitPreference ?t" "app_locale ?t = l"
    "local_storage ?t = persistLocalePreference l (local_storage s)"
    by (simp_all add: i18n_defs)
  have "list_all not_a_choice es"
    using assms by (auto simp: list_all_iff not_a_choice_def split: i18n_event.split)
  then have "app_locale (i18n_run h es ?t) = app_locale ?t \<and>
      local_storage (i18n_run h es ?t) = local_storage ?t"
    using choice.run_unobserved [OF t(1)] by (simp add: i18n_run_def)
  then show ?thesis
    using t stored_after_persist [of h' l]
    by (cases "local_storage s") (auto simp: i18n_init_def applyLocale_def storedLocalePreference_def persistLocalePreference_def Let_def)
qed

theorem explicit_choice_persists_witness:
  "app_locale (i18n_init undefined (local_storage (i18n_run undefined [Watch None, LanguageChange None]
     (setLocale zh_CN (i18n_init undefined (Storage Map.empty) None)))) None) = zh_CN \<and>
   app_locale (i18n_run undefined [Watch None, LanguageChange None] (setLocale zh_CN (i18n_init undefined BlockedStorage None))) = zh_CN"
proof -
  have s: "local_storage (i18n_init undefined (Storage Map.empty) None) = Storage Map.empty"
    by (simp add: i18n_init_def applyLocale_def Let_def)
  show ?thesis
    using explicit_choice_persists [of "[Watch None, LanguageChange None]" undefined zh_CN "i18n_init undefined (Storage Map.empty) None" undefined None]
      explicit_choice_persists [of "[Watch None, LanguageChange None]" undefined zh_CN "i18n_init undefined BlockedStorage None"] s by auto
qed

theorem first_supported_language_wins:
  assumes "\<And>l. l \<in> set before \<Longrightarrow> supportedLocale h (Some l) = None"
    and "supportedLocale h (Some language) = Some detected"
  shows "resolveInitialLocale h None (before @ language # rest) = detected"
  using detect_none [OF assms(1), of "before" "language # rest"] assms(2)
  by (simp add: resolveInitialLocale_def supportedLocale_def [of h None])

end
