(* ===== verification/NodeAssets.thy ===== *)
theory NodeAssets
  imports JSString
begin

text \<open>
  \<open>web/src/nodeAssets.ts\<close>: the flag and the operating-system logo of a node, and the components
  \<open>NodeFlag\<close> and \<open>SystemLogo\<close> that show them. The reported country code and system name are
  arbitrary strings of the agent; what reaches an \<open>img\<close> tag must be one of the bundled assets.
\<close>

section \<open>Definitions\<close>

definition systemLogos :: "(jsstring list \<times> jsstring) list" where
  "systemLogos =
    [([js ''alibaba'', js ''anolis''], js ''os-alibaba.svg''),
     ([js ''alma''], js ''os-alma.svg''),
     ([js ''alpine''], js ''os-alpine.webp''),
     ([js ''armbian''], js ''os-armbian.png''),
     ([js ''arch''], js ''os-arch.svg''),
     ([js ''centos''], js ''os-centos.svg''),
     ([js ''debian''], js ''os-debian.svg''),
     ([js ''fedora''], js ''os-fedora.svg''),
     ([js ''gentoo''], js ''os-gentoo.svg''),
     ([js ''istore''], js ''os-istore.png''),
     ([js ''kali''], js ''os-kail.svg''),
     ([js ''macos'', js ''mac os'', js ''darwin''], js ''os-macos.svg''),
     ([js ''manjaro''], js ''os-manjaro-.svg''),
     ([js ''mint''], js ''os-mint.svg''),
     ([js ''nixos'', js ''nix os''], js ''os-nix.svg''),
     ([js ''opencloudos'', js ''opencloud''], js ''os-opencloud.svg''),
     ([js ''opensuse'', js ''suse''], js ''os-opensuse.svg''),
     ([js ''openwrt''], js ''os-openwrt.svg''),
     ([js ''oracle linux'', js ''oracle''], js ''os-oracle.svg''),
     ([js ''proxmox''], js ''os-proxmox.ico''),
     ([js ''red hat'', js ''redhat'', js ''rhel''], js ''os-redhat.svg''),
     ([js ''rocky''], js ''os-rocky.svg''),
     ([js ''synology''], js ''os-synology.ico''),
     ([js ''ubuntu''], js ''os-ubuntu.svg''),
     ([js ''windows''], js ''os-windows.svg''),
     ([js ''freebsd''], js ''os-freebsd.svg''),
     ([js ''linux''], js ''linux.svg'')]"

definition upper_letter :: "nat \<Rightarrow> bool" where
  "upper_letter c \<longleftrightarrow> 65 \<le> c \<and> c \<le> 90"

text \<open>\<open>/^[A-Z]{2}$/\<close>.\<close>

definition two_letters :: "jsstring \<Rightarrow> bool" where
  "two_letters s \<longleftrightarrow> length s = 2 \<and> list_all upper_letter s"

definition countryFlagSource :: "host \<Rightarrow> jsstring option \<Rightarrow> jsstring" where
  "countryFlagSource h value =
     (let code = (case value of None \<Rightarrow> [] | Some v \<Rightarrow> toUpperCase h (trim v)) in
      if two_letters code
      then js ''/assets/flags/'' @ code @ js ''.svg?v=flag-icons-v1'' else [])"

definition logo_match :: "jsstring \<Rightarrow> (jsstring list \<times> jsstring) option" where
  "logo_match normalized =
     List.find (\<lambda>(terms, asset). list_ex (\<lambda>term. includes_str normalized term) terms) systemLogos"

definition systemLogoSource :: "host \<Rightarrow> jsstring option \<Rightarrow> jsstring" where
  "systemLogoSource h value =
     (let normalized = (case value of None \<Rightarrow> [] | Some v \<Rightarrow> toLowerCase h (trim v)) in
      js ''/assets/logo/'' @
        (case logo_match normalized of Some (terms, asset) \<Rightarrow> asset | None \<Rightarrow> js ''os-unknown.svg'') @
        js ''?v=cf-monitor-v1'')"

text \<open>\<open>NodeFlag.vue\<close> renders an image only for a non-empty source.\<close>

definition NodeFlag :: "host \<Rightarrow> jsstring option \<Rightarrow> jsstring option" where
  "NodeFlag h countryCode = (let flag = countryFlagSource h countryCode in
     if flag \<noteq> [] then Some flag else None)"

definition SystemLogo :: "host \<Rightarrow> jsstring option \<Rightarrow> jsstring" where
  "SystemLogo h os = systemLogoSource h os"

definition logo_assets :: "jsstring list" where
  "logo_assets = js ''os-unknown.svg'' # map snd systemLogos"

section \<open>Properties\<close>

lemma two_lettersE:
  assumes "two_letters s"
  obtains a b where "s = [a, b]" "upper_letter a" "upper_letter b"
  using assms by (auto simp: two_letters_def length_Suc_conv numeral_2_eq_2)

text \<open>Whatever the agent reports, the flag is one of the bundled two-letter assets, or none.\<close>

theorem flag_source_safe:
  "NodeFlag h code = None \<or>
   (\<exists>a b. upper_letter a \<and> upper_letter b \<and>
     NodeFlag h code = Some (js ''/assets/flags/'' @ [a, b] @ js ''.svg?v=flag-icons-v1''))"
  by (auto simp: NodeFlag_def countryFlagSource_def Let_def elim!: two_lettersE)

lemma trim_ascii: "is_ascii s \<Longrightarrow> is_ascii (trim s)"
  using trim_subset [of s] by (auto simp: is_ascii_def list_all_iff)

theorem flag_source_ascii:
  assumes "is_ascii code" and "trim code = [c, d]"
  shows "countryFlagSource h (Some code) =
    (if upper_letter (upper_unit c) \<and> upper_letter (upper_unit d)
     then js ''/assets/flags/'' @ [upper_unit c, upper_unit d] @ js ''.svg?v=flag-icons-v1'' else [])"
  using trim_ascii [OF assms(1)] assms(2)
  by (simp add: countryFlagSource_def toUpperCase_def two_letters_def)

lemma logo_match_asset: "logo_match n = Some (ts, a) \<Longrightarrow> a \<in> set (map snd systemLogos)"
  by (force simp: logo_match_def dest!: find_Some_mem)

theorem logo_source_bundled:
  "\<exists>asset \<in> set logo_assets.
     SystemLogo h os = js ''/assets/logo/'' @ asset @ js ''?v=cf-monitor-v1''"
proof (cases "logo_match (case os of None \<Rightarrow> [] | Some v \<Rightarrow> toLowerCase h (trim v))")
  case None
  then show ?thesis by (simp add: SystemLogo_def systemLogoSource_def logo_assets_def)
next
  case (Some m)
  obtain ts a where "m = (ts, a)" by (cases m)
  with Some logo_match_asset have "a \<in> set logo_assets" by (auto simp: logo_assets_def)
  with Some \<open>m = (ts, a)\<close> show ?thesis
    by (auto simp: SystemLogo_def systemLogoSource_def Let_def)
qed

text \<open>
  A generic \<open>linux\<close> entry stands last, so a distribution name always wins over it: the logo of a
  name that contains a term of an entry is that of the first such entry.
\<close>

theorem first_logo_wins:
  assumes "systemLogos = xs @ (terms, asset) # ys"
    and "\<And>ts a t. (ts, a) \<in> set xs \<Longrightarrow> t \<in> set ts \<Longrightarrow> \<not> includes_str normalized t"
    and "t \<in> set terms" and "includes_str normalized t"
  shows "logo_match normalized = Some (terms, asset)"
proof -
  have "List.find (\<lambda>(ts, a). list_ex (includes_str normalized) ts) xs = None"
    using assms(2) by (auto simp: find_None_iff_all list_ex_iff)
  moreover have "list_ex (includes_str normalized) terms" using assms(3,4) by (auto simp: list_ex_iff)
  ultimately show ?thesis by (simp add: logo_match_def assms(1) find_append_none)
qed

end
