(* ===== verification/Types.thy ===== *)
theory Types
  imports JSString
begin

text \<open>
  \<open>web/src/types.ts\<close>: the records the API exchanges with the web client. A string-literal union
  of the source is a datatype, an optional field an \<open>option\<close>, a timestamp its string. Fields
  carry a two-letter prefix for their interface; \<open>AdminNode\<close> extends \<open>PublicNode\<close> as in the
  source. \<open>json\<close> is the type \<open>unknown\<close> of a value that came out of \<open>JSON.parse\<close>.
\<close>

section \<open>Literal unions\<close>

datatype json = JNull | JBool bool | JNum number | JStr jsstring | JArr "json list"
  | JObj "(jsstring \<times> json) list"

datatype localized_text = Plain jsstring | Table "(jsstring \<times> jsstring) list"

datatype pin_status = PinActive | PinUsed | PinExpired | PinRevoked

datatype node_role = RoleMonitor | RoleProbe

datatype probe_type = Icmp | Tcp | Http | Dns

datatype probe_purpose = Custom | LatencyPurpose | CarrierTelecom | CarrierUnicom | CarrierMobile

datatype alert_severity = Info | Warning | Critical

datatype event_status = Firing | Resolved

datatype channel_type = Smtp | Telegram | Bark | Webhook

section \<open>Records\<close>

record SiteSettings =
  ss_name :: "jsstring"
  ss_description :: "jsstring"
  ss_private :: "bool"
  ss_enrollment_enabled :: "bool"
  ss_enrollment_pin_weak :: "bool"
  ss_theme :: "jsstring"
  ss_record_enabled :: "bool"
  ss_raw_retention_hours :: "number"
  ss_five_minute_retention_hours :: "number"
  ss_hourly_retention_hours :: "number"
  ss_geoip_enabled :: "bool"
  ss_geoip_provider :: "jsstring"
  ss_custom_head :: "jsstring option"
  ss_custom_body :: "jsstring option"
  ss_theme_market_sources :: "(jsstring list) option"

record TemporaryEnrollmentPIN =
  tp_id :: "jsstring"
  tp_pin :: "jsstring option"
  tp_status :: "pin_status"
  tp_created_at :: "jsstring"
  tp_expires_at :: "jsstring"
  tp_used_at :: "jsstring option"
  tp_revoked_at :: "jsstring option"

record PublicNode =
  pn_id :: "jsstring"
  pn_role :: "node_role"
  pn_latency_enabled :: "bool"
  pn_name :: "jsstring"
  pn_group :: "jsstring option"
  pn_region :: "jsstring option"
  pn_country_code :: "jsstring option"
  pn_latitude :: "number option"
  pn_longitude :: "number option"
  pn_tags :: "jsstring list"
  pn_public_remark :: "jsstring option"
  pn_hidden :: "bool"
  pn_weight :: "number"
  pn_price :: "number"
  pn_currency :: "jsstring"
  pn_billing_cycle_days :: "number"
  pn_expires_at :: "jsstring option"
  pn_auto_renewal :: "bool"
  pn_traffic_limit :: "number"
  pn_traffic_limit_type :: "jsstring"
  pn_traffic_reset_day :: "number"
  pn_os :: "jsstring option"
  pn_arch :: "jsstring option"
  pn_cpu_name :: "jsstring option"
  pn_cpu_cores :: "number option"
  pn_virtualization :: "jsstring option"
  pn_kernel_version :: "jsstring option"
  pn_created_at :: "jsstring"
  pn_updated_at :: "jsstring"
  pn_last_seen_at :: "jsstring option"
  pn_online :: "bool"

record AdminNode = PublicNode +
  an_hostname :: "jsstring option"
  an_private_remark :: "jsstring option"
  an_agent_version :: "jsstring option"
  an_ipv4 :: "jsstring option"
  an_ipv6 :: "jsstring option"

record TrafficCorrectionStatus =
  tc_available :: "bool"
  tc_active :: "bool"
  tc_period_start :: "jsstring"
  tc_sample_received_at :: "jsstring option"
  tc_raw_rx_bytes :: "number"
  tc_raw_tx_bytes :: "number"
  tc_rx_bytes :: "number"
  tc_tx_bytes :: "number"
  tc_rx_adjustment :: "number"
  tc_tx_adjustment :: "number"
  tc_updated_at :: "jsstring option"

record AgentConfig =
  ac_collect_interval_seconds :: "number"
  ac_persist_interval_seconds :: "number"
  ac_include_nics :: "(jsstring list) option"
  ac_exclude_nics :: "(jsstring list) option"
  ac_include_mountpoints :: "(jsstring list) option"
  ac_enable_gpu :: "bool"
  ac_auto_update :: "bool"
  ac_probe_concurrency :: "number"
  ac_config_version :: "number"

record DiskMetric =
  dm_mountpoint :: "jsstring"
  dm_filesystem :: "jsstring option"
  dm_total :: "number"
  dm_used :: "number"
  dm_read_bps :: "number option"
  dm_write_bps :: "number option"
  dm_read_iops :: "number option"
  dm_write_iops :: "number option"

record NetworkMetric =
  nm_interface :: "jsstring"
  nm_rx_bps :: "number"
  nm_tx_bps :: "number"
  nm_rx_bytes :: "number"
  nm_tx_bytes :: "number"

record GPUMetric =
  gm_index :: "number"
  gm_name :: "jsstring"
  gm_utilization :: "number"
  gm_memory_total :: "number option"
  gm_memory_used :: "number option"
  gm_temperature :: "number option"

record MetricSample =
  ms_node_id :: "jsstring option"
  ms_sequence :: "number"
  ms_collected_at :: "jsstring"
  ms_received_at :: "jsstring option"
  ms_boot_id :: "jsstring option"
  ms_clock_offset_ms :: "number option"
  ms_cpu :: "number"
  ms_load1 :: "number"
  ms_load5 :: "number"
  ms_load15 :: "number"
  ms_memory_total :: "number"
  ms_memory_used :: "number"
  ms_swap_total :: "number"
  ms_swap_used :: "number"
  ms_disk_total :: "number"
  ms_disk_used :: "number"
  ms_net_rx_bps :: "number"
  ms_net_tx_bps :: "number"
  ms_net_rx_bytes :: "number"
  ms_net_tx_bytes :: "number"
  ms_monthly_rx_bytes :: "number option"
  ms_monthly_tx_bytes :: "number option"
  ms_tcp_connections :: "number"
  ms_udp_connections :: "number"
  ms_processes :: "number"
  ms_temperature :: "number option"
  ms_uptime_seconds :: "number"
  ms_disks :: "(DiskMetric list) option"
  ms_networks :: "(NetworkMetric list) option"
  ms_gpus :: "(GPUMetric list) option"
  ms_message :: "jsstring option"

record NodeSnapshot =
  sn_node :: "PublicNode"
  sn_metric :: "MetricSample option"

record ProbeTask =
  pt_id :: "number"
  pt_name :: "jsstring"
  pt_type :: "probe_type"
  pt_target :: "jsstring"
  pt_interval_seconds :: "number"
  pt_timeout_seconds :: "number"
  pt_expected_status :: "number option"
  pt_expected_value :: "jsstring option"
  pt_node_ids :: "(jsstring list) option"
  pt_purpose :: "probe_purpose option"
  pt_run_on :: "node_role option"
  pt_target_node_id :: "jsstring option"
  pt_public :: "bool"
  pt_samples :: "number"
  pt_enabled :: "bool"
  pt_created_at :: "jsstring option"
  pt_updated_at :: "jsstring option"

record ProbeResult =
  pr_node_id :: "jsstring option"
  pr_task_id :: "number"
  pr_collected_at :: "jsstring"
  pr_received_at :: "jsstring option"
  pr_success :: "bool"
  pr_latency_ms :: "number"
  pr_loss_percent :: "number"
  pr_status_code :: "number option"
  pr_value :: "jsstring option"
  pr_error :: "jsstring option"

record PublicProbeSnapshot =
  pp_task :: "ProbeTask"
  pp_results :: "ProbeResult list"

record LatencyProbeNode =
  lp_id :: "jsstring"
  lp_name :: "jsstring"
  lp_region :: "jsstring option"
  lp_country_code :: "jsstring option"
  lp_tags :: "jsstring list"
  lp_os :: "jsstring option"
  lp_arch :: "jsstring option"
  lp_last_seen_at :: "jsstring option"
  lp_online :: "bool"

record LatencyTarget =
  lt_task_id :: "number"
  lt_node :: "PublicNode"
  lt_type :: "probe_type"
  lt_interval_seconds :: "number"
  lt_samples :: "number"

record LatencyResult =
  lr_probe_node_id :: "jsstring"
  lr_target_node_id :: "jsstring"
  lr_task_id :: "number"
  lr_collected_at :: "jsstring"
  lr_received_at :: "jsstring"
  lr_success :: "bool"
  lr_latency_ms :: "number"
  lr_loss_percent :: "number"
  lr_error :: "jsstring option"

record LatencyWindowSummary =
  lw_average_latency_ms :: "number"
  lw_average_loss_percent :: "number"
  lw_sample_count :: "number"
  lw_success_count :: "number"

record LatencyOverview =
  lo_probe_nodes :: "LatencyProbeNode list"
  lo_targets :: "LatencyTarget list"
  lo_latest :: "LatencyResult list"
  lo_offline_after_ms :: "number"

record AlertScope =
  sc_groups :: "(jsstring list) option"
  sc_node_ids :: "(jsstring list) option"
  sc_excluded_node_ids :: "(jsstring list) option"

record AlertRule =
  ar_id :: "number"
  ar_name :: "jsstring"
  ar_metric :: "jsstring"
  ar_operator :: "jsstring"
  ar_threshold :: "number"
  ar_recovery_threshold :: "number"
  ar_duration_seconds :: "number"
  ar_cooldown_seconds :: "number"
  ar_severity :: "alert_severity"
  ar_scope :: "AlertScope"
  ar_enabled :: "bool"
  ar_created_at :: "jsstring option"
  ar_updated_at :: "jsstring option"

record AlertEvent =
  ae_event_id :: "jsstring"
  ae_type :: "jsstring"
  ae_status :: "event_status"
  ae_severity :: "jsstring"
  ae_occurred_at :: "jsstring"
  ae_node :: "PublicNode"
  ae_metric :: "jsstring"
  ae_value :: "number"
  ae_threshold :: "number"
  ae_link :: "jsstring"
  ae_message :: "jsstring"

record NotificationChannel =
  nc_id :: "number"
  nc_name :: "jsstring"
  nc_type :: "channel_type"
  nc_config :: "((jsstring \<times> json) list) option"
  nc_enabled :: "bool"
  nc_created_at :: "jsstring option"
  nc_updated_at :: "jsstring option"

record ThemeConfiguration =
  cf_type :: "jsstring option"
  cf_icon :: "jsstring option"
  cf_name :: "json option"
  cf_data :: "json option"

record ThemeManifest =
  tm_name :: "localized_text"
  tm_short :: "jsstring"
  tm_description :: "localized_text option"
  tm_version :: "jsstring option"
  tm_author :: "localized_text option"
  tm_url :: "jsstring option"
  tm_preview :: "jsstring option"
  tm_configuration :: "ThemeConfiguration option"

record Theme =
  th_manifest :: "ThemeManifest"
  th_settings :: "(jsstring \<times> json) list"
  th_source_url :: "jsstring option"
  th_checksum :: "jsstring"
  th_installed_at :: "jsstring"
  th_updated_at :: "jsstring"

record AuditEntry =
  au_id :: "number"
  au_actor :: "jsstring"
  au_action :: "jsstring"
  au_target :: "jsstring"
  au_detail :: "jsstring"
  au_occurred_at :: "jsstring"

end
