(* ===== verification/Latency.thy ===== *)
theory Latency
  imports Types
begin

text \<open>
  \<open>web/src/latency.ts\<close>: the value a latency sample is charted with and the summary of a window
  of samples. The accumulators of the loop are Numbers, so the averages are rounded sums divided
  by counts; the bounds below hold for the rounded arithmetic.
\<close>

section \<open>Definitions\<close>

definition FAILED_LATENCY_MS :: number where
  "FAILED_LATENCY_MS = Fin 999"

text \<open>\<open>Pick<LatencyResult, 'success' | 'latency_ms' | 'loss_percent'>\<close>.\<close>

record LatencySample =
  sa_success :: bool
  sa_latency_ms :: number
  sa_loss_percent :: number

definition sample_of :: "LatencyResult \<Rightarrow> LatencySample" where
  "sample_of r = \<lparr>sa_success = lr_success r, sa_latency_ms = lr_latency_ms r,
     sa_loss_percent = lr_loss_percent r\<rparr>"

definition measured :: "LatencySample \<Rightarrow> bool" where
  "measured s \<longleftrightarrow> sa_success s \<and> isFinite (sa_latency_ms s) \<and> sa_latency_ms s \<ge> Fin 0"

definition latencyChartValue :: "LatencySample \<Rightarrow> number" where
  "latencyChartValue s = (if measured s then sa_latency_ms s else FAILED_LATENCY_MS)"

record window_totals =
  latencyTotal :: number
  successCount :: nat
  lossTotal :: number
  lossCount :: nat

text \<open>One iteration of the loop over the samples.\<close>

definition add_sample :: "window_totals \<Rightarrow> LatencySample \<Rightarrow> window_totals" where
  "add_sample t s =
     (let t1 = (if measured s
        then t\<lparr>latencyTotal := latencyTotal t + sa_latency_ms s, successCount := Suc (successCount t)\<rparr>
        else t) in
      if isFinite (sa_loss_percent s)
      then t1\<lparr>lossTotal := lossTotal t1 + math_min (Fin 100) (math_max (Fin 0) (sa_loss_percent s)),
        lossCount := Suc (lossCount t1)\<rparr>
      else t1)"

definition window_total :: "LatencySample list \<Rightarrow> window_totals" where
  "window_total samples = foldl add_sample
     \<lparr>latencyTotal = Fin 0, successCount = 0, lossTotal = Fin 0, lossCount = 0\<rparr> samples"

definition summarizeLatencyWindow :: "LatencySample list \<Rightarrow> LatencyWindowSummary" where
  "summarizeLatencyWindow samples = (let t = window_total samples in
     \<lparr>lw_average_latency_ms =
        (if successCount t > 0 then latencyTotal t / num_of_nat (successCount t)
         else if length samples > 0 then FAILED_LATENCY_MS else Fin 0),
      lw_average_loss_percent =
        (if lossCount t > 0 then lossTotal t / num_of_nat (lossCount t) else Fin 0),
      lw_sample_count = num_of_nat (length samples),
      lw_success_count = num_of_nat (successCount t)\<rparr>)"

section \<open>The loop, accumulator by accumulator\<close>

definition measured_values :: "LatencySample list \<Rightarrow> real list" where
  "measured_values ss = [x. s \<leftarrow> ss, measured s, Fin x \<leftarrow> [sa_latency_ms s]]"

definition loss_values :: "LatencySample list \<Rightarrow> real list" where
  "loss_values ss = [min 100 (max 0 x). s \<leftarrow> ss, Fin x \<leftarrow> [sa_loss_percent s]]"

lemma measuredE:
  assumes "measured s"
  obtains x where "sa_latency_ms s = Fin x" "0 \<le> x"
  using assms by (auto simp: measured_def isFinite_iff)

lemma measured_values_Cons: "measured_values (s # ss) =
    (if measured s then (case sa_latency_ms s of Fin x \<Rightarrow> [x] | _ \<Rightarrow> []) else []) @ measured_values ss"
  by (auto simp: measured_values_def split: number.splits)

lemma loss_values_Cons: "loss_values (s # ss) =
    (case sa_loss_percent s of Fin x \<Rightarrow> [min 100 (max 0 x)] | _ \<Rightarrow> []) @ loss_values ss"
  by (auto simp: loss_values_def split: number.splits)

lemma loss_values_range: "v \<in> set (loss_values ss) \<Longrightarrow> 0 \<le> v \<and> v \<le> 100"
  by (auto simp: loss_values_def split: number.splits)

lemma measured_values_nonneg: "v \<in> set (measured_values ss) \<Longrightarrow> 0 \<le> v"
  by (auto simp: measured_values_def elim!: measuredE)

lemma values_append:
  "measured_values (s # ss) = measured_values [s] @ measured_values ss"
  "loss_values (s # ss) = loss_values [s] @ loss_values ss"
  by (simp_all add: measured_values_def loss_values_def)

lemma add_sample_eq:
  "add_sample t s =
    \<lparr>latencyTotal = foldl (\<lambda>a v. a + Fin v) (latencyTotal t) (measured_values [s]),
     successCount = successCount t + length (measured_values [s]),
     lossTotal = foldl (\<lambda>a v. a + Fin v) (lossTotal t) (loss_values [s]),
     lossCount = lossCount t + length (loss_values [s])\<rparr>"
proof (cases "measured s")
  case True
  then obtain x where "sa_latency_ms s = Fin x" by (rule measuredE)
  with True show ?thesis
    by (cases "sa_loss_percent s") (simp_all add: add_sample_def measured_values_def loss_values_def)
next
  case False
  then show ?thesis
    by (cases "sa_loss_percent s") (simp_all add: add_sample_def measured_values_def loss_values_def)
qed

lemma window_split:
  "foldl add_sample t ss =
    \<lparr>latencyTotal = foldl (\<lambda>a v. a + Fin v) (latencyTotal t) (measured_values ss),
     successCount = successCount t + length (measured_values ss),
     lossTotal = foldl (\<lambda>a v. a + Fin v) (lossTotal t) (loss_values ss),
     lossCount = lossCount t + length (loss_values ss)\<rparr>"
proof (induction ss arbitrary: t)
  case Nil
  show ?case by (simp add: measured_values_def loss_values_def)
next
  case (Cons s ss)
  have "foldl add_sample t (s # ss) = foldl add_sample (add_sample t s) ss" by simp
  also have "\<dots> = \<lparr>latencyTotal = foldl (\<lambda>a v. a + Fin v) (latencyTotal (add_sample t s)) (measured_values ss),
     successCount = successCount (add_sample t s) + length (measured_values ss),
     lossTotal = foldl (\<lambda>a v. a + Fin v) (lossTotal (add_sample t s)) (loss_values ss),
     lossCount = lossCount (add_sample t s) + length (loss_values ss)\<rparr>"
    by (rule Cons.IH)
  finally show ?case
    by (simp only: values_append [of s ss] foldl_append length_append add_sample_eq [of t s]
        window_totals.simps add.assoc)
qed

lemma successCount_eq: "successCount (window_total ss) = length (filter measured ss)"
proof -
  have "length (measured_values ss) = length (filter measured ss)"
  proof (induction ss)
    case (Cons s ss)
    then show ?case by (cases "measured s") (auto simp: measured_values_Cons elim!: measuredE)
  qed (simp add: measured_values_def)
  then show ?thesis by (simp add: window_total_def window_split)
qed

section \<open>Rounded sums\<close>

lemma grid_multiple:
  assumes "k \<le> n" and "n * c \<le> 2 ^ 53"
  shows "representable (of_nat k * of_nat c)"
proof -
  have "k * c \<le> 2 ^ 53" using assms by (meson le_trans mult_le_mono1)
  then have "int (k * c) \<le> int (2 ^ 53)" by (simp only: of_nat_le_iff)
  then have "\<bar>int (k * c)\<bar> \<le> 2 ^ 53" by simp
  from representable_of_int [OF this] show ?thesis by simp
qed

lemma real_le_grid: "k \<le> 2 ^ 53 \<Longrightarrow> real k \<le> 2 ^ 53"
  using of_nat_le_iff [of k "2 ^ 53", where 'a = real] by (simp only: of_nat_power of_nat_numeral)

text \<open>Adding up non-negative values never overflows while the sum of the bounds is a safe integer.\<close>

lemma number_sum:
  assumes "\<And>v. v \<in> set vs \<Longrightarrow> 0 \<le> v \<and> v \<le> of_nat c" and "n * c \<le> 2 ^ 53"
    and "0 \<le> acc" and "acc \<le> of_nat i * of_nat c" and "i + length vs \<le> n"
  shows "foldl (\<lambda>a v. a + Fin v) (Fin acc) vs = Fin (foldl (\<lambda>a v. round64 (a + v)) acc vs)"
  using assms(1,3-5)
proof (induction vs arbitrary: acc i)
  case (Cons v vs)
  have v: "0 \<le> v" "v \<le> of_nat c" using Cons.prems(1) by auto
  have le: "acc + v \<le> of_nat (Suc i) * of_nat c" using v Cons.prems(3) by (simp add: algebra_simps)
  have "Suc i \<le> n" using Cons.prems(4) by simp
  from le_trans [OF mult_le_mono1 [OF this] assms(2)] have "Suc i * c \<le> 2 ^ 53" .
  then have "real (Suc i * c) \<le> 2 ^ 53" by (rule real_le_grid)
  then have "acc + v \<le> 2 ^ 53" using le by (simp only: of_nat_mult)
  then have s: "Fin acc + Fin v = Fin (round64 (acc + v))" using fl_small [of "acc + v"] v Cons.prems(2) by simp
  have "representable (of_nat (Suc i) * of_nat c)" using \<open>Suc i \<le> n\<close> assms(2) by (rule grid_multiple)
  then have "round64 (acc + v) \<le> of_nat (Suc i) * of_nat c" using le by (rule b64.rnd_le [rotated])
  moreover have "0 \<le> round64 (acc + v)"
    using v Cons.prems(2) representable_of_int [of 0] by (intro b64.rnd_ge) auto
  ultimately have "foldl (\<lambda>a v. a + Fin v) (Fin (round64 (acc + v))) vs
      = Fin (foldl (\<lambda>a v. round64 (a + v)) (round64 (acc + v)) vs)"
    using Cons.prems by (intro Cons.IH [of _ "Suc i"]) auto
  with s show ?case by simp
qed simp

lemma mean_bounds:
  assumes "\<And>v. v \<in> set vs \<Longrightarrow> 0 \<le> v \<and> v \<le> of_nat c" and "length vs * c \<le> 2 ^ 53"
    and "c \<le> 2 ^ 53" and "vs \<noteq> []"
  obtains m where "foldl (\<lambda>a v. a + Fin v) (Fin 0) vs / num_of_nat (length vs) = Fin m"
    and "0 \<le> m" and "m \<le> of_nat c"
proof -
  let ?s = "foldl (\<lambda>a v. round64 (a + v)) 0 vs"
  have sum: "foldl (\<lambda>a v. a + Fin v) (Fin 0) vs = Fin ?s"
    using number_sum [of vs c "length vs" 0 0] assms(1,2) by simp
  have b: "0 \<le> ?s" "?s \<le> of_nat (length vs) * of_nat c"
    using b64.rounded_sum_bounds [of "length vs" "of_nat c" vs 0 0] assms(1)
      grid_multiple [of _ "length vs" c] assms(2) by auto
  have l: "0 < length vs" using assms(4) by simp
  then have q: "0 \<le> ?s / of_nat (length vs)" "?s / of_nat (length vs) \<le> of_nat c"
    using b by (simp_all add: field_simps)
  have "int c \<le> int (2 ^ 53)" using assms(3) by (simp only: of_nat_le_iff)
  then have "int c \<le> 2 ^ 53" by simp
  then obtain m where "fl (?s / of_nat (length vs)) = Fin m" "0 \<le> m" "m \<le> of_nat c"
    using q fl_between_int [of 0 "int c" "?s / of_nat (length vs)"] by auto
  with that sum l show thesis by simp
qed

section \<open>Properties\<close>

lemma length_loss_values: "length (loss_values ss) \<le> length ss"
proof (induction ss)
  case (Cons s ss)
  then show ?case by (cases "sa_loss_percent s") (auto simp: loss_values_Cons)
qed (simp add: loss_values_def)

text \<open>
  C23: The average packet loss of a window is a percentage between 0 and 100, whatever the samples
  report.
\<close>

theorem average_loss_in_range:
  assumes "length samples \<le> 2 ^ 46"
  shows "\<exists>p. lw_average_loss_percent (summarizeLatencyWindow samples) = Fin p \<and> 0 \<le> p \<and> p \<le> 100"
proof (cases "loss_values samples = []")
  case True
  then show ?thesis by (simp add: summarizeLatencyWindow_def window_total_def window_split Let_def)
next
  case False
  have "length (loss_values samples) * 100 \<le> 2 ^ 53"
    using length_loss_values [of samples] assms by simp
  then obtain m where "foldl (\<lambda>a v. a + Fin v) (Fin 0) (loss_values samples) /
      num_of_nat (length (loss_values samples)) = Fin m" "0 \<le> m" "m \<le> of_nat 100"
    by (rule mean_bounds [of "loss_values samples" 100, rotated]) (use loss_values_range False in auto)
  with False show ?thesis
    by (simp add: summarizeLatencyWindow_def window_total_def window_split Let_def)
qed

theorem average_loss_in_range_witness:
  "length [\<lparr>sa_success = True, sa_latency_ms = Fin 12, sa_loss_percent = Fin 250\<rparr>] \<le> 2 ^ 46 \<and>
   (\<exists>p. lw_average_loss_percent (summarizeLatencyWindow
     [\<lparr>sa_success = True, sa_latency_ms = Fin 12, sa_loss_percent = Fin 250\<rparr>]) = Fin p \<and> 0 \<le> p \<and> p \<le> 100)"
  using average_loss_in_range
    [of "[\<lparr>sa_success = True, sa_latency_ms = Fin 12, sa_loss_percent = Fin 250\<rparr>]"] by simp

theorem window_counts:
  "lw_sample_count (summarizeLatencyWindow samples) = num_of_nat (length samples) \<and>
   lw_success_count (summarizeLatencyWindow samples) = num_of_nat (length (filter measured samples)) \<and>
   (filter measured samples = [] \<longrightarrow>
     lw_average_latency_ms (summarizeLatencyWindow samples) =
       (if samples = [] then Fin 0 else FAILED_LATENCY_MS))"
  by (simp add: summarizeLatencyWindow_def Let_def successCount_eq)

theorem window_counts_witness:
  "lw_average_latency_ms (summarizeLatencyWindow
     [\<lparr>sa_success = False, sa_latency_ms = Fin 0, sa_loss_percent = Fin 100\<rparr>]) = FAILED_LATENCY_MS"
  using window_counts [of "[\<lparr>sa_success = False, sa_latency_ms = Fin 0, sa_loss_percent = Fin 100\<rparr>]"]
  by (simp add: measured_def)

lemma length_measured_values: "length (measured_values ss) = length (filter measured ss)"
  using successCount_eq [of ss] by (simp add: window_total_def window_split)

text \<open>
  C24: The average latency of a window with measured samples is finite, not negative and at most
  every whole number of milliseconds that bounds the measured latencies, as long as that bound
  times the number of samples is at most 2^53 (the rounded average may exceed the worst fractional
  sample by a rounding error, never the next whole number).
\<close>

theorem average_latency_bounded:
  assumes "filter measured samples \<noteq> []"
    and "\<And>s. s \<in> set samples \<Longrightarrow> measured s \<Longrightarrow> sa_latency_ms s \<le> num_of_nat worst"
    and "length samples * worst \<le> 2 ^ 53" and "worst \<le> 2 ^ 53"
  shows "\<exists>m. lw_average_latency_ms (summarizeLatencyWindow samples) = Fin m \<and>
    0 \<le> m \<and> m \<le> of_nat worst"
proof -
  let ?vs = "measured_values samples"
  have n: "length ?vs = length (filter measured samples)" by (rule length_measured_values)
  have "length ?vs * worst \<le> 2 ^ 53"
    using n assms(3) by (metis le_trans length_filter_le mult_le_mono1)
  moreover have "0 \<le> v \<and> v \<le> of_nat worst" if "v \<in> set ?vs" for v
  proof -
    from that obtain s where "s \<in> set samples" "measured s" "sa_latency_ms s = Fin v"
      by (auto simp: measured_values_def split: number.splits if_splits)
    then show ?thesis using assms(2) [of s] measured_values_nonneg [OF that] by simp
  qed
  moreover have "?vs \<noteq> []" using n assms(1) by (metis length_0_conv)
  ultimately obtain m where "foldl (\<lambda>a v. a + Fin v) (Fin 0) ?vs / num_of_nat (length ?vs) = Fin m"
    "0 \<le> m" "m \<le> of_nat worst" using mean_bounds [of ?vs worst] assms(4) by blast
  then show ?thesis using \<open>?vs \<noteq> []\<close>
    by (simp add: summarizeLatencyWindow_def window_total_def window_split Let_def)
qed

theorem average_latency_bounded_witness:
  "\<exists>m. lw_average_latency_ms (summarizeLatencyWindow
     [\<lparr>sa_success = True, sa_latency_ms = Fin 12, sa_loss_percent = Fin 0\<rparr>,
      \<lparr>sa_success = False, sa_latency_ms = Fin 4000, sa_loss_percent = Fin 100\<rparr>,
      \<lparr>sa_success = True, sa_latency_ms = Fin 17, sa_loss_percent = Fin 0\<rparr>]) = Fin m \<and>
     0 \<le> m \<and> m \<le> of_nat 17"
  by (rule average_latency_bounded) (auto simp: measured_def)

theorem chart_value_drawable:
  "\<exists>x. latencyChartValue s = Fin x \<and> 0 \<le> x"
  by (auto simp: latencyChartValue_def FAILED_LATENCY_MS_def elim!: measuredE)

end
