(* ===== verification/JSDate.thy ===== *)
theory JSDate
  imports JSString
begin

text \<open>
  \<open>Date\<close>: the time value of \<open>new Date(s)\<close> for the Date Time String Format of ECMAScript (which
  contains the RFC 3339 timestamps that the API sends, with any number of fraction digits,
  truncated to milliseconds) and \<open>toISOString\<close>. A string outside that format has the time value
  NaN. A date-time without an offset is local time, which the host converts.
\<close>

section \<open>The calendar\<close>

definition leap_year :: "int \<Rightarrow> bool" where
  "leap_year y \<longleftrightarrow> 4 dvd y \<and> (\<not> 100 dvd y \<or> 400 dvd y)"

definition day_from_year :: "int \<Rightarrow> int" where
  "day_from_year y =
     365 * (y - 1970) + (y - 1969) div 4 - (y - 1901) div 100 + (y - 1601) div 400"

text \<open>Days before each month of a common year.\<close>

definition month_offset :: "int \<Rightarrow> int \<Rightarrow> int" where
  "month_offset y m =
     (if m = 1 then 0 else if m = 2 then 31
      else (if leap_year y then 1 else 0) +
        (if m = 3 then 59 else if m = 4 then 90 else if m = 5 then 120 else if m = 6 then 151
         else if m = 7 then 181 else if m = 8 then 212 else if m = 9 then 243
         else if m = 10 then 273 else if m = 11 then 304 else if m = 12 then 334 else 365))"

definition month_days :: "int \<Rightarrow> int \<Rightarrow> int" where
  "month_days y m = month_offset y (m + 1) - month_offset y m"

definition make_day :: "int \<Rightarrow> int \<Rightarrow> int \<Rightarrow> int" where
  "make_day y m d = day_from_year y + month_offset y m + d - 1"

text \<open>The largest year that starts no later than the day, from an estimate that is off by at most one.\<close>

definition year_from_day :: "int \<Rightarrow> int" where
  "year_from_day n = (let y = (400 * n) div 146097 + 1970 in
     if day_from_year (y + 1) \<le> n then y + 1 else if day_from_year y \<le> n then y else y - 1)"

definition month_from_day :: "int \<Rightarrow> int \<Rightarrow> int" where
  "month_from_day y r =
     (if r < month_offset y 2 then 1 else if r < month_offset y 3 then 2
      else if r < month_offset y 4 then 3 else if r < month_offset y 5 then 4
      else if r < month_offset y 6 then 5 else if r < month_offset y 7 then 6
      else if r < month_offset y 8 then 7 else if r < month_offset y 9 then 8
      else if r < month_offset y 10 then 9 else if r < month_offset y 11 then 10
      else if r < month_offset y 12 then 11 else 12)"

definition ms_per_day :: int where
  "ms_per_day = 86400000"

definition time_clip :: "int \<Rightarrow> number" where
  "time_clip t = (if \<bar>t\<bar> \<le> 8640000000000000 then Fin (of_int t) else NaN)"

section \<open>Parsing\<close>

text \<open>Exactly \<open>k\<close> decimal digits, and the rest.\<close>

definition take_digits :: "nat \<Rightarrow> jsstring \<Rightarrow> (int \<times> jsstring) option" where
  "take_digits k s = (if length (take k s) = k \<and> list_all is_digit (take k s)
     then Some (int (digits_value (take k s)), drop k s) else None)"

text \<open>A separator followed by \<open>k\<close> digits.\<close>

definition take_field :: "nat \<Rightarrow> nat \<Rightarrow> jsstring \<Rightarrow> (int \<times> jsstring) option" where
  "take_field c k s = (case s of [] \<Rightarrow> None
     | x # xs \<Rightarrow> if x = c then take_digits k xs else None)"

definition parse_year :: "jsstring \<Rightarrow> (int \<times> jsstring) option" where
  "parse_year s = (case s of [] \<Rightarrow> None
     | c # cs \<Rightarrow> if c = 43 then take_digits 6 cs
       else if c = 45 then (case take_digits 6 cs of
           Some (y, r) \<Rightarrow> if y = 0 then None else Some (- y, r) | None \<Rightarrow> None)
       else take_digits 4 s)"

text \<open>Year, month and day; a missing month or day is 1.\<close>

definition parse_day :: "jsstring \<Rightarrow> (int \<times> int \<times> int \<times> jsstring) option" where
  "parse_day s = (case parse_year s of None \<Rightarrow> None
     | Some (y, r) \<Rightarrow> (case take_field 45 2 r of None \<Rightarrow> Some (y, 1, 1, r)
       | Some (m, r') \<Rightarrow> (case take_field 45 2 r' of None \<Rightarrow> Some (y, m, 1, r')
         | Some (d, r'') \<Rightarrow> Some (y, m, d, r''))))"

definition parse_fraction :: "jsstring \<Rightarrow> (int \<times> jsstring) option" where
  "parse_fraction s = (let f = takeWhile is_digit s in
     if f = [] then None
     else Some (int (digits_value (take 3 (f @ [48, 48]))), dropWhile is_digit s))"

text \<open>Hours, minutes, seconds and milliseconds.\<close>

definition parse_clock :: "jsstring \<Rightarrow> (int \<times> int \<times> int \<times> int \<times> jsstring) option" where
  "parse_clock s = (case take_digits 2 s of None \<Rightarrow> None
     | Some (hh, r) \<Rightarrow> (case take_field 58 2 r of None \<Rightarrow> None
       | Some (mi, r') \<Rightarrow> (case take_field 58 2 r' of None \<Rightarrow> Some (hh, mi, 0, 0, r')
         | Some (ss, r'') \<Rightarrow> (case r'' of [] \<Rightarrow> Some (hh, mi, ss, 0, r'')
           | c # cs \<Rightarrow> if c = 46 then (case parse_fraction cs of None \<Rightarrow> None
               | Some (ms, r''') \<Rightarrow> Some (hh, mi, ss, ms, r'''))
             else Some (hh, mi, ss, 0, r'')))))"

text \<open>The offset in minutes; \<open>None\<close> inside for local time.\<close>

definition parse_offset :: "jsstring \<Rightarrow> int option option" where
  "parse_offset s = (case s of [] \<Rightarrow> Some None
     | c # cs \<Rightarrow> if c = 90 then (if cs = [] then Some (Some 0) else None)
       else if c = 43 \<or> c = 45 then
         (case take_digits 2 cs of None \<Rightarrow> None
          | Some (hh, r) \<Rightarrow> (case take_field 58 2 r of None \<Rightarrow> None
            | Some (mm, r') \<Rightarrow> if r' = [] \<and> hh \<le> 23 \<and> mm \<le> 59
                then Some (Some ((if c = 45 then -1 else 1) * (60 * hh + mm))) else None))
       else None)"

definition valid_day :: "int \<Rightarrow> int \<Rightarrow> int \<Rightarrow> bool" where
  "valid_day y m d \<longleftrightarrow> 1 \<le> m \<and> m \<le> 12 \<and> 1 \<le> d \<and> d \<le> month_days y m"

definition valid_clock :: "int \<Rightarrow> int \<Rightarrow> int \<Rightarrow> int \<Rightarrow> bool" where
  "valid_clock hh mi ss ms \<longleftrightarrow> hh \<le> 23 \<and> mi \<le> 59 \<and> ss \<le> 59 \<or> hh = 24 \<and> mi = 0 \<and> ss = 0 \<and> ms = 0"

text \<open>\<open>new Date(s).getTime()\<close>.\<close>

definition date_time :: "host \<Rightarrow> jsstring \<Rightarrow> number" where
  "date_time h s = (case parse_day s of None \<Rightarrow> NaN
     | Some (y, m, d, r) \<Rightarrow>
       if \<not> valid_day y m d then NaN
       else (case r of [] \<Rightarrow> time_clip (make_day y m d * ms_per_day)
       | c # cs \<Rightarrow> if c \<noteq> 84 then NaN
         else (case parse_clock cs of None \<Rightarrow> NaN
         | Some (hh, mi, ss, ms, r') \<Rightarrow>
           if \<not> valid_clock hh mi ss ms then NaN
           else (let t = make_day y m d * ms_per_day + hh * 3600000 + mi * 60000 + ss * 1000 + ms in
             case parse_offset r' of None \<Rightarrow> NaN
             | Some (Some off) \<Rightarrow> time_clip (t - off * 60000)
             | Some None \<Rightarrow> time_clip (utc_of_local h t)))))"

section \<open>Printing\<close>

definition pad_digits :: "nat \<Rightarrow> int \<Rightarrow> jsstring" where
  "pad_digits k n = (let m = nat_digits (nat n) in replicate (k - length m) 48 @ m)"

definition year_string :: "int \<Rightarrow> jsstring" where
  "year_string y = (if 0 \<le> y \<and> y \<le> 9999 then pad_digits 4 y
     else (if y < 0 then 45 else 43) # pad_digits 6 \<bar>y\<bar>)"

text \<open>\<open>new Date(t).toISOString()\<close>; an invalid date throws a RangeError, here \<open>None\<close>.\<close>

fun toISOString :: "number \<Rightarrow> jsstring option" where
  "toISOString (Fin x) = (let t = \<lfloor>x\<rfloor>; n = t div ms_per_day; r = t mod ms_per_day;
     y = year_from_day n; q = n - day_from_year y; m = month_from_day y q in
     Some (year_string y @ [45] @ pad_digits 2 m @ [45] @ pad_digits 2 (q - month_offset y m + 1) @ [84] @
       pad_digits 2 (r div 3600000) @ [58] @ pad_digits 2 (r div 60000 mod 60) @ [58] @
       pad_digits 2 (r div 1000 mod 60) @ [46] @ pad_digits 3 (r mod 1000) @ [90]))"
| "toISOString _ = None"

section \<open>Laws\<close>

lemma date_time_cases: obtains "date_time h s = NaN" | t where "date_time h s = Fin (of_int t)"
  "\<bar>t\<bar> \<le> 8640000000000000"
proof -
  have "time_clip t = NaN \<or> (\<exists>t'. time_clip t = Fin (of_int t') \<and> \<bar>t'\<bar> \<le> 8640000000000000)" for t
    by (auto simp: time_clip_def)
  then have "date_time h s = NaN \<or>
      (\<exists>t. date_time h s = Fin (of_int t) \<and> \<bar>t\<bar> \<le> 8640000000000000)"
    by (auto simp: date_time_def Let_def split: option.splits list.splits prod.splits)
  then show thesis using that by blast
qed

lemmas date_eval = date_time_def parse_day_def parse_year_def take_digits_def take_field_def
  is_digit_def digits_value_def valid_day_def month_days_def month_offset_def leap_year_def
  parse_clock_def parse_fraction_def valid_clock_def parse_offset_def make_day_def
  day_from_year_def ms_per_day_def time_clip_def

end
