(* ===== verification/Format.thy ===== *)
theory Format
  imports Traffic I18n JSDate Types
begin

text \<open>
  \<open>web/src/format.ts\<close>: byte counts, rates, percentages, durations and times as text. The locale
  (\<open>localeCode()\<close>) and the clock (\<open>Date.now()\<close>) are arguments. The proofs compare the rounded
  arithmetic of the code with whole-number division.
\<close>

section \<open>Definitions\<close>

text \<open>\<open>1024 ** index\<close> for an index that \<open>Math.floor\<close> made integral: a power of two, hence exact.\<close>

fun pow1024 :: "number \<Rightarrow> number" where
  "pow1024 (Fin i) = fl (1024 powi \<lfloor>i\<rfloor>)"
| "pow1024 PosInf = PosInf"
| "pow1024 NegInf = Fin 0"
| "pow1024 NaN = NaN"

definition byte_units :: "jsstring list" where
  "byte_units = [js ''B'', js ''KiB'', js ''MiB'', js ''GiB'', js ''TiB'', js ''PiB'']"

text \<open>\<open>${units[index]}\<close>: an index outside the array reads \<open>undefined\<close>.\<close>

fun unit_name :: "number \<Rightarrow> jsstring" where
  "unit_name (Fin i) =
     (if 0 \<le> i \<and> nat \<lfloor>i\<rfloor> < length byte_units then byte_units ! nat \<lfloor>i\<rfloor> else js ''undefined'')"
| "unit_name _ = js ''undefined''"

definition byte_index :: "host \<Rightarrow> number \<Rightarrow> number" where
  "byte_index h value = math_min (math_floor (math_log h value / math_log h (Fin 1024)))
     (num_of_nat (length byte_units - 1))"

definition bytes :: "host \<Rightarrow> number \<Rightarrow> nat \<Rightarrow> jsstring" where
  "bytes h value precision =
     (if \<not> isFinite value \<or> value \<le> Fin 0 then js ''0 B''
      else (let index = byte_index h value in
        toFixed (value / pow1024 index) (if strict_equal index (Fin 0) then 0 else precision) @
        js '' '' @ unit_name index))"

definition rate :: "host \<Rightarrow> number \<Rightarrow> jsstring" where
  "rate h value = bytes h value 1 @ js ''/s''"

definition percent :: "number \<Rightarrow> number \<Rightarrow> number" where
  "percent used whole =
     (if whole > Fin 0 then math_min (Fin 100) (math_max (Fin 0) ((used / whole) * Fin 100)) else Fin 0)"

text \<open>The Chinese unit names, as UTF-16 code units.\<close>

definition zh_day :: jsstring where "zh_day = [22825]"
definition zh_hour :: jsstring where "zh_hour = [23567, 26102]"
definition zh_minute :: jsstring where "zh_minute = [20998, 38047]"
definition zh_second :: jsstring where "zh_second = [31186]"
definition zh_ago :: jsstring where "zh_ago = [21069]"
definition zh_just_now :: jsstring where "zh_just_now = [21018, 21018]"
definition zh_never :: jsstring where "zh_never = [20174, 26410]"

definition duration :: "AppLocale \<Rightarrow> number \<Rightarrow> jsstring" where
  "duration l seconds =
     (let days = math_floor (seconds / Fin 86400);
          hours = math_floor (num_rem seconds (Fin 86400) / Fin 3600);
          minutes = math_floor (num_rem seconds (Fin 3600) / Fin 60) in
      if l = zh_CN then
        (if days > Fin 0 then num_string days @ zh_day @ js '' '' @ num_string hours @ zh_hour
         else if hours > Fin 0 then num_string hours @ zh_hour @ js '' '' @ num_string minutes @ zh_minute
         else num_string minutes @ zh_minute)
      else if days > Fin 0 then num_string days @ js ''d '' @ num_string hours @ js ''h''
      else if hours > Fin 0 then num_string hours @ js ''h '' @ num_string minutes @ js ''m''
      else num_string minutes @ js ''m'')"

definition relativeTime :: "host \<Rightarrow> AppLocale \<Rightarrow> number \<Rightarrow> jsstring option \<Rightarrow> jsstring" where
  "relativeTime h l now value = (case value of
     None \<Rightarrow> if l = zh_CN then zh_never else js ''never''
   | Some v \<Rightarrow>
      if v = [] then (if l = zh_CN then zh_never else js ''never'')
      else (let seconds = math_max (Fin 0) (math_round ((now - date_time h v) / Fin 1000)) in
        if l = zh_CN then
          (if seconds < Fin 10 then zh_just_now
           else if seconds < Fin 60 then num_string seconds @ js '' '' @ zh_second @ zh_ago
           else if seconds < Fin 3600 then num_string (math_floor (seconds / Fin 60)) @ js '' '' @ zh_minute @ zh_ago
           else if seconds < Fin 86400 then num_string (math_floor (seconds / Fin 3600)) @ js '' '' @ zh_hour @ zh_ago
           else num_string (math_floor (seconds / Fin 86400)) @ js '' '' @ zh_day @ zh_ago)
        else if seconds < Fin 10 then js ''now''
        else if seconds < Fin 60 then num_string seconds @ js ''s ago''
        else if seconds < Fin 3600 then num_string (math_floor (seconds / Fin 60)) @ js ''m ago''
        else if seconds < Fin 86400 then num_string (math_floor (seconds / Fin 3600)) @ js ''h ago''
        else num_string (math_floor (seconds / Fin 86400)) @ js ''d ago''))"

text \<open>\<open>Intl.DateTimeFormat.format\<close> throws a \<open>RangeError\<close> for an invalid date: \<open>None\<close>.\<close>

definition dateTime :: "host \<Rightarrow> AppLocale \<Rightarrow> jsstring option \<Rightarrow> jsstring option" where
  "dateTime h l value = (case value of
     None \<Rightarrow> Some [8212]
   | Some v \<Rightarrow> if v = [] then Some [8212]
      else if date_time h v = NaN then None
      else Some (intl_datetime h (locale_string l) (date_time h v)))"

text \<open>
  The pairs of a \<open>Table\<close> are the properties of the object in enumeration order, so
  \<open>Object.values(value)[0]\<close> is the first one.
\<close>

definition localized :: "AppLocale \<Rightarrow> localized_text option \<Rightarrow> jsstring" where
  "localized l value = (case value of
     None \<Rightarrow> []
   | Some (Plain s) \<Rightarrow> s
   | Some (Table t) \<Rightarrow> (let language = locale_string l in
       case map_of t language of Some s \<Rightarrow> s | None \<Rightarrow>
       (case map_of t (hd (split (js ''-'') language)) of Some s \<Rightarrow> s | None \<Rightarrow>
       (case map_of t (js ''en'') of Some s \<Rightarrow> s | None \<Rightarrow>
       (case t of (k, s) # r \<Rightarrow> s | [] \<Rightarrow> [])))))"

section \<open>Rounded division against whole-number division\<close>

lemma fl_div:
  assumes "0 < d" and "d \<le> 2 ^ j" and "0 \<le> n" and "n \<le> 2 ^ 53"
    and "(n div d + 1) * 2 ^ j \<le> 2 ^ 53" and "j \<le> 1074"
  shows "math_floor (Fin (of_int n) / Fin (of_int d)) = Fin (of_int (n div d))"
proof -
  have n: "real_of_int n \<le> 2 ^ 53"
    using assms(4) of_int_le_iff [of n "2 ^ 53", where 'a = real] by (simp only: of_int_power of_int_numeral)
  have "of_int n / of_int d \<le> (of_int n :: real)"
    using assms(1,3) by (simp add: divide_le_eq mult_le_cancel_left1)
  then have "fl (of_int n / of_int d) = Fin (round64 (of_int n / of_int d))"
    using assms(1,3) n by (intro fl_small) auto
  then show ?thesis using assms(1) floor_round_div [OF assms(1,2,3,5,6)] by simp
qed

lemma js_rem_int: "0 \<le> n \<Longrightarrow> 0 < d \<Longrightarrow> js_rem (of_int n) (of_int d) = of_int (n mod d)"
proof -
  assume n: "0 \<le> n" and d: "0 < d"
  have "\<lfloor>real_of_int n / of_int d\<rfloor> = n div d" by (rule floor_divide_of_int_eq)
  then have "js_rem (of_int n) (of_int d) = of_int n - of_int d * of_int (n div d)"
    using n d by (cases "n = 0") (simp_all add: js_rem_def)
  also have "\<dots> = of_int (n - d * (n div d))" by simp
  finally show ?thesis by (simp add: minus_mult_div_eq_mod)
qed

lemma num_rem_int:
  assumes "0 \<le> n" and "0 < d" and "d \<le> 2 ^ 53"
  shows "num_rem (Fin (of_int n)) (Fin (of_int d)) = Fin (of_int (n mod d))"
proof -
  have "n mod d < 2 ^ 53" "0 \<le> n mod d" using assms(2,3) pos_mod_bound [of d n] pos_mod_sign [of d n] by linarith+
  then show ?thesis using assms fl_of_int [of "n mod d"] js_rem_int [of n d] by simp
qed

lemma num_string_int: "\<bar>k\<bar> < 2 ^ 53 \<Longrightarrow> num_string (Fin (of_int k)) = int_string k"
proof -
  assume "\<bar>k\<bar> < 2 ^ 53"
  then have "real_of_int \<bar>k\<bar> < of_int (2 ^ 53)" by (simp only: of_int_less_iff)
  then show ?thesis by simp
qed

lemma int_string_nonneg: "0 \<le> k \<Longrightarrow> int_string k = nat_digits (nat k)"
  by (simp add: int_string_def)

section \<open>Durations\<close>

text \<open>The reference: days and hours, hours and minutes, or minutes, by whole-number division.\<close>

definition duration_spec :: "AppLocale \<Rightarrow> int \<Rightarrow> jsstring" where
  "duration_spec l s =
     (let d = (if l = zh_CN then zh_day @ js '' '' else js ''d '');
          h = (if l = zh_CN then zh_hour else js ''h'');
          m = (if l = zh_CN then zh_minute else js ''m'') in
      if 86400 \<le> s then int_string (s div 86400) @ d @ int_string (s mod 86400 div 3600) @ h
      else if 3600 \<le> s then int_string (s div 3600) @ h @ js '' '' @ int_string (s mod 3600 div 60) @ m
      else int_string (s div 60) @ m)"

lemma duration_parts:
  assumes "0 \<le> s" and "s \<le> 2 ^ 52"
  shows "math_floor (Fin (of_int s) / Fin 86400) = Fin (of_int (s div 86400))"
    and "math_floor (num_rem (Fin (of_int s)) (Fin 86400) / Fin 3600) = Fin (of_int (s mod 86400 div 3600))"
    and "math_floor (num_rem (Fin (of_int s)) (Fin 3600) / Fin 60) = Fin (of_int (s mod 3600 div 60))"
proof -
  have "s div 86400 \<le> 2 ^ 52 div 86400" using assms(2) by (rule zdiv_mono1) simp
  then show "math_floor (Fin (of_int s) / Fin 86400) = Fin (of_int (s div 86400))"
    using fl_div [of 86400 17 s] assms by simp
  have m: "0 \<le> s mod 86400" "s mod 86400 < 86400" "0 \<le> s mod 3600" "s mod 3600 < 3600" by auto
  have "s mod 86400 div 3600 \<le> 86400 div 3600" using m by (intro zdiv_mono1) auto
  then show "math_floor (num_rem (Fin (of_int s)) (Fin 86400) / Fin 3600) = Fin (of_int (s mod 86400 div 3600))"
    using fl_div [of 3600 12 "s mod 86400"] num_rem_int [of s 86400] m assms by simp
  have "s mod 3600 div 60 \<le> 3600 div 60" using m by (intro zdiv_mono1) auto
  then show "math_floor (num_rem (Fin (of_int s)) (Fin 3600) / Fin 60) = Fin (of_int (s mod 3600 div 60))"
    using fl_div [of 60 6 "s mod 3600"] num_rem_int [of s 3600] m assms by simp
qed

text \<open>
  C21: For whole seconds up to 2^52 the text of a duration is the one that whole-number division
  gives, in both languages.
\<close>

theorem duration_correct:
  assumes "0 \<le> s" and "s \<le> 2 ^ 52"
  shows "duration l (Fin (of_int s)) = duration_spec l s"
proof -
  have b: "num_string (Fin (of_int (s div 86400))) = int_string (s div 86400)"
    "num_string (Fin (of_int (s mod 86400 div 3600))) = int_string (s mod 86400 div 3600)"
    "num_string (Fin (of_int (s mod 3600 div 60))) = int_string (s mod 3600 div 60)"
    using assms by (intro num_string_int, simp)+
  have gt: "Fin (of_int k) > Fin 0 \<longleftrightarrow> 0 < k" for k by simp
  consider "86400 \<le> s" "0 < s div 86400"
    | "\<not> 86400 \<le> s" "3600 \<le> s" "\<not> 0 < s div 86400" "s mod 86400 = s" "0 < s div 3600"
    | "\<not> 86400 \<le> s" "\<not> 3600 \<le> s" "\<not> 0 < s div 86400" "s mod 86400 = s" "\<not> 0 < s div 3600" "s mod 3600 = s"
    using assms by (cases "86400 \<le> s"; cases "3600 \<le> s") (simp_all add: pos_imp_zdiv_pos_iff)
  then show ?thesis unfolding duration_def duration_parts [OF assms] Let_def b gt duration_spec_def
    by cases (simp_all only: if_True if_False append_assoc refl if_distrib [where f = "\<lambda>x. _ @ x"] split: if_split, simp_all)
qed

theorem duration_correct_witness:
  "duration en_US (Fin (of_int 90061)) = js ''1d 1h'' \<and> duration en_US (Fin (of_int 3660)) = js ''1h 1m''"
  using duration_correct [of 90061 en_US] duration_correct [of 3660 en_US]
  by (simp add: duration_spec_def int_string_def nat_digits.simps js_def)

section \<open>Elapsed time\<close>

text \<open>\<open>Math.round\<close> of a rounded quotient is the whole number nearest to the exact quotient.\<close>

lemma round_seconds:
  assumes "\<bar>n\<bar> \<le> 2 ^ 52"
  shows "math_round (fl (of_int n / 1000)) = Fin (of_int ((n + 500) div 1000))"
proof -
  define k where "k = (n + 500) div 1000"
  let ?x = "of_int n / (1000::real)"
  have i: "1000 * k \<le> n + 500" "n \<le> 1000 * k + 499" unfolding k_def by linarith+
  then have r: "1000 * real_of_int k \<le> of_int n + 500" "of_int n \<le> 1000 * real_of_int k + 499"
    by linarith+
  have k: "- 5000000000000 \<le> k" "k \<le> 5000000000000" using assms i by (simp_all add: abs_le_iff)
  have "real_of_int (- (2 ^ 53)) \<le> ?x \<and> ?x \<le> of_int (2 ^ 53)" using k r by simp
  then obtain y where "fl ?x = Fin y" using fl_between_int [of "- (2 ^ 53)" "2 ^ 53" ?x] by auto
  then have y: "fl ?x = Fin (round64 ?x)" by (auto simp: fl_def Let_def split: if_splits)
  have "of_int (2 * k - 1) / 2 ^ 1 \<le> round64 ?x"
  proof (rule round_above)
    show "of_int (2 * k - 1) / 2 ^ 1 \<le> ?x" using r(1) by simp
    show "\<bar>2 * k - 1\<bar> \<le> 2 ^ 53" using k by simp
  qed simp
  moreover have "round64 ?x \<le> of_int (1024 * k + 511) / 2 ^ 10"
  proof (rule round_below)
    show "?x \<le> of_int (1024 * k + 511) / 2 ^ 10" using r(2) by simp
    show "\<bar>1024 * k + 511\<bar> \<le> 2 ^ 53" using k by simp
  qed simp
  ultimately have "\<lfloor>round64 ?x + 1 / 2\<rfloor> = k" by (intro floor_unique) simp_all
  with y show ?thesis by (simp add: k_def)
qed

definition elapsed_spec :: "AppLocale \<Rightarrow> int \<Rightarrow> jsstring" where
  "elapsed_spec l e =
     (let ago = (\<lambda>n zh en. if l = zh_CN then int_string n @ js '' '' @ zh @ zh_ago
        else int_string n @ en @ js '' ago'') in
      if e < 10 then (if l = zh_CN then zh_just_now else js ''now'')
      else if e < 60 then ago e zh_second (js ''s'')
      else if e < 3600 then ago (e div 60) zh_minute (js ''m'')
      else if e < 86400 then ago (e div 3600) zh_hour (js ''h'')
      else ago (e div 86400) zh_day (js ''d''))"

lemma elapsed_parts:
  assumes "0 \<le> e" and "e \<le> 2 ^ 43"
  shows "math_floor (Fin (of_int e) / Fin 60) = Fin (of_int (e div 60))"
    and "math_floor (Fin (of_int e) / Fin 3600) = Fin (of_int (e div 3600))"
    and "math_floor (Fin (of_int e) / Fin 86400) = Fin (of_int (e div 86400))"
proof -
  have "e div 60 \<le> 2 ^ 43 div 60" "e div 3600 \<le> 2 ^ 43 div 3600" "e div 86400 \<le> 2 ^ 43 div 86400"
    using assms(2) by (intro zdiv_mono1; simp)+
  then show "math_floor (Fin (of_int e) / Fin 60) = Fin (of_int (e div 60))"
    "math_floor (Fin (of_int e) / Fin 3600) = Fin (of_int (e div 3600))"
    "math_floor (Fin (of_int e) / Fin 86400) = Fin (of_int (e div 86400))"
    using fl_div [of 60 6 e] fl_div [of 3600 12 e] fl_div [of 86400 17 e] assms by simp_all
qed

lemma relativeTime_elapsed:
  assumes "value \<noteq> []" and "0 \<le> e" and "e \<le> 2 ^ 43"
    and "math_max (Fin 0) (math_round ((now - date_time h value) / Fin 1000)) = Fin (of_int e)"
  shows "relativeTime h l now (Some value) = elapsed_spec l e"
proof -
  have "e div 60 \<le> e" "e div 3600 \<le> e" "e div 86400 \<le> e" using assms(2) zdiv_mono2 [of e 1] by (simp_all add: order_trans)
  then have b: "num_string (Fin (of_int e)) = int_string e"
    "num_string (Fin (of_int (e div 60))) = int_string (e div 60)"
    "num_string (Fin (of_int (e div 3600))) = int_string (e div 3600)"
    "num_string (Fin (of_int (e div 86400))) = int_string (e div 86400)"
    using assms(2,3) by (intro num_string_int, simp)+
  have lt: "Fin (of_int k) < Fin (numeral w) \<longleftrightarrow> k < numeral w" for k w by simp
  show ?thesis
    unfolding relativeTime_def option.case assms(4) Let_def elapsed_parts [OF assms(2,3)] b lt elapsed_spec_def
    using assms(1) by (cases l) simp_all
qed

text \<open>
  C22: The relative time of a valid date is that of the elapsed seconds, rounded to the nearest
  whole second, with dates in the future shown as now.
\<close>

theorem relativeTime_correct:
  assumes "value \<noteq> []" and "date_time h value = Fin (of_int t)" and "\<bar>now - t\<bar> \<le> 2 ^ 52"
  shows "relativeTime h l (Fin (of_int now)) (Some value) = elapsed_spec l (max 0 ((now - t + 500) div 1000))"
proof (rule relativeTime_elapsed [OF assms(1)])
  have "now - t + 500 \<le> 2 ^ 52 + 500" using assms(3) by simp
  then have "(now - t + 500) div 1000 \<le> (2 ^ 52 + 500) div 1000" by (rule zdiv_mono1) simp
  then show "max 0 ((now - t + 500) div 1000) \<le> 2 ^ 43" by simp
  have "Fin (of_int now) - Fin (of_int t) = Fin (of_int (now - t))"
    using fl_of_int [of "now - t"] assms(3) by simp
  then have "math_round ((Fin (of_int now) - date_time h value) / Fin 1000) = Fin (of_int ((now - t + 500) div 1000))"
    using round_seconds [OF assms(3)] assms(2) by simp
  then show "math_max (Fin 0) (math_round ((Fin (of_int now) - date_time h value) / Fin 1000)) =
      Fin (of_int (max 0 ((now - t + 500) div 1000)))" by (simp only: math_max_Fin of_int_max of_int_0)
qed simp

theorem relativeTime_correct_witness:
  "relativeTime undefined en_US (Fin (of_int 90000)) (Some (js ''1970-01-01T00:01:00Z'')) = js ''30s ago''"
proof -
  have t: "date_time undefined (js ''1970-01-01T00:01:00Z'') = Fin (of_int 60000)"
    by (simp add: date_eval js_def)
  show ?thesis
    using relativeTime_correct [OF _ t, of 90000 en_US]
    by (simp add: elapsed_spec_def int_string_def nat_digits.simps js_def)
qed

text \<open>An unreadable time is not caught: the text is made from \<open>NaN\<close>.\<close>

theorem relativeTime_invalid:
  assumes "value \<noteq> []" and "date_time h value = NaN"
  shows "relativeTime h en_US (Fin now) (Some value) = js ''NaNd ago''"
  using assms by (simp add: relativeTime_def NaN_never_compares math_max.simps js_def)

theorem relativeTime_invalid_witness:
  "relativeTime undefined en_US (Fin 0) (Some (js ''soon'')) = js ''NaNd ago''"
  by (rule relativeTime_invalid) (simp_all add: date_eval js_def)

section \<open>Percentages, byte counts and localized names\<close>

text \<open>The two clamps agree: \<open>percent\<close> of finite numbers is the utilization of the traffic module.\<close>

theorem percent_range:
  assumes "isFinite used"
  shows "\<exists>p. percent used whole = Fin p \<and> 0 \<le> p \<and> p \<le> 100"
proof -
  obtain u where u: "used = Fin u" using assms by (auto simp: isFinite_iff)
  have clamp: "\<exists>p. math_min (Fin 100) (math_max (Fin 0) y) = Fin p \<and> 0 \<le> p \<and> p \<le> 100"
    if "y \<noteq> NaN" for y
    using that by (cases y) (auto simp: math_min.simps math_max.simps)
  show ?thesis
  proof (cases whole)
    case (Fin w)
    have "(used / whole) * Fin 100 \<noteq> NaN" if "0 < w"
      using that u Fin by (auto simp: fl_def Let_def sign_inf_def)
    then show ?thesis using clamp Fin by (auto simp: percent_def)
  next
    case PosInf
    then show ?thesis using clamp [of "Fin 0"] u by (simp add: percent_def num_simps)
  qed (simp_all add: percent_def)
qed

theorem percent_range_witness:
  "\<exists>p. percent (Fin 925) (Fin 1000) = Fin p \<and> 0 \<le> p \<and> p \<le> 100"
  using percent_range [of "Fin 925" "Fin 1000"] by simp

lemma byte_index_floor:
  assumes "math_log h value / math_log h (Fin 1024) = Fin q"
  shows "byte_index h value = Fin (of_int (min \<lfloor>q\<rfloor> 5))"
  using assms by (simp add: byte_index_def byte_units_def min_def)

lemma scale_down:
  assumes "0 \<le> i" and "i \<le> 5"
  shows "pow1024 (Fin (of_int i)) = Fin (1024 ^ nat i)"
proof -
  have "(1024::real) powi i = of_int 1 * 2 powi (10 * i)"
  proof -
    have "(1024::real) = 2 powi 10" by simp
    then show ?thesis by (simp only: power_int_mult [symmetric] of_int_1 mult_1_left)
  qed
  moreover have "fl (of_int 1 * 2 powi (10 * i)) = Fin (of_int 1 * 2 powi (10 * i))"
    using assms by (intro fl_scale) auto
  moreover have "(1024::real) powi i = 1024 ^ nat i" using assms(1) by (simp add: power_int_def)
  ultimately show ?thesis by simp
qed

text \<open>
  A host whose logarithm is the one to base 1024, for the two values that the examples use: the
  base of \<open>Math.log\<close> cancels in the quotient.
\<close>

definition log1024_host :: host where
  "log1024_host = \<lparr>unicode_lower = id, unicode_upper = id,
     math_log = (\<lambda>x. if x = Fin (1 / 1024) then Fin (- 1) else Fin 1), utc_of_local = id,
     intl_datetime = (\<lambda>l t. []), intl_number = (\<lambda>l t. []), locale_time = (\<lambda>t. []),
     error_message = id\<rparr>"

text \<open>
  For a value with a non-negative exponent the text is the value scaled by the power of 1024 its
  unit stands for; below one byte the unit is missing.
\<close>

theorem bytes_scaled:
  assumes "0 < v" and "math_log h (Fin v) / math_log h (Fin 1024) = Fin q" and "0 \<le> q"
  shows "bytes h (Fin v) precision =
    toFixed (fl (v / 1024 ^ nat (min \<lfloor>q\<rfloor> 5))) (if q < 1 then 0 else precision) @
    js '' '' @ byte_units ! nat (min \<lfloor>q\<rfloor> 5)"
proof -
  let ?i = "min \<lfloor>q\<rfloor> 5"
  have i: "0 \<le> ?i" "?i \<le> 5" using assms(3) by auto
  have p: "pow1024 (Fin (of_int ?i)) = Fin (1024 ^ nat ?i)" using i by (rule scale_down) 
  have z: "strict_equal (Fin (of_int ?i)) (Fin 0) \<longleftrightarrow> q < 1"
    using assms(3) by (auto simp: strict_equal_def min_def floor_less_iff floor_eq_iff split: if_splits)
  have n: "unit_name (Fin (of_int ?i)) = byte_units ! nat ?i"
    using i by (simp add: byte_units_def nat_less_iff)
  show ?thesis unfolding bytes_def byte_index_floor [OF assms(2)] Let_def z n p
    using assms(1) by simp
qed

theorem bytes_scaled_witness:
  "bytes log1024_host (Fin 1024) 1 = js ''1.0 KiB''"
proof -
  have q: "math_log log1024_host (Fin 1024) / math_log log1024_host (Fin 1024) = Fin 1"
    by (simp add: log1024_host_def num_simps)
  show ?thesis using bytes_scaled [OF _ q, of 1]
    by (simp add: num_simps fixed_digits_def nat_digits.simps byte_units_def js_def)
qed

theorem bytes_below_one:
  assumes "0 < v" and "math_log h (Fin v) / math_log h (Fin 1024) = Fin q" and "- 1 \<le> q" and "q < 0"
  shows "\<exists>digits. bytes h (Fin v) precision = digits @ js '' undefined''"
proof -
  have "\<lfloor>q\<rfloor> = - 1" using assms(3,4) by (intro floor_unique) auto
  then have "byte_index h (Fin v) = Fin (- 1)" using byte_index_floor [OF assms(2)] by simp
  then show ?thesis using assms(1) by (simp add: bytes_def Let_def js_def)
qed

theorem bytes_below_one_witness:
  "\<exists>digits. bytes log1024_host (Fin (1 / 1024)) 1 = digits @ js '' undefined''"
  by (rule bytes_below_one [of _ _ "- 1"]) (simp_all add: log1024_host_def num_simps)

lemma map_of_value: "map_of t k = Some s \<Longrightarrow> s \<in> set (map snd t)"
  by (auto dest!: map_of_SomeD intro: rev_image_eqI)

theorem localized_own_language:
  assumes "map_of t (locale_string l) = Some s"
  shows "localized l (Some (Table t)) = s"
  using assms by (simp add: localized_def)

theorem localized_from_table:
  "localized l (Some (Table t)) = [] \<and> t = [] \<or> localized l (Some (Table t)) \<in> set (map snd t)"
proof (cases t)
  case (Cons p r)
  then have "snd p \<in> set (map snd t)" by simp
  with Cons show ?thesis
    using map_of_value [of t "locale_string l"] map_of_value [of t "hd (split (js ''-'') (locale_string l))"]
      map_of_value [of t "js ''en''"]
    unfolding localized_def Let_def option.case localized_text.case
    by (cases p) (simp only: list.case prod.case snd_conv split: option.split, blast)
qed (simp add: localized_def)

end
