(* ===== verification/JSUri.thy ===== *)
theory JSUri
  imports JSString
begin

text \<open>
  The URI functions of the language that the client relies on: \<open>encodeURIComponent\<close> for tokens
  and identifiers in request paths, \<open>decodeURIComponent\<close> for cookies and file names. A
  \<open>URIError\<close> (a lone surrogate, a malformed escape) is \<open>None\<close>. Decoding inverts encoding.
\<close>

section \<open>Code points, UTF-8 and UTF-16\<close>

definition utf8 :: "nat \<Rightarrow> nat list" where
  "utf8 cp =
     (if cp < 128 then [cp]
      else if cp < 2048 then [192 + cp div 64, 128 + cp mod 64]
      else if cp < 65536 then [224 + cp div 4096, 128 + cp div 64 mod 64, 128 + cp mod 64]
      else [240 + cp div 262144, 128 + cp div 4096 mod 64, 128 + cp div 64 mod 64, 128 + cp mod 64])"

definition utf16 :: "nat \<Rightarrow> jsstring" where
  "utf16 cp = (if cp < 65536 then [cp]
     else [55296 + (cp - 65536) div 1024, 56320 + (cp - 65536) mod 1024])"

definition high_surrogate :: "nat \<Rightarrow> bool" where
  "high_surrogate u \<longleftrightarrow> 55296 \<le> u \<and> u < 56320"

definition low_surrogate :: "nat \<Rightarrow> bool" where
  "low_surrogate u \<longleftrightarrow> 56320 \<le> u \<and> u < 57344"

text \<open>The code points of a well-formed string.\<close>

fun code_points :: "jsstring \<Rightarrow> nat list option" where
  "code_points [] = Some []"
| "code_points (u # us) =
     (if high_surrogate u then
        (case us of [] \<Rightarrow> None
         | v # vs \<Rightarrow> if low_surrogate v
             then map_option (Cons (65536 + (u - 55296) * 1024 + (v - 56320))) (code_points vs) else None)
      else if low_surrogate u then None
      else map_option (Cons u) (code_points us))"

section \<open>Encoding\<close>

definition unreserved :: "nat \<Rightarrow> bool" where
  "unreserved c \<longleftrightarrow> (65 \<le> c \<and> c \<le> 90) \<or> (97 \<le> c \<and> c \<le> 122) \<or> is_digit c \<or>
     c \<in> set [45, 95, 46, 33, 126, 42, 39, 40, 41]"

definition hex_digit :: "nat \<Rightarrow> nat" where
  "hex_digit d = (if d < 10 then 48 + d else 55 + d)"

definition pct :: "nat \<Rightarrow> jsstring" where
  "pct b = [37, hex_digit (b div 16), hex_digit (b mod 16)]"

definition encode_point :: "nat \<Rightarrow> jsstring" where
  "encode_point cp = (if unreserved cp then [cp] else concat (map pct (utf8 cp)))"

definition encodeURIComponent :: "jsstring \<Rightarrow> jsstring option" where
  "encodeURIComponent s = map_option (\<lambda>cps. concat (map encode_point cps)) (code_points s)"

section \<open>Decoding\<close>

definition pct_byte :: "jsstring \<Rightarrow> (nat \<times> jsstring) option" where
  "pct_byte s = (case s of
     p # a # b # r \<Rightarrow> if p = 37 \<and> radix_digit a < 16 \<and> radix_digit b < 16
       then Some (16 * radix_digit a + radix_digit b, r) else None
   | _ \<Rightarrow> None)"

fun pct_tail :: "nat \<Rightarrow> nat \<Rightarrow> jsstring \<Rightarrow> (nat \<times> jsstring) option" where
  "pct_tail 0 acc s = Some (acc, s)"
| "pct_tail (Suc n) acc s = (case pct_byte s of
     None \<Rightarrow> None
   | Some (b, r) \<Rightarrow> if 128 \<le> b \<and> b < 192 then pct_tail n (acc * 64 + (b - 128)) r else None)"

text \<open>The number of continuation bytes, the payload and the smallest code point of a lead byte.\<close>

definition lead_byte :: "nat \<Rightarrow> (nat \<times> nat \<times> nat) option" where
  "lead_byte b =
     (if b < 128 then Some (0, b, 0)
      else if b < 192 then None
      else if b < 224 then Some (1, b - 192, 128)
      else if b < 240 then Some (2, b - 224, 2048)
      else if b < 248 then Some (3, b - 240, 65536)
      else None)"

definition scalar_value :: "nat \<Rightarrow> bool" where
  "scalar_value cp \<longleftrightarrow> cp < 1114112 \<and> \<not> high_surrogate cp \<and> \<not> low_surrogate cp"

definition pct_char :: "jsstring \<Rightarrow> (nat \<times> jsstring) option" where
  "pct_char s = (case pct_byte s of
     None \<Rightarrow> None
   | Some (b, r) \<Rightarrow> (case lead_byte b of
       None \<Rightarrow> None
     | Some (n, acc, least) \<Rightarrow> (case pct_tail n acc r of
         None \<Rightarrow> None
       | Some (cp, r') \<Rightarrow> if least \<le> cp \<and> scalar_value cp then Some (cp, r') else None)))"

lemma pct_byte_length: "pct_byte s = Some (b, r) \<Longrightarrow> length r < length s"
  by (auto simp: pct_byte_def split: list.splits if_splits)

lemma pct_tail_length: "pct_tail n acc s = Some (cp, r) \<Longrightarrow> length r \<le> length s"
proof (induction n arbitrary: acc s)
  case (Suc n)
  then show ?case by (fastforce split: option.splits if_splits dest!: pct_byte_length)
qed simp

lemma pct_char_length: "pct_char s = Some (cp, r) \<Longrightarrow> length r < length s"
  by (auto simp: pct_char_def split: option.splits if_splits dest!: pct_byte_length pct_tail_length)

function decodeURIComponent :: "jsstring \<Rightarrow> jsstring option" where
  "decodeURIComponent [] = Some []"
| "decodeURIComponent (c # cs) =
     (if c \<noteq> 37 then map_option (Cons c) (decodeURIComponent cs)
      else (case pct_char (c # cs) of
        None \<Rightarrow> None
      | Some (cp, r) \<Rightarrow> map_option ((@) (utf16 cp)) (decodeURIComponent r)))"
  by pat_completeness auto
termination by (relation "measure length") (auto dest: pct_char_length)

section \<open>Decoding inverts encoding\<close>

lemma radix_hex [simp]: "d < 16 \<Longrightarrow> radix_digit (hex_digit d) = d"
  by (auto simp: radix_digit_def hex_digit_def is_digit_def)

lemma pct_byte_pct [simp]: "b < 256 \<Longrightarrow> pct_byte (pct b @ r) = Some (b, r)"
proof -
  assume "b < 256"
  then have "b div 16 < 16" "b mod 16 < 16" by auto
  then show ?thesis by (simp add: pct_def pct_byte_def)
qed

lemma pct_char_utf8:
  assumes "scalar_value cp"
  shows "pct_char (concat (map pct (utf8 cp)) @ r) = Some (cp, r)"
proof -
  have lt: "cp < 1114112" using assms by (simp add: scalar_value_def)
  have d: "cp div 64 * 64 + cp mod 64 = cp" by simp
  have d2: "cp div 4096 * 64 + cp div 64 mod 64 = cp div 64"
    using div_mult_mod_eq [of "cp div 64" 64] by (simp add: div_mult2_eq [symmetric])
  have d3: "cp div 262144 * 64 + cp div 4096 mod 64 = cp div 4096"
    using div_mult_mod_eq [of "cp div 4096" 64] by (simp add: div_mult2_eq [symmetric])
  consider "cp < 128" | "128 \<le> cp" "cp < 2048" | "2048 \<le> cp" "cp < 65536" | "65536 \<le> cp" by linarith
  then show ?thesis
  proof cases
    case 1
    then show ?thesis using assms by (simp add: utf8_def pct_char_def lead_byte_def)
  next
    case 2
    then have "cp div 64 < 32" by auto
    then show ?thesis using 2 assms d by (auto simp: utf8_def pct_char_def lead_byte_def)
  next
    case 3
    then have c: "cp div 4096 < 16" by auto
    have "4096 * (cp div 4096) + cp div 64 mod 64 * 64 + cp mod 64 = cp" using d d2 by linarith
    then show ?thesis using 3 assms by (simp add: utf8_def pct_char_def lead_byte_def numeral_2_eq_2 c)
  next
    case 4
    then have c: "cp div 262144 < 5" using lt by auto
    have m: "x mod 64 < 128" "x mod 64 < 64" for x :: nat by (simp_all add: mod_less_divisor [THEN less_trans])
    have "((cp div 262144 * 64 + cp div 4096 mod 64) * 64 + cp div 64 mod 64) * 64 + cp mod 64 = cp"
      unfolding d3 d2 d ..
    then show ?thesis using 4 assms c
      by (simp only: utf8_def pct_char_def lead_byte_def numeral_3_eq_3) (simp add: m)
  qed
qed

lemma concat_pct_Cons: "\<exists>a b t. concat (map pct (utf8 cp)) = 37 # a # b # t"
  by (auto simp: utf8_def pct_def)

lemma decode_point:
  assumes "scalar_value cp"
  shows "decodeURIComponent (encode_point cp @ r) = map_option ((@) (utf16 cp)) (decodeURIComponent r)"
proof (cases "unreserved cp")
  case True
  then have "cp \<noteq> 37" "cp < 65536" by (auto simp: unreserved_def is_digit_def)
  with True show ?thesis by (simp add: encode_point_def utf16_def append_Cons [abs_def])
next
  case False
  obtain a b t where e: "concat (map pct (utf8 cp)) = 37 # a # b # t" using concat_pct_Cons by blast
  then show ?thesis using False pct_char_utf8 [OF assms, of r] by (simp add: encode_point_def)
qed

lemma code_points_utf16: "code_points s = Some cps \<Longrightarrow> \<forall>u \<in> set s. u < 65536 \<Longrightarrow>
    concat (map utf16 cps) = s \<and> (\<forall>cp \<in> set cps. scalar_value cp)"
proof (induction s arbitrary: cps rule: code_points.induct)
  case (2 u us)
  show ?case
  proof (cases "high_surrogate u")
    case True
    with "2.prems"(1) obtain v vs cps' where s: "us = v # vs" "low_surrogate v" "code_points vs = Some cps'"
      "cps = (65536 + (u - 55296) * 1024 + (v - 56320)) # cps'"
      by (auto split: list.splits if_splits)
    obtain a b where ab: "u = 55296 + a" "v = 56320 + b" "a < 1024" "b < 1024"
      using True s(2) le_Suc_ex [of 55296 u] le_Suc_ex [of 56320 v]
      by (auto simp: high_surrogate_def low_surrogate_def)
    then have "utf16 (65536 + (u - 55296) * 1024 + (v - 56320)) = [u, v]" by (simp add: utf16_def)
    moreover have "scalar_value (65536 + (u - 55296) * 1024 + (v - 56320))"
      using ab by (auto simp: scalar_value_def high_surrogate_def low_surrogate_def)
    ultimately show ?thesis using "2.IH"(1) [OF True s(1,2,3)] s "2.prems"(2) by simp
  next
    case False
    with "2.prems"(1) obtain cps' where s: "\<not> low_surrogate u" "code_points us = Some cps'" "cps = u # cps'"
      by (auto split: if_splits)
    have "utf16 u = [u]" "scalar_value u"
      using "2.prems"(2) False s(1) by (simp_all add: utf16_def scalar_value_def)
    then show ?thesis using "2.IH"(2) [OF False s(1,2)] "2.prems"(2) s(3) by simp
  qed
qed simp

lemma decode_points:
  "\<forall>cp \<in> set cps. scalar_value cp \<Longrightarrow>
   decodeURIComponent (concat (map encode_point cps)) = Some (concat (map utf16 cps))"
  by (induction cps) (simp_all add: decode_point)

lemma decode_encode:
  assumes "encodeURIComponent s = Some e" and "\<forall>u \<in> set s. u < 65536"
  shows "decodeURIComponent e = Some s"
proof -
  obtain cps where c: "code_points s = Some cps" "e = concat (map encode_point cps)"
    using assms(1) by (auto simp: encodeURIComponent_def)
  then show ?thesis using code_points_utf16 [OF c(1) assms(2)] decode_points [of cps] assms(2) by simp
qed

text \<open>What is encoded never contains a character with a meaning in paths, queries or cookies.\<close>

lemma hex_digit_unreserved: "d < 16 \<Longrightarrow> unreserved (hex_digit d)"
  by (auto simp: unreserved_def hex_digit_def is_digit_def)

lemma utf8_bytes: "cp < 1114112 \<Longrightarrow> b \<in> set (utf8 cp) \<Longrightarrow> b < 256"
  by (auto simp: utf8_def split: if_splits)

lemma encode_point_safe: "scalar_value cp \<Longrightarrow> c \<in> set (encode_point cp) \<Longrightarrow> unreserved c \<or> c = 37"
  using utf8_bytes [of cp]
  by (fastforce simp: encode_point_def pct_def scalar_value_def split: if_splits intro: hex_digit_unreserved)

lemma encode_safe:
  assumes "encodeURIComponent s = Some e" and "\<forall>u \<in> set s. u < 65536" and "c \<in> set e"
  shows "unreserved c \<or> c = 37"
proof -
  obtain cps where c: "code_points s = Some cps" "e = concat (map encode_point cps)"
    using assms(1) by (auto simp: encodeURIComponent_def)
  then show ?thesis using code_points_utf16 [OF c(1) assms(2)] assms(3) encode_point_safe by fastforce
qed

end
