(* ===== verification/Api.thy ===== *)
theory Api
  imports Types JSUri
begin

text \<open>
  \<open>web/src/api.ts\<close>: the one place where the client talks to the server. A request is prepared
  (content type, CSRF header), handed to \<open>fetch\<close>, and its response is checked. The server is the
  parameter \<open>fetch\<close>; \<open>document.cookie\<close> and \<open>window.location\<close> are arguments. A rejected promise is
  \<open>Inl\<close> of a \<open>failure\<close>.
\<close>

section \<open>Errors\<close>

text \<open>\<open>EngineError c\<close> is an error of class \<open>c\<close> that the engine throws, not the client.\<close>

datatype failure = APIError number json jsstring | EngineError jsstring

definition failure_message :: "host \<Rightarrow> failure \<Rightarrow> jsstring" where
  "failure_message h f = (case f of APIError s c m \<Rightarrow> m | EngineError c \<Rightarrow> error_message h c)"

text \<open>Conversion of a JSON value to a string, for the message of an error.\<close>

fun json_string :: "json \<Rightarrow> jsstring" where
  "json_string JNull = js ''null''"
| "json_string (JBool b) = (if b then js ''true'' else js ''false'')"
| "json_string (JNum n) = num_string n"
| "json_string (JStr s) = s"
| "json_string (JArr xs) = join (js '','') (map (\<lambda>x. if x = JNull then [] else json_string x) xs)"
| "json_string (JObj ps) = js ''[object Object]''"

text \<open>\<open>v?.key\<close> and \<open>v ?? d\<close>, where \<open>None\<close> is \<open>undefined\<close>.\<close>

fun opt_get :: "json option \<Rightarrow> jsstring \<Rightarrow> json option" where
  "opt_get (Some (JObj ps)) key = map_of ps key"
| "opt_get _ key = None"

definition or_else :: "json option \<Rightarrow> json \<Rightarrow> json" where
  "or_else v d = (case v of None \<Rightarrow> d | Some j \<Rightarrow> if j = JNull then d else j)"

section \<open>Requests and responses\<close>

type_synonym blob = "nat list"

type_synonym headers = "jsstring \<rightharpoonup> jsstring"

datatype form_value = FormText jsstring | FormFile blob

datatype body = TextBody jsstring | FormBody "(jsstring \<times> form_value) list"

record request_init =
  ri_method :: "jsstring option"
  ri_headers :: "(jsstring \<times> jsstring) list"
  ri_body :: "body option"

record fetch_request =
  fr_path :: jsstring
  fr_method :: "jsstring option"
  fr_headers :: headers
  fr_body :: "body option"
  fr_credentials :: jsstring

record response =
  rs_status :: nat
  rs_headers :: headers
  rs_json :: "failure + json"
  rs_blob :: "failure + blob"

type_synonym server = "fetch_request \<Rightarrow> failure + response"

definition no_options :: request_init where
  "no_options = \<lparr>ri_method = None, ri_headers = [], ri_body = None\<rparr>"

definition resp_ok :: "response \<Rightarrow> bool" where
  "resp_ok r \<longleftrightarrow> 200 \<le> rs_status r \<and> rs_status r \<le> 299"

text \<open>
  \<open>Headers\<close>: names are compared without case, values are stripped of surrounding white space, and
  a value that is not a byte string or breaks the line is a \<open>TypeError\<close>.
\<close>

definition header_space :: "nat \<Rightarrow> bool" where
  "header_space c \<longleftrightarrow> c \<in> set [9, 10, 13, 32]"

definition header_value :: "jsstring \<Rightarrow> jsstring" where
  "header_value s = rev (dropWhile header_space (rev (dropWhile header_space s)))"

definition header_value_ok :: "jsstring \<Rightarrow> bool" where
  "header_value_ok s \<longleftrightarrow> list_all (\<lambda>c. c < 256 \<and> c \<noteq> 0 \<and> c \<noteq> 10 \<and> c \<noteq> 13) (header_value s)"

definition header_name :: "jsstring \<Rightarrow> jsstring" where
  "header_name s = map lower_unit s"

definition header_set :: "jsstring \<Rightarrow> jsstring \<Rightarrow> headers \<Rightarrow> failure + headers" where
  "header_set n v hs = (if header_value_ok v then Inr (hs(header_name n \<mapsto> header_value v))
     else Inl (EngineError (js ''TypeError'')))"

definition header_has :: "jsstring \<Rightarrow> headers \<Rightarrow> bool" where
  "header_has n hs \<longleftrightarrow> hs (header_name n) \<noteq> None"

text \<open>\<open>new Headers(record)\<close>: the entries are appended, equal names are joined.\<close>

definition header_append :: "jsstring \<Rightarrow> jsstring \<Rightarrow> headers \<Rightarrow> failure + headers" where
  "header_append n v hs = (case hs (header_name n) of
     None \<Rightarrow> header_set n v hs
   | Some w \<Rightarrow> header_set n (w @ js '', '' @ header_value v) hs)"

fun new_headers :: "(jsstring \<times> jsstring) list \<Rightarrow> headers \<Rightarrow> failure + headers" where
  "new_headers [] hs = Inr hs"
| "new_headers ((n, v) # r) hs = bind_result (header_append n v hs) (new_headers r)"

section \<open>The module\<close>

definition cookie :: "jsstring \<Rightarrow> jsstring \<Rightarrow> failure + jsstring" where
  "cookie doc_cookie name =
     (let prefix = name @ js ''='' in
      case List.find (\<lambda>part. startsWith part prefix) (split (js ''; '') doc_cookie) of
        None \<Rightarrow> Inr []
      | Some value \<Rightarrow> (case decodeURIComponent (drop (length prefix) value) of
          None \<Rightarrow> Inl (EngineError (js ''URIError'')) | Some v \<Rightarrow> Inr v))"

definition is_form :: "body option \<Rightarrow> bool" where
  "is_form b \<longleftrightarrow> (case b of Some (FormBody es) \<Rightarrow> True | _ \<Rightarrow> False)"

definition truthy_body :: "body option \<Rightarrow> bool" where
  "truthy_body b \<longleftrightarrow> (case b of None \<Rightarrow> False | Some (TextBody t) \<Rightarrow> t \<noteq> [] | Some (FormBody es) \<Rightarrow> True)"

definition content_headers :: "request_init \<Rightarrow> headers \<Rightarrow> failure + headers" where
  "content_headers options headers =
     (if truthy_body (ri_body options) \<and> \<not> is_form (ri_body options) \<and>
        \<not> header_has (js ''Content-Type'') headers
      then header_set (js ''Content-Type'') (js ''application/json'') headers else Inr headers)"

definition safe_method :: "host \<Rightarrow> request_init \<Rightarrow> bool" where
  "safe_method h options \<longleftrightarrow>
     toUpperCase h (case ri_method options of Some m \<Rightarrow> m | None \<Rightarrow> js ''GET'') \<in>
     set [js ''GET'', js ''HEAD'', js ''OPTIONS'']"

definition csrf_headers :: "host \<Rightarrow> jsstring \<Rightarrow> request_init \<Rightarrow> headers \<Rightarrow> failure + headers" where
  "csrf_headers h doc_cookie options headers =
     (if safe_method h options then Inr headers
      else bind_result (cookie doc_cookie (js ''hostpin_csrf'')) (\<lambda>csrf.
        if csrf \<noteq> [] then header_set (js ''X-CSRF-Token'') csrf headers else Inr headers))"

definition prepare_request :: "host \<Rightarrow> jsstring \<Rightarrow> jsstring \<Rightarrow> request_init \<Rightarrow> failure + fetch_request" where
  "prepare_request h doc_cookie path options =
     bind_result (new_headers (ri_headers options) Map.empty) (\<lambda>headers.
     bind_result (content_headers options headers) (\<lambda>headers.
     bind_result (csrf_headers h doc_cookie options headers) (\<lambda>headers.
     Inr \<lparr>fr_path = path, fr_method = ri_method options, fr_headers = headers,
       fr_body = ri_body options, fr_credentials = js ''same-origin''\<rparr>)))"

definition response_failure :: "response \<Rightarrow> failure" where
  "response_failure response =
     (let payload = (case rs_json response of Inl e \<Rightarrow> JObj [] | Inr j \<Rightarrow> j) in
      if payload = JNull then EngineError (js ''TypeError'')
      else (let e = opt_get (Some payload) (js ''error'') in
        APIError (num_of_nat (rs_status response))
          (or_else (opt_get e (js ''code'')) (JStr (js ''http_error'')))
          (json_string (or_else (opt_get e (js ''message''))
            (JStr (js ''Request failed with HTTP '' @ num_string (num_of_nat (rs_status response))))))))"

definition checkedResponse ::
  "host \<Rightarrow> jsstring \<Rightarrow> server \<Rightarrow> jsstring \<Rightarrow> request_init \<Rightarrow> failure + response" where
  "checkedResponse h doc_cookie fetch path options =
     bind_result (prepare_request h doc_cookie path options) (\<lambda>request.
     bind_result (fetch request) (\<lambda>response.
     if \<not> resp_ok response then Inl (response_failure response) else Inr response))"

definition api :: "host \<Rightarrow> jsstring \<Rightarrow> server \<Rightarrow> jsstring \<Rightarrow> request_init \<Rightarrow> failure + json option" where
  "api h doc_cookie fetch path options =
     bind_result (checkedResponse h doc_cookie fetch path options) (\<lambda>response.
     if rs_status response = 204 then Inr None
     else bind_result (rs_json response) (\<lambda>j. Inr (Some j)))"

text \<open>
  The first match of a literal (without case), an optional quote and a non-empty run of characters
  outside \<open>stop\<close>: the captured run.
\<close>

definition literal_at :: "jsstring \<Rightarrow> jsstring \<Rightarrow> bool" where
  "literal_at lit s \<longleftrightarrow> map lower_unit (take (length lit) s) = lit"

fun capture :: "jsstring \<Rightarrow> bool \<Rightarrow> (nat \<Rightarrow> bool) \<Rightarrow> jsstring \<Rightarrow> jsstring option" where
  "capture lit quoted stop [] = None"
| "capture lit quoted stop (c # cs) =
     (let r = drop (length lit) (c # cs);
          r' = (if quoted \<and> r \<noteq> [] \<and> hd r = 34 then tl r else r);
          run = takeWhile (\<lambda>u. \<not> stop u) r' in
      if literal_at lit (c # cs) \<and> run \<noteq> [] then Some run else capture lit quoted stop cs)"

definition encoded_name :: "jsstring \<Rightarrow> jsstring option" where
  "encoded_name disposition = capture (js ''filename*=utf-8'' @ [39, 39]) False (\<lambda>u. u = 59) disposition"

definition plain_name :: "jsstring \<Rightarrow> jsstring option" where
  "plain_name disposition = capture (js ''filename='') True (\<lambda>u. u = 34 \<or> u = 59) disposition"

definition fallback_filename :: jsstring where
  "fallback_filename = js ''hostpin-backup.hostpin-backup''"

definition download_filename :: "jsstring option \<Rightarrow> jsstring" where
  "download_filename header =
     (let disposition = (case header of Some d \<Rightarrow> d | None \<Rightarrow> []) in
      case encoded_name disposition of
        Some e \<Rightarrow> (case decodeURIComponent e of Some f \<Rightarrow> f | None \<Rightarrow> fallback_filename)
      | None \<Rightarrow> (case plain_name disposition of Some p \<Rightarrow> p | None \<Rightarrow> fallback_filename))"

definition apiDownload ::
  "host \<Rightarrow> jsstring \<Rightarrow> server \<Rightarrow> jsstring \<Rightarrow> request_init \<Rightarrow> failure + (blob \<times> jsstring)" where
  "apiDownload h doc_cookie fetch path options =
     bind_result (checkedResponse h doc_cookie fetch path options) (\<lambda>response.
     bind_result (rs_blob response) (\<lambda>blob.
     Inr (blob, download_filename (rs_headers response (header_name (js ''Content-Disposition''))))))"

definition unwrap :: "json option \<Rightarrow> failure + json option" where
  "unwrap value = (if value = None \<or> value = Some JNull then Inl (EngineError (js ''TypeError''))
     else Inr (opt_get value (js ''data'')))"

text \<open>\<open>window.location\<close>, as far as the client reads it.\<close>

record location =
  loc_protocol :: jsstring
  loc_host :: jsstring

text \<open>
  \<open>new URL(path, location.href)\<close> for the paths of the client, which start with one slash and
  have no dot segments: scheme and host of the page, then the path.
\<close>

definition socketURL :: "location \<Rightarrow> jsstring \<Rightarrow> jsstring" where
  "socketURL loc path =
     (if loc_protocol loc = js ''https:'' then js ''wss:'' else js ''ws:'') @ js ''//'' @ loc_host loc @ path"

section \<open>Calls\<close>

text \<open>
  A call \<open>api(path, { method, body })\<close> of a page: the body is a value that the page turns into the JSON
  text or the form that is sent.
\<close>

record 'b call =
  call_method :: jsstring
  call_path :: jsstring
  call_body :: "'b option"

definition a_call :: "jsstring \<Rightarrow> jsstring \<Rightarrow> 'b option \<Rightarrow> 'b call" where
  "a_call m path b = \<lparr>call_method = m, call_path = path, call_body = b\<rparr>"

type_synonym form = "(jsstring \<times> form_value) list"

section \<open>Cookies\<close>

lemma startsWith_append [simp]: "startsWith (p @ s) p"
  by (simp add: startsWith_def)

lemma cookie_value:
  assumes "split (js ''; '') c = before @ ((name @ js ''='') @ e) # rest"
    and "\<And>part. part \<in> set before \<Longrightarrow> \<not> startsWith part (name @ js ''='')"
  shows "cookie c name = (case decodeURIComponent e of
    None \<Rightarrow> Inl (EngineError (js ''URIError'')) | Some v \<Rightarrow> Inr v)"
proof -
  have "List.find (\<lambda>part. startsWith part (name @ js ''='')) before = None"
    using assms(2) by (simp add: find_None_iff_all)
  then have "List.find (\<lambda>part. startsWith part (name @ js ''='')) (split (js ''; '') c) = Some ((name @ js ''='') @ e)"
    unfolding assms(1) by (simp add: find_append_none del: append_assoc)
  then show ?thesis by (simp add: cookie_def Let_def)
qed

section \<open>Requests\<close>

lemma header_setD: "header_set n v hs = Inr hs' \<Longrightarrow> hs' = hs(header_name n \<mapsto> header_value v)"
  by (auto simp: header_set_def split: if_splits)

lemmas request_defs = prepare_request_def content_headers_def csrf_headers_def

lemma names_differ: "header_name (js ''X-CSRF-Token'') \<noteq> header_name (js ''Content-Type'')"
  by (simp add: header_name_def lower_unit_def)

lemma csrf_header_set:
  assumes "\<not> safe_method h options" and "cookie c (js ''hostpin_csrf'') = Inr token" and "token \<noteq> []"
    and "prepare_request h c path options = Inr request"
  shows "fr_headers request (header_name (js ''X-CSRF-Token'')) = Some (header_value token) \<and>
    fr_credentials request = js ''same-origin''"
  using assms by (auto simp: request_defs bind_result_def split: sum.splits dest!: header_setD)

text \<open>
  C11: Every request that is not a GET, HEAD or OPTIONS carries the decoded value of the CSRF
  cookie in its CSRF header and is sent with same-origin credentials.
\<close>

theorem csrf_token_sent:
  assumes "\<not> safe_method h options"
    and "split (js ''; '') c = before @ (js ''hostpin_csrf='' @ e) # rest"
    and "\<And>part. part \<in> set before \<Longrightarrow> \<not> startsWith part (js ''hostpin_csrf='')"
    and "encodeURIComponent token = Some e" and "\<forall>u \<in> set token. u < 65536" and "token \<noteq> []"
    and "prepare_request h c path options = Inr request"
  shows "fr_headers request (header_name (js ''X-CSRF-Token'')) = Some (header_value token) \<and>
    fr_credentials request = js ''same-origin''"
proof (rule csrf_header_set [OF assms(1) _ assms(6,7)])
  have n: "js ''hostpin_csrf='' = js ''hostpin_csrf'' @ js ''=''" by simp
  show "cookie c (js ''hostpin_csrf'') = Inr token"
    using cookie_value [of c "before" "js ''hostpin_csrf''" e rest] assms(2,3) decode_encode [OF assms(4,5)]
    unfolding n by simp
qed

theorem csrf_token_sent_witness:
  "\<exists>request. prepare_request undefined (js ''theme=dark; hostpin_csrf=a%2Fb'') (js ''/api/v1/auth/logout'')
      (no_options\<lparr>ri_method := Some (js ''POST'')\<rparr>) = Inr request \<and>
    fr_headers request (header_name (js ''X-CSRF-Token'')) = Some (header_value (js ''a/b''))"
proof -
  let ?c = "js ''theme=dark; hostpin_csrf=a%2Fb''" and ?o = "no_options\<lparr>ri_method := Some (js ''POST'')\<rparr>"
  have sp: "split (js ''; '') ?c = [js ''theme=dark''] @ (js ''hostpin_csrf='' @ js ''a%2Fb'') # []"
    by (simp add: split_def startsWith_def)
  have m: "\<not> safe_method undefined ?o"
    by (simp add: safe_method_def toUpperCase_def is_ascii_def upper_unit_def no_options_def)
  have e: "encodeURIComponent (js ''a/b'') = Some (js ''a%2Fb'')"
    by (simp add: encodeURIComponent_def high_surrogate_def low_surrogate_def encode_point_def
        unreserved_def is_digit_def utf8_def pct_def hex_digit_def)
  have d: "decodeURIComponent (js ''a%2Fb'') = Some (js ''a/b'')" by (rule decode_encode [OF e]) simp
  have k: "cookie ?c (js ''hostpin_csrf'') = Inr (js ''a/b'')"
    using d sp by (simp add: cookie_def startsWith_def)
  obtain r where r: "prepare_request undefined ?c (js ''/api/v1/auth/logout'') ?o = Inr r"
    using m k by (simp add: request_defs header_set_def header_value_ok_def header_value_def
        header_space_def truthy_body_def no_options_def)
  show ?thesis using csrf_token_sent [OF m sp _ e _ _ r] r by (simp add: startsWith_def)
qed

theorem csrf_token_not_leaked:
  assumes "safe_method h options" and "ri_headers options = []"
    and "prepare_request h c path options = Inr request"
  shows "fr_headers request (header_name (js ''X-CSRF-Token'')) = None"
  using assms names_differ by (auto simp: request_defs bind_result_def split: sum.splits if_splits
      dest!: header_setD)

theorem csrf_token_not_leaked_witness:
  "\<exists>request. prepare_request undefined (js ''hostpin_csrf=t'') (js ''/api/v1/auth/me'') no_options = Inr request \<and>
    fr_headers request (header_name (js ''X-CSRF-Token'')) = None"
proof -
  have m: "safe_method undefined no_options"
    by (simp add: safe_method_def toUpperCase_def is_ascii_def upper_unit_def no_options_def)
  obtain r where r: "prepare_request undefined (js ''hostpin_csrf=t'') (js ''/api/v1/auth/me'') no_options = Inr r"
    using m by (simp add: request_defs truthy_body_def no_options_def)
  show ?thesis using csrf_token_not_leaked [OF m _ r] r by (simp add: no_options_def)
qed

theorem form_keeps_boundary:
  assumes "ri_headers options = []" and "ri_body options = Some (FormBody entries)"
    and "prepare_request h c path options = Inr request"
  shows "fr_headers request (header_name (js ''Content-Type'')) = None \<and> fr_body request = ri_body options"
  using assms names_differ by (auto simp: request_defs is_form_def bind_result_def split: sum.splits if_splits
      dest!: header_setD)

theorem form_keeps_boundary_witness:
  "\<exists>request. prepare_request undefined [] (js ''/api/v1/admin/themes/upload'')
      \<lparr>ri_method = Some (js ''POST''), ri_headers = [], ri_body = Some (FormBody [(js ''file'', FormFile [80, 75])])\<rparr>
      = Inr request \<and> fr_headers request (header_name (js ''Content-Type'')) = None"
proof -
  let ?o = "\<lparr>ri_method = Some (js ''POST''), ri_headers = [], ri_body = Some (FormBody [(js ''file'', FormFile [80, 75])])\<rparr>"
  have "cookie [] (js ''hostpin_csrf'') = Inr []" by (simp add: cookie_def split_def startsWith_def)
  then obtain r where r: "prepare_request undefined [] (js ''/api/v1/admin/themes/upload'') ?o = Inr r"
    by (simp add: request_defs is_form_def)
  show ?thesis using form_keeps_boundary [OF _ _ r] r by simp
qed

section \<open>Responses\<close>

theorem http_error_reported:
  assumes "prepare_request h c path options = Inr request" and "fetch request = Inr response"
    and "\<not> resp_ok response" and "rs_json response \<noteq> Inr JNull"
  shows "\<exists>code message. api h c fetch path options = Inl (APIError (num_of_nat (rs_status response)) code message)"
  using assms by (auto simp: api_def checkedResponse_def response_failure_def Let_def split: sum.splits)

text \<open>
  C12: An error response whose body is not JSON is reported with its HTTP status and the generic
  code and message.
\<close>

theorem http_status_kept:
  assumes "prepare_request h c path options = Inr request" and "fetch request = Inr response"
    and "\<not> resp_ok response" and "rs_json response = Inl e"
  shows "api h c fetch path options = Inl (APIError (num_of_nat (rs_status response)) (JStr (js ''http_error''))
    (js ''Request failed with HTTP '' @ num_string (num_of_nat (rs_status response))))"
  using assms by (simp add: api_def checkedResponse_def response_failure_def or_else_def)

theorem http_status_kept_witness:
  "api undefined [] (\<lambda>request. Inr \<lparr>rs_status = 502, rs_headers = Map.empty,
      rs_json = Inl (EngineError (js ''SyntaxError'')), rs_blob = Inr []\<rparr>) (js ''/api/v1/auth/me'') no_options =
    Inl (APIError (num_of_nat 502) (JStr (js ''http_error'')) (js ''Request failed with HTTP '' @ num_string (num_of_nat 502)))"
proof -
  have "safe_method undefined no_options"
    by (simp add: safe_method_def toUpperCase_def is_ascii_def upper_unit_def no_options_def)
  then obtain r where "prepare_request undefined [] (js ''/api/v1/auth/me'') no_options = Inr r"
    by (simp add: request_defs truthy_body_def no_options_def)
  from http_status_kept [OF this, of "\<lambda>request. Inr \<lparr>rs_status = 502, rs_headers = Map.empty,
      rs_json = Inl (EngineError (js ''SyntaxError'')), rs_blob = Inr []\<rparr>"]
  show ?thesis by (simp add: resp_ok_def)
qed

lemma api_result_ok:
  "api h c fetch path options = Inr v \<Longrightarrow> \<exists>request response. prepare_request h c path options = Inr request \<and>
     fetch request = Inr response \<and> resp_ok response"
  by (auto simp: api_def checkedResponse_def bind_result_def split: sum.splits if_splits)

section \<open>File names\<close>

lemma literal_at_append: "map lower_unit p = lit \<Longrightarrow> literal_at lit (p @ s)"
  by (auto simp: literal_at_def)

lemma capture_here:
  assumes "map lower_unit p = lit" and "p \<noteq> []" and "\<forall>u \<in> set run. \<not> stop u" and "run \<noteq> []"
    and "rest = [] \<or> stop (hd rest)"
  shows "capture lit False stop (p @ run @ rest) = Some run"
proof -
  have l: "length lit = length p" using assms(1) by auto
  have t: "takeWhile (\<lambda>u. \<not> stop u) (run @ rest) = run"
    using assms(3,5) by (cases rest) (auto simp: takeWhile_append2)
  obtain c cs where p: "p = c # cs" using assms(2) by (cases p) auto
  have "literal_at lit (p @ run @ rest)" by (rule literal_at_append [OF assms(1)])
  then show ?thesis using t l assms(4) p by (simp add: Let_def)
qed

lemma capture_skip: "\<not> literal_at lit (c # cs) \<Longrightarrow> capture lit q stop (c # cs) = capture lit q stop cs"
  by simp

text \<open>The extended form of the header (RFC 6266), with the name of the charset in capitals or, as Go writes it, in small letters.\<close>

definition disposition_prefix :: jsstring where
  "disposition_prefix = js ''attachment; filename*=UTF-8'' @ [39, 39]"

definition disposition_small :: jsstring where
  "disposition_small = js ''attachment; filename*=utf-8'' @ [39, 39]"

lemma unreserved_not_stop: "unreserved c \<or> c = 37 \<Longrightarrow> c \<noteq> 59"
  by (auto simp: unreserved_def is_digit_def)

lemma encoded_name_here:
  assumes "e \<noteq> []" and "\<forall>c \<in> set e. unreserved c \<or> c = 37"
  shows "encoded_name (disposition_prefix @ e) = Some e" and "encoded_name (disposition_small @ e) = Some e"
proof -
  let ?lit = "js ''filename*=utf-8'' @ [39, 39]" and ?stop = "\<lambda>u::nat. u = 59"
  have skip: "capture ?lit False ?stop (js ''attachment; '' @ t) = capture ?lit False ?stop t" for t
    by (simp add: literal_at_def lower_unit_def)
  have "capture ?lit False ?stop ((js ''filename*=UTF-8'' @ [39, 39]) @ e @ []) = Some e"
    "capture ?lit False ?stop ((js ''filename*=utf-8'' @ [39, 39]) @ e @ []) = Some e"
    using assms unreserved_not_stop by (intro capture_here; auto simp: lower_unit_def)+
  then show "encoded_name (disposition_prefix @ e) = Some e" and "encoded_name (disposition_small @ e) = Some e"
    using skip [of "(js ''filename*=UTF-8'' @ [39, 39]) @ e"] skip [of "(js ''filename*=utf-8'' @ [39, 39]) @ e"]
    by (simp_all add: encoded_name_def disposition_prefix_def disposition_small_def)
qed

text \<open>
  C13: A file name that is percent-encoded in the extended form of the Content-Disposition header
  (attachment; filename*=UTF-8 or utf-8, escaped as by encodeURIComponent) is the file name of the
  download, for every well-formed string.
\<close>

theorem filename_roundtrip:
  assumes "name \<noteq> []" and "\<forall>u \<in> set name. u < 65536" and "encodeURIComponent name = Some e"
  shows "download_filename (Some (disposition_prefix @ e)) = name \<and> download_filename (Some (disposition_small @ e)) = name"
proof -
  have d: "decodeURIComponent e = Some name" using assms(2,3) by (intro decode_encode)
  then have "e \<noteq> []" using assms(1) by auto
  moreover have "\<forall>c \<in> set e. unreserved c \<or> c = 37" using encode_safe [OF assms(3,2)] by blast
  ultimately show ?thesis using encoded_name_here [of e] d by (simp add: download_filename_def)
qed

theorem filename_roundtrip_witness:
  "encodeURIComponent [22791, 46, 122] = Some (js ''%E5%A4%87.z'') \<and>
   download_filename (Some (disposition_prefix @ js ''%E5%A4%87.z'')) = [22791, 46, 122]"
proof -
  have e: "encodeURIComponent [22791, 46, 122] = Some (js ''%E5%A4%87.z'')"
    by (simp add: encodeURIComponent_def high_surrogate_def low_surrogate_def encode_point_def
        unreserved_def is_digit_def utf8_def pct_def hex_digit_def)
  show ?thesis using filename_roundtrip [OF _ _ e] e by simp
qed

theorem filename_fallback:
  assumes "encoded_name d = Some e" and "decodeURIComponent e = None"
  shows "download_filename (Some d) = fallback_filename"
  using assms by (simp add: download_filename_def)

end
