(* ===== verification/Session.thy ===== *)
theory Session
  imports Api
begin

text \<open>
  \<open>web/src/stores/session.ts\<close> and the navigation guard of \<open>web/src/router.ts\<close>. An action takes the
  answers of the server to its requests and returns the failure it throws, if any, with the new
  state; the router runs the guard again for every redirect.
\<close>

type_synonym 's outcome = "failure option \<times> 's"

section \<open>The store\<close>

record SessionResponse =
  me_setup_complete :: bool
  me_logged_in :: bool
  me_username :: "jsstring option"
  me_two_factor_enabled :: "bool option"
  me_csrf_token :: "jsstring option"

record version_info =
  ve_version :: jsstring
  ve_commit :: jsstring
  ve_protocol :: number

record SiteResponse =
  site_setup_complete :: bool
  site_authenticated :: bool
  site_settings :: SiteSettings
  site_version :: version_info

record session =
  initialized :: bool
  setupComplete :: bool
  loggedIn :: bool
  username :: jsstring
  site :: "SiteSettings option"
  version :: jsstring

definition session_init :: session where
  "session_init = \<lparr>initialized = False, setupComplete = False, loggedIn = False, username = [],
     site = None, version = []\<rparr>"

type_synonym refresh_answer = "(failure + SessionResponse) \<times> (failure + SiteResponse)"

definition refresh :: "refresh_answer \<Rightarrow> session \<Rightarrow> session outcome" where
  "refresh answer s = (case both (fst answer) (snd answer) of
     Inl e \<Rightarrow> (Some e, s)
   | Inr (me, st) \<Rightarrow> (None,
       s\<lparr>setupComplete := me_setup_complete me, loggedIn := me_logged_in me,
         username := (case me_username me of Some u \<Rightarrow> u | None \<Rightarrow> []),
         site := Some (site_settings st), version := ve_version (site_version st), initialized := True\<rparr>))"

definition login_body :: "jsstring \<Rightarrow> jsstring \<Rightarrow> jsstring \<Rightarrow> json" where
  "login_body user password totpCode =
     JObj [(js ''username'', JStr user), (js ''password'', JStr password), (js ''totp_code'', JStr totpCode)]"

text \<open>\<open>post\<close> is what the server answers to the request with the body of \<open>login_body\<close>.\<close>

definition login :: "(json \<Rightarrow> failure + json option) \<Rightarrow> refresh_answer \<Rightarrow>
    jsstring \<Rightarrow> jsstring \<Rightarrow> jsstring \<Rightarrow> session \<Rightarrow> session outcome" where
  "login post answer user password totpCode s =
     (case post (login_body user password totpCode) of
        Inl e \<Rightarrow> (Some e, s)
      | Inr _ \<Rightarrow> refresh answer s)"

definition logout :: "failure + json option \<Rightarrow> session \<Rightarrow> session outcome" where
  "logout post s = (case post of
     Inl e \<Rightarrow> (Some e, s)
   | Inr _ \<Rightarrow> (None, s\<lparr>loggedIn := False, username := []\<rparr>))"

section \<open>Routes and the guard\<close>

datatype route = Overview | LatencyRoute | Node | Share | SharedNode | Login | Setup | Admin

definition routes :: "(jsstring \<times> route) list" where
  "routes = [(js ''/'', Overview), (js ''/latency'', LatencyRoute), (js ''/nodes/:id'', Node),
     (js ''/share/:token'', Share), (js ''/share/:token/nodes/:id'', SharedNode), (js ''/login'', Login),
     (js ''/setup'', Setup), (js ''/admin/:section?'', Admin)]"

text \<open>Every other path is sent to the overview, before any guard runs.\<close>

definition route_redirects :: "(jsstring \<times> jsstring) list" where
  "route_redirects = [(js ''/:pathMatch(.*)*'', js ''/'')]"

fun meta_admin :: "route \<Rightarrow> bool" where
  "meta_admin Admin = True"
| "meta_admin _ = False"

record target =
  to_name :: route
  to_fullPath :: jsstring

datatype decision = Proceed | Redirect route "jsstring option"

definition decide :: "session \<Rightarrow> target \<Rightarrow> decision" where
  "decide s to =
     (if initialized s \<and> \<not> setupComplete s \<and> to_name to \<noteq> Setup then Redirect Setup None
      else if initialized s \<and> setupComplete s \<and> to_name to = Setup then Redirect Overview None
      else if meta_admin (to_name to) \<and> \<not> loggedIn s then Redirect Login (Some (to_fullPath to))
      else if to_name to = Login \<and> loggedIn s then Redirect Admin None
      else Proceed)"

definition beforeEach :: "refresh_answer \<Rightarrow> target \<Rightarrow> session \<Rightarrow> decision \<times> session" where
  "beforeEach answer to s =
     (let s' = (if \<not> initialized s then snd (refresh answer s) else s) in (decide s' to, s'))"

text \<open>
  The router calls the guard again for the target of a redirect, whose full path \<open>resolve\<close> gives;
  \<open>answers n\<close> is what the server says when the guard runs for the \<open>n\<close>-th time.
\<close>

fun navigate :: "nat \<Rightarrow> (route \<Rightarrow> jsstring option \<Rightarrow> jsstring) \<Rightarrow> (nat \<Rightarrow> refresh_answer) \<Rightarrow>
    target \<Rightarrow> session \<Rightarrow> (target \<times> session) option" where
  "navigate 0 resolve answers to s = None"
| "navigate (Suc fuel) resolve answers to s =
     (case beforeEach (answers 0) to s of
        (Proceed, s') \<Rightarrow> Some (to, s')
      | (Redirect r next, s') \<Rightarrow>
          navigate fuel resolve (\<lambda>n. answers (Suc n)) \<lparr>to_name = r, to_fullPath = resolve r next\<rparr> s')"

section \<open>The store's invariant\<close>

text \<open>Nothing is known before the first successful refresh, and only a user is logged in.\<close>

definition session_ok :: "session \<Rightarrow> bool" where
  "session_ok s \<longleftrightarrow> (initialized s \<longrightarrow> site s \<noteq> None) \<and>
     (\<not> initialized s \<longrightarrow> \<not> loggedIn s \<and> \<not> setupComplete s \<and> username s = [] \<and> site s = None)"

datatype session_event = Refresh refresh_answer
  | LoginAttempt "failure + json option" refresh_answer jsstring jsstring jsstring
  | Logout "failure + json option" | Guard refresh_answer target

fun session_step :: "session_event \<Rightarrow> session \<Rightarrow> session" where
  "session_step (Refresh a) s = snd (refresh a s)"
| "session_step (LoginAttempt p a u w c) s = snd (login (\<lambda>_. p) a u w c s)"
| "session_step (Logout p) s = snd (logout p s)"
| "session_step (Guard a to) s = snd (beforeEach a to s)"

lemmas session_defs = refresh_def login_def logout_def beforeEach_def Let_def

lemma refresh_cases:
  obtains e where "refresh a s = (Some e, s)"
  | me st where "fst a = Inr me" "snd a = Inr st" "refresh a s = (None,
       s\<lparr>setupComplete := me_setup_complete me, loggedIn := me_logged_in me,
         username := (case me_username me of Some u \<Rightarrow> u | None \<Rightarrow> []),
         site := Some (site_settings st), version := ve_version (site_version st), initialized := True\<rparr>)"
  using that by (cases "fst a"; cases "snd a") (auto simp: refresh_def)

lemma refresh_ok: "session_ok s \<Longrightarrow> session_ok (snd (refresh a s))"
  by (cases rule: refresh_cases [of a s]) (auto simp: session_ok_def)

lemma logout_ok: "session_ok s \<Longrightarrow> session_ok (snd (logout p s))"
  by (auto simp: logout_def session_ok_def split: sum.split)

interpretation session: store session_step any_event session_ok
proof
  fix s e
  show "session_ok s \<Longrightarrow> session_ok (session_step e s)"
    by (cases e) (simp_all add: refresh_ok logout_ok login_def beforeEach_def Let_def split: sum.split)
qed

section \<open>Properties\<close>

text \<open>
  C10: Whatever sequence of refreshes, login attempts, logouts and navigations happens, an
  uninitialized session knows no user and no site, and an initialized one knows its site.
\<close>

theorem session_invariant:
  "session_ok (fold session_step es session_init)"
  by (rule session.run_keeps) (simp_all add: session_ok_def session_init_def list_all_iff)

theorem login_reports_failure:
  "fst (login post a u w c s) \<noteq> None \<longrightarrow> snd (login post a u w c s) = s"
  by (cases rule: refresh_cases [of a s]) (auto simp: login_def split: sum.split)

text \<open>The administration opens for a logged-in user only.\<close>

lemma decide_admin: "decide s to = Proceed \<Longrightarrow> to_name to = Admin \<Longrightarrow> loggedIn s"
  by (auto simp: decide_def split: if_splits)

lemma guard_ok: "session_ok s \<Longrightarrow> session_ok (snd (beforeEach a to s))"
  by (simp add: beforeEach_def Let_def refresh_ok)

lemma navigate_ok: "session_ok s \<Longrightarrow> navigate n resolve answers to s = Some (to', s') \<Longrightarrow> session_ok s'"
proof (induction n resolve answers to s rule: navigate.induct)
  case (2 n resolve answers to s)
  show ?case
  proof (cases "beforeEach (answers 0) to s")
    case (Pair d u)
    then have "session_ok u" using guard_ok [OF 2(2), of "answers 0" to] by simp
    with Pair 2 show ?thesis by (auto split: decision.splits)
  qed
qed simp

lemma navigate_decided: "navigate n resolve answers to s = Some (to', s') \<Longrightarrow> decide s' to' = Proceed"
  by (induction n resolve answers to s rule: navigate.induct)
    (auto simp: beforeEach_def Let_def split: decision.splits if_splits)

text \<open>
  C9: A navigation from a consistent session that ends in the administration ends with a session
  that was fetched, is set up and logged in.
\<close>

theorem admin_requires_login:
  assumes "session_ok s" and "navigate n resolve answers to s = Some (to', s')" and "to_name to' = Admin"
  shows "initialized s' \<and> setupComplete s' \<and> loggedIn s'"
  using navigate_decided [OF assms(2)] navigate_ok [OF assms(1,2)] assms(3)
  by (auto simp: decide_def session_ok_def split: if_splits)

theorem admin_requires_login_witness:
  "\<exists>s'. navigate 2 (\<lambda>r n. js ''/admin'') (\<lambda>n. (Inr \<lparr>me_setup_complete = True, me_logged_in = True, me_username = None,
        me_two_factor_enabled = None, me_csrf_token = None\<rparr>, Inr \<lparr>site_setup_complete = True, site_authenticated = True,
        site_settings = undefined, site_version = \<lparr>ve_version = js ''1.0'', ve_commit = [], ve_protocol = Fin 1\<rparr>\<rparr>))
      \<lparr>to_name = Login, to_fullPath = js ''/login''\<rparr> session_init =
      Some (\<lparr>to_name = Admin, to_fullPath = js ''/admin''\<rparr>, s') \<and> setupComplete s' \<and> loggedIn s'"
proof -
  let ?me = "\<lparr>me_setup_complete = True, me_logged_in = True, me_username = None, me_two_factor_enabled = None, me_csrf_token = None\<rparr>"
  let ?st = "\<lparr>site_setup_complete = True, site_authenticated = True, site_settings = undefined,
      site_version = \<lparr>ve_version = js ''1.0'', ve_commit = [], ve_protocol = Fin 1\<rparr>\<rparr>"
  have "session_ok session_init" by (simp add: session_ok_def session_init_def)
  moreover obtain s' where "navigate 2 (\<lambda>r n. js ''/admin'') (\<lambda>n. (Inr ?me, Inr ?st)) \<lparr>to_name = Login, to_fullPath = js ''/login''\<rparr>
      session_init = Some (\<lparr>to_name = Admin, to_fullPath = js ''/admin''\<rparr>, s')"
    by (simp add: beforeEach_def decide_def refresh_def session_init_def numeral_2_eq_2)
  ultimately show ?thesis using admin_requires_login by fastforce
qed

theorem setup_only_once:
  assumes "navigate n resolve answers to s = Some (to', s')" and "initialized s'"
  shows "to_name to' = Setup \<longleftrightarrow> \<not> setupComplete s'"
  using navigate_decided [OF assms(1)] assms(2) by (auto simp: decide_def split: if_splits)

theorem setup_only_once_witness:
  "(to_name \<lparr>to_name = Setup, to_fullPath = js ''/setup''\<rparr> = Setup) = (\<not> setupComplete \<lparr>initialized = True,
     setupComplete = False, loggedIn = False, username = [], site = None, version = []\<rparr>)"
proof -
  let ?s = "\<lparr>initialized = True, setupComplete = False, loggedIn = False, username = [],
     site = None, version = []\<rparr>"
  have "navigate 2 (\<lambda>r n. js ''/setup'') undefined \<lparr>to_name = Overview, to_fullPath = js ''/''\<rparr> ?s =
      Some (\<lparr>to_name = Setup, to_fullPath = js ''/setup''\<rparr>, ?s)"
    by (simp add: beforeEach_def decide_def numeral_2_eq_2)
  from setup_only_once [OF this] show ?thesis by simp
qed

text \<open>
  A redirect leads to a page that the same session may open, so only a session that becomes known
  on the way needs a second redirect.
\<close>

lemma redirect_settles:
  assumes "decide s to = Redirect r next" and "initialized s"
  shows "decide s \<lparr>to_name = r, to_fullPath = p\<rparr> = Proceed"
  using assms by (auto simp: decide_def split: if_splits)

lemma guard_known: "initialized s \<Longrightarrow> beforeEach a to s = (decide s to, s)"
  by (simp add: beforeEach_def)

lemma guard_decides: "fst (beforeEach a to s) = decide (snd (beforeEach a to s)) to"
  by (simp add: beforeEach_def Let_def)

text \<open>A redirect decided for a known session is the last one.\<close>

lemma redirect_final:
  assumes "beforeEach a to s = (Redirect r next, s')" and "initialized s'"
  shows "navigate (Suc n) resolve answers \<lparr>to_name = r, to_fullPath = p\<rparr> s' \<noteq> None"
  using assms guard_decides [of a to s] redirect_settles [of s' to r "next" p] by (simp add: guard_known)

lemma unknown_redirects_to_login:
  assumes "session_ok s" and "decide s to = Redirect r next" and "\<not> initialized s"
  shows "r = Login"
  using assms by (auto simp: decide_def session_ok_def split: if_splits)

lemma unknown_login_proceeds:
  "session_ok s \<Longrightarrow> \<not> initialized s \<Longrightarrow> decide s \<lparr>to_name = Login, to_fullPath = p\<rparr> = Proceed"
  by (simp add: decide_def session_ok_def)

lemma login_settles:
  assumes "session_ok s"
  shows "navigate (Suc (Suc n)) resolve answers \<lparr>to_name = Login, to_fullPath = p\<rparr> s \<noteq> None"
proof (cases "beforeEach (answers 0) \<lparr>to_name = Login, to_fullPath = p\<rparr> s")
  case (Pair d s')
  have "session_ok s'" using guard_ok [OF assms] Pair by (metis snd_conv)
  moreover have "d = decide s' \<lparr>to_name = Login, to_fullPath = p\<rparr>"
    using guard_decides [of "answers 0" _ s] Pair by (metis fst_conv snd_conv)
  ultimately have "d \<noteq> Proceed \<Longrightarrow> initialized s'" using unknown_login_proceeds by blast
  then show ?thesis
    using Pair redirect_final [of "answers 0" _ s] by (cases d) (simp_all del: navigate.simps(2), simp_all)
qed

text \<open>
  C8: From every consistent session state each navigation ends after at most three runs of the
  guard, whatever the server answers.
\<close>

theorem navigation_settles:
  assumes "session_ok s"
  shows "\<exists>to' s'. navigate 3 resolve answers to s = Some (to', s')"
proof (cases "beforeEach (answers 0) to s")
  case (Pair d s')
  have ok: "session_ok s'" using guard_ok [OF assms] Pair by (metis snd_conv)
  have d: "d = decide s' to" using guard_decides [of "answers 0" to s] Pair by (metis fst_conv snd_conv)
  have "navigate (Suc (Suc (Suc 0))) resolve answers to s \<noteq> None"
  proof (cases d)
    case (Redirect r "next")
    let ?t = "\<lparr>to_name = r, to_fullPath = resolve r next\<rparr>" and ?a = "\<lambda>n. answers (Suc n)"
    have "navigate (Suc (Suc 0)) resolve ?a ?t s' \<noteq> None"
    proof (cases "initialized s'")
      case True
      then show ?thesis using redirect_final [of "answers 0" to s r "next" s'] Pair Redirect by blast
    next
      case False
      then have "r = Login" using unknown_redirects_to_login [OF ok] d Redirect by blast
      then show ?thesis using login_settles [OF ok] by blast
    qed
    then show ?thesis using Pair Redirect by (subst navigate.simps(2)) simp
  next
    case Proceed
    then show ?thesis using Pair by simp
  qed
  then show ?thesis by (auto simp: numeral_3_eq_3)
qed

theorem navigation_settles_witness:
  "\<exists>to' s'. navigate 3 (\<lambda>r n. []) (\<lambda>n. (Inl (EngineError (js ''TypeError'')), Inl (EngineError (js ''TypeError''))))
    \<lparr>to_name = Admin, to_fullPath = js ''/admin/nodes''\<rparr> session_init = Some (to', s')"
  by (rule navigation_settles) (simp add: session_ok_def session_init_def)

end
