(* ===== verification/Monitor.thy ===== *)
theory Monitor
  imports Api JSDate Traffic
begin

text \<open>
  \<open>web/src/stores/monitor.ts\<close>: the store behind the public pages. The window around it is part of
  the state: pending timeouts, running intervals, sockets that are not closed and loads that wait
  for the server. Every \<open>await\<close> splits an action in two events, so that closing sockets, timers and
  answers interleave freely; \<open>monitor_step\<close> is one event.
\<close>

section \<open>The store and its window\<close>

record monitor =
  nodes :: "NodeSnapshot list"
  probes :: "ProbeTask list"
  loading :: bool
  lastUpdate :: "number option"
  socket :: "nat option"
  reconnectTimer :: nat
  presenceTimer :: nat
  offlineAfterMS :: number

text \<open>A load belongs to a view, or to the callback of the reconnect timer.\<close>

datatype load_kind = ViewLoad | ReconnectLoad

record window = monitor +
  next_id :: nat
  timeouts :: "nat list"
  intervals :: "nat list"
  open_sockets :: "nat list"
  loads :: "(nat \<times> load_kind) list"

definition window_init :: window where
  "window_init = \<lparr>nodes = [], probes = [], loading = False, lastUpdate = None, socket = None,
     reconnectTimer = 0, presenceTimer = 0, offlineAfterMS = Fin 90000,
     next_id = 1, timeouts = [], intervals = [], open_sockets = [], loads = []\<rparr>"

section \<open>Getters\<close>

definition onlineCount :: "'a monitor_scheme \<Rightarrow> nat" where
  "onlineCount s = length (filter (\<lambda>item. pn_online (sn_node item)) (nodes s))"

text \<open>Strings are ordered by their code units, as \<open>sort()\<close> does.\<close>

definition groups :: "'a monitor_scheme \<Rightarrow> jsstring list" where
  "groups s = sort (set_array (filter (\<lambda>g. g \<noteq> [])
     (List.map_filter (\<lambda>item. pn_group (sn_node item)) (nodes s))))"

section \<open>Samples and presence\<close>

definition received_ms :: "host \<Rightarrow> MetricSample \<Rightarrow> number" where
  "received_ms h sample =
     date_time h (case ms_received_at sample of Some r \<Rightarrow> r | None \<Rightarrow> ms_collected_at sample)"

definition is_fresh :: "host \<Rightarrow> number \<Rightarrow> number \<Rightarrow> MetricSample \<Rightarrow> bool" where
  "is_fresh h limit now sample \<longleftrightarrow> now - received_ms h sample < limit"

definition set_online :: "bool \<Rightarrow> NodeSnapshot \<Rightarrow> NodeSnapshot" where
  "set_online b target = target\<lparr>sn_node := (sn_node target)\<lparr>pn_online := b\<rparr>\<rparr>"

definition take_sample :: "host \<Rightarrow> number \<Rightarrow> number \<Rightarrow> MetricSample \<Rightarrow> NodeSnapshot \<Rightarrow> NodeSnapshot" where
  "take_sample h limit now sample target =
     set_online (is_fresh h limit now sample) (target\<lparr>sn_metric := Some sample\<rparr>)"

definition applySample :: "host \<Rightarrow> number \<Rightarrow> jsstring \<Rightarrow> MetricSample \<Rightarrow> 'a monitor_scheme \<Rightarrow> 'a monitor_scheme" where
  "applySample h now nodeID sample s =
     s\<lparr>nodes := update_first (\<lambda>item. pn_id (sn_node item) = nodeID)
       (take_sample h (offlineAfterMS s) now sample) (nodes s)\<rparr>"

definition present_at :: "host \<Rightarrow> number \<Rightarrow> number \<Rightarrow> NodeSnapshot \<Rightarrow> bool" where
  "present_at h limit now target =
     (case sn_metric target of None \<Rightarrow> False | Some m \<Rightarrow> is_fresh h limit now m)"

definition refreshPresence :: "host \<Rightarrow> number \<Rightarrow> 'a monitor_scheme \<Rightarrow> 'a monitor_scheme" where
  "refreshPresence h now s =
     s\<lparr>nodes := map (\<lambda>target. set_online (present_at h (offlineAfterMS s) now target) target) (nodes s)\<rparr>"

section \<open>Messages of the live socket\<close>

record live_message =
  lm_type :: jsstring
  lm_node_id :: "jsstring option"
  lm_sample :: "MetricSample option"
  lm_samples :: "(jsstring \<times> MetricSample) list option"
  lm_offline_after_ms :: "number option"

definition new_threshold :: "number option \<Rightarrow> number \<Rightarrow> number" where
  "new_threshold ms old = (case ms of None \<Rightarrow> old
     | Some v \<Rightarrow> if truthy_num v \<and> v \<ge> Fin 10000 then v else old)"

definition apply_samples ::
  "host \<Rightarrow> number \<Rightarrow> (jsstring \<times> MetricSample) list \<Rightarrow> 'a monitor_scheme \<Rightarrow> 'a monitor_scheme" where
  "apply_samples h now entries s = fold (\<lambda>(nodeID, sample). applySample h now nodeID sample) entries s"

definition onmessage :: "host \<Rightarrow> number \<Rightarrow> live_message \<Rightarrow> 'a monitor_scheme \<Rightarrow> 'a monitor_scheme" where
  "onmessage h now message s =
     (let s' =
       (case (lm_type message = js ''snapshot'', lm_samples message) of
          (True, Some samples) \<Rightarrow> apply_samples h now samples
            (s\<lparr>offlineAfterMS := new_threshold (lm_offline_after_ms message) (offlineAfterMS s)\<rparr>)
        | _ \<Rightarrow>
          (case (lm_type message = js ''sample'', lm_node_id message, lm_sample message) of
             (True, Some nodeID, Some sample) \<Rightarrow>
               if nodeID \<noteq> [] then applySample h now nodeID sample s else s
           | _ \<Rightarrow> s))
      in s'\<lparr>lastUpdate := Some now\<rparr>)"

section \<open>Connection\<close>

definition disconnect :: "window \<Rightarrow> window" where
  "disconnect w =
     (let w' = w\<lparr>timeouts := removeAll (reconnectTimer w) (timeouts w),
                 intervals := removeAll (presenceTimer w) (intervals w)\<rparr> in
      case socket w of
        None \<Rightarrow> w'
      | Some old \<Rightarrow> w'\<lparr>socket := None, open_sockets := removeAll old (open_sockets w)\<rparr>)"

definition connect :: "window \<Rightarrow> window" where
  "connect w =
     (let w' = disconnect w; s = next_id w'; t = Suc s in
      w'\<lparr>socket := Some s, open_sockets := s # open_sockets w',
         presenceTimer := t, intervals := t # intervals w', next_id := Suc t\<rparr>)"

text \<open>\<open>socket.onclose\<close> of socket \<open>sock\<close>, which is closed from then on.\<close>

definition onclose :: "nat \<Rightarrow> window \<Rightarrow> window" where
  "onclose sock w =
     (let w' = w\<lparr>open_sockets := removeAll sock (open_sockets w)\<rparr> in
      if socket w \<noteq> Some sock then w'
      else w'\<lparr>socket := None, nodes := [], reconnectTimer := next_id w,
        timeouts := next_id w # timeouts w, next_id := Suc (next_id w)\<rparr>)"

section \<open>Loading\<close>

type_synonym load_answer = "(failure + NodeSnapshot list) \<times> (failure + ProbeTask list)"

text \<open>\<open>load()\<close> up to its \<open>await\<close>, and from there on.\<close>

definition load_start :: "load_kind \<Rightarrow> window \<Rightarrow> window" where
  "load_start k w = w\<lparr>loading := True, loads := (next_id w, k) # loads w, next_id := Suc (next_id w)\<rparr>"

definition load_finish :: "load_answer \<Rightarrow> number \<Rightarrow> 'a monitor_scheme \<Rightarrow> failure option \<times> 'a monitor_scheme" where
  "load_finish answer now s = (case both (fst answer) (snd answer) of
     Inl e \<Rightarrow> (Some e, s\<lparr>loading := False\<rparr>)
   | Inr (ns, ps) \<Rightarrow> (None, s\<lparr>nodes := ns, probes := ps, lastUpdate := Some now, loading := False\<rparr>))"

text \<open>The rest of the timer's callback once its load has settled.\<close>

definition reconnect_finish :: "load_answer \<Rightarrow> number \<Rightarrow> window \<Rightarrow> window" where
  "reconnect_finish answer now w =
     (let (e, w') = load_finish answer now w; w'' = (if e = None then w' else w'\<lparr>nodes := []\<rparr>) in
      if socket w'' = None then connect w'' else w'')"

section \<open>Events\<close>

datatype monitor_event =
    ViewLoads
  | Answer nat load_answer number
  | Connect
  | Disconnect
  | Message nat "live_message option" number
  | Closed nat
  | Timeout nat
  | Tick nat number

text \<open>
  An event that cannot happen in a state (a message on a closed socket, a timer that was cleared,
  an answer nobody waits for) changes nothing. A message that does not parse throws in the handler.
\<close>

fun monitor_step :: "host \<Rightarrow> monitor_event \<Rightarrow> window \<Rightarrow> window" where
  "monitor_step h ViewLoads w = load_start ViewLoad w"
| "monitor_step h (Answer i answer now) w =
     (let w' = w\<lparr>loads := filter (\<lambda>l. fst l \<noteq> i) (loads w)\<rparr> in
      case map_of (loads w) i of
        None \<Rightarrow> w
      | Some ViewLoad \<Rightarrow> snd (load_finish answer now w')
      | Some ReconnectLoad \<Rightarrow> reconnect_finish answer now w')"
| "monitor_step h Connect w = connect w"
| "monitor_step h Disconnect w = disconnect w"
| "monitor_step h (Message sock m now) w =
     (if sock \<in> set (open_sockets w)
      then (case m of None \<Rightarrow> w | Some message \<Rightarrow> onmessage h now message w) else w)"
| "monitor_step h (Closed sock) w = onclose sock w"
| "monitor_step h (Timeout t) w =
     (if t \<in> set (timeouts w)
      then load_start ReconnectLoad (w\<lparr>timeouts := removeAll t (timeouts w)\<rparr>) else w)"
| "monitor_step h (Tick t now) w = (if t \<in> set (intervals w) then refreshPresence h now w else w)"

text \<open>A concrete node and a concrete sample, for the examples.\<close>

definition example_node :: "jsstring \<Rightarrow> PublicNode" where
  "example_node i = \<lparr>pn_id = i, pn_role = RoleMonitor, pn_latency_enabled = False, pn_name = js ''edge'',
     pn_group = None, pn_region = None, pn_country_code = None, pn_latitude = None, pn_longitude = None,
     pn_tags = [], pn_public_remark = None, pn_hidden = False, pn_weight = Fin 0, pn_price = Fin 0,
     pn_currency = js ''USD'', pn_billing_cycle_days = Fin 30, pn_expires_at = None, pn_auto_renewal = False,
     pn_traffic_limit = Fin 0, pn_traffic_limit_type = js ''sum'', pn_traffic_reset_day = Fin 1, pn_os = None,
     pn_arch = None, pn_cpu_name = None, pn_cpu_cores = None, pn_virtualization = None,
     pn_kernel_version = None, pn_created_at = [], pn_updated_at = [], pn_last_seen_at = None,
     pn_online = True\<rparr>"

definition example_sample :: "jsstring \<Rightarrow> MetricSample" where
  "example_sample t = \<lparr>ms_node_id = None, ms_sequence = Fin 1, ms_collected_at = t, ms_received_at = Some t,
     ms_boot_id = None, ms_clock_offset_ms = None, ms_cpu = Fin 0, ms_load1 = Fin 0, ms_load5 = Fin 0,
     ms_load15 = Fin 0, ms_memory_total = Fin 1, ms_memory_used = Fin 0, ms_swap_total = Fin 0,
     ms_swap_used = Fin 0, ms_disk_total = Fin 1, ms_disk_used = Fin 0, ms_net_rx_bps = Fin 0,
     ms_net_tx_bps = Fin 0, ms_net_rx_bytes = Fin 0, ms_net_tx_bytes = Fin 0, ms_monthly_rx_bytes = None,
     ms_monthly_tx_bytes = None, ms_tcp_connections = Fin 0, ms_udp_connections = Fin 0,
     ms_processes = Fin 0, ms_temperature = None, ms_uptime_seconds = Fin 1, ms_disks = None,
     ms_networks = None, ms_gpus = None, ms_message = None\<rparr>"

section \<open>Invariants\<close>

text \<open>
  The window never holds more than one socket, interval and timeout of the store: each is the one
  the store remembers. The threshold is at least ten seconds.
\<close>

definition window_ok :: "window \<Rightarrow> bool" where
  "window_ok w \<longleftrightarrow>
     open_sockets w = (case socket w of None \<Rightarrow> [] | Some s \<Rightarrow> [s]) \<and>
     (intervals w = [] \<or> intervals w = [presenceTimer w]) \<and>
     (timeouts w = [] \<or> timeouts w = [reconnectTimer w] \<and> socket w = None) \<and>
     (socket w \<noteq> None \<longrightarrow> intervals w = [presenceTimer w]) \<and>
     distinct (map fst (loads w)) \<and> (\<forall>l \<in> set (loads w). fst l < next_id w) \<and>
     Fin 10000 \<le> offlineAfterMS w"

text \<open>Somebody works on the connection: a socket, a timer, or a load that will connect.\<close>

definition supervised :: "window \<Rightarrow> bool" where
  "supervised w \<longleftrightarrow> socket w \<noteq> None \<or> timeouts w \<noteq> [] \<or> ReconnectLoad \<in> snd ` set (loads w)"

definition idle :: "window \<Rightarrow> bool" where
  "idle w \<longleftrightarrow> socket w = None \<and> open_sockets w = [] \<and> timeouts w = [] \<and> intervals w = [] \<and>
     ReconnectLoad \<notin> snd ` set (loads w)"

text \<open>What the handlers of samples leave alone: everything but nodes, threshold and time stamp.\<close>

lemma applySample_frame [simp]:
  "socket (applySample h now i m s) = socket s" "reconnectTimer (applySample h now i m s) = reconnectTimer s"
  "presenceTimer (applySample h now i m s) = presenceTimer s" "offlineAfterMS (applySample h now i m s) = offlineAfterMS s"
  "monitor.more (applySample h now i m s) = monitor.more s"
  by (simp_all add: applySample_def)

lemma apply_samples_frame [simp]:
  "socket (apply_samples h now es s) = socket s" "reconnectTimer (apply_samples h now es s) = reconnectTimer s"
  "presenceTimer (apply_samples h now es s) = presenceTimer s"
  "offlineAfterMS (apply_samples h now es s) = offlineAfterMS s"
  "monitor.more (apply_samples h now es s) = monitor.more s"
  by (induction es arbitrary: s) (auto simp: apply_samples_def)

lemma window_more:
  "monitor.more w = monitor.more w' \<Longrightarrow> next_id w = next_id w' \<and> timeouts w = timeouts w' \<and>
     intervals w = intervals w' \<and> open_sockets w = open_sockets w' \<and> loads w = loads w'"
  for w w' :: window
  by (cases w; cases w') simp

lemma onmessage_frame:
  "socket (onmessage h now m s) = socket s \<and> reconnectTimer (onmessage h now m s) = reconnectTimer s \<and>
   presenceTimer (onmessage h now m s) = presenceTimer s \<and> monitor.more (onmessage h now m s) = monitor.more s"
  by (simp add: onmessage_def Let_def split: bool.split option.split)

lemma new_threshold_ge: "Fin 10000 \<le> old \<Longrightarrow> Fin 10000 \<le> new_threshold ms old"
  by (simp add: new_threshold_def split: option.split)

lemma onmessage_threshold: "Fin 10000 \<le> offlineAfterMS s \<Longrightarrow> Fin 10000 \<le> offlineAfterMS (onmessage h now m s)"
  by (simp add: onmessage_def Let_def new_threshold_ge split: bool.split option.split)

lemma window_ok_message: "window_ok w \<Longrightarrow> window_ok (onmessage h now m w)"
  using onmessage_frame [of h now m w] window_more [of "onmessage h now m w" w] onmessage_threshold [of w h now m]
  by (simp add: window_ok_def)

lemma disconnect_ok:
  assumes "window_ok w"
  shows "window_ok (disconnect w)" "socket (disconnect w) = None" "open_sockets (disconnect w) = []"
    "timeouts (disconnect w) = []" "intervals (disconnect w) = []" "loads (disconnect w) = loads w"
    "next_id (disconnect w) = next_id w"
  using assms by (auto simp: disconnect_def window_ok_def Let_def split: option.splits)

lemma connect_ok:
  assumes "window_ok w"
  shows "window_ok (connect w)" "socket (connect w) \<noteq> None" "loads (connect w) = loads w"
  using disconnect_ok [OF assms] by (auto simp: connect_def window_ok_def Let_def less_Suc_eq)

lemma onclose_ok: "window_ok w \<Longrightarrow> window_ok (onclose sock w)"
  by (auto simp: onclose_def window_ok_def Let_def less_Suc_eq split: option.splits)

lemma load_start_ok: "window_ok w \<Longrightarrow> window_ok (load_start k w)"
  by (auto simp: load_start_def window_ok_def less_Suc_eq split: option.splits)

lemma load_finish_ok: "window_ok w \<Longrightarrow> window_ok (snd (load_finish answer now w))"
  by (auto simp: load_finish_def window_ok_def split: sum.splits)

lemma load_finish_frame:
  "socket (snd (load_finish answer now w)) = socket w" "timeouts (snd (load_finish answer now w)) = timeouts w"
  "loads (snd (load_finish answer now w)) = loads w" "intervals (snd (load_finish answer now w)) = intervals w"
  "open_sockets (snd (load_finish answer now w)) = open_sockets w" for w :: window
  by (simp_all add: load_finish_def split: sum.splits)

lemma window_ok_nodes: "window_ok w \<Longrightarrow> window_ok (w\<lparr>nodes := ns\<rparr>)"
  by (simp add: window_ok_def)

lemma reconnect_finish_ok:
  assumes "window_ok w"
  shows "window_ok (reconnect_finish answer now w)" "socket (reconnect_finish answer now w) \<noteq> None"
proof -
  let ?w = "if fst (load_finish answer now w) = None then snd (load_finish answer now w)
    else (snd (load_finish answer now w))\<lparr>nodes := []\<rparr>"
  have eq: "reconnect_finish answer now w = (if socket ?w = None then connect ?w else ?w)"
    by (simp add: reconnect_finish_def Let_def case_prod_beta)
  have ok: "window_ok ?w" using load_finish_ok [OF assms] window_ok_nodes by simp
  show "window_ok (reconnect_finish answer now w)" "socket (reconnect_finish answer now w) \<noteq> None"
    unfolding eq using ok connect_ok [OF ok] by presburger+
qed

lemma window_ok_loads: "window_ok w \<Longrightarrow> window_ok (w\<lparr>loads := filter P (loads w)\<rparr>)"
  by (auto simp: window_ok_def distinct_map_filter)

lemma window_ok_timeouts: "window_ok w \<Longrightarrow> window_ok (w\<lparr>timeouts := removeAll t (timeouts w)\<rparr>)"
  by (auto simp: window_ok_def)

lemma window_ok_presence: "window_ok w \<Longrightarrow> window_ok (refreshPresence h now w)"
  by (simp add: window_ok_def refreshPresence_def)

interpretation live: store "monitor_step h" any_event window_ok
proof
  fix w e
  assume ok: "window_ok w"
  show "window_ok (monitor_step h e w)"
  proof (cases e)
    case (Answer i answer now)
    then show ?thesis using window_ok_loads [OF ok, of "\<lambda>l. fst l \<noteq> i"] ok
      by (auto simp: Let_def load_finish_ok reconnect_finish_ok(1) split: option.split load_kind.split)
  qed (use ok in \<open>auto simp: load_start_ok connect_ok disconnect_ok(1) window_ok_message onclose_ok
      window_ok_timeouts window_ok_presence split: option.split\<close>)
qed

section \<open>The connection\<close>

text \<open>
  C1: Whatever loads, messages, closed sockets, timers, connects and disconnects happen in
  whatever order, the live store never holds more than the one socket it remembers, one presence
  interval and one reconnect timeout, never a timeout beside an open socket, and its offline
  threshold never drops below ten seconds.
\<close>

theorem no_leaked_resources:
  "let w = fold (monitor_step h) es window_init in
     open_sockets w = (case socket w of None \<Rightarrow> [] | Some s \<Rightarrow> [s]) \<and>
     length (intervals w) \<le> 1 \<and> length (timeouts w) \<le> 1 \<and>
     (timeouts w = [] \<or> socket w = None) \<and> Fin 10000 \<le> offlineAfterMS w"
proof -
  have "window_ok (fold (monitor_step h) es window_init)"
    by (rule live.run_keeps) (simp_all add: window_ok_def window_init_def list_all_iff)
  then show ?thesis by (auto simp: window_ok_def Let_def)
qed

text \<open>Between \<open>connect\<close> and \<open>disconnect\<close> the connection is always being worked on.\<close>

definition not_disconnect :: "monitor_event \<Rightarrow> bool" where
  "not_disconnect e \<longleftrightarrow> e \<noteq> Disconnect"

definition not_connect :: "monitor_event \<Rightarrow> bool" where
  "not_connect e \<longleftrightarrow> e \<noteq> Connect"

lemma supervised_connect: "window_ok w \<Longrightarrow> supervised (connect w)"
  using connect_ok by (simp add: supervised_def)

lemma other_loads:
  assumes "distinct (map fst ls)" and "map_of ls i = Some ViewLoad"
  shows "ReconnectLoad \<in> snd ` set (filter (\<lambda>l. fst l \<noteq> i) ls) \<longleftrightarrow> ReconnectLoad \<in> snd ` set ls"
proof
  assume "ReconnectLoad \<in> snd ` set ls"
  then obtain j where j: "(j, ReconnectLoad) \<in> set ls" by auto
  then have "map_of ls j = Some ReconnectLoad" using assms(1) by simp
  then have "j \<noteq> i" using assms(2) by auto
  with j show "ReconnectLoad \<in> snd ` set (filter (\<lambda>l. fst l \<noteq> i) ls)" by force
qed auto

lemma answer_view:
  assumes "map_of (loads w) i = Some ViewLoad"
  shows "monitor_step h (Answer i answer now) w =
    snd (load_finish answer now (w\<lparr>loads := filter (\<lambda>l. fst l \<noteq> i) (loads w)\<rparr>))"
  using assms by simp

interpretation link: store "monitor_step h" not_disconnect "\<lambda>w. window_ok w \<and> supervised w"
proof
  fix w e
  assume ok: "window_ok w \<and> supervised w" and e: "not_disconnect e"
  have "supervised (monitor_step h e w)"
  proof (cases e)
    case (Answer i answer now)
    show ?thesis
    proof (cases "map_of (loads w) i")
      case None
      then show ?thesis using Answer ok by simp
    next
      case (Some k)
      then show ?thesis
      proof (cases k)
        case ViewLoad
        then show ?thesis using Answer Some ok answer_view [of w i h answer now] other_loads [of "loads w" i]
          by (simp add: supervised_def load_finish_frame window_ok_def)
      next
        case ReconnectLoad
        then show ?thesis using Answer Some reconnect_finish_ok(2) [OF window_ok_loads] ok
          by (simp add: supervised_def Let_def)
      qed
    qed
  next
    case (Message sock m now)
    then show ?thesis using ok onmessage_frame [of h now _ w] window_more [of "onmessage h now _ w" w]
      by (auto simp: supervised_def split: option.split)
  next
    case Connect
    then show ?thesis using ok supervised_connect by simp
  qed (use ok e in \<open>auto simp: not_disconnect_def supervised_def load_start_def
      onclose_def Let_def refreshPresence_def split: if_splits\<close>)
  then show "window_ok (monitor_step h e w) \<and> supervised (monitor_step h e w)"
    using live.step_keeps ok by blast
qed

text \<open>
  C2: After connect and until disconnect the connection is always being worked on: there is a
  socket, a pending reconnect timeout, or a reconnect load whose answer will connect again.
\<close>

theorem reconnects_until_disconnect:
  assumes "window_ok w" and "list_all not_disconnect es"
  shows "supervised (fold (monitor_step h) es (connect w))"
  using link.run_keeps [of "connect w" es h] assms connect_ok supervised_connect by blast

theorem reconnects_until_disconnect_witness:
  "supervised (fold (monitor_step undefined) [Closed 1, Timeout 3, ViewLoads] (connect window_init))"
  by (rule reconnects_until_disconnect) (simp_all add: window_ok_def window_init_def not_disconnect_def)

interpretation quiet: store "monitor_step h" not_connect "\<lambda>w. window_ok w \<and> idle w"
proof
  fix w e
  assume ok: "window_ok w \<and> idle w" and e: "not_connect e"
  have "idle (monitor_step h e w)"
  proof (cases e)
    case (Answer i answer now)
    have "map_of (loads w) i \<noteq> Some ReconnectLoad"
      using ok by (force simp: idle_def dest: map_of_SomeD)
    then have "map_of (loads w) i = None \<or> map_of (loads w) i = Some ViewLoad"
      by (metis load_kind.exhaust not_None_eq)
    then show ?thesis using Answer ok by (auto simp: idle_def load_finish_frame Let_def)
  qed (use ok e in \<open>auto simp: idle_def not_connect_def load_start_def disconnect_def onclose_def Let_def\<close>)
  then show "window_ok (monitor_step h e w) \<and> idle (monitor_step h e w)"
    using live.step_keeps ok by blast
qed

text \<open>
  C3: When no reconnect load is in flight, after disconnect no event other than a new connect ever
  brings back a socket, a timer or an interval.
\<close>

theorem disconnect_is_final:
  assumes "window_ok w" and "ReconnectLoad \<notin> snd ` set (loads w)" and "list_all not_connect es"
  shows "idle (fold (monitor_step h) es (disconnect w))"
  using quiet.run_keeps [of "disconnect w" es h] assms disconnect_ok [OF assms(1)] by (simp add: idle_def)

theorem disconnect_is_final_witness:
  "idle (fold (monitor_step undefined) [ViewLoads, Closed 1, Timeout 3, Tick 2 (Fin 0)]
    (disconnect (connect window_init)))"
proof -
  have "window_ok window_init" by (simp add: window_ok_def window_init_def)
  from connect_ok [OF this] disconnect_is_final [of "connect window_init"] show ?thesis
    by (simp add: window_init_def not_connect_def del: fold.simps)
qed

text \<open>
  The hypothesis is needed: a load that the reconnect timer has started connects again when its
  answer comes after \<open>disconnect\<close>.
\<close>

theorem disconnect_race:
  assumes "window_ok w" and "(i, ReconnectLoad) \<in> set (loads w)"
  shows "socket (monitor_step h (Answer i answer now) (disconnect w)) \<noteq> None"
proof -
  have "distinct (map fst (loads w))" using assms(1) by (simp add: window_ok_def)
  then have "map_of (loads (disconnect w)) i = Some ReconnectLoad"
    using assms(2) disconnect_ok(6) [OF assms(1)] by simp
  then show ?thesis
    using reconnect_finish_ok(2) [OF window_ok_loads [OF disconnect_ok(1) [OF assms(1)]]] by (simp add: Let_def)
qed

theorem disconnect_race_witness:
  "socket (fold (monitor_step undefined) [Connect, Closed 1, Timeout 3, Disconnect,
     Answer 4 (Inl (EngineError (js ''TypeError'')), Inr []) (Fin 0)] window_init) \<noteq> None"
proof -
  let ?w = "fold (monitor_step undefined) [Connect, Closed 1, Timeout 3] window_init"
  have "window_ok ?w"
    by (rule live.run_keeps) (simp_all add: window_ok_def window_init_def)
  moreover have "(4, ReconnectLoad) \<in> set (loads ?w)"
    by (simp add: window_init_def connect_def disconnect_def onclose_def load_start_def)
  ultimately have "socket (monitor_step undefined (Answer 4 (Inl (EngineError (js ''TypeError'')), Inr []) (Fin 0))
      (disconnect ?w)) \<noteq> None" by (rule disconnect_race)
  then show ?thesis by (simp only: fold.simps comp_apply id_apply monitor_step.simps(4) simp_thms)
qed

section \<open>Presence\<close>

lemma set_online_simps [simp]:
  "pn_id (sn_node (set_online b t)) = pn_id (sn_node t)" "sn_metric (set_online b t) = sn_metric t"
  "pn_online (sn_node (set_online b t)) = b" "set_online b (set_online c t) = set_online b t"
  "pn_group (sn_node (set_online b t)) = pn_group (sn_node t)"
  by (simp_all add: set_online_def)

lemma take_sample_simps [simp]:
  "pn_id (sn_node (take_sample h l now m t)) = pn_id (sn_node t)" "sn_metric (take_sample h l now m t) = Some m"
  "pn_online (sn_node (take_sample h l now m t)) = is_fresh h l now m"
  by (simp_all add: take_sample_def set_online_def)

lemma take_sample_online: "take_sample h l now m (set_online b t) = take_sample h l now m t"
  by (simp add: take_sample_def set_online_def)

lemma present_online [simp]: "present_at h l now (set_online b t) = present_at h l now t"
  by (simp add: present_at_def)

lemma online_take_sample: "set_online (present_at h l now (take_sample h l now m t)) (take_sample h l now m t)
    = take_sample h l now m t"
  by (simp add: present_at_def take_sample_def set_online_def)

theorem refreshPresence_correct:
  "map (\<lambda>item. pn_online (sn_node item)) (nodes (refreshPresence h now s)) =
     map (\<lambda>item. \<exists>m. sn_metric item = Some m \<and> now - received_ms h m < offlineAfterMS s) (nodes s) \<and>
   map (\<lambda>i. pn_id (sn_node i)) (nodes (refreshPresence h now s)) = map (\<lambda>i. pn_id (sn_node i)) (nodes s) \<and>
   map sn_metric (nodes (refreshPresence h now s)) = map sn_metric (nodes s)"
  by (auto simp: refreshPresence_def present_at_def is_fresh_def split: option.splits)

text \<open>A sample and a tick of the clock at the same moment can be handled in either order.\<close>

theorem sample_tick_commute:
  "refreshPresence h now (applySample h now nodeID m s) = applySample h now nodeID m (refreshPresence h now s)"
proof -
  let ?l = "offlineAfterMS s"
  have "map (\<lambda>t. set_online (present_at h ?l now t) t)
      (update_first (\<lambda>i. pn_id (sn_node i) = nodeID) (take_sample h ?l now m) ts) =
    update_first (\<lambda>i. pn_id (sn_node i) = nodeID) (take_sample h ?l now m)
      (map (\<lambda>t. set_online (present_at h ?l now t) t) ts)" for ts
    by (induction ts) (simp_all add: online_take_sample take_sample_online)
  then show ?thesis by (simp add: refreshPresence_def applySample_def)
qed

lemma fl_mono: "x \<le> y \<Longrightarrow> fl x \<le> fl y"
  using b64.rnd_mono [of x y] overflow_limit_ge by (auto simp: fl_def Let_def less_eq_number_def)

lemma less_mono: "a \<le> b \<Longrightarrow> b < c \<Longrightarrow> a < c" for a b c :: number
  by (cases a; cases b; cases c) (auto simp: less_eq_number_def)

text \<open>A node that is stale stays stale until a new sample comes.\<close>

theorem stale_stays_stale:
  assumes "t \<le> t'" and "\<not> is_fresh h limit (Fin t) m"
  shows "\<not> is_fresh h limit (Fin t') m"
proof (cases "received_ms h m")
  case (Fin r)
  then have "Fin t - received_ms h m \<le> Fin t' - received_ms h m" using assms(1) fl_mono [of "t - r" "t' - r"] by simp
  then show ?thesis using assms(2) less_mono by (auto simp: is_fresh_def)
qed (use assms(2) in \<open>auto simp: is_fresh_def received_ms_def NaN_never_compares elim: date_time_cases\<close>)

theorem stale_stays_stale_witness:
  "\<not> is_fresh undefined (Fin 10000) (Fin 90000) (example_sample (js ''1970-01-01T00:00:01Z''))"
proof (rule stale_stays_stale)
  show "(60000::real) \<le> 90000" by simp
  have "date_time undefined (js ''1970-01-01T00:00:01Z'') = Fin 1000" by (simp add: date_eval js_def)
  then show "\<not> is_fresh undefined (Fin 10000) (Fin 60000) (example_sample (js ''1970-01-01T00:00:01Z''))"
    by (simp add: is_fresh_def received_ms_def example_sample_def num_simps del: js_def)
qed

section \<open>Samples\<close>

abbreviation node_at :: "jsstring \<Rightarrow> NodeSnapshot list \<Rightarrow> NodeSnapshot option" where
  "node_at i \<equiv> List.find (\<lambda>item. pn_id (sn_node item) = i)"

definition deliver :: "(MetricSample \<Rightarrow> NodeSnapshot \<Rightarrow> NodeSnapshot) \<Rightarrow> (jsstring \<times> MetricSample) list \<Rightarrow>
    NodeSnapshot list \<Rightarrow> NodeSnapshot list" where
  "deliver upd es ns = fold (\<lambda>(i, m). update_first (\<lambda>item. pn_id (sn_node item) = i) (upd m)) es ns"

text \<open>
  The pages with a live connection write samples into a list of nodes. What they rely on: writing
  a sample replaces the metric of one node and keeps its identity.
\<close>

locale sample_sink =
  fixes upd :: "MetricSample \<Rightarrow> NodeSnapshot \<Rightarrow> NodeSnapshot"
  assumes upd_id: "pn_id (sn_node (upd m t)) = pn_id (sn_node t)"
    and upd_metric: "sn_metric (upd m t) = Some m"
begin

lemma deliver_ids: "map (\<lambda>i. pn_id (sn_node i)) (deliver upd es ns) = map (\<lambda>i. pn_id (sn_node i)) ns"
  by (induction es arbitrary: ns) (auto simp: deliver_def map_update_first_frame upd_id)

lemma deliver_other: "i \<notin> fst ` set es \<Longrightarrow> node_at i (deliver upd es ns) = node_at i ns"
  by (induction es arbitrary: ns) (auto simp: deliver_def find_update_first_other upd_id)

lemma deliver_at:
  "distinct (map fst es) \<Longrightarrow> (i, m) \<in> set es \<Longrightarrow>
   node_at i (deliver upd es ns) = map_option (upd m) (node_at i ns)"
proof (induction es arbitrary: ns)
  case (Cons e es)
  obtain j k where e: "e = (j, k)" by (cases e)
  let ?ns = "update_first (\<lambda>item. pn_id (sn_node item) = j) (upd k) ns"
  have step: "deliver upd (e # es) ns = deliver upd es ?ns" by (simp add: deliver_def e)
  show ?case
  proof (cases "(i, m) = (j, k)")
    case True
    then have "i \<notin> fst ` set es" using Cons.prems(1) e by simp
    then show ?thesis using True step by (simp add: deliver_other find_update_first_same upd_id)
  next
    case False
    then have "(i, m) \<in> set es" "i \<noteq> j" using Cons.prems e by force+
    then show ?thesis using step Cons.IH [of ?ns] Cons.prems(1) e
      by (simp add: find_update_first_other upd_id)
  qed
qed simp

lemma deliver_metric:
  "distinct (map fst es) \<Longrightarrow> (i, m) \<in> set es \<Longrightarrow> node_at i ns \<noteq> None \<Longrightarrow>
   map_option sn_metric (node_at i (deliver upd es ns)) = Some (Some m)"
  by (auto simp: deliver_at upd_metric)

end

interpretation live_sink: sample_sink "take_sample h limit now"
  by unfold_locales simp_all

lemma apply_samples_nodes:
  "nodes (apply_samples h now es s) = deliver (take_sample h (offlineAfterMS s) now) es (nodes s)"
  by (induction es arbitrary: s) (auto simp: apply_samples_def deliver_def applySample_def)

text \<open>
  C14: A snapshot message gives every listed known node its own sample, judged by the threshold of
  that very message.
\<close>

theorem snapshot_delivers:
  assumes "lm_type message = js ''snapshot''" and "lm_samples message = Some es"
    and "distinct (map fst es)" and "(i, m) \<in> set es" and "node_at i (nodes s) = Some item"
  shows "node_at i (nodes (onmessage h now message s)) =
    Some (take_sample h (new_threshold (lm_offline_after_ms message) (offlineAfterMS s)) now m item)"
  using assms(5) live_sink.deliver_at [OF assms(3,4)]
  by (simp add: onmessage_def assms(1,2) apply_samples_nodes)

theorem snapshot_delivers_witness:
  "node_at (js ''a'') (nodes (onmessage undefined (Fin 0)
      \<lparr>lm_type = js ''snapshot'', lm_node_id = None, lm_sample = None,
       lm_samples = Some [(js ''b'', example_sample []), (js ''a'', example_sample [])], lm_offline_after_ms = None\<rparr>
      (window_init\<lparr>nodes := [\<lparr>sn_node = example_node (js ''a''), sn_metric = None\<rparr>]\<rparr>))) =
    Some (take_sample undefined (Fin 90000) (Fin 0) (example_sample [])
      \<lparr>sn_node = example_node (js ''a''), sn_metric = None\<rparr>)"
  by (subst snapshot_delivers [where es = "[(js ''b'', example_sample []), (js ''a'', example_sample [])]"
        and item = "\<lparr>sn_node = example_node (js ''a''), sn_metric = None\<rparr>" and m = "example_sample []"])
    (simp_all add: example_node_def window_init_def new_threshold_def)

lemma applySample_deliver: "nodes (applySample h now i m s) = deliver (take_sample h (offlineAfterMS s) now) [(i, m)] (nodes s)"
  by (simp add: applySample_def deliver_def)

theorem messages_add_no_node:
  "map (\<lambda>i. pn_id (sn_node i)) (nodes (onmessage h now message s)) = map (\<lambda>i. pn_id (sn_node i)) (nodes s)"
  by (simp add: onmessage_def Let_def apply_samples_nodes applySample_deliver
      live_sink.deliver_ids split: bool.split option.split)

theorem groups_correct:
  "sorted (groups s) \<and> distinct (groups s) \<and>
   set (groups s) = {g. g \<noteq> [] \<and> (\<exists>item \<in> set (nodes s). pn_group (sn_node item) = Some g)}"
  by (auto simp: groups_def List.map_filter_def image_iff)

end
