(* ===== verification/Chart.thy ===== *)
theory Chart
  imports Types
begin

text \<open>
  \<open>web/src/components/TimeSeriesChart.vue\<close>: the component around the chart library. What it hands to the
  library is an option object; \<open>styles\<close> are the computed styles of the document. Its life is a
  machine: the chart and the three observers that it creates when it is mounted have to be gone when
  it is unmounted.
\<close>

section \<open>Options\<close>

record chart_series =
  cs_name :: jsstring
  cs_values :: "number option list"
  cs_color :: jsstring

record chart_props =
  cp_labels :: "jsstring list"
  cp_series :: "chart_series list"
  cp_unit :: "jsstring option"
  cp_max :: "number option"
  cp_ariaLabel :: "jsstring option"

definition obj :: "(string \<times> json) list \<Rightarrow> json" where
  "obj ps = JObj (map (\<lambda>(k, v). (js k, v)) ps)"

definition str :: "string \<Rightarrow> json" where
  "str s = JStr (js s)"

definition int_num :: "int \<Rightarrow> json" where
  "int_num n = JNum (Fin (of_int n))"

definition series_option :: "chart_series \<Rightarrow> json" where
  "series_option item = obj [(''name'', JStr (cs_name item)), (''type'', str ''line''),
     (''data'', JArr (map (\<lambda>v. case v of None \<Rightarrow> JNull | Some n \<Rightarrow> JNum n) (cs_values item))),
     (''symbol'', str ''none''), (''smooth'', JNum (fl (18 / 100))),
     (''lineStyle'', obj [(''width'', int_num 2), (''color'', JStr (cs_color item))]),
     (''areaStyle'', obj [(''color'', JStr (cs_color item)), (''opacity'', JNum (fl (8 / 100)))])]"

definition axis_label :: "(jsstring \<Rightarrow> jsstring) \<Rightarrow> (string \<times> json) list \<Rightarrow> json" where
  "axis_label styles rest = obj ([(''color'', JStr (trim (styles (js ''--text-muted'')))),
     (''fontFamily'', JStr (trim (styles (js ''--font-ui'')))), (''fontSize'', int_num 11)] @ rest)"

definition x_axis :: "(jsstring \<Rightarrow> jsstring) \<Rightarrow> chart_props \<Rightarrow> json" where
  "x_axis styles p = obj [(''type'', str ''category''), (''data'', JArr (map JStr (cp_labels p))), (''boundaryGap'', JBool False),
     (''axisLabel'', axis_label styles [(''hideOverlap'', JBool True)]),
     (''axisLine'', obj [(''lineStyle'', obj [(''color'', JStr (trim (styles (js ''--line''))))])]),
     (''axisTick'', obj [(''show'', JBool False)])]"

definition y_axis :: "(jsstring \<Rightarrow> jsstring) \<Rightarrow> chart_props \<Rightarrow> json" where
  "y_axis styles p = obj ([(''type'', str ''value''), (''min'', int_num 0)] @
     (case cp_max p of None \<Rightarrow> [] | Some m \<Rightarrow> [(''max'', JNum m)]) @
     [(''axisLabel'', axis_label styles [(''formatter'', JStr (js ''{value}'' @ (case cp_unit p of None \<Rightarrow> [] | Some u \<Rightarrow> u)))]),
      (''splitLine'', obj [(''lineStyle'', obj [(''color'', JStr (trim (styles (js ''--line'')))), (''type'', str ''dashed'')])])])"

definition chart_option :: "(jsstring \<Rightarrow> jsstring) \<Rightarrow> chart_props \<Rightarrow> json" where
  "chart_option styles p = obj [(''animation'', JBool False), (''backgroundColor'', str ''transparent''),
     (''grid'', obj [(''left'', int_num 54), (''right'', int_num 16), (''top'', int_num 18), (''bottom'', int_num 34)]),
     (''tooltip'', obj [(''trigger'', str ''axis''), (''backgroundColor'', str ''#111619''), (''borderColor'', str ''#4b595d''),
        (''padding'', int_num 12), (''textStyle'', obj [(''color'', str ''#eef2ef''),
          (''fontFamily'', JStr (trim (styles (js ''--font-ui'')))), (''fontSize'', int_num 13)])]),
     (''xAxis'', x_axis styles p), (''yAxis'', y_axis styles p), (''series'', JArr (map series_option (cp_series p)))]"

definition chart_aria_label :: "chart_props \<Rightarrow> jsstring" where
  "chart_aria_label p = (case cp_ariaLabel p of Some (c # cs) \<Rightarrow> c # cs
     | _ \<Rightarrow> join (js '', '') (map cs_name (cp_series p)) @ js '' time series chart'')"

section \<open>Life\<close>

text \<open>
  \<open>LiveChart\<close> has the option that was set last; \<open>Disposed\<close> the number of calls on the chart after
  its end. \<open>ct_resize\<close>, \<open>ct_appearance\<close> and \<open>ct_scheme\<close> say whether the observers are connected,
  \<open>ct_watch\<close> whether the component still watches its properties.
\<close>

datatype chart_life = NoChart | LiveChart "json option" | Disposed nat

record chart_state =
  ct_chart :: chart_life
  ct_resize :: bool
  ct_appearance :: bool
  ct_scheme :: bool
  ct_watch :: bool

definition chart_setup :: chart_state where
  "chart_setup = \<lparr>ct_chart = NoChart, ct_resize = False, ct_appearance = False, ct_scheme = False, ct_watch = True\<rparr>"

fun use_chart :: "(json option \<Rightarrow> json option) \<Rightarrow> chart_life \<Rightarrow> chart_life" where
  "use_chart f NoChart = NoChart"
| "use_chart f (LiveChart opt) = LiveChart (f opt)"
| "use_chart f (Disposed n) = Disposed (Suc n)"

definition render :: "(jsstring \<Rightarrow> jsstring) \<Rightarrow> chart_props \<Rightarrow> chart_state \<Rightarrow> chart_state" where
  "render styles p c = c\<lparr>ct_chart := use_chart (\<lambda>_. Some (chart_option styles p)) (ct_chart c)\<rparr>"

definition chart_mounted :: "bool \<Rightarrow> (jsstring \<Rightarrow> jsstring) \<Rightarrow> chart_props \<Rightarrow> chart_state \<Rightarrow> chart_state" where
  "chart_mounted element styles p c = (if \<not> element then c
     else (render styles p (c\<lparr>ct_chart := LiveChart None\<rparr>))\<lparr>ct_resize := True, ct_appearance := True, ct_scheme := True\<rparr>)"

definition chart_resized :: "chart_state \<Rightarrow> chart_state" where
  "chart_resized c = c\<lparr>ct_chart := use_chart (\<lambda>opt. opt) (ct_chart c)\<rparr>"

definition chart_unmount :: "chart_state \<Rightarrow> chart_state" where
  "chart_unmount c = c\<lparr>ct_resize := False, ct_appearance := False, ct_scheme := False, ct_watch := False,
     ct_chart := (case ct_chart c of LiveChart opt \<Rightarrow> Disposed 0 | l \<Rightarrow> l)\<rparr>"

text \<open>What the browser and Vue deliver; a disconnected observer and a stopped watcher deliver nothing.\<close>

datatype chart_event = ChResize | ChAppearance "jsstring \<Rightarrow> jsstring" chart_props | ChScheme "jsstring \<Rightarrow> jsstring" chart_props
  | ChWatch "jsstring \<Rightarrow> jsstring" chart_props

fun chart_step :: "chart_event \<Rightarrow> chart_state \<Rightarrow> chart_state" where
  "chart_step ChResize c = (if ct_resize c then chart_resized c else c)"
| "chart_step (ChAppearance st p) c = (if ct_appearance c then render st p c else c)"
| "chart_step (ChScheme st p) c = (if ct_scheme c then render st p c else c)"
| "chart_step (ChWatch st p) c = (if ct_watch c then render st p c else c)"

section \<open>Properties\<close>

definition chart_ok :: "chart_state \<Rightarrow> bool" where
  "chart_ok c \<longleftrightarrow> ct_chart c \<noteq> NoChart \<longrightarrow> (\<exists>opt. ct_chart c = LiveChart opt)"

definition all_released :: "chart_state \<Rightarrow> bool" where
  "all_released c \<longleftrightarrow> \<not> ct_resize c \<and> \<not> ct_appearance c \<and> \<not> ct_scheme c \<and> \<not> ct_watch c \<and> ct_chart c \<in> {NoChart, Disposed 0}"

interpretation chart_alive: store chart_step any_event chart_ok
proof
  fix c e assume "chart_ok c"
  then show "chart_ok (chart_step e c)"
    by (cases e; cases "ct_chart c") (auto simp: chart_ok_def render_def chart_resized_def)
qed

interpretation chart_gone: store chart_step any_event all_released
proof
  fix c e assume "all_released c"
  then show "all_released (chart_step e c)" by (cases e) (auto simp: all_released_def)
qed

lemma mounted_ok: "chart_ok (chart_mounted element styles p chart_setup)"
  by (simp add: chart_ok_def chart_mounted_def render_def chart_setup_def)

lemma unmount_released: "chart_ok c \<Longrightarrow> all_released (chart_unmount c)"
  by (cases "ct_chart c") (auto simp: chart_ok_def all_released_def chart_unmount_def)

text \<open>
  Whatever happens before and after, an unmounted chart has released its chart and observers, and
  the chart is never used after its end.
\<close>

text \<open>
  C37: Whatever resizes, appearance changes and property changes happen before and after, an
  unmounted chart has disconnected its observers and disposed its chart, and never uses the
  disposed chart.
\<close>

theorem chart_released:
  "all_released (fold chart_step later (chart_unmount (fold chart_step earlier (chart_mounted element styles p chart_setup))))"
proof -
  have "chart_ok (fold chart_step earlier (chart_mounted element styles p chart_setup))"
    using chart_alive.run_keeps [OF mounted_ok, of earlier] by (simp add: list_all_iff)
  then show ?thesis using chart_gone.run_keeps [OF unmount_released, of _ later] by (simp add: list_all_iff)
qed

text \<open>While the chart is there, a change of the properties is on it at once.\<close>

theorem chart_shows_properties:
  assumes "ct_chart c = LiveChart opt" and "ct_watch c"
  shows "ct_chart (chart_step (ChWatch styles p) c) = LiveChart (Some (chart_option styles p))"
  using assms by (simp add: render_def)

end
