(* ===== verification/LatencyView.thy ===== *)
theory LatencyView
  imports Monitor Latency I18n Chart
begin

text \<open>
  \<open>web/src/views/LatencyView.vue\<close>: the latency matrix and the history of one selected path. The
  page reloads itself, the user changes path and window at any moment, and answers arrive in any
  order; a request counter decides which answer may be shown. Handlers are split at their
  \<open>await\<close>, requests in flight are part of the state.
\<close>

section \<open>State\<close>

type_synonym path = "jsstring \<times> jsstring"

text \<open>
  A history request remembers what \<open>loadHistory\<close> captured, and which \<open>load\<close> waits for it, if any:
  \<open>Some True\<close> for the first load of the page, \<open>Some False\<close> for a later one.
\<close>

record history_request =
  hr_id :: nat
  hr_path :: path
  hr_hours :: number
  hr_by_load :: "bool option"

text \<open>
  \<open>history_of\<close> is a ghost: path and window whose answer the shown history is. \<open>overview_requests\<close>
  are the loads whose first answer is due, with a flag for the one of \<open>onMounted\<close>, after which the
  interval starts; \<open>refreshTimer\<close> says whether its handle is known to \<open>onBeforeUnmount\<close>.
\<close>

record latency_view =
  overview :: LatencyOverview
  history :: "LatencyResult list"
  historySummary :: LatencyWindowSummary
  selected :: "path option"
  hours :: number
  lv_loading :: bool
  historyLoading :: bool
  lv_error :: jsstring
  historyRequestID :: nat
  history_of :: "(path \<times> number) option"
  history_requests :: "history_request list"
  overview_requests :: "bool list"
  mounted :: bool
  refresh_interval :: bool
  refreshTimer :: bool

abbreviation no_summary :: LatencyWindowSummary where
  "no_summary \<equiv> summarizeLatencyWindow []"

definition view_init :: latency_view where
  "view_init = \<lparr>overview = \<lparr>lo_probe_nodes = [], lo_targets = [], lo_latest = [], lo_offline_after_ms = Fin 90000\<rparr>,
     history = [], historySummary = no_summary, selected = None, hours = Fin 24, lv_loading = True,
     historyLoading = False, lv_error = [], historyRequestID = 0, history_of = None, history_requests = [],
     overview_requests = [], mounted = False, refresh_interval = False, refreshTimer = False\<rparr>"

section \<open>Computed values\<close>

definition cell_key :: "jsstring \<Rightarrow> jsstring \<Rightarrow> jsstring" where
  "cell_key probe target = probe @ js '':'' @ target"

text \<open>The last entry of a key is the one that the \<open>Map\<close> keeps.\<close>

definition cell :: "latency_view \<Rightarrow> jsstring \<Rightarrow> jsstring \<Rightarrow> LatencyResult option" where
  "cell v probe target =
     List.find (\<lambda>item. cell_key (lr_probe_node_id item) (lr_target_node_id item) = cell_key probe target)
       (rev (lo_latest (overview v)))"

definition onlineProbes :: "latency_view \<Rightarrow> nat" where
  "onlineProbes v = length (filter lp_online (lo_probe_nodes (overview v)))"

definition healthyPaths :: "latency_view \<Rightarrow> nat" where
  "healthyPaths v = length (filter (\<lambda>item. lr_success item \<and> lr_loss_percent item < Fin 50) (lo_latest (overview v)))"

definition currentAverageLatency :: "latency_view \<Rightarrow> number option" where
  "currentAverageLatency v =
     (let values = map lr_latency_ms (filter (\<lambda>item. lr_success item \<and> lr_latency_ms item \<ge> Fin 0) (lo_latest (overview v))) in
      if values \<noteq> [] then Some (foldl (+) (Fin 0) values / num_of_nat (length values)) else None)"

definition selectedProbe :: "latency_view \<Rightarrow> LatencyProbeNode option" where
  "selectedProbe v = List.find (\<lambda>item. Some (lp_id item) = map_option fst (selected v)) (lo_probe_nodes (overview v))"

definition selectedTarget :: "latency_view \<Rightarrow> LatencyTarget option" where
  "selectedTarget v = List.find (\<lambda>item. Some (pn_id (lt_node item)) = map_option snd (selected v)) (lo_targets (overview v))"

definition historyLabels :: "host \<Rightarrow> latency_view \<Rightarrow> jsstring list" where
  "historyLabels h v = map (\<lambda>item. locale_time h (date_time h (lr_received_at item))) (history v)"

definition latencySeries :: "latency_view \<Rightarrow> chart_series list" where
  "latencySeries v = [\<lparr>cs_name = js ''LATENCY'', cs_values = map (\<lambda>r. Some (latencyChartValue (sample_of r))) (history v),
     cs_color = js ''#65d5c5''\<rparr>]"

definition lossSeries :: "latency_view \<Rightarrow> chart_series list" where
  "lossSeries v = [\<lparr>cs_name = js ''LOSS'', cs_values = map (\<lambda>item. Some (lr_loss_percent item)) (history v),
     cs_color = js ''#db7b5b''\<rparr>]"

datatype cell_class = Empty | Stale | Failed | CriticalCell | WarningCell | Healthy

definition cellClass :: "host \<Rightarrow> number \<Rightarrow> number \<Rightarrow> LatencyResult option \<Rightarrow> bool \<Rightarrow> number \<Rightarrow> cell_class" where
  "cellClass h now offline_after_ms r probeOnline intervalSeconds = (case r of
     None \<Rightarrow> Empty
   | Some result \<Rightarrow>
      (let staleAfter = math_max offline_after_ms (intervalSeconds * Fin 2500) in
       if \<not> probeOnline \<or> now - date_time h (lr_received_at result) > staleAfter then Stale
       else if \<not> lr_success result then Failed
       else if lr_loss_percent result > Fin 0 \<or> lr_latency_ms result \<ge> Fin 180 then CriticalCell
       else if lr_latency_ms result \<ge> Fin 80 then WarningCell
       else Healthy))"

definition first_text :: "jsstring option list \<Rightarrow> jsstring \<Rightarrow> jsstring" where
  "first_text xs d = (case List.find (\<lambda>x. x \<noteq> None \<and> x \<noteq> Some []) xs of Some (Some s) \<Rightarrow> s | _ \<Rightarrow> d)"

definition targetLabel :: "AppLocale \<Rightarrow> LatencyTarget \<Rightarrow> jsstring" where
  "targetLabel l target =
     first_text [pn_region (lt_node target), pn_country_code (lt_node target), pn_group (lt_node target)]
       (text_in l [26410, 35774, 32622, 22320, 21306] (js ''No location''))"

section \<open>Handlers\<close>

definition clear_history :: "latency_view \<Rightarrow> latency_view" where
  "clear_history v = v\<lparr>history := [], historySummary := no_summary, history_of := None\<rparr>"

text \<open>The end of \<open>load\<close>, and of \<open>onMounted\<close> after the first one.\<close>

definition load_done :: "bool option \<Rightarrow> latency_view \<Rightarrow> latency_view" where
  "load_done by_load v = (case by_load of
     None \<Rightarrow> v
   | Some first \<Rightarrow> if first then v\<lparr>lv_loading := False, refresh_interval := True, refreshTimer := True\<rparr>
       else v\<lparr>lv_loading := False\<rparr>)"

text \<open>\<open>loadHistory\<close> up to its request.\<close>

definition loadHistory :: "bool option \<Rightarrow> latency_view \<Rightarrow> latency_view" where
  "loadHistory by_load v = (case selected v of
     None \<Rightarrow> load_done by_load v
   | Some p \<Rightarrow> (let rid = Suc (historyRequestID v) in
       v\<lparr>historyRequestID := rid, historyLoading := True,
         history_requests := history_requests v @
           [\<lparr>hr_id = rid, hr_path = p, hr_hours = hours v, hr_by_load = by_load\<rparr>]\<rparr>))"

type_synonym history_answer = "failure + LatencyResult list \<times> LatencyWindowSummary option"

text \<open>\<open>loadHistory\<close> from the answer on, for the request \<open>r\<close>; then \<open>load\<close>, if it waits, ends.\<close>

definition history_answered :: "host \<Rightarrow> history_request \<Rightarrow> history_answer \<Rightarrow> latency_view \<Rightarrow> latency_view" where
  "history_answered h r answer v =
     (let v1 =
       (if hr_id r \<noteq> historyRequestID v then v
        else (case answer of
          Inr (points, summary) \<Rightarrow>
            v\<lparr>history := points,
              historySummary := (case summary of Some s \<Rightarrow> s | None \<Rightarrow> summarizeLatencyWindow (map sample_of points)),
              lv_error := [], historyLoading := False, history_of := Some (hr_path r, hr_hours r)\<rparr>
        | Inl e \<Rightarrow> v\<lparr>lv_error := failure_message h e, historyLoading := False\<rparr>))
      in load_done (hr_by_load r) v1)"

definition selection_gone :: "LatencyOverview \<Rightarrow> path option \<Rightarrow> bool" where
  "selection_gone ov sel = (case sel of None \<Rightarrow> False
     | Some (probe, target) \<Rightarrow>
        \<not> list_ex (\<lambda>item. lp_id item = probe) (lo_probe_nodes ov) \<or>
        \<not> list_ex (\<lambda>item. pn_id (lt_node item) = target) (lo_targets ov))"

text \<open>\<open>load\<close> from the answer to its first request up to the call of \<open>loadHistory\<close>.\<close>

definition overview_answered :: "host \<Rightarrow> bool \<Rightarrow> failure + LatencyOverview \<Rightarrow> latency_view \<Rightarrow> latency_view" where
  "overview_answered h first_load answer v = (case answer of
     Inl e \<Rightarrow> load_done (Some first_load) (v\<lparr>lv_error := failure_message h e\<rparr>)
   | Inr ov \<Rightarrow>
      (let v1 = v\<lparr>overview := ov, lv_error := []\<rparr>;
           v2 = (if selection_gone ov (selected v1)
             then clear_history (v1\<lparr>historyRequestID := Suc (historyRequestID v1), selected := None\<rparr>) else v1);
           v3 = (case (selected v2, lo_latest ov) of
             (None, first # _) \<Rightarrow> v2\<lparr>selected := Some (lr_probe_node_id first, lr_target_node_id first)\<rparr>
           | _ \<Rightarrow> v2)
       in loadHistory (Some first_load) v3))"

definition selectPath :: "jsstring \<Rightarrow> jsstring \<Rightarrow> latency_view \<Rightarrow> latency_view" where
  "selectPath probe target v = loadHistory None (clear_history (v\<lparr>selected := Some (probe, target)\<rparr>))"

definition changeWindow :: "number \<Rightarrow> latency_view \<Rightarrow> latency_view" where
  "changeWindow value v = loadHistory None (clear_history (v\<lparr>hours := value\<rparr>))"

section \<open>Events\<close>

text \<open>
  \<open>OverviewAnswer n a\<close> and \<open>HistoryAnswer n a\<close> answer the \<open>n\<close>-th request in flight.
\<close>

datatype view_event = Mount | OverviewAnswer nat "failure + LatencyOverview"
  | HistoryAnswer nat history_answer | SelectPath jsstring jsstring | ChangeWindow number
  | IntervalFires | Retry | Unmount

fun view_step :: "host \<Rightarrow> view_event \<Rightarrow> latency_view \<Rightarrow> latency_view" where
  "view_step h Mount v = v\<lparr>mounted := True, overview_requests := overview_requests v @ [True]\<rparr>"
| "view_step h (OverviewAnswer n a) v =
     (if n < length (overview_requests v)
      then overview_answered h (overview_requests v ! n) a
        (v\<lparr>overview_requests := take n (overview_requests v) @ drop (Suc n) (overview_requests v)\<rparr>)
      else v)"
| "view_step h (HistoryAnswer n a) v =
     (if n < length (history_requests v)
      then history_answered h (history_requests v ! n) a
        (v\<lparr>history_requests := take n (history_requests v) @ drop (Suc n) (history_requests v)\<rparr>)
      else v)"
| "view_step h (SelectPath p t) v = selectPath p t v"
| "view_step h (ChangeWindow x) v = changeWindow x v"
| "view_step h IntervalFires v =
     (if refresh_interval v then v\<lparr>overview_requests := overview_requests v @ [False]\<rparr> else v)"
| "view_step h Retry v = v\<lparr>overview_requests := overview_requests v @ [False]\<rparr>"
| "view_step h Unmount v =
     v\<lparr>mounted := False, refresh_interval := (if refreshTimer v then False else refresh_interval v)\<rparr>"

section \<open>Lemmas\<close>

text \<open>
  The shown history belongs to the current path and window, and so does every answer that may
  still be shown; the spinner of a selected path stands for such an answer.
\<close>

definition shown_ok :: "LatencyResult list \<Rightarrow> (path \<times> number) option \<Rightarrow> path option \<Rightarrow> number \<Rightarrow> bool" where
  "shown_ok hist of_request sel hrs \<longleftrightarrow>
     (hist = [] \<or> of_request = map_option (\<lambda>p. (p, hrs)) sel) \<and>
     (sel = None \<longrightarrow> hist = [] \<and> of_request = None)"

definition requests_ok :: "nat \<Rightarrow> path option \<Rightarrow> number \<Rightarrow> history_request list \<Rightarrow> bool" where
  "requests_ok rid sel hrs rs \<longleftrightarrow> distinct (map hr_id rs) \<and>
     (\<forall>r \<in> set rs. hr_id r \<le> rid \<and> (hr_id r = rid \<longrightarrow> sel = Some (hr_path r) \<and> hrs = hr_hours r))"

definition spinner_ok :: "nat \<Rightarrow> path option \<Rightarrow> bool \<Rightarrow> history_request list \<Rightarrow> bool" where
  "spinner_ok rid sel spinning rs \<longleftrightarrow> sel = None \<or> (spinning \<longleftrightarrow> rid \<in> hr_id ` set rs)"

definition view_ok :: "latency_view \<Rightarrow> bool" where
  "view_ok v \<longleftrightarrow> shown_ok (history v) (history_of v) (selected v) (hours v) \<and>
     requests_ok (historyRequestID v) (selected v) (hours v) (history_requests v) \<and>
     spinner_ok (historyRequestID v) (selected v) (historyLoading v) (history_requests v)"

lemma load_done_ok [simp]: "view_ok (load_done b v) = view_ok v"
  by (simp add: load_done_def view_ok_def split: option.split)

lemma requests_bump: "requests_ok rid sel hrs rs \<Longrightarrow> requests_ok (Suc rid) sel' hrs' rs"
  by (auto simp: requests_ok_def)

lemma requests_none: "requests_ok rid None hrs rs \<Longrightarrow> requests_ok rid sel hrs' rs"
  by (fastforce simp: requests_ok_def)

lemma requests_add: "requests_ok rid sel hrs rs \<Longrightarrow>
    requests_ok (Suc rid) (Some p) x (rs @ [\<lparr>hr_id = Suc rid, hr_path = p, hr_hours = x, hr_by_load = b\<rparr>])"
  by (force simp: requests_ok_def)

text \<open>
  \<open>loadHistory\<close> bumps the counter, so it may be called with a path or a window that the requests in
  flight do not know; without a path nothing in flight may be current.
\<close>

lemma loadHistory_ok:
  assumes "shown_ok (history v) (history_of v) (selected v) (hours v)"
    and "requests_ok (historyRequestID v) sel hrs (history_requests v)"
    and "selected v = None \<Longrightarrow> sel = None"
  shows "view_ok (loadHistory b v)"
proof (cases "selected v")
  case None
  with assms have "view_ok v" by (auto simp: view_ok_def spinner_ok_def intro: requests_none)
  with None show ?thesis by (simp add: loadHistory_def)
next
  case (Some p)
  with assms(1) requests_add [OF assms(2)] show ?thesis
    by (simp add: loadHistory_def view_ok_def Let_def spinner_ok_def)
qed

lemma shown_cleared [simp]: "shown_ok [] None sel hrs"
  by (simp add: shown_ok_def)

lemma selectPath_ok: "view_ok v \<Longrightarrow> view_ok (selectPath p t v)"
  unfolding selectPath_def
  by (rule loadHistory_ok [where sel = "selected v" and hrs = "hours v"]) (simp_all add: clear_history_def view_ok_def)

lemma changeWindow_ok: "view_ok v \<Longrightarrow> view_ok (changeWindow x v)"
  unfolding changeWindow_def
  by (rule loadHistory_ok [where sel = "selected v" and hrs = "hours v"]) (simp_all add: clear_history_def view_ok_def)

text \<open>One request is answered.\<close>

lemma split_nth:
  assumes "distinct (map hr_id rs)" and "n < length rs"
  shows "distinct (map hr_id (take n rs @ drop (Suc n) rs))"
    and "hr_id (rs ! n) \<notin> hr_id ` set (take n rs @ drop (Suc n) rs)"
    and "set rs = insert (rs ! n) (set (take n rs @ drop (Suc n) rs))"
proof -
  have rs: "take n rs @ rs ! n # drop (Suc n) rs = rs" using assms(2) by (simp add: id_take_nth_drop [symmetric])
  have d: "distinct (map hr_id (take n rs @ rs ! n # drop (Suc n) rs))" unfolding rs by (rule assms(1))
  have "set (take n rs @ rs ! n # drop (Suc n) rs) = insert (rs ! n) (set (take n rs @ drop (Suc n) rs))" by auto
  then show "set rs = insert (rs ! n) (set (take n rs @ drop (Suc n) rs))" unfolding rs .
  show "distinct (map hr_id (take n rs @ drop (Suc n) rs))"
    "hr_id (rs ! n) \<notin> hr_id ` set (take n rs @ drop (Suc n) rs)"
    using d by auto
qed

lemma history_answered_cases:
  assumes "view_ok v" and "history_requests v = rs" and "set rs = insert r (set rs')"
    and "distinct (map hr_id rs')" and "hr_id r \<notin> hr_id ` set rs'"
  shows "view_ok (history_answered h r a (v\<lparr>history_requests := rs'\<rparr>))"
proof -
  have req: "requests_ok (historyRequestID v) (selected v) (hours v) rs'"
    using assms(1-4) by (auto simp: view_ok_def requests_ok_def)
  show ?thesis
  proof (cases "hr_id r = historyRequestID v")
    case True
    then have "selected v = Some (hr_path r)" "hours v = hr_hours r"
      using assms(1-3) by (auto simp: view_ok_def requests_ok_def)
    then show ?thesis unfolding history_answered_def Let_def load_done_ok using True req assms(1,5)
      by (cases a) (auto simp: view_ok_def shown_ok_def spinner_ok_def)
  next
    case False
    then have "spinner_ok (historyRequestID v) (selected v) (historyLoading v) rs'"
      using assms(1-3) by (auto simp: view_ok_def spinner_ok_def)
    with False req assms(1) show ?thesis unfolding history_answered_def Let_def load_done_ok
      by (simp add: view_ok_def)
  qed
qed

lemma history_answered_ok:
  assumes "view_ok v" and "n < length (history_requests v)"
  shows "view_ok (history_answered h (history_requests v ! n) a
    (v\<lparr>history_requests := take n (history_requests v) @ drop (Suc n) (history_requests v)\<rparr>))"
proof -
  have "distinct (map hr_id (history_requests v))" using assms(1) by (simp add: view_ok_def requests_ok_def)
  from split_nth [OF this assms(2)] show ?thesis
    using history_answered_cases [OF assms(1) refl] by blast
qed

text \<open>The overview arrives: a selection that is gone is dropped, the first path is selected.\<close>

lemma drop_selection_ok: "view_ok v \<Longrightarrow>
    view_ok (clear_history (v\<lparr>overview := ov, lv_error := e, historyRequestID := Suc (historyRequestID v), selected := None\<rparr>))"
  by (auto simp: view_ok_def clear_history_def spinner_ok_def intro: requests_bump)

lemma pick_first_ok:
  assumes "view_ok v"
  shows "view_ok (loadHistory b (case (selected v, latest) of
    (None, f # _) \<Rightarrow> v\<lparr>selected := Some (lr_probe_node_id f, lr_target_node_id f)\<rparr> | _ \<Rightarrow> v))"
  by (rule loadHistory_ok [where sel = "selected v" and hrs = "hours v"])
    (use assms in \<open>auto simp: view_ok_def shown_ok_def split: option.splits list.splits\<close>)

lemma overview_answered_ok:
  assumes "view_ok v"
  shows "view_ok (overview_answered h b a v)"
proof (cases a)
  case (Inl e)
  then show ?thesis using assms by (simp add: overview_answered_def) (simp add: view_ok_def)
next
  case (Inr ov)
  let ?v1 = "v\<lparr>overview := ov, lv_error := []\<rparr>"
  have "view_ok ?v1" using assms by (simp add: view_ok_def)
  then show ?thesis unfolding overview_answered_def Inr sum.case Let_def
    using drop_selection_ok [OF assms, where ov = ov and e = "[]"] by (intro pick_first_ok) simp
qed

interpretation page: store "view_step h" any_event view_ok
proof
  fix v e
  assume ok: "view_ok v"
  show "view_ok (view_step h e v)"
  proof (cases e)
    case (OverviewAnswer n a)
    have "view_ok (v\<lparr>overview_requests := take n (overview_requests v) @ drop (Suc n) (overview_requests v)\<rparr>)"
      using ok by (simp add: view_ok_def)
    then show ?thesis using OverviewAnswer ok overview_answered_ok by simp
  qed (use ok in \<open>auto simp: history_answered_ok selectPath_ok changeWindow_ok, auto simp: view_ok_def\<close>)
qed

section \<open>Properties\<close>

lemma reachable_ok: "view_ok (fold (view_step h) es view_init)"
  by (rule page.run_keeps) (simp_all add: view_ok_def requests_ok_def spinner_ok_def view_init_def list_all_iff)

text \<open>
  C6: Whatever the user selects and in whatever order answers arrive, the history that the latency
  page shows is empty or the answer to a request for the currently selected path and window.
\<close>

theorem history_matches_selection:
  "let v = fold (view_step h) es view_init in
     history v = [] \<or> history_of v = map_option (\<lambda>p. (p, hours v)) (selected v)"
  using reachable_ok [of h es] by (simp add: view_ok_def shown_ok_def Let_def)

theorem outdated_answer_ignored:
  assumes "hr_id r \<noteq> historyRequestID v"
  shows "history (history_answered h r a v) = history v \<and> historySummary (history_answered h r a v) = historySummary v \<and>
    lv_error (history_answered h r a v) = lv_error v \<and> historyLoading (history_answered h r a v) = historyLoading v"
  using assms by (simp add: history_answered_def load_done_def split: option.split)

text \<open>
  C7: While a path is selected, the busy state of its history stands for exactly one request in
  flight, the current one: it neither hangs nor ends early.
\<close>

theorem spinner_means_request:
  "let v = fold (view_step h) es view_init in
     selected v = None \<or> (historyLoading v = (historyRequestID v \<in> hr_id ` set (history_requests v)))"
  using reachable_ok [of h es] by (simp add: view_ok_def spinner_ok_def Let_def)

theorem outdated_answer_ignored_witness:
  "history (history_answered undefined \<lparr>hr_id = 1, hr_path = (js ''p'', js ''a''), hr_hours = Fin 24, hr_by_load = None\<rparr>
     (Inl (EngineError (js ''TypeError''))) (selectPath (js ''p'') (js ''b'') (selectPath (js ''p'') (js ''a'') view_init))) =
   history (selectPath (js ''p'') (js ''b'') (selectPath (js ''p'') (js ''a'') view_init))"
  using outdated_answer_ignored [of "\<lparr>hr_id = 1, hr_path = (js ''p'', js ''a''), hr_hours = Fin 24, hr_by_load = None\<rparr>"
      "selectPath (js ''p'') (js ''b'') (selectPath (js ''p'') (js ''a'') view_init)" undefined]
  by (simp add: selectPath_def loadHistory_def clear_history_def view_init_def)

lemma cell_key_inj:
  assumes "cell_key p t = cell_key p' t'" and "58 \<notin> set p" and "58 \<notin> set p'"
  shows "p = p' \<and> t = t'"
proof -
  have "takeWhile (\<lambda>c. c \<noteq> 58) (cell_key q u) = q \<and> dropWhile (\<lambda>c. c \<noteq> 58) (cell_key q u) = 58 # u"
    if "58 \<notin> set q" for q u
    using that by (induction q) (auto simp: cell_key_def)
  then show ?thesis using assms by (metis list.inject)
qed

theorem cell_belongs_to_path:
  assumes "cell v probe target = Some r" and "58 \<notin> set probe"
    and "\<And>item. item \<in> set (lo_latest (overview v)) \<Longrightarrow> 58 \<notin> set (lr_probe_node_id item)"
  shows "lr_probe_node_id r = probe \<and> lr_target_node_id r = target"
proof -
  have r: "r \<in> set (lo_latest (overview v))"
    "cell_key (lr_probe_node_id r) (lr_target_node_id r) = cell_key probe target"
    using find_Some_mem [OF assms(1) [unfolded cell_def]] by auto
  then show ?thesis using cell_key_inj [OF r(2)] assms(2,3) by blast
qed

text \<open>
  Leaving the page before its first load has settled leaves an interval behind that nothing clears.
\<close>

theorem interval_outlives_page:
  "let v = fold (view_step h) [Mount, Unmount, OverviewAnswer 0 (Inl e)] view_init in
     refresh_interval v \<and> \<not> mounted v"
  by (simp add: view_init_def overview_answered_def load_done_def)

end
