(* ===== verification/Components.thy ===== *)
theory Components
  imports Format NodeAssets
begin

text \<open>
  The components that the public pages are made of: \<open>MetricBar\<close>, \<open>TrafficUsageBar\<close>, \<open>NodeCard\<close>,
  \<open>PublicHeader\<close>, \<open>LanguageSwitch\<close> and \<open>App\<close>. A component is a function from its properties (and
  locale, clock and storage) to what its template shows.
\<close>

section \<open>Tones\<close>

datatype tone = ToneNormal | ToneWarning | ToneCritical

instantiation tone :: linorder
begin

fun tone_rank :: "tone \<Rightarrow> nat" where
  "tone_rank ToneNormal = 0"
| "tone_rank ToneWarning = 1"
| "tone_rank ToneCritical = 2"

definition less_eq_tone :: "tone \<Rightarrow> tone \<Rightarrow> bool" where
  "less_eq_tone a b \<longleftrightarrow> tone_rank a \<le> tone_rank b"

definition less_tone :: "tone \<Rightarrow> tone \<Rightarrow> bool" where
  "less_tone a b \<longleftrightarrow> tone_rank a < tone_rank b"

instance
proof
  fix a b :: tone
  show "a \<le> b \<Longrightarrow> b \<le> a \<Longrightarrow> a = b" by (cases a; cases b) (simp_all add: less_eq_tone_def)
qed (auto simp: less_eq_tone_def less_tone_def)

end

section \<open>MetricBar.vue\<close>

definition metric_normalized :: "number \<Rightarrow> number" where
  "metric_normalized value = math_min (Fin 100) (math_max (Fin 0) (if isFinite value then value else Fin 0))"

definition metric_tone :: "number \<Rightarrow> number \<Rightarrow> number \<Rightarrow> tone" where
  "metric_tone warn critical value =
     (if metric_normalized value \<ge> critical then ToneCritical
      else if metric_normalized value \<ge> warn then ToneWarning else ToneNormal)"

record metric_bar =
  mb_label :: jsstring
  mb_text :: jsstring
  mb_width :: jsstring
  mb_tone :: tone
  mb_detail :: "jsstring option"

definition MetricBar :: "jsstring \<Rightarrow> number \<Rightarrow> jsstring \<Rightarrow> metric_bar" where
  "MetricBar label value detail =
     \<lparr>mb_label = label, mb_text = toFixed (metric_normalized value) 1 @ js ''%'',
      mb_width = num_string (metric_normalized value) @ js ''%'',
      mb_tone = metric_tone (Fin 75) (Fin 90) value,
      mb_detail = (if detail \<noteq> [] then Some detail else None)\<rparr>"

section \<open>TrafficUsageBar.vue\<close>

record traffic_props =
  tu_trafficLimit :: number
  tu_trafficMode :: "jsstring option"
  tu_monthlyRxBytes :: "number option"
  tu_monthlyTxBytes :: "number option"

datatype traffic_state = Unavailable | Unlimited | Metered

definition tu_quota :: "traffic_props \<Rightarrow> number" where
  "tu_quota p = (if isFinite (tu_trafficLimit p) then math_max (Fin 0) (tu_trafficLimit p) else Fin 0)"

definition finite_number :: "number option \<Rightarrow> bool" where
  "finite_number v = (case v of None \<Rightarrow> False | Some n \<Rightarrow> isFinite n)"

definition tu_hasUsage :: "traffic_props \<Rightarrow> bool" where
  "tu_hasUsage p \<longleftrightarrow> finite_number (tu_monthlyRxBytes p) \<and> finite_number (tu_monthlyTxBytes p)"

definition tu_used :: "traffic_props \<Rightarrow> number" where
  "tu_used p = trafficUsage (tu_monthlyRxBytes p) (tu_monthlyTxBytes p) (tu_trafficMode p)"

definition tu_usedPercent :: "traffic_props \<Rightarrow> number" where
  "tu_usedPercent p = trafficUtilization (tu_used p) (Some (tu_quota p))"

definition tu_state :: "traffic_props \<Rightarrow> traffic_state" where
  "tu_state p = (if \<not> tu_hasUsage p then Unavailable
     else if tu_quota p \<le> Fin 0 then Unlimited else Metered)"

definition tu_tone :: "traffic_props \<Rightarrow> tone" where
  "tu_tone p = (if tu_usedPercent p \<ge> Fin 100 then ToneCritical
     else if tu_usedPercent p \<ge> Fin 85 then ToneWarning else ToneNormal)"

definition tu_roundedPercent :: "traffic_props \<Rightarrow> number" where
  "tu_roundedPercent p = math_round (tu_usedPercent p)"

text \<open>The literal \<open>0.01\<close> is the binary64 number nearest to one hundredth.\<close>

definition tu_usedLabel :: "host \<Rightarrow> AppLocale \<Rightarrow> traffic_props \<Rightarrow> jsstring" where
  "tu_usedLabel h l p = (let value = tu_used p / trafficCorrectionUnits GiB in
     if value > Fin 0 \<and> value < fl (1 / 100) then js ''<0.01 GiB''
     else intl_number h (locale_string l) value @ js '' GiB'')"

definition tu_ariaValueText :: "host \<Rightarrow> AppLocale \<Rightarrow> traffic_props \<Rightarrow> jsstring" where
  "tu_ariaValueText h l p = text_in l
     ([26412, 26376, 24050, 29992, 32] @ tu_usedLabel h l p @ [65292, 37197, 39069, 30340, 32] @ num_string (tu_roundedPercent p) @ js ''%'')
     (tu_usedLabel h l p @ js '' used this month, '' @ num_string (tu_roundedPercent p) @ js ''% of quota'')"

section \<open>NodeCard.vue\<close>

record node_card =
  cd_to :: jsstring
  cd_offline :: bool
  cd_region :: jsstring
  cd_flag :: "jsstring option"
  cd_logo :: jsstring
  cd_system :: jsstring
  cd_cpu :: jsstring
  cd_tags :: "jsstring list"
  cd_bars :: "metric_bar list"
  cd_traffic :: traffic_props
  cd_rates :: "jsstring \<times> jsstring"
  cd_uptime :: jsstring
  cd_footer :: jsstring

text \<open>\<open>a || b\<close> on optional strings: an empty string counts as missing.\<close>

definition or_text :: "jsstring option \<Rightarrow> jsstring \<Rightarrow> jsstring" where
  "or_text a b = (case a of None \<Rightarrow> b | Some s \<Rightarrow> if s = [] then b else s)"

definition zero_if_missing :: "('m \<Rightarrow> number) \<Rightarrow> 'm option \<Rightarrow> number" where
  "zero_if_missing f m = (case m of None \<Rightarrow> Fin 0 | Some v \<Rightarrow> f v)"

definition used_of :: "host \<Rightarrow> (MetricSample \<Rightarrow> number) \<Rightarrow> (MetricSample \<Rightarrow> number) \<Rightarrow> MetricSample option \<Rightarrow> jsstring" where
  "used_of h used whole m = (case m of None \<Rightarrow> []
     | Some v \<Rightarrow> bytes h (used v) 1 @ js '' / '' @ bytes h (whole v) 1)"

definition traffic_of :: "NodeSnapshot \<Rightarrow> traffic_props" where
  "traffic_of s = \<lparr>tu_trafficLimit = pn_traffic_limit (sn_node s), tu_trafficMode = Some (pn_traffic_limit_type (sn_node s)),
     tu_monthlyRxBytes = Option.bind (sn_metric s) ms_monthly_rx_bytes,
     tu_monthlyTxBytes = Option.bind (sn_metric s) ms_monthly_tx_bytes\<rparr>"

definition last_report :: "NodeSnapshot \<Rightarrow> jsstring option" where
  "last_report s = (case Option.bind (sn_metric s) ms_received_at of
     None \<Rightarrow> pn_last_seen_at (sn_node s)
   | Some r \<Rightarrow> if r = [] then pn_last_seen_at (sn_node s) else Some r)"

definition NodeCard :: "host \<Rightarrow> AppLocale \<Rightarrow> number \<Rightarrow> NodeSnapshot \<Rightarrow> jsstring option \<Rightarrow> node_card" where
  "NodeCard h l now snapshot to =
     (let node = sn_node snapshot; metric = sn_metric snapshot;
          memory = percent (zero_if_missing ms_memory_used metric) (zero_if_missing ms_memory_total metric);
          disk = percent (zero_if_missing ms_disk_used metric) (zero_if_missing ms_disk_total metric) in
      \<lparr>cd_to = or_text to (js ''/nodes/'' @ pn_id node),
       cd_offline = (\<not> pn_online node),
       cd_region = or_text (pn_region node) (or_text (pn_country_code node)
         (text_in l [26410, 35774, 32622, 22320, 21306] (js ''No location''))),
       cd_flag = NodeFlag h (pn_country_code node),
       cd_logo = SystemLogo h (pn_os node),
       cd_system = or_text (pn_os node) (text_in l [26410, 30693, 31995, 32479] (js ''Unknown OS'')) @ [32, 183, 32] @
         or_text (pn_arch node) [8212],
       cd_cpu = (case metric of None \<Rightarrow> [8212] | Some m \<Rightarrow> toFixed (ms_cpu m) 0) @ js ''%'',
       cd_tags = (case pn_group node of None \<Rightarrow> [] | Some g \<Rightarrow> if g = [] then [] else [g]) @ take 3 (pn_tags node),
       cd_bars = [MetricBar (js ''CPU'') (zero_if_missing ms_cpu metric) [],
         MetricBar (text_in l [20869, 23384] (js ''MEM'')) memory (used_of h ms_memory_used ms_memory_total metric),
         MetricBar (text_in l [30913, 30424] (js ''DISK'')) disk (used_of h ms_disk_used ms_disk_total metric)],
       cd_traffic = traffic_of snapshot,
       cd_rates = (rate h (zero_if_missing ms_net_rx_bps metric), rate h (zero_if_missing ms_net_tx_bps metric)),
       cd_uptime = duration l (zero_if_missing ms_uptime_seconds metric),
       cd_footer = (if pn_online node then text_in l [36816, 34892, 27491, 24120] (js ''Healthy'')
         else text_in l [26368, 21518, 19978, 25253] (js ''Last report'') @ js '' '' @ relativeTime h l now (last_report snapshot))\<rparr>)"

section \<open>PublicHeader.vue, LanguageSwitch.vue and App.vue\<close>

text \<open>The page around the components: localisation, storage and the appearance of the document.\<close>

record app_page =
  ap_i18n :: i18n
  ap_appearance :: "jsstring option"
  ap_header :: jsstring

definition appearances :: "jsstring list" where
  "appearances = [js ''system'', js ''dark'', js ''light'']"

fun index_of :: "'a \<Rightarrow> 'a list \<Rightarrow> int" where
  "index_of x [] = - 1"
| "index_of x (y # ys) = (if x = y then 0 else if index_of x ys < 0 then - 1 else index_of x ys + 1)"

definition next_appearance :: "jsstring \<Rightarrow> jsstring" where
  "next_appearance appearance = appearances ! nat ((index_of appearance appearances + 1) mod int (length appearances))"

text \<open>Reading and writing \<open>localStorage\<close> without a \<open>try\<close>: blocked or missing storage throws.\<close>

definition storage_get :: "storage \<Rightarrow> jsstring \<Rightarrow> jsstring option option" where
  "storage_get st key = (case st of Storage m \<Rightarrow> Some (m key) | _ \<Rightarrow> None)"

definition cycleAppearance :: "app_page \<Rightarrow> app_page option" where
  "cycleAppearance a = (let next = next_appearance (ap_header a) in
     case local_storage (ap_i18n a) of
       Storage m \<Rightarrow> Some (a\<lparr>ap_header := next, ap_appearance := Some next,
         ap_i18n := (ap_i18n a)\<lparr>local_storage := Storage (m(js ''appearance'' \<mapsto> next))\<rparr>\<rparr>)
     | _ \<Rightarrow> None)"

definition saved_appearance :: "storage \<Rightarrow> jsstring option" where
  "saved_appearance st = (case storage_get st (js ''appearance'') of
     None \<Rightarrow> None | Some v \<Rightarrow> Some (case v of Some a \<Rightarrow> a | None \<Rightarrow> js ''system''))"

text \<open>\<open>App.vue\<close>: \<open>None\<close> when \<open>onMounted\<close> throws.\<close>

definition App_onMounted :: "host \<Rightarrow> browser option \<Rightarrow> app_page \<Rightarrow> app_page option" where
  "App_onMounted h nav a = (case saved_appearance (local_storage (ap_i18n a)) of
     None \<Rightarrow> None
   | Some saved \<Rightarrow> Some (a\<lparr>ap_appearance := Some saved, ap_i18n := watchBrowserLocale h nav (ap_i18n a)\<rparr>))"

definition App_onBeforeUnmount :: "app_page \<Rightarrow> app_page" where
  "App_onBeforeUnmount a = a\<lparr>ap_i18n := stopWatching (ap_i18n a)\<rparr>"

definition PublicHeader_setup :: "app_page \<Rightarrow> app_page option" where
  "PublicHeader_setup a = map_option (\<lambda>v. a\<lparr>ap_header := v\<rparr>) (saved_appearance (local_storage (ap_i18n a)))"

text \<open>The language switch: which button is pressed, and what a click does.\<close>

definition LanguageSwitch :: "i18n \<Rightarrow> bool \<times> bool" where
  "LanguageSwitch s = (app_locale s = zh_CN, app_locale s = en_US)"

definition LanguageSwitch_click :: "AppLocale \<Rightarrow> app_page \<Rightarrow> app_page" where
  "LanguageSwitch_click l a = a\<lparr>ap_i18n := setLocale l (ap_i18n a)\<rparr>"

section \<open>Properties\<close>

lemma metric_normalized_eq:
  "metric_normalized value = Fin (min 100 (max 0 (case value of Fin x \<Rightarrow> x | _ \<Rightarrow> 0)))"
  by (cases "value") (simp_all add: metric_normalized_def)

theorem metric_bar_range:
  "\<exists>p. metric_normalized value = Fin p \<and> 0 \<le> p \<and> p \<le> 100"
  by (auto simp: metric_normalized_eq)

lemma number_le_trans: "a \<le> b \<Longrightarrow> b \<le> c \<Longrightarrow> a \<le> c" for a b c :: number
  by (cases a; cases b; cases c) (auto simp: less_eq_number_def)

theorem metric_tone_mono:
  assumes "isFinite a" and "isFinite b" and "a \<le> b"
  shows "metric_tone warn critical a \<le> metric_tone warn critical b"
proof -
  obtain x y where "a = Fin x" "b = Fin y" "x \<le> y" using assms by (auto simp: isFinite_iff)
  then have "metric_normalized a \<le> metric_normalized b" by (auto simp: metric_normalized_eq)
  then have "c \<le> metric_normalized a \<Longrightarrow> c \<le> metric_normalized b" for c by (rule number_le_trans [rotated])
  then show ?thesis by (simp add: metric_tone_def less_eq_tone_def)
qed

theorem metric_tone_mono_witness:
  "metric_tone (Fin 75) (Fin 90) (Fin 80) \<le> metric_tone (Fin 75) (Fin 90) (Fin 140)"
  by (rule metric_tone_mono) simp_all

lemma tu_percent_range: obtains p where "tu_usedPercent p0 = Fin p" "0 \<le> p" "p \<le> 100"
  unfolding tu_usedPercent_def by (rule utilization_percent)

text \<open>The meter that assistive technology reads stays between its declared bounds.\<close>

theorem traffic_meter_range:
  "\<exists>n. tu_roundedPercent p = Fin (of_int n) \<and> 0 \<le> n \<and> n \<le> 100"
proof -
  obtain x where x: "tu_usedPercent p = Fin x" "0 \<le> x" "x \<le> 100" by (rule tu_percent_range)
  have "0 \<le> \<lfloor>x + 1 / 2\<rfloor>" using x(2) by simp
  moreover have "\<lfloor>x + 1 / 2\<rfloor> \<le> 100" using x(3) by linarith
  ultimately have "0 \<le> \<lfloor>x + 1 / 2\<rfloor>" "\<lfloor>x + 1 / 2\<rfloor> \<le> 100" by blast+
  then show ?thesis using x(1) by (auto simp: tu_roundedPercent_def)
qed

text \<open>The bar turns critical exactly when the quota is used up.\<close>

lemma tu_quota_int: "tu_trafficLimit p = Fin (of_int l) \<Longrightarrow> 0 < l \<Longrightarrow> tu_quota p = Fin (of_int l)"
  by (simp add: tu_quota_def)

lemma utilization_full:
  assumes "0 \<le> u" and "0 < l" and "l \<le> 2 ^ 53"
  shows "trafficUtilization (Fin (of_int u)) (Some (Fin (of_int l))) \<ge> Fin 100 \<longleftrightarrow> l \<le> u"
proof -
  have c: "counter (Some (Fin (of_int u))) = Fin (of_int u)" "counter (Some (Fin (of_int l))) = Fin (of_int l)"
    using assms by (simp_all add: counter_Fin)
  show ?thesis using trafficUtilization_closed [OF c] percent_short [of u l]
      percent_full [of "of_int u / of_int l"] assms by (cases "l \<le> u") simp_all
qed

theorem traffic_critical_iff:
  assumes "tu_used p = Fin (of_int u)" and "0 \<le> u"
    and "tu_trafficLimit p = Fin (of_int l)" and "0 < l" and "l \<le> 2 ^ 53"
  shows "tu_tone p = ToneCritical \<longleftrightarrow> l \<le> u"
  using utilization_full [OF assms(2,4,5)] tu_quota_int [OF assms(3,4)] assms(1)
  by (simp add: tu_tone_def tu_usedPercent_def)

theorem traffic_critical_iff_witness:
  "tu_tone \<lparr>tu_trafficLimit = Fin (of_int 1000), tu_trafficMode = Some (js ''up''),
     tu_monthlyRxBytes = Some (Fin 4000), tu_monthlyTxBytes = Some (Fin (of_int 999))\<rparr> \<noteq> ToneCritical"
  by (subst traffic_critical_iff [where u = 999 and l = 1000])
    (simp_all add: tu_used_def trafficUsage_def counter_def)

theorem unavailable_without_counters:
  "tu_state (traffic_of s) = Unavailable \<longleftrightarrow>
     (case sn_metric s of None \<Rightarrow> True
      | Some m \<Rightarrow> \<not> (finite_number (ms_monthly_rx_bytes m) \<and> finite_number (ms_monthly_tx_bytes m)))"
  by (auto simp: tu_state_def tu_hasUsage_def traffic_of_def finite_number_def split: option.split)

text \<open>The card links to an asset of the application and never shows a foreign flag.\<close>

theorem node_card_bars_range:
  "list_all (\<lambda>b. \<exists>value. mb_width b = num_string (metric_normalized value) @ js ''%'') (cd_bars (NodeCard h l now s to))"
  by (auto simp: NodeCard_def Let_def MetricBar_def)

text \<open>Three clicks restore a known appearance, and any unknown one becomes \<open>system\<close>.\<close>

lemma next_known:
  "next_appearance (js ''system'') = js ''dark''" "next_appearance (js ''dark'') = js ''light''"
  "next_appearance (js ''light'') = js ''system''"
  by (simp_all add: next_appearance_def appearances_def)

lemma index_of_missing: "x \<notin> set xs \<Longrightarrow> index_of x xs = - 1"
  by (induction xs) auto

theorem appearance_cycle:
  "(if a \<in> set appearances then next_appearance (next_appearance (next_appearance a)) = a
    else next_appearance a = js ''system'') \<and> next_appearance a \<in> set appearances"
proof (cases "a \<in> set appearances")
  case True
  then consider "a = js ''system''" | "a = js ''dark''" | "a = js ''light''"
    unfolding appearances_def by (simp only: list.set insert_iff empty_iff) blast
  then show ?thesis by cases (simp_all only: next_known, simp_all add: appearances_def)
next
  case False
  then show ?thesis by (simp add: next_appearance_def index_of_missing) (simp add: appearances_def)
qed

theorem appearance_persists:
  assumes "cycleAppearance a = Some a'"
  shows "saved_appearance (local_storage (ap_i18n a')) = Some (ap_header a') \<and>
    ap_appearance a' = Some (ap_header a')"
  using assms by (auto simp: cycleAppearance_def saved_appearance_def storage_get_def Let_def split: storage.splits)

text \<open>
  With blocked storage the localisation module still works, but \<open>App.vue\<close> throws before it starts
  to watch the browser language.
\<close>

theorem blocked_storage_stops_app:
  "local_storage (ap_i18n a) = BlockedStorage \<Longrightarrow> App_onMounted h nav a = None \<and>
     app_locale (ap_i18n (LanguageSwitch_click l a)) = l"
  by (simp add: App_onMounted_def saved_appearance_def storage_get_def LanguageSwitch_click_def i18n_defs)

theorem language_switch_exclusive:
  "LanguageSwitch (ap_i18n (LanguageSwitch_click l a)) = (l = zh_CN, l = en_US)"
  by (simp add: LanguageSwitch_def LanguageSwitch_click_def i18n_defs)

end
