(* ===== verification/PublicViews.thy ===== *)
theory PublicViews
  imports Monitor Components Session Latency
begin

text \<open>
  \<open>OverviewView.vue\<close>, \<open>ShareView.vue\<close>, \<open>LoginView.vue\<close>, \<open>SetupView.vue\<close> and \<open>AdminView.vue\<close>. A
  page is a record with the state of its script; handlers are split at their \<open>await\<close>, and the
  template of the overview is a function from the state to what it shows.
\<close>

section \<open>OverviewView.vue\<close>

datatype status_filter = AllNodes | OnlineNodes | OfflineNodes

datatype layout = Grid | TableLayout

fun layout_string :: "layout \<Rightarrow> jsstring" where
  "layout_string Grid = js ''grid''"
| "layout_string TableLayout = js ''table''"

text \<open>\<open>ov_initial\<close> is the load that \<open>onMounted\<close> waits for.\<close>

record overview_page =
  ov_window :: window
  ov_group :: jsstring
  ov_search :: jsstring
  ov_status :: status_filter
  ov_view :: jsstring
  ov_error :: jsstring
  ov_storage :: "jsstring \<rightharpoonup> jsstring"
  ov_initial :: "nat option"

definition stored_view :: "(jsstring \<rightharpoonup> jsstring) \<Rightarrow> jsstring" where
  "stored_view st = or_text (st (js ''hostpin-view'')) (js ''grid'')"

definition setView :: "layout \<Rightarrow> overview_page \<Rightarrow> overview_page" where
  "setView value p = p\<lparr>ov_view := layout_string value,
     ov_storage := (ov_storage p)(js ''hostpin-view'' \<mapsto> layout_string value)\<rparr>"

definition haystack :: "PublicNode \<Rightarrow> jsstring" where
  "haystack node = join (js '' '')
     ([pn_name node, or_text (pn_group node) [], or_text (pn_region node) [], or_text (pn_country_code node) []] @ pn_tags node)"

definition status_matches :: "status_filter \<Rightarrow> bool \<Rightarrow> bool" where
  "status_matches st online \<longleftrightarrow> st = AllNodes \<or> (st = OnlineNodes) = online"

definition node_matches :: "host \<Rightarrow> overview_page \<Rightarrow> PublicNode \<Rightarrow> bool" where
  "node_matches h p node \<longleftrightarrow> (let query = toLowerCase h (trim (ov_search p)) in
     (ov_group p = [] \<or> pn_group node = Some (ov_group p)) \<and>
     status_matches (ov_status p) (pn_online node) \<and>
     (query = [] \<or> includes_str (toLowerCase h (haystack node)) query))"

definition filtered :: "host \<Rightarrow> overview_page \<Rightarrow> NodeSnapshot list" where
  "filtered h p = filter (\<lambda>item. node_matches h p (sn_node item)) (nodes (ov_window p))"

definition totalMemory :: "overview_page \<Rightarrow> number" where
  "totalMemory p = foldl (\<lambda>sum item. sum + zero_if_missing ms_memory_total (sn_metric item)) (Fin 0) (nodes (ov_window p))"

definition trafficRate :: "overview_page \<Rightarrow> number" where
  "trafficRate p = foldl (\<lambda>sum item. sum + zero_if_missing ms_net_rx_bps (sn_metric item)
     + zero_if_missing ms_net_tx_bps (sn_metric item)) (Fin 0) (nodes (ov_window p))"

definition avgCPU :: "overview_page \<Rightarrow> number" where
  "avgCPU p = (let samples = filter (\<lambda>item. pn_online (sn_node item) \<and> sn_metric item \<noteq> None) (nodes (ov_window p)) in
     if samples \<noteq> [] then foldl (\<lambda>sum item. sum + zero_if_missing ms_cpu (sn_metric item)) (Fin 0) samples
       / num_of_nat (length samples)
     else Fin 0)"

definition online_width :: "overview_page \<Rightarrow> number" where
  "online_width p = (if nodes (ov_window p) \<noteq> []
     then num_of_nat (onlineCount (ov_window p)) / num_of_nat (length (nodes (ov_window p))) * Fin 100 else Fin 0)"

text \<open>The fleet section of the template, first match first.\<close>

datatype fleet_body = ErrorNotice jsstring | LoadingGrid | NoMatch | Cards "node_card list"
  | Rows "NodeSnapshot list"

definition fleet_section :: "host \<Rightarrow> AppLocale \<Rightarrow> number \<Rightarrow> overview_page \<Rightarrow> fleet_body" where
  "fleet_section h l now p =
     (if ov_error p \<noteq> [] then ErrorNotice (ov_error p)
      else if loading (ov_window p) \<and> nodes (ov_window p) = [] then LoadingGrid
      else if filtered h p = [] then NoMatch
      else if ov_view p = js ''grid'' then Cards (map (\<lambda>item. NodeCard h l now item None) (filtered h p))
      else Rows (filtered h p))"

text \<open>\<open>onMounted\<close> up to its \<open>await\<close>, from there on, \<open>onBeforeUnmount\<close>, and the button \<open>Retry\<close>.\<close>

definition overview_mount :: "overview_page \<Rightarrow> overview_page" where
  "overview_mount p = p\<lparr>ov_initial := Some (next_id (ov_window p)), ov_window := load_start ViewLoad (ov_window p)\<rparr>"

definition overview_answer :: "host \<Rightarrow> nat \<Rightarrow> load_answer \<Rightarrow> number \<Rightarrow> overview_page \<Rightarrow> overview_page" where
  "overview_answer h i answer now p =
     (if ov_initial p \<noteq> Some i then p\<lparr>ov_window := monitor_step h (Answer i answer now) (ov_window p)\<rparr>
      else (case load_finish answer now ((ov_window p)\<lparr>loads := filter (\<lambda>l. fst l \<noteq> i) (loads (ov_window p))\<rparr>) of
          (None, w) \<Rightarrow> p\<lparr>ov_initial := None, ov_window := connect w\<rparr>
        | (Some e, w) \<Rightarrow> p\<lparr>ov_initial := None, ov_window := w, ov_error := failure_message h e\<rparr>))"

definition overview_unmount :: "overview_page \<Rightarrow> overview_page" where
  "overview_unmount p = p\<lparr>ov_window := disconnect (ov_window p)\<rparr>"

definition overview_retry :: "overview_page \<Rightarrow> overview_page" where
  "overview_retry p = p\<lparr>ov_window := load_start ViewLoad (ov_window p)\<rparr>"

datatype overview_event = OvMount | OvAnswer nat load_answer number | OvWindow monitor_event | OvRetry
  | OvSearch jsstring | OvGroup jsstring | OvStatus status_filter | OvLayout layout | OvUnmount

text \<open>Answers go through \<open>OvAnswer\<close>; every other event of the window is the store's own.\<close>

fun overview_step :: "host \<Rightarrow> overview_event \<Rightarrow> overview_page \<Rightarrow> overview_page" where
  "overview_step h OvMount p = overview_mount p"
| "overview_step h (OvAnswer i answer now) p = overview_answer h i answer now p"
| "overview_step h (OvWindow e) p = (case e of
     Answer i answer now \<Rightarrow> overview_answer h i answer now p
   | _ \<Rightarrow> p\<lparr>ov_window := monitor_step h e (ov_window p)\<rparr>)"
| "overview_step h OvRetry p = overview_retry p"
| "overview_step h (OvSearch q) p = p\<lparr>ov_search := q\<rparr>"
| "overview_step h (OvGroup g) p = p\<lparr>ov_group := g\<rparr>"
| "overview_step h (OvStatus st) p = p\<lparr>ov_status := st\<rparr>"
| "overview_step h (OvLayout v) p = setView v p"
| "overview_step h OvUnmount p = overview_unmount p"

section \<open>ShareView.vue\<close>

record share_page =
  sh_nodes :: "NodeSnapshot list"
  sh_expiresAt :: jsstring
  sh_error :: jsstring
  sh_socket :: "jsstring option"
  sh_mounted :: bool

definition share_sample :: "MetricSample \<Rightarrow> NodeSnapshot \<Rightarrow> NodeSnapshot" where
  "share_sample sample target = set_online True (target\<lparr>sn_metric := Some sample\<rparr>)"

record share_update =
  su_type :: jsstring
  su_node_id :: "jsstring option"
  su_sample :: "MetricSample option"
  su_samples :: "(jsstring \<times> MetricSample) list option"

definition share_onmessage :: "share_update \<Rightarrow> share_page \<Rightarrow> share_page" where
  "share_onmessage update p =
     (let one = (case (su_node_id update, su_sample update) of
            (Some i, Some m) \<Rightarrow> if i \<noteq> [] then [(i, m)] else [] | _ \<Rightarrow> []);
          many = (case su_samples update of Some es \<Rightarrow> es | None \<Rightarrow> []) in
      p\<lparr>sh_nodes := deliver share_sample (one @ many) (sh_nodes p)\<rparr>)"

text \<open>
  \<open>onMounted\<close> up to its \<open>await\<close>, with the path that it requests, and from there on with the answer for
  the encoded token \<open>t\<close>. \<open>sh_mounted\<close> says whether the page is still there.
\<close>

definition share_mount :: "host \<Rightarrow> jsstring \<Rightarrow> share_page \<Rightarrow> share_page \<times> jsstring option" where
  "share_mount h token p = (case encodeURIComponent token of
     None \<Rightarrow> (p\<lparr>sh_mounted := True, sh_error := error_message h (js ''URIError'')\<rparr>, None)
   | Some t \<Rightarrow> (p\<lparr>sh_mounted := True\<rparr>, Some (js ''/api/v1/public/share/'' @ t)))"

definition share_answered :: "host \<Rightarrow> location \<Rightarrow> jsstring \<Rightarrow> failure + (jsstring \<times> NodeSnapshot list) \<Rightarrow> share_page \<Rightarrow> share_page" where
  "share_answered h loc t answer p = (case answer of
     Inl e \<Rightarrow> p\<lparr>sh_error := failure_message h e\<rparr>
   | Inr (expires, ns) \<Rightarrow> p\<lparr>sh_nodes := ns, sh_expiresAt := expires,
       sh_socket := Some (socketURL loc (js ''/api/v1/public/share/'' @ t @ js ''/live''))\<rparr>)"

definition share_unmount :: "share_page \<Rightarrow> share_page" where
  "share_unmount p = p\<lparr>sh_mounted := False, sh_socket := None\<rparr>"

section \<open>LoginView.vue\<close>

record login_page =
  lg_username :: jsstring
  lg_password :: jsstring
  lg_totp :: jsstring
  lg_busy :: bool
  lg_error :: jsstring

text \<open>
  \<open>submit\<close> in three parts: what runs until \<open>session.login\<close> is awaited, what runs when it has settled (with
  its failure, if any) and what runs when the awaited \<open>router.push\<close> has settled. \<open>query_next\<close> is
  \<open>route.query.next\<close> at that moment when it is a string; the second result is the path to push.
\<close>

definition login_submit :: "login_page \<Rightarrow> login_page \<times> json" where
  "login_submit p = (p\<lparr>lg_busy := True, lg_error := []\<rparr>, login_body (lg_username p) (lg_password p) (lg_totp p))"

definition login_answered :: "host \<Rightarrow> failure option \<Rightarrow> jsstring option \<Rightarrow> login_page \<Rightarrow> login_page \<times> jsstring option" where
  "login_answered h e query_next p = (case e of
     None \<Rightarrow> (p, Some (case query_next of Some n \<Rightarrow> n | None \<Rightarrow> js ''/admin''))
   | Some f \<Rightarrow> (p\<lparr>lg_error := failure_message h f, lg_busy := False\<rparr>, None))"

definition login_pushed :: "host \<Rightarrow> failure option \<Rightarrow> login_page \<Rightarrow> login_page" where
  "login_pushed h e p = (case e of
     None \<Rightarrow> p\<lparr>lg_busy := False\<rparr>
   | Some f \<Rightarrow> p\<lparr>lg_error := failure_message h f, lg_busy := False\<rparr>)"

section \<open>SetupView.vue\<close>

record setup_page =
  se_username :: jsstring
  se_password :: jsstring
  se_confirmation :: jsstring
  se_pin :: jsstring
  se_siteName :: jsstring
  se_description :: jsstring
  se_busy :: bool
  se_error :: jsstring

definition passwordValid :: "setup_page \<Rightarrow> bool" where
  "passwordValid p \<longleftrightarrow> 12 \<le> length (se_password p) \<and> se_password p = se_confirmation p"

definition pinValid :: "setup_page \<Rightarrow> bool" where
  "pinValid p \<longleftrightarrow> 6 \<le> length (se_pin p)"

definition setup_body :: "setup_page \<Rightarrow> json" where
  "setup_body p = JObj [(js ''username'', JStr (se_username p)), (js ''password'', JStr (se_password p)),
     (js ''enrollment_pin'', JStr (se_pin p)), (js ''site_name'', JStr (se_siteName p)),
     (js ''site_description'', JStr (se_description p))]"

text \<open>
  \<open>submit\<close> in the same parts; an invalid form posts nothing. \<open>setup_call\<close> is the awaited request and the
  refresh after it, as the session store sees them.
\<close>

definition setup_submit :: "setup_page \<Rightarrow> setup_page \<times> json option" where
  "setup_submit p = (if \<not> passwordValid p \<or> \<not> pinValid p then (p, None)
     else (p\<lparr>se_busy := True, se_error := []\<rparr>, Some (setup_body p)))"

definition setup_call :: "(json \<Rightarrow> failure + json option) \<Rightarrow> refresh_answer \<Rightarrow> json \<Rightarrow> session \<Rightarrow> session outcome" where
  "setup_call post answer body s = (case post body of Inl f \<Rightarrow> (Some f, s) | Inr _ \<Rightarrow> refresh answer s)"

definition setup_answered :: "host \<Rightarrow> failure option \<Rightarrow> setup_page \<Rightarrow> setup_page \<times> jsstring option" where
  "setup_answered h e p = (case e of
     None \<Rightarrow> (p, Some (js ''/admin''))
   | Some f \<Rightarrow> (p\<lparr>se_error := failure_message h f, se_busy := False\<rparr>, None))"

definition setup_pushed :: "host \<Rightarrow> failure option \<Rightarrow> setup_page \<Rightarrow> setup_page" where
  "setup_pushed h e p = (case e of
     None \<Rightarrow> p\<lparr>se_busy := False\<rparr>
   | Some f \<Rightarrow> p\<lparr>se_error := failure_message h f, se_busy := False\<rparr>)"

section \<open>AdminView.vue\<close>

datatype admin_section = SecOverview | SecNodes | SecLatency | SecAlerts | SecProbes | SecNotifications
  | SecThemes | SecSettings | SecBackups | SecSecurity | SecAudit

definition admin_views :: "(jsstring \<times> admin_section) list" where
  "admin_views = [(js ''overview'', SecOverview), (js ''nodes'', SecNodes), (js ''latency'', SecLatency),
     (js ''alerts'', SecAlerts), (js ''probes'', SecProbes), (js ''notifications'', SecNotifications),
     (js ''themes'', SecThemes), (js ''settings'', SecSettings), (js ''backups'', SecBackups),
     (js ''security'', SecSecurity), (js ''audit'', SecAudit)]"

definition section_of :: "jsstring option \<Rightarrow> jsstring" where
  "section_of param = or_text param (js ''overview'')"

text \<open>
  \<open>views[section]\<close> on a plain object: a name that the object inherits from \<open>Object.prototype\<close> is
  found too, and is not a page.
\<close>

datatype view_component = Section admin_section | Inherited jsstring

definition object_prototype :: "jsstring list" where
  "object_prototype = [js ''constructor'', js ''toString'', js ''toLocaleString'', js ''valueOf'',
     js ''hasOwnProperty'', js ''isPrototypeOf'', js ''propertyIsEnumerable'', js ''__proto__'',
     js ''__defineGetter__'', js ''__defineSetter__'', js ''__lookupGetter__'', js ''__lookupSetter__'']"

definition current_view :: "jsstring option \<Rightarrow> view_component" where
  "current_view param = (case map_of admin_views (section_of param) of
     Some v \<Rightarrow> Section v
   | None \<Rightarrow> if section_of param \<in> set object_prototype then Inherited (section_of param) else Section SecOverview)"

text \<open>The navigation in the order of the page.\<close>

definition admin_nav :: "AppLocale \<Rightarrow> (jsstring \<times> jsstring) list" where
  "admin_nav l = [(js ''overview'', text_in l [27010, 35272] (js ''Overview'')), (js ''nodes'', text_in l [33410, 28857] (js ''Nodes'')),
     (js ''latency'', text_in l [24310, 36831, 33410, 28857] (js ''Latency nodes'')), (js ''alerts'', text_in l [21578, 35686, 35268, 21017] (js ''Alert rules'')),
     (js ''probes'', text_in l [26381, 21153, 25506, 27979] (js ''Service probes'')),
     (js ''notifications'', text_in l [36890, 30693, 28192, 36947] (js ''Notifications'')), (js ''themes'', text_in l [20027, 39064] (js ''Themes'')),
     (js ''settings'', text_in l [31449, 28857, 35774, 32622] (js ''Site settings'')),
     (js ''backups'', text_in l [22791, 20221, 19982, 24674, 22797] (js ''Backup & restore'')),
     (js ''security'', text_in l [35775, 38382, 23433, 20840] (js ''Access security'')), (js ''audit'', text_in l [23457, 35745, 26085, 24535] (js ''Audit log''))]"

definition currentLabel :: "AppLocale \<Rightarrow> jsstring option \<Rightarrow> jsstring" where
  "currentLabel l param = (case map_of (admin_nav l) (section_of param) of
     Some label \<Rightarrow> label | None \<Rightarrow> text_in l [27010, 35272] (js ''Overview''))"

text \<open>
  When \<open>session.logout\<close> has settled: a failure leaves the handler, otherwise the router is sent to the
  public overview.
\<close>

definition admin_logout :: "failure option \<Rightarrow> jsstring option" where
  "admin_logout e = (case e of None \<Rightarrow> Some (js ''/'') | Some _ \<Rightarrow> None)"

section \<open>Properties of the overview\<close>

text \<open>For ASCII texts the search is a search for the query in any of the fields, ignoring case.\<close>

lemma join_contains: "x \<in> set xs \<Longrightarrow> \<exists>a b. join sep xs = a @ x @ b"
proof (induction sep xs rule: join.induct)
  case (3 sep x1 x2 xs)
  show ?case
  proof (cases "x = x1")
    case True
    then show ?thesis by (intro exI [of _ "[]"] exI [of _ "sep @ join sep (x2 # xs)"]) simp
  next
    case False
    then obtain a b where "join sep (x2 # xs) = a @ x @ b" using 3 by auto
    then show ?thesis by (intro exI [of _ "x1 @ sep @ a"] exI [of _ b]) simp
  qed
qed (auto intro: exI [of _ "[]"])

lemma includes_map: "includes_str s t \<Longrightarrow> includes_str (map f s) (map f t)"
  by (auto simp: includes_iff) (metis map_append)

lemma includes_append: "includes_str s t \<Longrightarrow> includes_str (a @ s @ b) t"
  by (auto simp: includes_iff) (metis append.assoc)

theorem search_finds_field:
  assumes "field \<in> set ([pn_name node, or_text (pn_group node) [], or_text (pn_region node) [],
      or_text (pn_country_code node) []] @ pn_tags node)"
    and "is_ascii (haystack node)" and "is_ascii (trim (ov_search p))"
    and "includes_str (map lower_unit field) (map lower_unit (trim (ov_search p)))"
    and "ov_group p = []" and "ov_status p = AllNodes"
  shows "node_matches h p node"
proof -
  obtain a b where "haystack node = a @ field @ b" using join_contains [OF assms(1)] unfolding haystack_def by blast
  then have "includes_str (toLowerCase h (haystack node)) (map lower_unit (trim (ov_search p)))"
    using assms(2,4) includes_append by (simp add: toLowerCase_def)
  then show ?thesis using assms(3,5,6) by (simp add: node_matches_def status_matches_def toLowerCase_def)
qed

theorem search_finds_field_witness:
  "node_matches undefined \<lparr>ov_window = window_init, ov_group = [], ov_search = js '' EDG'', ov_status = AllNodes,
      ov_view = js ''grid'', ov_error = [], ov_storage = Map.empty, ov_initial = None\<rparr> (example_node (js ''n1''))"
  by (rule search_finds_field [where field = "js ''edge''"])
    (simp_all add: example_node_def haystack_def or_text_def is_ascii_def trim_def is_white_def white_units_def
      lower_unit_def startsWith_def)

theorem filters_compose:
  "filtered h p = filter (\<lambda>item. ov_group p = [] \<or> pn_group (sn_node item) = Some (ov_group p))
     (filter (\<lambda>item. status_matches (ov_status p) (pn_online (sn_node item)))
       (filtered h (p\<lparr>ov_group := [], ov_status := AllNodes\<rparr>)))"
  by (auto simp: filtered_def node_matches_def status_matches_def Let_def intro!: filter_cong)

text \<open>A failed first load is shown for ever: neither a retry nor the live connection clears it.\<close>

interpretation failed: observed_store "overview_step h" "\<lambda>e. e \<noteq> OvMount" "\<lambda>p. ov_initial p = None" ov_error
proof
  fix p :: overview_page and e
  assume "ov_initial p = None" "e \<noteq> OvMount"
  then show "ov_initial (overview_step h e p) = None" "ov_error (overview_step h e p) = ov_error p"
    by (cases e; auto simp: overview_answer_def overview_retry_def overview_unmount_def setView_def
        split: monitor_event.split)+
qed

theorem load_error_is_sticky:
  assumes "ov_initial p = None" and "ov_error p \<noteq> []" and "list_all (\<lambda>e. e \<noteq> OvMount) es"
  shows "fleet_section h l now (fold (overview_step h) es p) = ErrorNotice (ov_error p)"
  using failed.run_unobserved [OF assms(1,3), of h] assms(2) by (simp add: fleet_section_def)

theorem load_error_is_sticky_witness:
  "fleet_section undefined en_US (Fin 0) (fold (overview_step undefined)
     [OvRetry, OvAnswer 2 (Inr [\<lparr>sn_node = example_node (js ''n1''), sn_metric = None\<rparr>], Inr []) (Fin 0)]
     \<lparr>ov_window = window_init, ov_group = [], ov_search = [], ov_status = AllNodes, ov_view = js ''grid'',
      ov_error = js ''Failed to fetch'', ov_storage = Map.empty, ov_initial = None\<rparr>) = ErrorNotice (js ''Failed to fetch'')"
  by (subst load_error_is_sticky) simp_all

text \<open>The averages of the readout stay percentages when the samples are.\<close>

theorem average_cpu_range:
  assumes "\<And>item m. item \<in> set (nodes (ov_window p)) \<Longrightarrow> sn_metric item = Some m \<Longrightarrow>
      \<exists>c. ms_cpu m = Fin c \<and> 0 \<le> c \<and> c \<le> 100"
    and "length (nodes (ov_window p)) \<le> 2 ^ 46"
  shows "\<exists>c. avgCPU p = Fin c \<and> 0 \<le> c \<and> c \<le> 100"
proof (cases "filter (\<lambda>item. pn_online (sn_node item) \<and> sn_metric item \<noteq> None) (nodes (ov_window p)) = []")
  case True
  then show ?thesis unfolding avgCPU_def Let_def by simp
next
  case False
  let ?ss = "filter (\<lambda>item. pn_online (sn_node item) \<and> sn_metric item \<noteq> None) (nodes (ov_window p))"
  let ?cpu = "\<lambda>item. case zero_if_missing ms_cpu (sn_metric item) of Fin c \<Rightarrow> c | _ \<Rightarrow> 0"
  have r: "zero_if_missing ms_cpu (sn_metric item) = Fin (?cpu item) \<and> 0 \<le> ?cpu item \<and> ?cpu item \<le> 100"
    if "item \<in> set ?ss" for item
    using that assms(1) by (fastforce simp: zero_if_missing_def)
  have "foldl (\<lambda>sum item. sum + zero_if_missing ms_cpu (sn_metric item)) a ss = foldl (\<lambda>a v. a + Fin v) a (map ?cpu ss)"
    if "set ss \<subseteq> set ?ss" for a ss
    using that r by (induction ss arbitrary: a) auto
  then have e: "foldl (\<lambda>sum item. sum + zero_if_missing ms_cpu (sn_metric item)) (Fin 0) ?ss =
      foldl (\<lambda>a v. a + Fin v) (Fin 0) (map ?cpu ?ss)" by blast
  have "length ?ss \<le> 2 ^ 46" using assms(2) by (rule le_trans [OF length_filter_le])
  then have n: "length (map ?cpu ?ss) * 100 \<le> 2 ^ 53" unfolding length_map by simp
  have "\<And>v. v \<in> set (map ?cpu ?ss) \<Longrightarrow> 0 \<le> v \<and> v \<le> of_nat 100" using r by auto
  then obtain c where "foldl (\<lambda>a v. a + Fin v) (Fin 0) (map ?cpu ?ss) / num_of_nat (length (map ?cpu ?ss)) = Fin c"
    "0 \<le> c" "c \<le> of_nat 100"
    by (rule mean_bounds [OF _ n]) (use False in auto)
  then show ?thesis using False e unfolding avgCPU_def Let_def by (simp only: length_map if_True simp_thms) simp
qed

theorem average_cpu_range_witness:
  "\<exists>c. avgCPU \<lparr>ov_window = window_init\<lparr>nodes := [\<lparr>sn_node = example_node (js ''n1''), sn_metric = Some (example_sample [])\<rparr>]\<rparr>,
      ov_group = [], ov_search = [], ov_status = AllNodes, ov_view = js ''grid'', ov_error = [],
      ov_storage = Map.empty, ov_initial = None\<rparr> = Fin c \<and> 0 \<le> c \<and> c \<le> 100"
  by (rule average_cpu_range) (auto simp: window_init_def example_sample_def)

section \<open>Properties of the other pages\<close>

interpretation share_sink: sample_sink share_sample
  by unfold_locales (simp_all add: share_sample_def)

theorem share_adds_no_node:
  "map (\<lambda>i. pn_id (sn_node i)) (sh_nodes (share_onmessage u p)) = map (\<lambda>i. pn_id (sn_node i)) (sh_nodes p)"
  by (simp add: share_onmessage_def Let_def share_sink.deliver_ids)

text \<open>
  A share page that is left in time closes its socket; one that is left before its answer opens a
  socket that nothing closes.
\<close>

theorem share_unmount_closes:
  "sh_socket (share_unmount (share_answered h loc t answer p)) = None"
  by (simp add: share_unmount_def)

theorem share_socket_leaks:
  "let p' = share_answered h loc t (Inr (expires, ns)) (share_unmount p) in \<not> sh_mounted p' \<and> sh_socket p' \<noteq> None"
  by (simp add: share_answered_def share_unmount_def)

theorem share_token_confined:
  assumes "\<forall>u \<in> set token. u < 65536" and "encodeURIComponent token = Some t"
  shows "\<forall>c \<in> set t. c \<noteq> 47 \<and> c \<noteq> 63 \<and> c \<noteq> 35"
  using encode_safe [OF assms(2,1)] by (fastforce simp: unreserved_def is_digit_def)

text \<open>
  The login page is busy from the click until the navigation has settled, or until the login has failed;
  the router is sent on only after a refresh of the session.
\<close>

theorem login_busy_until_settled:
  "lg_busy (fst (login_submit p)) \<and> lg_busy (fst (login_answered h None n (fst (login_submit p)))) \<and>
   \<not> lg_busy (fst (login_answered h (Some f) n q)) \<and> \<not> lg_busy (login_pushed h e q)"
  by (simp add: login_submit_def login_answered_def login_pushed_def split: option.split)

theorem login_navigates_only_after_refresh:
  assumes "login post answer user password code s = (e, s')" and "login_answered h e query_next p = (p', Some target)"
  shows "initialized s' \<and> target = (case query_next of Some n \<Rightarrow> n | None \<Rightarrow> js ''/admin'')"
  using assms by (cases rule: refresh_cases [of answer s])
    (auto simp: login_answered_def login_def split: sum.splits)

theorem login_navigates_only_after_refresh_witness:
  "\<exists>s'. login (\<lambda>b. Inr None)
     (Inr \<lparr>me_setup_complete = True, me_logged_in = True, me_username = Some (js ''admin''), me_two_factor_enabled = None,
        me_csrf_token = None\<rparr>,
      Inr \<lparr>site_setup_complete = True, site_authenticated = True, site_settings = undefined, site_version = \<lparr>ve_version = js ''1.0'', ve_commit = [], ve_protocol = Fin 1\<rparr>\<rparr>)
     (js ''admin'') [] [] session_init = (None, s') \<and> initialized s'"
proof -
  let ?a = "(Inr \<lparr>me_setup_complete = True, me_logged_in = True, me_username = Some (js ''admin''), me_two_factor_enabled = None,
        me_csrf_token = None\<rparr> :: failure + SessionResponse,
      Inr \<lparr>site_setup_complete = True, site_authenticated = True, site_settings = undefined, site_version = \<lparr>ve_version = js ''1.0'', ve_commit = [], ve_protocol = Fin 1\<rparr>\<rparr> :: failure + SiteResponse)"
    and ?p = "\<lparr>lg_username = js ''admin'', lg_password = [], lg_totp = [], lg_busy = True, lg_error = []\<rparr>"
  obtain s' where e: "login (\<lambda>b. Inr None) ?a (js ''admin'') [] [] session_init = (None, s')"
    by (simp add: login_def refresh_def)
  have "login_answered undefined None None ?p = (?p, Some (js ''/admin''))" by (simp add: login_answered_def)
  from login_navigates_only_after_refresh [OF e this] e show ?thesis by auto
qed

theorem setup_posts_valid_only:
  "snd (setup_submit p) = (if passwordValid p \<and> pinValid p then Some (setup_body p) else None) \<and>
   (se_busy (fst (setup_submit p)) \<longleftrightarrow> se_busy p \<or> snd (setup_submit p) \<noteq> None)"
  by (simp add: setup_submit_def)

theorem setup_navigates_only_after_refresh:
  assumes "setup_call post answer body s = (e, s')" and "setup_answered h e p = (p', Some target)"
  shows "initialized s' \<and> target = js ''/admin''"
  using assms by (cases rule: refresh_cases [of answer s])
    (auto simp: setup_answered_def setup_call_def split: sum.splits)

theorem navigation_complete:
  "map fst (admin_nav l) = map fst admin_views \<and>
   map (\<lambda>k. current_view (Some k)) (map fst (admin_nav l)) = map (\<lambda>(k, v). Section v) admin_views"
  by (simp add: admin_nav_def admin_views_def current_view_def section_of_def or_text_def)

theorem inherited_section:
  "current_view (Some (js ''constructor'')) = Inherited (js ''constructor'')"
  by (simp add: admin_views_def current_view_def section_of_def or_text_def object_prototype_def)

end
