(* ===== verification/NodeView.thy ===== *)
theory NodeView
  imports PublicViews Chart
begin

text \<open>
  \<open>web/src/views/NodeView.vue\<close>: one node with its history, its probes and the carrier chart. The
  chart puts the results of all carriers on one time line of minutes. Loads are not numbered, so
  the state keeps the loads in flight with the address and the window they asked for. The router keeps
  the component when the address changes from one node to another, and nothing watches the address:
  the event \<open>NvRoute\<close> changes the computed \<open>nodeID\<close> and \<open>shareToken\<close> under the page.
\<close>

section \<open>Probes and the carrier chart\<close>

definition result_time :: "host \<Rightarrow> ProbeResult \<Rightarrow> number" where
  "result_time h r = date_time h (case pr_received_at r of Some t \<Rightarrow> t | None \<Rightarrow> pr_collected_at r)"

definition minute_bucket :: "number \<Rightarrow> number" where
  "minute_bucket timestamp = math_floor (timestamp / Fin 60000) * Fin 60000"

text \<open>\<open>[...buckets].sort((left, right) => left - right)\<close>: the finite buckets, ascending.\<close>

definition carrier_timeline :: "host \<Rightarrow> PublicProbeSnapshot list \<Rightarrow> real list" where
  "carrier_timeline h carrier = sort (set_array
     [b. probe \<leftarrow> carrier, result \<leftarrow> pp_results probe,
         isFinite (result_time h result), Fin b \<leftarrow> [minute_bucket (result_time h result)]])"

definition chart_latency :: "ProbeResult \<Rightarrow> number option" where
  "chart_latency r = (if pr_success r \<and> pr_latency_ms r \<ge> Fin 0
     then Some (parse_number (toFixed (pr_latency_ms r) 2)) else None)"

text \<open>\<open>values\<close> after its loop, and \<open>values.get(timestamp) ?? null\<close>.\<close>

definition carrier_values :: "host \<Rightarrow> ProbeResult list \<Rightarrow> number \<rightharpoonup> number option" where
  "carrier_values h results = fold (\<lambda>r m. m(minute_bucket (result_time h r) \<mapsto> chart_latency r)) results Map.empty"

definition carrier_value :: "host \<Rightarrow> ProbeResult list \<Rightarrow> real \<Rightarrow> number option" where
  "carrier_value h results b = (case carrier_values h results (Fin b) of Some v \<Rightarrow> v | None \<Rightarrow> None)"

definition carrierName :: "AppLocale \<Rightarrow> probe_purpose option \<Rightarrow> jsstring" where
  "carrierName l purpose = (case purpose of
     Some CarrierTelecom \<Rightarrow> text_in l [20013, 22269, 30005, 20449] (js ''China Telecom'')
   | Some CarrierUnicom \<Rightarrow> text_in l [20013, 22269, 32852, 36890] (js ''China Unicom'')
   | Some CarrierMobile \<Rightarrow> text_in l [20013, 22269, 31227, 21160] (js ''China Mobile'')
   | _ \<Rightarrow> text_in l [36816, 33829, 21830] (js ''Carrier''))"

definition carrierColor :: "probe_purpose option \<Rightarrow> jsstring" where
  "carrierColor purpose = (case purpose of
     Some CarrierTelecom \<Rightarrow> js ''#5b8ff9''
   | Some CarrierUnicom \<Rightarrow> js ''#e66a6a''
   | _ \<Rightarrow> js ''#5fbd78'')"

definition carrierKey :: "probe_purpose option \<Rightarrow> jsstring" where
  "carrierKey purpose = (case purpose of
     Some CarrierTelecom \<Rightarrow> js ''telecom'' | Some CarrierUnicom \<Rightarrow> js ''unicom''
   | Some CarrierMobile \<Rightarrow> js ''mobile'' | _ \<Rightarrow> [])"

definition carrierChart :: "host \<Rightarrow> AppLocale \<Rightarrow> PublicProbeSnapshot list \<Rightarrow> jsstring list \<times> chart_series list" where
  "carrierChart h l carrier = (let timeline = carrier_timeline h carrier in
     (map (\<lambda>b. locale_time h (Fin b)) timeline,
      map (\<lambda>probe. \<lparr>cs_name = carrierName l (pt_purpose (pp_task probe)),
        cs_values = map (carrier_value h (pp_results probe)) timeline,
        cs_color = carrierColor (pt_purpose (pp_task probe))\<rparr>) carrier))"

definition latestProbe :: "ProbeResult list \<Rightarrow> ProbeResult option" where
  "latestProbe results = (if results = [] then None else Some (last results))"

definition probeAvailability :: "ProbeResult list \<Rightarrow> number" where
  "probeAvailability results = (if results \<noteq> []
     then num_of_nat (length (filter pr_success results)) / num_of_nat (length results) * Fin 100 else Fin 0)"

definition carrierLoss :: "PublicProbeSnapshot \<Rightarrow> number" where
  "carrierLoss probe = zero_if_missing pr_loss_percent (latestProbe (pp_results probe))"

section \<open>The page\<close>

record load_request =
  nl_hours :: number
  nl_id :: jsstring
  nl_token :: jsstring
  nl_node :: "NodeSnapshot option option"

text \<open>
  \<open>nv_id\<close> and \<open>nv_token\<close> are \<open>nodeID\<close> and \<open>shareToken\<close> of the current address. \<open>nv_loads\<close> are the loads in flight, with the
  value of \<open>nodePromise\<close> once it has one; \<open>nv_history_hours\<close> is a ghost, the window that
  the shown history answers. \<open>nv_live\<close> says whether socket and intervals of \<open>onMounted\<close> exist.
\<close>

record node_page =
  nv_id :: jsstring
  nv_token :: jsstring
  nv_snapshot :: "NodeSnapshot option"
  nv_history :: "MetricSample list"
  nv_probes :: "PublicProbeSnapshot list"
  nv_carrierProbes :: "PublicProbeSnapshot list"
  nv_hours :: number
  nv_loading :: bool
  nv_error :: jsstring
  nv_offlineAfterMS :: number
  nv_loads :: "load_request list"
  nv_history_hours :: "number option"
  nv_live :: bool

definition node_page_init :: "jsstring \<Rightarrow> jsstring \<Rightarrow> node_page" where
  "node_page_init i token = \<lparr>nv_id = i, nv_token = token, nv_snapshot = None, nv_history = [], nv_probes = [],
     nv_carrierProbes = [], nv_hours = Fin 24, nv_loading = True, nv_error = [], nv_offlineAfterMS = Fin 90000,
     nv_loads = [], nv_history_hours = None, nv_live = False\<rparr>"

definition nv_labels :: "host \<Rightarrow> node_page \<Rightarrow> jsstring list" where
  "nv_labels h p = map (\<lambda>item. locale_time h (received_ms h item)) (nv_history p)"

definition resourceSeries :: "AppLocale \<Rightarrow> node_page \<Rightarrow> chart_series list" where
  "resourceSeries l p =
     [\<lparr>cs_name = js ''CPU'', cs_values = map (\<lambda>item. Some (ms_cpu item)) (nv_history p), cs_color = js ''#65d5c5''\<rparr>,
      \<lparr>cs_name = text_in l [20869, 23384] (js ''MEM''),
        cs_values = map (\<lambda>item. Some (percent (ms_memory_used item) (ms_memory_total item))) (nv_history p), cs_color = js ''#d8b34f''\<rparr>,
      \<lparr>cs_name = text_in l [30913, 30424] (js ''DISK''),
        cs_values = map (\<lambda>item. Some (percent (ms_disk_used item) (ms_disk_total item))) (nv_history p), cs_color = js ''#7c91ff''\<rparr>]"

definition networkSeries :: "AppLocale \<Rightarrow> node_page \<Rightarrow> chart_series list" where
  "networkSeries l p =
     [\<lparr>cs_name = text_in l [19979, 36733] (js ''DOWN''),
        cs_values = map (\<lambda>item. Some (ms_net_rx_bps item / Fin 1024 / Fin 1024)) (nv_history p), cs_color = js ''#65d5c5''\<rparr>,
      \<lparr>cs_name = text_in l [19978, 20256] (js ''UP''),
        cs_values = map (\<lambda>item. Some (ms_net_tx_bps item / Fin 1024 / Fin 1024)) (nv_history p), cs_color = js ''#db7b5b''\<rparr>]"

definition nv_trafficUsed :: "node_page \<Rightarrow> number" where
  "nv_trafficUsed p = (let m = Option.bind (nv_snapshot p) sn_metric in
     trafficUsage (Option.bind m ms_monthly_rx_bytes) (Option.bind m ms_monthly_tx_bytes)
       (map_option (\<lambda>s. pn_traffic_limit_type (sn_node s)) (nv_snapshot p)))"

definition nv_trafficPercent :: "node_page \<Rightarrow> number" where
  "nv_trafficPercent p = trafficUtilization (nv_trafficUsed p)
     (map_option (\<lambda>s. pn_traffic_limit (sn_node s)) (nv_snapshot p))"

definition nv_trafficTone :: "node_page \<Rightarrow> tone" where
  "nv_trafficTone p = (if nv_trafficPercent p \<ge> Fin 100 then ToneCritical
     else if nv_trafficPercent p \<ge> Fin 85 then ToneWarning else ToneNormal)"

text \<open>\<open>load\<close>: the requests for the current window, then their answers.\<close>

definition node_load :: "node_page \<Rightarrow> node_page" where
  "node_load p = p\<lparr>nv_loading := True, nv_error := [], nv_loads := nv_loads p @ [\<lparr>nl_hours = nv_hours p, nl_id = nv_id p, nl_token = nv_token p, nl_node = None\<rparr>]\<rparr>"

text \<open>
  \<open>nodePromise\<close>: without a token the request returns the node itself (the list has one entry); with a
  token it returns the shared nodes, among which the page looks for that of the address it has then.
\<close>

definition answered_node :: "load_request \<Rightarrow> node_page \<Rightarrow> NodeSnapshot list \<Rightarrow> NodeSnapshot option" where
  "answered_node r p ns = (if nl_token r \<noteq> [] then node_at (nv_id p) ns
     else (case ns of n # _ \<Rightarrow> Some n | [] \<Rightarrow> None))"

text \<open>\<open>Promise.all\<close> rejects with its first rejection, and resolves with the answer that arrives last.\<close>

definition load_failed :: "jsstring \<Rightarrow> nat \<Rightarrow> node_page \<Rightarrow> node_page" where
  "load_failed message k p = p\<lparr>nv_error := message, nv_loading := False,
     nv_loads := take k (nv_loads p) @ drop (Suc k) (nv_loads p)\<rparr>"

definition node_found :: "host \<Rightarrow> nat \<Rightarrow> failure + NodeSnapshot list \<Rightarrow> node_page \<Rightarrow> node_page" where
  "node_found h k answer p = (case answer of
     Inl e \<Rightarrow> load_failed (failure_message h e) k p
   | Inr ns \<Rightarrow> p\<lparr>nv_loads := (nv_loads p)[k := (nv_loads p ! k)\<lparr>nl_node := Some (answered_node (nv_loads p ! k) p ns)\<rparr>]\<rparr>)"

record node_answer =
  na_points :: "failure + MetricSample list"
  na_probes :: "failure + PublicProbeSnapshot list"
  na_carrier :: "failure + PublicProbeSnapshot list"

definition caught :: "load_request \<Rightarrow> failure + PublicProbeSnapshot list \<Rightarrow> PublicProbeSnapshot list" where
  "caught r a = (if nl_token r \<noteq> [] then [] else case a of Inl e \<Rightarrow> [] | Inr ps \<Rightarrow> ps)"

definition node_loaded :: "host \<Rightarrow> AppLocale \<Rightarrow> nat \<Rightarrow> node_answer \<Rightarrow> node_page \<Rightarrow> node_page" where
  "node_loaded h l k a p = (let r = nv_loads p ! k in case na_points a of
     Inl e \<Rightarrow> load_failed (failure_message h e) k p
   | Inr points \<Rightarrow> (case nl_node r of
       None \<Rightarrow> p
     | Some None \<Rightarrow> load_failed (text_in l [27492, 20998, 20139, 38142, 25509, 19981, 21253, 21547, 35813, 33410, 28857, 12290] (js ''Node is not included in this share link.'')) k p
     | Some (Some n) \<Rightarrow> p\<lparr>nv_snapshot := Some n, nv_history := points, nv_probes := caught r (na_probes a),
         nv_carrierProbes := caught r (na_carrier a), nv_loading := False, nv_history_hours := Some (nl_hours r),
         nv_loads := take k (nv_loads p) @ drop (Suc k) (nv_loads p)\<rparr>))"

definition node_changeWindow :: "number \<Rightarrow> node_page \<Rightarrow> node_page" where
  "node_changeWindow v p = node_load (p\<lparr>nv_hours := v\<rparr>)"

definition node_live_path :: "node_page \<Rightarrow> jsstring option" where
  "node_live_path p = (if nv_token p \<noteq> []
     then map_option (\<lambda>t. js ''/api/v1/public/share/'' @ t @ js ''/live'') (encodeURIComponent (nv_token p))
     else Some (js ''/api/v1/public/live''))"

definition node_onmessage :: "live_message \<Rightarrow> node_page \<Rightarrow> node_page" where
  "node_onmessage u p =
     (let p1 = (if lm_type u = js ''snapshot'' then p\<lparr>nv_offlineAfterMS := new_threshold (lm_offline_after_ms u) (nv_offlineAfterMS p)\<rparr> else p) in
      if lm_type u = js ''sample'' \<and> lm_node_id u = Some (nv_id p)
      then (case (lm_sample u, nv_snapshot p) of
          (Some m, Some s) \<Rightarrow> p1\<lparr>nv_snapshot := Some (share_sample m s)\<rparr>
        | _ \<Rightarrow> p1)
      else p1)"

definition node_presence :: "host \<Rightarrow> number \<Rightarrow> node_page \<Rightarrow> node_page" where
  "node_presence h now p = (case nv_snapshot p of
     None \<Rightarrow> p
   | Some s \<Rightarrow> (case sn_metric s of
       None \<Rightarrow> p
     | Some m \<Rightarrow> p\<lparr>nv_snapshot := Some (set_online (is_fresh h (nv_offlineAfterMS p) now m) s)\<rparr>))"

text \<open>\<open>onMounted\<close> after its load; the intervals and the socket start even when the page is gone.\<close>

definition node_started :: "node_page \<Rightarrow> node_page" where
  "node_started p = (if node_live_path p = None then p else p\<lparr>nv_live := True\<rparr>)"

definition node_unmount :: "node_page \<Rightarrow> node_page" where
  "node_unmount p = p\<lparr>nv_live := False\<rparr>"

text \<open>The address changes under the page: only the computed values follow it.\<close>

definition node_route :: "jsstring \<Rightarrow> jsstring \<Rightarrow> node_page \<Rightarrow> node_page" where
  "node_route i token p = p\<lparr>nv_id := i, nv_token := token\<rparr>"

datatype node_event = NvLoad | NvNode nat "failure + NodeSnapshot list" | NvAnswer nat node_answer | NvWindow number | NvMessage live_message
  | NvPresence number | NvStarted | NvUnmount | NvRoute jsstring jsstring

fun node_step :: "host \<Rightarrow> AppLocale \<Rightarrow> node_event \<Rightarrow> node_page \<Rightarrow> node_page" where
  "node_step h l NvLoad p = node_load p"
| "node_step h l (NvNode k a) p = (if k < length (nv_loads p) then node_found h k a p else p)"
| "node_step h l (NvAnswer k a) p = (if k < length (nv_loads p) then node_loaded h l k a p else p)"
| "node_step h l (NvWindow v) p = node_changeWindow v p"
| "node_step h l (NvMessage u) p = (if nv_live p then node_onmessage u p else p)"
| "node_step h l (NvPresence now) p = (if nv_live p then node_presence h now p else p)"
| "node_step h l NvStarted p = node_started p"
| "node_step h l NvUnmount p = node_unmount p"
| "node_step h l (NvRoute i token) p = node_route i token p"

section \<open>Properties of the chart\<close>

lemma carrier_timeline_correct:
  "sorted (carrier_timeline h carrier) \<and> distinct (carrier_timeline h carrier) \<and>
   set (carrier_timeline h carrier) = {b. \<exists>probe \<in> set carrier. \<exists>r \<in> set (pp_results probe).
     isFinite (result_time h r) \<and> minute_bucket (result_time h r) = Fin b}"
  by (auto simp: carrier_timeline_def split: number.splits) (blast, metis IntI mem_Collect_eq)

text \<open>The reference for a point of the chart: the last result of the probe in that minute, if there is one.\<close>

definition charted :: "host \<Rightarrow> real \<Rightarrow> ProbeResult list \<Rightarrow> number option" where
  "charted h b results = (let rs = filter (\<lambda>r. minute_bucket (result_time h r) = Fin b) results in
     if rs = [] then None else chart_latency (last rs))"

lemma carrier_value_charted: "carrier_value h results b = charted h b results"
proof (induction results rule: rev_induct)
  case (snoc r results)
  then show ?case by (simp add: carrier_value_def carrier_values_def charted_def Let_def)
qed (simp add: carrier_value_def carrier_values_def charted_def)


theorem minute_bucket_floor:
  assumes "0 \<le> t" and "t \<le> 2 ^ 52"
  shows "minute_bucket (Fin (of_int t)) = Fin (of_int (t div 60000 * 60000)) \<and>
    t div 60000 * 60000 \<le> t \<and> t < t div 60000 * 60000 + 60000"
proof -
  have "t div 60000 \<le> 2 ^ 52 div 60000" using assms(2) by (rule zdiv_mono1) simp
  then have "math_floor (Fin (of_int t) / Fin (of_int 60000)) = Fin (of_int (t div 60000))"
    using assms by (intro fl_div [of 60000 16 t]) auto
  moreover have b: "t div 60000 * 60000 \<le> t" "t < t div 60000 * 60000 + 60000" by linarith+
  moreover have "fl (of_int (t div 60000 * 60000)) = Fin (of_int (t div 60000 * 60000))"
    using assms b by (intro fl_of_int) auto
  ultimately show ?thesis by (simp add: minute_bucket_def)
qed

theorem minute_bucket_floor_witness:
  "minute_bucket (Fin (of_int 1787529660123)) = Fin (of_int 1787529660000)"
  using minute_bucket_floor [of 1787529660123] by simp

lemma ratio_range:
  assumes "k \<le> n" and "0 < n"
  shows "\<exists>q. num_of_nat k / num_of_nat n * Fin 100 = Fin q \<and> 0 \<le> q \<and> q \<le> 100 \<and> (k = n \<longrightarrow> q = 100)"
proof -
  have q: "of_int 0 \<le> real k / real n" "real k / real n \<le> of_int 1" using assms by simp_all
  obtain y where y: "fl (real k / real n) = Fin y" "0 \<le> y" "y \<le> 1"
    using fl_between_int [OF _ _ q] by auto
  then obtain z where z: "fl (y * 100) = Fin z" "0 \<le> z" "z \<le> 100"
    using fl_between_int [of 0 100 "y * 100"] by auto
  have "z = 100" if "k = n"
  proof -
    have "y = 1" using y(1) that assms(2) fl_numerals(2) by simp
    then show ?thesis using z(1) fl_numerals(4) [of "num.Bit0 (num.Bit0 (num.Bit1 (num.Bit0 (num.Bit0 (num.Bit1 num.One)))))"] by simp
  qed
  then show ?thesis using y z assms(2) by auto
qed

theorem availability_range:
  "\<exists>q. probeAvailability results = Fin q \<and> 0 \<le> q \<and> q \<le> 100 \<and>
     (if results \<noteq> [] \<and> list_all pr_success results then q = 100 else True)"
proof (cases "results = []")
  case False
  have "list_all pr_success results \<Longrightarrow> length (filter pr_success results) = length results"
    by (simp add: list_all_iff)
  then show ?thesis using False ratio_range [of "length (filter pr_success results)" "length results"]
    by (auto simp: probeAvailability_def)
qed (simp add: probeAvailability_def)

section \<open>Properties of the page\<close>

text \<open>
  A shared page whose addresses name nodes of \<open>A\<close> shows such a node only, and its threshold never drops
  below ten seconds.
\<close>

definition node_page_ok :: "jsstring set \<Rightarrow> node_page \<Rightarrow> bool" where
  "node_page_ok A p \<longleftrightarrow> Fin 10000 \<le> nv_offlineAfterMS p \<and> nv_id p \<in> A \<and> nv_token p \<noteq> [] \<and>
     list_all (\<lambda>r. nl_token r \<noteq> [] \<and> (\<forall>s. nl_node r = Some (Some s) \<longrightarrow> pn_id (sn_node s) \<in> A)) (nv_loads p) \<and>
     (\<forall>s. nv_snapshot p = Some s \<longrightarrow> pn_id (sn_node s) \<in> A)"

definition shared_address :: "jsstring set \<Rightarrow> node_event \<Rightarrow> bool" where
  "shared_address A e \<longleftrightarrow> (case e of NvRoute i token \<Rightarrow> i \<in> A \<and> token \<noteq> [] | _ \<Rightarrow> True)"

lemma load_failed_ok: "node_page_ok A p \<Longrightarrow> node_page_ok A (load_failed m k p)"
  by (auto simp: node_page_ok_def load_failed_def list_all_iff dest: in_set_takeD in_set_dropD)

lemma node_found_ok:
  assumes "node_page_ok A p" and "k < length (nv_loads p)"
  shows "node_page_ok A (node_found h k a p)"
proof (cases a)
  case (Inr ns)
  have "nl_token (nv_loads p ! k) \<noteq> []" using assms by (simp add: node_page_ok_def list_all_length)
  then have "pn_id (sn_node s) \<in> A" if "answered_node (nv_loads p ! k) p ns = Some s" for s
    using that assms(1) by (auto simp: answered_node_def node_page_ok_def dest: find_Some_mem)
  then show ?thesis using assms \<open>nl_token (nv_loads p ! k) \<noteq> []\<close> Inr
    by (auto simp: node_found_def node_page_ok_def list_all_length nth_list_update)
qed (simp add: node_found_def load_failed_ok assms(1))

lemma node_loaded_ok:
  assumes "node_page_ok A p" and "k < length (nv_loads p)"
  shows "node_page_ok A (node_loaded h l k a p)"
proof -
  have "pn_id (sn_node s) \<in> A" if "nl_node (nv_loads p ! k) = Some (Some s)" for s
    using that assms by (simp add: node_page_ok_def list_all_length)
  then show ?thesis using assms(1) load_failed_ok [OF assms(1), of _ k]
    by (auto simp: node_loaded_def Let_def split: sum.split option.split)
      (auto simp: node_page_ok_def list_all_iff dest: in_set_takeD in_set_dropD)
qed

lemma node_onmessage_ok: "node_page_ok A p \<Longrightarrow> node_page_ok A (node_onmessage u p)"
  by (auto simp: node_page_ok_def node_onmessage_def Let_def new_threshold_ge share_sample_def split: option.splits)

lemma node_presence_ok: "node_page_ok A p \<Longrightarrow> node_page_ok A (node_presence h now p)"
  by (auto simp: node_page_ok_def node_presence_def split: option.splits)

interpretation node: store "node_step h l" "shared_address A" "node_page_ok A" for h l A
proof
  fix p e
  assume ok: "node_page_ok A p" and e: "shared_address A e"
  show "node_page_ok A (node_step h l e p)"
    using ok e by (cases e) (auto simp: node_onmessage_ok node_presence_ok node_found_ok node_loaded_ok, auto simp: node_page_ok_def
      node_load_def shared_address_def node_changeWindow_def node_started_def node_unmount_def node_route_def)
qed

text \<open>The addresses that a run gives the page, and the messages about other nodes.\<close>

definition addresses :: "node_event list \<Rightarrow> jsstring list" where
  "addresses es = [i. NvRoute i token \<leftarrow> es]"

definition foreign :: "jsstring \<Rightarrow> node_event \<Rightarrow> bool" where
  "foreign i e = (case e of NvMessage u \<Rightarrow> lm_type u = js ''sample'' \<and> lm_node_id u \<noteq> Some i | _ \<Rightarrow> False)"

lemma foreign_ignored: "foreign (nv_id p) e \<Longrightarrow> node_step h l e p = p"
  by (cases e) (auto simp: foreign_def node_onmessage_def Let_def)

lemma node_step_id: "addresses [e] = [] \<Longrightarrow> nv_id (node_step h l e p) = nv_id p"
  by (cases e) (auto simp: addresses_def node_load_def load_failed_def node_found_def node_loaded_def node_changeWindow_def node_onmessage_def Let_def
      node_presence_def node_started_def node_unmount_def split: sum.splits option.splits)

lemma addresses_Cons: "addresses (e # es) = addresses [e] @ addresses es"
  by (simp add: addresses_def)

lemma foreign_dropped:
  "addresses es = [] \<Longrightarrow> fold (node_step h l) es p = fold (node_step h l) (filter (\<lambda>e. \<not> foreign (nv_id p) e) es) p"
proof (induction es arbitrary: p)
  case (Cons e es)
  then have e: "addresses [e] = []" "addresses es = []" using addresses_Cons [of e es] by simp_all
  show ?case using Cons.IH [OF e(2), of p] Cons.IH [OF e(2), of "node_step h l e p"] foreign_ignored [of p e h l] node_step_id [OF e(1), of h l p]
    by (cases "foreign (nv_id p) e") (simp_all del: node_step.simps)
qed simp



text \<open>
  When the address changes to another node, the page keeps the node it shows until the next load, but
  takes live samples of the new one: the sample of one node is shown under the name of another.
\<close>

theorem sample_under_other_name:
  assumes "lm_type u = js ''sample''" and "lm_node_id u = Some j" and "lm_sample u = Some m" and "nv_snapshot p = Some s" and "nv_live p"
  shows "\<exists>s'. nv_snapshot (fold (node_step h l) [NvRoute j token, NvMessage u] p) = Some s' \<and>
    pn_id (sn_node s') = pn_id (sn_node s) \<and> sn_metric s' = Some m"
  using assms by (simp add: node_route_def node_onmessage_def Let_def share_sample_def)

theorem failed_reload_keeps_data:
  assumes "na_points a = Inl e"
  shows "nv_snapshot (node_loaded h l k a p) = nv_snapshot p \<and> nv_history (node_loaded h l k a p) = nv_history p \<and>
    nv_error (node_loaded h l k a p) = failure_message h e \<and> \<not> nv_loading (node_loaded h l k a p)"
  using assms by (simp add: node_loaded_def load_failed_def Let_def)

text \<open>
  Loads are not numbered: an answer for an earlier window replaces the history of the window that
  is selected now.
\<close>

theorem window_race:
  assumes "na_points a = Inr points"
  shows "let p = fold (node_step h l) [NvWindow (Fin 720), NvWindow (Fin 1), NvNode 0 (Inr [n]), NvNode 1 (Inr [n]), NvAnswer 1 a, NvAnswer 0 a]
      (node_page_init i []) in
    nv_hours p = Fin 1 \<and> nv_history_hours p = Some (Fin 720) \<and> nv_history p = points"
  using assms by (simp add: node_changeWindow_def node_load_def node_found_def node_loaded_def answered_node_def node_page_init_def Let_def)

end
