(* ===== verification/DateLaws.thy ===== *)
theory DateLaws
  imports JSDate
begin

text \<open>
  Printing a date and reading it again: the calendar computations of \<open>toISOString\<close> and \<open>Date.parse\<close>
  are inverse to each other on the whole range of time values.
\<close>

section \<open>The calendar\<close>

lemma div_bounds: "0 < (c::int) \<Longrightarrow> c * (a div c) \<le> a \<and> a < c * (a div c) + c"
  using pos_mod_bound [of c a] pos_mod_sign [of c a] mult_div_mod_eq [of c a] by linarith

lemma div_step: "0 < (c::int) \<Longrightarrow> (a + 1) div c = a div c + (if c dvd a + 1 then 1 else 0)"
proof -
  assume c: "0 < c"
  show ?thesis
  proof (cases "c dvd a + 1")
    case True
    then obtain k where k: "a + 1 = c * k" by auto
    then have "a = c * (k - 1) + (c - 1)" by (simp add: algebra_simps)
    then have "a div c = k - 1" by (rule int_div_pos_eq) (use c in auto)
    moreover have "(a + 1) div c = k" unfolding k using c by simp
    ultimately show ?thesis using True by simp
  next
    case False
    then have "0 < (a + 1) mod c" using pos_mod_sign [OF c, of "a + 1"] by (simp add: dvd_eq_mod_eq_0 order_less_le)
    moreover have "a = c * ((a + 1) div c) + ((a + 1) mod c - 1)" using mult_div_mod_eq [of c "a + 1"] by linarith
    moreover have "(a + 1) mod c - 1 < c" using pos_mod_bound [OF c, of "a + 1"] by linarith
    ultimately have "a div c = (a + 1) div c"
      by (intro int_div_pos_eq [of a c _ "(a + 1) mod c - 1"]) auto
    then show ?thesis using False by simp
  qed
qed

lemma day_from_year_bounds:
  "146097 * (y - 1970) - 506 \<le> 400 * day_from_year y" "400 * day_from_year y \<le> 146097 * (y - 1970) + 589"
  unfolding day_from_year_def
  using div_bounds [of 4 "y - 1969"] div_bounds [of 100 "y - 1901"] div_bounds [of 400 "y - 1601"] by simp_all

lemma year_from_day_correct:
  "day_from_year (year_from_day n) \<le> n \<and> n < day_from_year (year_from_day n + 1)"
proof -
  define y where "y = (400 * n) div 146097 + 1970"
  have "146097 * (y - 1970) \<le> 400 * n" "400 * n < 146097 * (y - 1970 + 1)"
    using div_bounds [of 146097 "400 * n"] unfolding y_def by (auto simp: algebra_simps)
  then have "day_from_year (y - 1) \<le> n" using day_from_year_bounds(2) [of "y - 1"] by simp
  moreover have "n < day_from_year (y + 1 + 1)"
    using day_from_year_bounds(1) [of "y + 1 + 1"] \<open>400 * n < 146097 * (y - 1970 + 1)\<close> by (simp add: add.assoc)
  ultimately show ?thesis unfolding year_from_day_def Let_def y_def [symmetric] by simp
qed

lemma year_length: "day_from_year (y + 1) - day_from_year y = (if leap_year y then 366 else 365)"
proof -
  have d: "4 dvd y - 1968 \<longleftrightarrow> 4 dvd y" "100 dvd y - 1900 \<longleftrightarrow> 100 dvd y" "400 dvd y - 1600 \<longleftrightarrow> 400 dvd y"
    by (rule dvd_diff_left_iff, simp)+
  have dv: "400 dvd y \<Longrightarrow> 100 dvd y" "100 dvd y \<Longrightarrow> 4 dvd y"
    by (auto intro: dvd_trans [of _ 400] dvd_trans [of _ 100])
  have e: "(y + 1 - 1969) div 4 = (y - 1969) div 4 + (if 4 dvd y then 1 else 0)"
    "(y + 1 - 1901) div 100 = (y - 1901) div 100 + (if 100 dvd y then 1 else 0)"
    "(y + 1 - 1601) div 400 = (y - 1601) div 400 + (if 400 dvd y then 1 else 0)"
    using div_step [of 4 "y - 1969"] div_step [of 100 "y - 1901"] div_step [of 400 "y - 1601"] by (simp_all add: d)
  have "365 * (y + 1 - 1970) + (a + i) - (b + j) + (c + k) - (365 * (y - 1970) + a - b + c) = 365 + i - j + k"
    for a b c i j k :: int by simp
  then have length: "day_from_year (y + 1) - day_from_year y =
      365 + (if 4 dvd y then 1 else 0) - (if 100 dvd y then 1 else 0) + (if 400 dvd y then 1 else 0)"
    unfolding day_from_year_def e .
  have "365 + (if p then 1 else 0) - (if q then 1 else 0) + (if r then 1 else 0) =
      (if p \<and> (\<not> q \<or> r) then 366 else 365 :: int)" if "r \<longrightarrow> q" "q \<longrightarrow> p" for p q r
    using that by (cases p; cases q; cases r) simp_all
  note total = this
  show ?thesis unfolding length leap_year_def by (rule total) (use dv in blast)+
qed

lemma month_from_day_correct:
  assumes "0 \<le> r" and "r < (if leap_year y then 366 else 365)"
  shows "valid_day y (month_from_day y r) (r - month_offset y (month_from_day y r) + 1)"
  using assms by (auto simp: valid_day_def month_from_day_def month_days_def month_offset_def split: if_splits)

section \<open>Digits\<close>

lemma length_nat_digits: "n < 10 ^ k \<Longrightarrow> 0 < k \<Longrightarrow> length (nat_digits n) \<le> k"
proof (induction n arbitrary: k rule: nat_digits.induct)
  case (1 n)
  show ?case
  proof (cases "n < 10")
    case False
    then have "1 < k" using 1(2,3) by (cases "k = 1") auto
    then have "n div 10 < 10 ^ (k - 1)" using 1(2) by (simp add: less_mult_imp_div_less power_Suc2 [symmetric])
    then show ?thesis using 1(1) [of "k - 1"] False \<open>1 < k\<close> by (subst nat_digits.simps) simp
  qed (use 1(3) in \<open>subst nat_digits.simps, simp\<close>)
qed

lemma pad_digits_correct:
  assumes "0 \<le> n" and "n < 10 ^ k" and "0 < k"
  shows "length (pad_digits k n) = k" "list_all is_digit (pad_digits k n)" "int (digits_value (pad_digits k n)) = n"
proof -
  have "nat n < 10 ^ k" using assms by (simp add: nat_less_iff)
  then show "length (pad_digits k n) = k"
    using length_nat_digits [of "nat n" k] assms(3) by (simp add: pad_digits_def Let_def)
  show "list_all is_digit (pad_digits k n)"
    using nat_digits_are_digits [of _ "nat n"] by (auto simp: pad_digits_def Let_def list_all_iff is_digit_def)
  show "int (digits_value (pad_digits k n)) = n" using assms(1) by (simp add: pad_digits_def Let_def)
qed

lemma take_digits_pad: "0 \<le> n \<Longrightarrow> n < 10 ^ k \<Longrightarrow> 0 < k \<Longrightarrow> take_digits k (pad_digits k n @ r) = Some (n, r)"
  by (simp add: take_digits_def pad_digits_correct)

lemma take_field_pad: "0 \<le> n \<Longrightarrow> n < 10 ^ k \<Longrightarrow> 0 < k \<Longrightarrow> take_field c k (c # pad_digits k n @ r) = Some (n, r)"
  by (simp add: take_field_def take_digits_pad)

lemma pad_digits_head: "0 \<le> n \<Longrightarrow> n < 10 ^ k \<Longrightarrow> 0 < k \<Longrightarrow> \<exists>c cs. pad_digits k n = c # cs \<and> is_digit c"
  using pad_digits_correct [of n k] by (cases "pad_digits k n") auto

lemma parse_year_string:
  assumes "\<bar>y\<bar> < 1000000"
  shows "parse_year (year_string y @ r) = Some (y, r)"
proof (cases "0 \<le> y \<and> y \<le> 9999")
  case True
  then obtain c cs where "pad_digits 4 y = c # cs" "is_digit c" using pad_digits_head [of y 4] by auto
  then show ?thesis using True take_digits_pad [of y 4 r] by (auto simp: year_string_def parse_year_def is_digit_def)
next
  case False
  then show ?thesis using take_digits_pad [of "\<bar>y\<bar>" 6 r] assms
    by (auto simp: year_string_def parse_year_def)
qed

section \<open>Reading what was printed\<close>

definition day_string :: "int \<Rightarrow> int \<Rightarrow> int \<Rightarrow> jsstring" where
  "day_string y m d = year_string y @ [45] @ pad_digits 2 m @ [45] @ pad_digits 2 d"

definition clock_string :: "int \<Rightarrow> jsstring" where
  "clock_string r = pad_digits 2 (r div 3600000) @ [58] @ pad_digits 2 (r div 60000 mod 60) @ [58] @
     pad_digits 2 (r div 1000 mod 60) @ [46] @ pad_digits 3 (r mod 1000) @ [90]"

lemma parse_day_string:
  assumes "\<bar>y\<bar> < 1000000" and "valid_day y m d"
  shows "parse_day (day_string y m d @ r) = Some (y, m, d, r)"
proof -
  have "month_days y m \<le> 31" using assms(2) by (auto simp: valid_day_def month_days_def month_offset_def)
  then have "0 \<le> m" "m < 10 ^ 2" "0 \<le> d" "d < 10 ^ 2" using assms(2) by (auto simp: valid_day_def)
  then show ?thesis
    using assms(1) by (simp add: parse_day_def day_string_def parse_year_string take_field_pad del: power2_eq_square)
qed

lemma parse_fraction_pad:
  assumes "0 \<le> n" and "n < 1000" and "\<not> is_digit c"
  shows "parse_fraction (pad_digits 3 n @ c # r) = Some (n, c # r)"
proof -
  have p: "length (pad_digits 3 n) = 3" "list_all is_digit (pad_digits 3 n)" "int (digits_value (pad_digits 3 n)) = n"
    using pad_digits_correct [of n 3] assms by auto
  have "takeWhile is_digit (pad_digits 3 n @ c # r) = pad_digits 3 n"
    using p(2) assms(3) by (subst takeWhile_append2) (auto simp: list_all_iff)
  moreover have "dropWhile is_digit (pad_digits 3 n @ c # r) = c # r"
    using p(2) assms(3) by (subst dropWhile_append2) (auto simp: list_all_iff)
  ultimately show ?thesis using p by (auto simp: parse_fraction_def Let_def)
qed

lemma parse_clock_fields:
  assumes "0 \<le> hh \<and> hh < 10 ^ 2" "0 \<le> mi \<and> mi < 10 ^ 2" "0 \<le> ss \<and> ss < 10 ^ 2" "0 \<le> ms \<and> ms < 1000"
  shows "parse_clock (pad_digits 2 hh @ 58 # pad_digits 2 mi @ 58 # pad_digits 2 ss @ 46 # pad_digits 3 ms @ [90]) =
    Some (hh, mi, ss, ms, [90])"
  using assms by (simp add: parse_clock_def take_digits_pad take_field_pad parse_fraction_pad is_digit_def)

lemma clock_bounds:
  assumes "(0::int) \<le> r" and "r < 86400000"
  shows "0 \<le> r div 3600000 \<and> r div 3600000 \<le> 23" "0 \<le> r div 60000 mod 60 \<and> r div 60000 mod 60 \<le> 59"
    "0 \<le> r div 1000 mod 60 \<and> r div 1000 mod 60 \<le> 59" "0 \<le> r mod 1000 \<and> r mod 1000 \<le> 999"
  using assms div_bounds [of 3600000 r] by simp_all

lemma parse_clock_string:
  assumes "0 \<le> r" and "r < ms_per_day"
  shows "parse_clock (clock_string r) = Some (r div 3600000, r div 60000 mod 60, r div 1000 mod 60, r mod 1000, [90])"
proof -
  have r: "r < 86400000" using assms(2) by (simp add: ms_per_day_def)
  show ?thesis unfolding clock_string_def append.simps
    by (rule parse_clock_fields) (use clock_bounds [OF assms(1) r] in auto)
qed

lemma clock_sum: "(0::int) \<le> r \<Longrightarrow> r div 3600000 * 3600000 + r div 60000 mod 60 * 60000 + r div 1000 mod 60 * 1000 + r mod 1000 = r"
proof -
  have "r div 60000 = r div 1000 div 60" "r div 3600000 = r div 60000 div 60"
    by (simp_all add: zdiv_zmult2_eq [symmetric])
  then show ?thesis
    using mult_div_mod_eq [of 60 "r div 60000"] mult_div_mod_eq [of 60 "r div 1000"] mult_div_mod_eq [of 1000 r]
    by linarith
qed

lemma valid_clock_bounds:
  "(0::int) \<le> r \<Longrightarrow> r < ms_per_day \<Longrightarrow> valid_clock (r div 3600000) (r div 60000 mod 60) (r div 1000 mod 60) (r mod 1000)"
  using clock_bounds [of r] by (simp add: valid_clock_def ms_per_day_def)

lemma date_time_fields:
  assumes "parse_day s = Some (y, m, d, 84 # c)" and "valid_day y m d"
    and "parse_clock c = Some (hh, mi, ss, ms, [90])" and "valid_clock hh mi ss ms"
    and "hh * 3600000 + mi * 60000 + ss * 1000 + ms = r"
  shows "date_time h s = time_clip (make_day y m d * ms_per_day + r)"
  using assms by (auto simp: date_time_def parse_offset_def Let_def add.assoc)

lemma date_time_printed:
  assumes "\<bar>y\<bar> < 1000000" and "valid_day y m d" and "0 \<le> r" and "r < ms_per_day"
  shows "date_time h (day_string y m d @ 84 # clock_string r) = time_clip (make_day y m d * ms_per_day + r)"
  by (rule date_time_fields [OF parse_day_string assms(2) parse_clock_string valid_clock_bounds clock_sum]) fact+

text \<open>The fields that \<open>toISOString\<close> prints, and that they are those of a valid day.\<close>

definition iso_year :: "int \<Rightarrow> int" where
  "iso_year t = year_from_day (t div ms_per_day)"

definition iso_month :: "int \<Rightarrow> int" where
  "iso_month t = month_from_day (iso_year t) (t div ms_per_day - day_from_year (iso_year t))"

definition iso_day :: "int \<Rightarrow> int" where
  "iso_day t = t div ms_per_day - day_from_year (iso_year t) - month_offset (iso_year t) (iso_month t) + 1"

lemma toISOString_fields:
  "toISOString (Fin (of_int t)) = Some (day_string (iso_year t) (iso_month t) (iso_day t) @ 84 # clock_string (t mod ms_per_day))"
  by (simp add: day_string_def clock_string_def iso_year_def iso_month_def iso_day_def Let_def)

lemma iso_valid: "valid_day (iso_year t) (iso_month t) (iso_day t)"
proof -
  let ?n = "t div ms_per_day"
  have "0 \<le> ?n - day_from_year (iso_year t)" "?n - day_from_year (iso_year t) < (if leap_year (iso_year t) then 366 else 365)"
    using year_from_day_correct [of ?n] year_length [of "iso_year t"] unfolding iso_year_def by simp_all
  then show ?thesis unfolding iso_month_def iso_day_def by (rule month_from_day_correct)
qed

lemma iso_make_day: "make_day (iso_year t) (iso_month t) (iso_day t) = t div ms_per_day"
  by (simp add: make_day_def iso_day_def)

lemma iso_year_bound:
  assumes "\<bar>t\<bar> \<le> 8640000000000000"
  shows "\<bar>iso_year t\<bar> < 1000000"
proof -
  let ?n = "t div ms_per_day"
  have "- 100000000 \<le> ?n" "?n \<le> 100000000" using assms div_bounds [of ms_per_day t] by (simp_all add: ms_per_day_def)
  moreover have "day_from_year (iso_year t) \<le> ?n" "?n < day_from_year (iso_year t + 1)"
    using year_from_day_correct [of ?n] by (simp_all add: iso_year_def)
  ultimately show ?thesis
    using day_from_year_bounds(1) [of "iso_year t"] day_from_year_bounds(2) [of "iso_year t + 1"] by simp
qed

text \<open>Every time value that can be printed is read back unchanged.\<close>

theorem date_roundtrip:
  assumes "\<bar>t\<bar> \<le> 8640000000000000"
  shows "\<exists>s. toISOString (Fin (of_int t)) = Some s \<and> date_time h s = Fin (of_int t)"
proof -
  have "0 \<le> t mod ms_per_day" "t mod ms_per_day < ms_per_day" by (simp_all add: ms_per_day_def)
  then have "date_time h (day_string (iso_year t) (iso_month t) (iso_day t) @ 84 # clock_string (t mod ms_per_day)) =
      time_clip (t div ms_per_day * ms_per_day + t mod ms_per_day)"
    unfolding iso_make_day [symmetric] by (intro date_time_printed iso_valid iso_year_bound assms)
  then show ?thesis using assms by (simp add: toISOString_fields time_clip_def del: toISOString.simps)
qed

theorem date_roundtrip_witness:
  "\<exists>s. toISOString (Fin (of_int (- 1))) = Some s \<and> date_time undefined s = Fin (of_int (- 1))"
  by (rule date_roundtrip) simp

section \<open>Days\<close>

text \<open>\<open>s.slice(0, 10)\<close> of a printed date, and the start of its day.\<close>

lemma length_day_string: "0 \<le> y \<Longrightarrow> y \<le> 9999 \<Longrightarrow> valid_day y m d \<Longrightarrow> length (day_string y m d) = 10"
proof -
  assume y: "0 \<le> y" "y \<le> 9999" and v: "valid_day y m d"
  have "month_days y m \<le> 31" using v by (auto simp: valid_day_def month_days_def month_offset_def)
  then show ?thesis
    using pad_digits_correct(1) [of y 4] pad_digits_correct(1) [of m 2] pad_digits_correct(1) [of d 2] y v
    by (simp add: day_string_def year_string_def valid_day_def)
qed

lemma slice_printed:
  assumes "toISOString (Fin (of_int t)) = Some s" and "0 \<le> iso_year t" and "iso_year t \<le> 9999"
  shows "slice 0 10 s = day_string (iso_year t) (iso_month t) (iso_day t)"
  using assms(1) length_day_string [OF assms(2,3) iso_valid]
  by (auto simp: toISOString_fields slice_def simp del: toISOString.simps)

lemma parse_midnight: "parse_clock (js ''00:00:00Z'') = Some (0, 0, 0, 0, [90])"
  by (simp add: parse_clock_def take_digits_def take_field_def is_digit_def digits_value_def)

lemma date_time_midnight:
  assumes "\<bar>y\<bar> < 1000000" and "valid_day y m d"
  shows "date_time h (day_string y m d @ js ''T00:00:00Z'') = time_clip (make_day y m d * ms_per_day)"
proof -
  have "parse_day (day_string y m d @ js ''T00:00:00Z'') = Some (y, m, d, 84 # js ''00:00:00Z'')"
    unfolding parse_day_string [OF assms] by simp
  then show ?thesis using date_time_fields [OF _ assms(2) parse_midnight, of _ 0 h] by (simp add: valid_clock_def)
qed

definition day_start :: "int \<Rightarrow> int" where
  "day_start t = t div ms_per_day * ms_per_day"

lemma day_start_read:
  assumes "\<bar>t\<bar> \<le> 8640000000000000" and "toISOString (Fin (of_int t)) = Some s" and "0 \<le> iso_year t" and "iso_year t \<le> 9999"
  shows "date_time h (slice 0 10 s @ js ''T00:00:00Z'') = Fin (of_int (day_start t))"
proof -
  have "- 100000000 \<le> t div ms_per_day" "t div ms_per_day \<le> 100000000"
    using assms(1) div_bounds [of ms_per_day t] by (simp_all add: ms_per_day_def)
  then have "\<bar>day_start t\<bar> \<le> 8640000000000000" by (simp add: day_start_def ms_per_day_def)
  then show ?thesis
    unfolding slice_printed [OF assms(2-4)] date_time_midnight [OF iso_year_bound [OF assms(1)] iso_valid] iso_make_day
    by (simp add: time_clip_def day_start_def)
qed

section \<open>The day of a date\<close>

text \<open>Every valid date is the date of its first instant.\<close>

lemma day_from_year_mono: "y \<le> z \<Longrightarrow> day_from_year y \<le> day_from_year z"
proof (induction z rule: int_ge_induct)
  case (step z)
  then show ?case using year_length [of z] by (auto split: if_splits)
qed simp

lemma year_from_day_unique: "day_from_year y \<le> n \<Longrightarrow> n < day_from_year (y + 1) \<Longrightarrow> year_from_day n = y"
  using year_from_day_correct [of n] day_from_year_mono [of "year_from_day n + 1" y] day_from_year_mono [of "y + 1" "year_from_day n"]
  by linarith

lemma valid_offset:
  assumes "valid_day y m d"
  shows "0 \<le> month_offset y m + d - 1" and "month_offset y m + d - 1 < (if leap_year y then 366 else 365)"
    and "month_from_day y (month_offset y m + d - 1) = m"
proof -
  have "m = 1 \<or> m = 2 \<or> m = 3 \<or> m = 4 \<or> m = 5 \<or> m = 6 \<or> m = 7 \<or> m = 8 \<or> m = 9 \<or> m = 10 \<or> m = 11 \<or> m = 12"
    using assms unfolding valid_day_def by presburger
  then show "0 \<le> month_offset y m + d - 1" and "month_offset y m + d - 1 < (if leap_year y then 366 else 365)"
    and "month_from_day y (month_offset y m + d - 1) = m"
    using assms by (elim disjE; simp add: valid_day_def month_days_def month_offset_def month_from_day_def split: if_splits)+
qed

lemma make_day_year: "valid_day y m d \<Longrightarrow> year_from_day (make_day y m d) = y"
  using valid_offset [of y m d] year_length [of y] by (intro year_from_day_unique) (auto simp: make_day_def split: if_splits)

lemma day_first_instant:
  assumes "valid_day y m d"
  shows "toISOString (Fin (of_int (make_day y m d * ms_per_day))) = Some (day_string y m d @ 84 # clock_string 0)"
proof -
  let ?t = "make_day y m d * ms_per_day"
  have t: "?t div ms_per_day = make_day y m d" "?t mod ms_per_day = 0" by (simp_all add: ms_per_day_def)
  have q: "make_day y m d - day_from_year y = month_offset y m + d - 1" by (simp add: make_day_def)
  have y: "iso_year ?t = y" unfolding iso_year_def t(1) by (rule make_day_year [OF assms])
  have m: "iso_month ?t = m" unfolding iso_month_def t(1) y q by (rule valid_offset(3) [OF assms])
  have "iso_day ?t = d" unfolding iso_day_def t(1) y m q by simp
  then show ?thesis unfolding toISOString_fields t(2) by (simp only: y m)
qed

lemma make_day_bound:
  assumes "0 \<le> y" and "y \<le> 9999" and "valid_day y m d"
  shows "\<bar>make_day y m d * ms_per_day\<bar> \<le> 8640000000000000"
proof -
  have "146097 * (- 1970) - 506 \<le> 400 * day_from_year y" "400 * day_from_year y \<le> 146097 * (9999 - 1970) + 589"
    using day_from_year_bounds [of y] assms(1,2) by simp_all
  moreover have "0 \<le> make_day y m d - day_from_year y" "make_day y m d - day_from_year y < 366"
    using valid_offset(1,2) [OF assms(3)] by (auto simp: make_day_def split: if_splits)
  ultimately have "- 100000000 \<le> make_day y m d" "make_day y m d \<le> 100000000" by simp_all
  then show ?thesis by (simp add: ms_per_day_def)
qed

text \<open>The text of a form field that has a day is read as the first instant of that day, and printed with it.\<close>

lemma day_roundtrip:
  assumes "0 \<le> y" and "y \<le> 9999" and "valid_day y m d"
  shows "toISOString (date_time h (day_string y m d @ js ''T00:00:00Z'')) = Some (day_string y m d @ js ''T00:00:00.000Z'')"
proof -
  have "date_time h (day_string y m d @ js ''T00:00:00Z'') = Fin (of_int (make_day y m d * ms_per_day))"
    using make_day_bound [OF assms] assms date_time_midnight [of y m d h] by (simp add: time_clip_def del: js_simps)
  then show ?thesis using day_first_instant [OF assms(3)] by (simp add: clock_string_def pad_digits_def nat_digits.simps numeral_2_eq_2 del: toISOString.simps)
qed

end
