(* ===== verification/AdminSettings.thy ===== *)
theory AdminSettings
  imports Components Session
begin

text \<open>
  \<open>web/src/components/admin/AdminSettings.vue\<close>: site settings and the temporary enrollment PIN. The
  plaintext of a temporary PIN is shown once, to the page that created it; the page polls the
  state of the PIN every 15 seconds. Each handler is split at its request: what happens before, and
  what the answer does. Answers of requests in flight arrive in any order.
\<close>

section \<open>State\<close>

text \<open>\<open>st_plain_of\<close> is a ghost: the identifier of the PIN whose plaintext is shown.\<close>

record settings_page =
  st_settings :: "SiteSettings option"
  st_newPIN :: jsstring
  st_status :: jsstring
  st_error :: jsstring
  st_sources :: jsstring
  st_temporaryPIN :: "TemporaryEnrollmentPIN option"
  st_temporaryPINPlain :: jsstring
  st_temporaryMinutes :: number
  st_temporaryBusy :: bool
  st_temporaryCopied :: bool
  st_clock :: number
  st_timers :: bool
  st_plain_of :: "jsstring option"

definition settings_init :: "number \<Rightarrow> settings_page" where
  "settings_init now = \<lparr>st_settings = None, st_newPIN = [], st_status = [], st_error = [], st_sources = [],
     st_temporaryPIN = None, st_temporaryPINPlain = [], st_temporaryMinutes = Fin 30, st_temporaryBusy = False,
     st_temporaryCopied = False, st_clock = now, st_timers = False, st_plain_of = None\<rparr>"

section \<open>Computed values\<close>

definition effectiveTemporaryStatus :: "host \<Rightarrow> settings_page \<Rightarrow> pin_status option" where
  "effectiveTemporaryStatus h p = (case st_temporaryPIN p of
     None \<Rightarrow> None
   | Some pin \<Rightarrow> if tp_status pin = PinActive \<and> date_time h (tp_expires_at pin) \<le> st_clock p
       then Some PinExpired else Some (tp_status pin))"

definition temporaryStatusLabel :: "host \<Rightarrow> AppLocale \<Rightarrow> settings_page \<Rightarrow> jsstring" where
  "temporaryStatusLabel h l p = (case effectiveTemporaryStatus h p of
     Some PinActive \<Rightarrow> text_in l [21487, 20351, 29992] (js ''Active'')
   | Some PinUsed \<Rightarrow> text_in l [24050, 20351, 29992] (js ''Used'')
   | Some PinExpired \<Rightarrow> text_in l [24050, 36807, 26399] (js ''Expired'')
   | Some PinRevoked \<Rightarrow> text_in l [24050, 25764, 38144] (js ''Revoked'')
   | None \<Rightarrow> text_in l [26410, 21019, 24314] (js ''Not created''))"

definition remaining_text :: "AppLocale \<Rightarrow> number \<Rightarrow> jsstring" where
  "remaining_text l seconds =
     (if seconds < Fin 60 then text_in l [19981, 36275, 32, 49, 32, 20998, 38047] (js ''less than 1 minute'')
      else (let minutes = math_ceil (seconds / Fin 60) in
        if minutes < Fin 60
        then text_in l ([21097, 20313, 32] @ num_string minutes @ [32, 20998, 38047]) (num_string minutes @ js '' minutes left'')
        else (let hours = math_floor (minutes / Fin 60); rest = num_rem minutes (Fin 60) in
          text_in l ([21097, 20313, 32] @ num_string hours @ [32, 23567, 26102, 32] @ num_string rest @ [32, 20998, 38047])
            (num_string hours @ js ''h '' @ num_string rest @ js ''m left''))))"

definition temporaryRemaining :: "host \<Rightarrow> AppLocale \<Rightarrow> settings_page \<Rightarrow> jsstring" where
  "temporaryRemaining h l p = (case st_temporaryPIN p of
     None \<Rightarrow> []
   | Some pin \<Rightarrow> if effectiveTemporaryStatus h p \<noteq> Some PinActive then []
       else remaining_text l (math_max (Fin 0)
         (math_ceil ((date_time h (tp_expires_at pin) - st_clock p) / Fin 1000))))"

definition canRevokeTemporaryPIN :: "host \<Rightarrow> settings_page \<Rightarrow> bool" where
  "canRevokeTemporaryPIN h p \<longleftrightarrow> effectiveTemporaryStatus h p \<in> {Some PinActive, Some PinUsed}"

section \<open>Handlers\<close>

definition clearMessages :: "settings_page \<Rightarrow> settings_page" where
  "clearMessages p = p\<lparr>st_error := [], st_status := []\<rparr>"

definition pin_loaded :: "host \<Rightarrow> bool \<Rightarrow> failure + TemporaryEnrollmentPIN option \<Rightarrow> settings_page \<Rightarrow> settings_page" where
  "pin_loaded h silent answer p = (case answer of
     Inl e \<Rightarrow> if silent then p else p\<lparr>st_error := failure_message h e\<rparr>
   | Inr latest \<Rightarrow>
      (let p1 = (if map_option tp_id latest \<noteq> map_option tp_id (st_temporaryPIN p)
             then p\<lparr>st_temporaryPINPlain := [], st_plain_of := None\<rparr> else p)
       in p1\<lparr>st_temporaryPIN := latest\<rparr>))"

definition newline :: jsstring where "newline = [10]"

text \<open>\<open>load\<close>: the answer for the PIN is handled by \<open>pin_loaded\<close>, that for the settings here.\<close>

definition settings_loaded :: "host \<Rightarrow> failure + SiteSettings \<Rightarrow> settings_page \<Rightarrow> settings_page" where
  "settings_loaded h answer p = (case answer of
     Inl e \<Rightarrow> p\<lparr>st_error := failure_message h e\<rparr>
   | Inr s \<Rightarrow> p\<lparr>st_settings := Some s,
       st_sources := (case ss_theme_market_sources s of None \<Rightarrow> [] | Some xs \<Rightarrow> join newline xs)\<rparr>)"

definition parsed_sources :: "jsstring \<Rightarrow> jsstring list" where
  "parsed_sources s = split_field newline s"

text \<open>\<open>save\<close> up to the request, with the settings that are sent.\<close>

definition save_start :: "settings_page \<Rightarrow> settings_page \<times> SiteSettings call option" where
  "save_start p = (case st_settings p of
     None \<Rightarrow> (p, None)
   | Some s \<Rightarrow> (let s' = s\<lparr>ss_theme_market_sources := Some (parsed_sources (st_sources p))\<rparr> in
       ((clearMessages p)\<lparr>st_settings := Some s'\<rparr>, Some (a_call (js ''PUT'') (js ''/api/v1/admin/settings'') (Some s')))))"

definition save_answered :: "host \<Rightarrow> AppLocale \<Rightarrow> failure + SiteSettings \<Rightarrow> refresh_answer \<Rightarrow>
    settings_page \<times> session \<Rightarrow> settings_page \<times> session" where
  "save_answered h l answer me ps = (case answer of
     Inl e \<Rightarrow> ((fst ps)\<lparr>st_error := failure_message h e\<rparr>, snd ps)
   | Inr s \<Rightarrow> (let p = (fst ps)\<lparr>st_settings := Some s\<rparr> in
       case refresh me (snd ps) of
         (None, se) \<Rightarrow> (p\<lparr>st_status := text_in l [35774, 32622, 24050, 20445, 23384, 12290] (js ''Settings saved.'')\<rparr>, se)
       | (Some e, se) \<Rightarrow> (p\<lparr>st_error := failure_message h e\<rparr>, se)))"

definition rotate_body :: "settings_page \<Rightarrow> json" where
  "rotate_body p = JObj [(js ''pin'', JStr (st_newPIN p))]"

definition rotatePIN :: "settings_page \<Rightarrow> settings_page \<times> json call" where
  "rotatePIN p = (clearMessages p, a_call (js ''PUT'') (js ''/api/v1/admin/enrollment/pin'') (Some (rotate_body p)))"

definition rotatePIN_answered :: "host \<Rightarrow> AppLocale \<Rightarrow> failure + bool \<Rightarrow> settings_page \<Rightarrow> settings_page" where
  "rotatePIN_answered h l answer p = (case answer of
     Inl e \<Rightarrow> p\<lparr>st_error := failure_message h e\<rparr>
   | Inr weak \<Rightarrow> p\<lparr>st_settings := map_option (\<lambda>s. s\<lparr>ss_enrollment_pin_weak := weak\<rparr>) (st_settings p),
       st_status := (if weak
         then text_in l [80, 73, 78, 32, 24050, 26356, 25442, 65292, 20294, 24403, 21069, 32, 80, 73, 78, 32, 24378, 24230, 36739, 24369, 12290] (js ''PIN changed, but it is considered weak.'')
         else text_in l [27880, 20876, 32, 80, 73, 78, 32, 24050, 26356, 25442, 12290] (js ''Enrollment PIN changed.'')),
       st_newPIN := []\<rparr>)"

definition createTemporaryPIN :: "settings_page \<Rightarrow> settings_page \<times> json call" where
  "createTemporaryPIN p = ((clearMessages p)\<lparr>st_temporaryBusy := True, st_temporaryCopied := False\<rparr>,
     a_call (js ''POST'') (js ''/api/v1/admin/enrollment/temporary-pin'')
       (Some (JObj [(js ''expires_in_minutes'', JNum (st_temporaryMinutes p))])))"

definition pin_created :: "host \<Rightarrow> AppLocale \<Rightarrow> number \<Rightarrow> failure + TemporaryEnrollmentPIN \<Rightarrow> settings_page \<Rightarrow> settings_page" where
  "pin_created h l now answer p = (case answer of
     Inl e \<Rightarrow> p\<lparr>st_error := failure_message h e, st_temporaryBusy := False\<rparr>
   | Inr created \<Rightarrow> p\<lparr>st_temporaryPIN := Some created,
       st_temporaryPINPlain := (case tp_pin created of Some s \<Rightarrow> s | None \<Rightarrow> []),
       st_clock := now, st_plain_of := Some (tp_id created),
       st_status := text_in l [20020, 26102, 32, 80, 73, 78, 32, 24050, 29983, 25104, 65292, 26126, 25991, 20165, 22312, 26412, 39029, 26174, 31034, 19968, 27425, 12290]
         (js ''Temporary PIN generated; its plaintext is shown only on this page.''),
       st_temporaryBusy := False\<rparr>)"

text \<open>\<open>copied\<close>: whether the clipboard accepted the text; \<open>copy_expired\<close> is its timeout.\<close>

definition copyTemporaryPIN :: "AppLocale \<Rightarrow> bool \<Rightarrow> settings_page \<Rightarrow> settings_page" where
  "copyTemporaryPIN l copied p =
     (if st_temporaryPINPlain p = [] then p
      else if copied then p\<lparr>st_temporaryCopied := True\<rparr>
      else p\<lparr>st_error := text_in l [27983, 35272, 22120, 19981, 20801, 35768, 22797, 21046, 65292, 35831, 25163, 21160, 36873, 25321, 32, 80, 73, 78, 12290]
        (js ''Clipboard access was denied; select the PIN manually.'')\<rparr>)"

definition copy_expired :: "settings_page \<Rightarrow> settings_page" where
  "copy_expired p = p\<lparr>st_temporaryCopied := False\<rparr>"

definition revokeTemporaryPIN :: "settings_page \<Rightarrow> settings_page \<times> json call option" where
  "revokeTemporaryPIN p = (if st_temporaryPIN p = None then (p, None)
     else ((clearMessages p)\<lparr>st_temporaryBusy := True\<rparr>,
       Some (a_call (js ''DELETE'') (js ''/api/v1/admin/enrollment/temporary-pin'') None)))"

definition pin_revoked :: "host \<Rightarrow> AppLocale \<Rightarrow> failure + TemporaryEnrollmentPIN option \<Rightarrow> settings_page \<Rightarrow> settings_page" where
  "pin_revoked h l answer p = (case answer of
     Inl e \<Rightarrow> p\<lparr>st_error := failure_message h e, st_temporaryBusy := False\<rparr>
   | Inr revoked \<Rightarrow> p\<lparr>st_temporaryPIN := revoked, st_temporaryPINPlain := [], st_plain_of := None,
       st_status := text_in l [20020, 26102, 32, 80, 73, 78, 32, 24050, 25764, 38144, 12290] (js ''Temporary PIN revoked.''), st_temporaryBusy := False\<rparr>)"

definition settings_mounted :: "settings_page \<Rightarrow> settings_page" where
  "settings_mounted p = (clearMessages p)\<lparr>st_timers := True\<rparr>"

definition settings_unmount :: "settings_page \<Rightarrow> settings_page" where
  "settings_unmount p = p\<lparr>st_timers := False\<rparr>"

section \<open>Events\<close>

datatype settings_event = StMount | StUnmount | StTick number | StPinAnswer bool "failure + TemporaryEnrollmentPIN option"
  | StSettingsAnswer "failure + SiteSettings" | StSave | StRotate | StRotateAnswer "failure + bool" | StCreate
  | StCreateAnswer number "failure + TemporaryEnrollmentPIN" | StCopy bool | StCopyExpired | StRevoke
  | StRevokeAnswer "failure + TemporaryEnrollmentPIN option"

fun settings_step :: "host \<Rightarrow> AppLocale \<Rightarrow> settings_event \<Rightarrow> settings_page \<Rightarrow> settings_page" where
  "settings_step h l StMount p = settings_mounted p"
| "settings_step h l StUnmount p = settings_unmount p"
| "settings_step h l (StTick now) p = (if st_timers p then p\<lparr>st_clock := now\<rparr> else p)"
| "settings_step h l (StPinAnswer silent a) p = pin_loaded h silent a p"
| "settings_step h l (StSettingsAnswer a) p = settings_loaded h a p"
| "settings_step h l StSave p = fst (save_start p)"
| "settings_step h l StRotate p = fst (rotatePIN p)"
| "settings_step h l (StRotateAnswer a) p = rotatePIN_answered h l a p"
| "settings_step h l StCreate p = fst (createTemporaryPIN p)"
| "settings_step h l (StCreateAnswer now a) p = pin_created h l now a p"
| "settings_step h l (StCopy ok) p = copyTemporaryPIN l ok p"
| "settings_step h l StCopyExpired p = copy_expired p"
| "settings_step h l StRevoke p = fst (revokeTemporaryPIN p)"
| "settings_step h l (StRevokeAnswer a) p = pin_revoked h l a p"

section \<open>Properties\<close>

text \<open>
  The plaintext that is shown belongs to the PIN that is shown, whatever the order of answers.
\<close>

definition plain_ok :: "settings_page \<Rightarrow> bool" where
  "plain_ok p \<longleftrightarrow> st_temporaryPINPlain p = [] \<or>
     (st_plain_of p \<noteq> None \<and> map_option tp_id (st_temporaryPIN p) = st_plain_of p)"

interpretation settings: store "settings_step h l" any_event plain_ok
proof
  fix p e
  assume "plain_ok p"
  then show "plain_ok (settings_step h l e p)"
    by (cases e) (auto simp: plain_ok_def settings_mounted_def settings_unmount_def pin_loaded_def settings_loaded_def
        save_start_def rotatePIN_def rotatePIN_answered_def createTemporaryPIN_def pin_created_def copyTemporaryPIN_def
        copy_expired_def revokeTemporaryPIN_def pin_revoked_def clearMessages_def Let_def split: sum.split option.splits)
qed

text \<open>
  C35: Whatever order polls, creations, copies and revocations are answered in, a plaintext PIN
  that the settings page shows belongs to the temporary PIN it shows.
\<close>

theorem plaintext_matches_pin:
  "let p = fold (settings_step h l) es (settings_init now) in
     st_temporaryPINPlain p = [] \<or>
     (\<exists>i. st_plain_of p = Some i \<and> map_option tp_id (st_temporaryPIN p) = Some i)"
proof -
  have "plain_ok (fold (settings_step h l) es (settings_init now))"
    by (rule settings.run_keeps) (simp_all add: plain_ok_def settings_init_def list_all_iff)
  then show ?thesis by (auto simp: plain_ok_def Let_def)
qed

text \<open>
  A poll that was sent before the PIN was created and is answered after it hides the plaintext of
  the new PIN, which the server does not give out again.
\<close>

theorem late_poll_hides_plaintext:
  assumes "map_option tp_id old \<noteq> Some (tp_id created)"
  shows "st_temporaryPINPlain (fold (settings_step h l) [StCreate, StCreateAnswer now (Inr created), StPinAnswer True (Inr old)] p) = []"
  using assms by (simp add: pin_created_def pin_loaded_def)

theorem late_poll_hides_plaintext_witness:
  "st_temporaryPINPlain (fold (settings_step undefined en_US) [StCreate, StCreateAnswer (Fin 0)
     (Inr \<lparr>tp_id = js ''new'', tp_pin = Some (js ''482913''), tp_status = PinActive, tp_created_at = [], tp_expires_at = [],
       tp_used_at = None, tp_revoked_at = None\<rparr>), StPinAnswer True (Inr None)] (settings_init (Fin 0))) = []"
  by (rule late_poll_hides_plaintext) simp

text \<open>What may be revoked is active or used, and an active PIN has not passed its expiry.\<close>

theorem active_pin_not_expired:
  assumes "effectiveTemporaryStatus h p = Some PinActive" and "st_temporaryPIN p = Some pin"
    and "date_time h (tp_expires_at pin) = Fin t" and "st_clock p = Fin now"
  shows "tp_status pin = PinActive \<and> now < t \<and> canRevokeTemporaryPIN h p"
  using assms by (auto simp: effectiveTemporaryStatus_def canRevokeTemporaryPIN_def split: if_splits)

text \<open>The reference for the remaining time, by whole-number arithmetic on seconds.\<close>

definition remaining_spec :: "AppLocale \<Rightarrow> int \<Rightarrow> jsstring" where
  "remaining_spec l s =
     (let m = (s + 59) div 60 in
      if s < 60 then text_in l [19981, 36275, 32, 49, 32, 20998, 38047] (js ''less than 1 minute'')
      else if m < 60 then text_in l ([21097, 20313, 32] @ int_string m @ [32, 20998, 38047]) (int_string m @ js '' minutes left'')
      else text_in l ([21097, 20313, 32] @ int_string (m div 60) @ [32, 23567, 26102, 32] @ int_string (m mod 60) @ [32, 20998, 38047])
        (int_string (m div 60) @ js ''h '' @ int_string (m mod 60) @ js ''m left''))"

lemma ceil_div:
  assumes "0 < d" and "d \<le> 2 ^ j" and "0 < n" and "n \<le> 2 ^ 53" and "((n + d - 1) div d) * 2 ^ j \<le> 2 ^ 53" and "j \<le> 1074"
  shows "math_ceil (Fin (of_int n) / Fin (of_int d)) = Fin (of_int ((n + d - 1) div d))"
proof -
  have n: "real_of_int n \<le> 2 ^ 53"
    using assms(4) of_int_le_iff [of n "2 ^ 53", where 'a = real] by (simp only: of_int_power of_int_numeral)
  have "of_int n / of_int d \<le> (of_int n :: real)"
    using assms(1,3) by (simp add: divide_le_eq mult_le_cancel_left1)
  then have "fl (of_int n / of_int d) = Fin (round64 (of_int n / of_int d))"
    using assms(1,3) n by (intro fl_small) auto
  then show ?thesis using assms(1) ceiling_round_div [OF assms(1,2,3,5,6)] by simp
qed

lemma remaining_text_correct:
  assumes "0 \<le> s" and "s \<le> 2 ^ 43"
  shows "remaining_text l (Fin (of_int s)) = remaining_spec l s"
proof (cases "s < 60")
  case True
  then show ?thesis by (simp add: remaining_text_def remaining_spec_def)
next
  case False
  define m where "m = (s + 59) div 60"
  have m: "1 \<le> m" "m \<le> 2 ^ 38" using False assms(2) by (simp_all add: m_def)
  have c: "math_ceil (Fin (of_int s) / Fin 60) = Fin (of_int m)"
    using ceil_div [of 60 6 s] m False assms by (simp add: m_def)
  have "m div 60 \<le> 2 ^ 38" using m by linarith
  then have h: "math_floor (Fin (of_int m) / Fin 60) = Fin (of_int (m div 60))"
    using fl_div [of 60 6 m] m by simp
  have r: "num_rem (Fin (of_int m)) (Fin 60) = Fin (of_int (m mod 60))" using num_rem_int [of m 60] m by simp
  have b: "num_string (Fin (of_int m)) = int_string m" "num_string (Fin (of_int (m div 60))) = int_string (m div 60)"
    "num_string (Fin (of_int (m mod 60))) = int_string (m mod 60)"
    using m \<open>m div 60 \<le> 2 ^ 38\<close> by (intro num_string_int, simp)+
  have lt: "Fin (of_int k) < Fin 60 \<longleftrightarrow> k < 60" for k by simp
  show ?thesis unfolding remaining_text_def c Let_def h r b lt remaining_spec_def m_def [symmetric]
    using False by simp
qed

text \<open>
  C39: While the temporary PIN is active, the remaining time that the settings page shows is that
  of the seconds until its expiry, rounded up, by whole-number division into minutes and hours,
  for differences up to 2^52 ms.
\<close>

theorem remaining_time_correct:
  assumes "st_temporaryPIN p = Some pin" and "effectiveTemporaryStatus h p = Some PinActive"
    and "date_time h (tp_expires_at pin) = Fin (of_int t)" and "st_clock p = Fin (of_int now)"
    and "now < t" and "t - now \<le> 2 ^ 52"
  shows "temporaryRemaining h l p = remaining_spec l ((t - now + 999) div 1000)"
proof -
  let ?s = "(t - now + 999) div 1000"
  have "t - now + 999 \<le> 2 ^ 52 + 999" using assms(6) by simp
  then have "?s \<le> (2 ^ 52 + 999) div 1000" by (rule zdiv_mono1) simp
  then have s: "0 \<le> ?s" "?s \<le> 2 ^ 43" using assms(5) by (simp_all add: pos_imp_zdiv_nonneg_iff)
  have "Fin (of_int t) - Fin (of_int now) = Fin (of_int (t - now))"
    using fl_of_int [of "t - now"] assms(5,6) by simp
  then have "math_ceil ((Fin (of_int t) - Fin (of_int now)) / Fin 1000) = Fin (of_int ?s)"
    using ceil_div [of 1000 10 "t - now"] assms(5,6) s \<open>?s \<le> (2 ^ 52 + 999) div 1000\<close> by (simp add: algebra_simps)
  then have "math_max (Fin 0) (math_ceil ((date_time h (tp_expires_at pin) - st_clock p) / Fin 1000)) = Fin (of_int ?s)"
    using s(1) assms(3,4) by (simp add: max_def)
  then show ?thesis using assms(1,2) remaining_text_correct [OF s] by (simp add: temporaryRemaining_def)
qed

theorem remaining_time_correct_witness:
  "temporaryRemaining undefined en_US ((settings_init (Fin (of_int 0)))\<lparr>st_temporaryPIN := Some
     \<lparr>tp_id = js ''p'', tp_pin = None, tp_status = PinActive, tp_created_at = [],
       tp_expires_at = js ''1970-01-01T01:30:00Z'', tp_used_at = None, tp_revoked_at = None\<rparr>\<rparr>) = js ''1h 30m left''"
proof -
  let ?pin = "\<lparr>tp_id = js ''p'', tp_pin = None, tp_status = PinActive, tp_created_at = [],
       tp_expires_at = js ''1970-01-01T01:30:00Z'', tp_used_at = None, tp_revoked_at = None\<rparr>"
  let ?p = "(settings_init (Fin (of_int 0)))\<lparr>st_temporaryPIN := Some ?pin\<rparr>"
  have d: "date_time undefined (tp_expires_at ?pin) = Fin (of_int 5400000)" by (simp add: date_eval js_def)
  have "effectiveTemporaryStatus undefined ?p = Some PinActive"
    using d by (simp add: effectiveTemporaryStatus_def settings_init_def)
  from remaining_time_correct [OF _ this d] show ?thesis
    by (simp add: settings_init_def remaining_spec_def text_in_def int_string_def nat_digits.simps js_def)
qed

text \<open>Saving keeps the market sources: what is parsed from the text is what the text shows again.\<close>

lemma split_class_join_single:
  assumes "p c" and "\<forall>x \<in> set xs. \<forall>d \<in> set x. \<not> p d" and "xs \<noteq> []"
  shows "split_class p acc (join [c] xs) = (rev acc @ hd xs) # tl xs"
  using assms(2,3)
proof (induction xs arbitrary: acc)
  case (Cons x xs)
  show ?case
  proof (cases xs)
    case Nil
    then show ?thesis using Cons.prems split_class_append [of x p acc "[]"] by simp
  next
    case (Cons y ys)
    then have "split_class p acc (join [c] (x # xs)) = split_class p (rev x @ acc) (c # join [c] xs)"
      using Cons.prems(1) split_class_append [of x p acc "c # join [c] xs"] by simp
    also have "\<dots> = (rev acc @ x) # split_class p [] (join [c] xs)" using assms(1) by simp
    also have "split_class p [] (join [c] xs) = xs" using Cons.IH [of "[]"] Cons.prems(1) Cons by simp
    finally show ?thesis by simp
  qed
qed simp

lemma parsed_sources_join:
  assumes "\<And>x. x \<in> set xs \<Longrightarrow> trim x = x \<and> x \<noteq> [] \<and> 10 \<notin> set x"
  shows "parsed_sources (join newline xs) = xs"
proof (cases "xs = []")
  case False
  have "split_class (\<lambda>x. x = 10) [] (join [10] xs) = xs"
    using split_class_join_single [of "\<lambda>x. x = 10" 10 xs "[]"] assms False by fastforce
  then have "split newline (join newline xs) = xs" by (simp add: newline_def split_single)
  moreover have "trimmed_parts xs = xs"
    using assms by (induction xs) (auto simp: trimmed_parts_def)
  ultimately show ?thesis by (simp add: parsed_sources_def split_field_def)
qed (simp add: parsed_sources_def split_field_def trimmed_parts_def split_def newline_def)

lemma parsed_source_clean: "x \<in> set (parsed_sources s) \<Longrightarrow> trim x = x \<and> x \<noteq> [] \<and> 10 \<notin> set x"
proof -
  assume "x \<in> set (parsed_sources s)"
  then obtain y where y: "y \<in> set (split_class (\<lambda>x. x = 10) [] s)" "x = trim y" "x \<noteq> []"
    by (auto simp: parsed_sources_def split_field_def trimmed_parts_def newline_def split_single)
  then have "10 \<notin> set y" using split_class_parts [of y "\<lambda>x. x = 10" "[]" s 10] by auto
  then show ?thesis using y trim_subset [of y] by auto
qed

theorem market_sources_stable:
  assumes "save_start p = (p', Some c)" and "call_body c = Some sent"
  shows "st_sources (settings_loaded h (Inr sent) p') = join newline (parsed_sources (st_sources p)) \<and>
    parsed_sources (st_sources (settings_loaded h (Inr sent) p')) = parsed_sources (st_sources p)"
proof -
  have sent: "ss_theme_market_sources sent = Some (parsed_sources (st_sources p))"
    using assms by (auto simp: save_start_def a_call_def Let_def split: option.splits)
  have "parsed_sources (join newline (parsed_sources (st_sources p))) = parsed_sources (st_sources p)"
    by (rule parsed_sources_join) (rule parsed_source_clean)
  with sent show ?thesis by (simp add: settings_loaded_def)
qed

end
