(* ===== verification/AdminBackups.thy ===== *)
theory AdminBackups
  imports Components Session
begin

text \<open>
  \<open>web/src/components/admin/AdminBackups.vue\<close>: export and import of encrypted backups. Importing ends
  with a bounded wait for the server to come back; the outcomes of its attempts are a parameter,
  and the timeouts it waits for are counted.
\<close>

section \<open>State\<close>

record BackupStatus =
  bk_driver :: jsstring
  bk_available :: bool
  bk_encrypted :: bool
  bk_format_version :: number
  bk_pending_restore :: bool
  bk_external_master_key :: bool
  bk_maximum_bytes :: number

record RestoreAccepted =
  ra_accepted :: bool
  ra_restart :: jsstring
  ra_created_at :: jsstring
  ra_source_version :: jsstring
  ra_sessions_revoked :: bool

datatype busy = Idle | Exporting | Importing

text \<open>\<open>bp_assigned\<close> is the address that the page was sent to, \<open>bp_saved\<close> the files it offered.\<close>

record backup_page =
  bp_status :: "BackupStatus option"
  bp_busy :: busy
  bp_message :: jsstring
  bp_error :: jsstring
  bp_exportPassword :: jsstring
  bp_exportPassphrase :: jsstring
  bp_exportConfirmation :: jsstring
  bp_importPassword :: jsstring
  bp_importPassphrase :: jsstring
  bp_restoreConfirmation :: jsstring
  bp_file :: "blob option"
  bp_dragging :: bool
  bp_restarting :: bool
  bp_assigned :: "jsstring option"
  bp_saved :: "(blob \<times> jsstring) list"

definition backup_init :: backup_page where
  "backup_init = \<lparr>bp_status = None, bp_busy = Idle, bp_message = [], bp_error = [], bp_exportPassword = [],
     bp_exportPassphrase = [], bp_exportConfirmation = [], bp_importPassword = [], bp_importPassphrase = [],
     bp_restoreConfirmation = [], bp_file = None, bp_dragging = False, bp_restarting = False,
     bp_assigned = None, bp_saved = []\<rparr>"

definition driverLabel :: "host \<Rightarrow> backup_page \<Rightarrow> jsstring" where
  "driverLabel h p = (case bp_status p of None \<Rightarrow> [8212] | Some s \<Rightarrow> toUpperCase h (bk_driver s))"

definition available :: "backup_page \<Rightarrow> bool" where
  "available p = (case bp_status p of None \<Rightarrow> False | Some s \<Rightarrow> bk_available s)"

definition canExport :: "backup_page \<Rightarrow> bool" where
  "canExport p \<longleftrightarrow> available p \<and> bp_exportPassword p \<noteq> [] \<and> 12 \<le> length (bp_exportPassphrase p) \<and>
     bp_exportPassphrase p = bp_exportConfirmation p \<and> bp_busy p = Idle"

definition canImport :: "backup_page \<Rightarrow> bool" where
  "canImport p \<longleftrightarrow> available p \<and> bp_file p \<noteq> None \<and> bp_importPassword p \<noteq> [] \<and>
     12 \<le> length (bp_importPassphrase p) \<and> bp_restoreConfirmation p = js ''RESTORE'' \<and> bp_busy p = Idle"

section \<open>Handlers\<close>

definition backup_load :: "host \<Rightarrow> failure + BackupStatus \<Rightarrow> backup_page \<Rightarrow> backup_page" where
  "backup_load h answer p = (case answer of
     Inl e \<Rightarrow> p\<lparr>bp_error := failure_message h e\<rparr> | Inr s \<Rightarrow> p\<lparr>bp_status := Some s\<rparr>)"

definition export_body :: "backup_page \<Rightarrow> json" where
  "export_body p = JObj [(js ''current_password'', JStr (bp_exportPassword p)), (js ''passphrase'', JStr (bp_exportPassphrase p))]"

definition export_call :: "backup_page \<Rightarrow> json call" where
  "export_call p = a_call (js ''POST'') (js ''/api/v1/admin/backups/export'') (Some (export_body p))"

text \<open>\<open>download\<close> is what \<open>apiDownload\<close> returns for the call; the calls that were sent are part of the result.\<close>

definition exportBackup :: "host \<Rightarrow> AppLocale \<Rightarrow> (json call \<Rightarrow> failure + (blob \<times> jsstring)) \<Rightarrow> backup_page \<Rightarrow> backup_page \<times> json call list" where
  "exportBackup h l download p =
     (if \<not> canExport p then (p, [])
      else (let p1 = p\<lparr>bp_busy := Exporting, bp_message := [], bp_error := []\<rparr> in
        (case download (export_call p) of
           Inl e \<Rightarrow> p1\<lparr>bp_error := failure_message h e, bp_busy := Idle\<rparr>
         | Inr (data, filename) \<Rightarrow> p1\<lparr>bp_saved := bp_saved p @ [(data, filename)],
             bp_message := text_in l ([21152, 23494, 22791, 20221, 24050, 23548, 20986, 20026, 32] @ filename @ [65292, 35831, 21333, 29420, 20445, 23384, 22791, 20221, 21475, 20196, 12290])
               (js ''Encrypted backup exported as '' @ filename @ js ''. Keep its passphrase separately.''),
             bp_exportPassword := [], bp_exportPassphrase := [], bp_exportConfirmation := [], bp_busy := Idle\<rparr>,
         [export_call p])))"

definition selectFile :: "blob list \<Rightarrow> backup_page \<Rightarrow> backup_page" where
  "selectFile files p = p\<lparr>bp_file := (case files of f # _ \<Rightarrow> Some f | [] \<Rightarrow> None)\<rparr>"

definition dropFile :: "blob list \<Rightarrow> backup_page \<Rightarrow> backup_page" where
  "dropFile files p = p\<lparr>bp_dragging := False, bp_file := (case files of f # _ \<Rightarrow> Some f | [] \<Rightarrow> None)\<rparr>"

text \<open>
  One attempt of \<open>waitForReload\<close> is a failed \<open>fetch\<close> or the flag \<open>response.ok\<close>. The loop returns the
  number of the first successful attempt and the timeouts that it waited for.
\<close>

fun ready_attempt :: "nat \<Rightarrow> nat \<Rightarrow> (nat \<Rightarrow> failure + bool) \<Rightarrow> nat option \<times> nat list" where
  "ready_attempt 0 attempt readyz = (None, [])"
| "ready_attempt (Suc left) attempt readyz =
     (if readyz attempt = Inr True then (Some attempt, [])
      else (let (found, waits) = ready_attempt left (Suc attempt) readyz in (found, 500 # waits)))"

definition waitForReload :: "AppLocale \<Rightarrow> (nat \<Rightarrow> failure + bool) \<Rightarrow> backup_page \<Rightarrow> backup_page" where
  "waitForReload l readyz p = (case fst (ready_attempt 120 0 readyz) of
     Some k \<Rightarrow> p\<lparr>bp_assigned := Some (js ''/login?restored=1'')\<rparr>
   | None \<Rightarrow> p\<lparr>bp_error := text_in l [72, 111, 115, 116, 112, 105, 110, 32, 22312, 32, 54, 48, 32, 31186, 20869, 26410, 24674, 22797, 65292, 35831, 26816, 26597, 26381, 21153, 26085, 24535, 21644, 24674, 22797, 21069, 20445, 30041, 25991, 20214, 12290]
       (js ''Hostpin has not returned after 60 seconds. Inspect the server log and retained pre-restore files.''),
       bp_restarting := False\<rparr>)"

text \<open>The milliseconds that the timeouts of \<open>waitForReload\<close> add up to; the requests take their own time.\<close>

definition reload_timeouts :: "(nat \<Rightarrow> failure + bool) \<Rightarrow> nat" where
  "reload_timeouts readyz = sum_list (1200 # snd (ready_attempt 120 0 readyz))"

definition import_form :: "backup_page \<Rightarrow> blob \<Rightarrow> form" where
  "import_form p f = [(js ''current_password'', FormText (bp_importPassword p)),
     (js ''passphrase'', FormText (bp_importPassphrase p)), (js ''confirmation'', FormText (bp_restoreConfirmation p)),
     (js ''backup'', FormFile f)]"

definition import_call :: "backup_page \<Rightarrow> blob \<Rightarrow> form call" where
  "import_call p f = a_call (js ''POST'') (js ''/api/v1/admin/backups/import'') (Some (import_form p f))"

text \<open>The page from the click until the answer, and from an accepted archive until the end of the wait.\<close>

definition import_started :: "backup_page \<Rightarrow> backup_page" where
  "import_started p = p\<lparr>bp_busy := Importing, bp_message := [], bp_error := []\<rparr>"

definition import_accepted :: "AppLocale \<Rightarrow> RestoreAccepted \<Rightarrow> backup_page \<Rightarrow> backup_page" where
  "import_accepted l result p = p\<lparr>bp_restarting := ra_accepted result,
     bp_message := text_in l [22791, 20221, 39564, 35777, 36890, 36807, 12290, 72, 111, 115, 116, 112, 105, 110, 32, 27491, 22312, 26367, 25442, 25968, 25454, 24182, 37325, 26032, 21152, 36733, 65292, 25152, 26377, 27983, 35272, 22120, 20250, 35805, 23558, 36864, 20986, 30331, 24405, 12290]
       (js ''Backup validated. Hostpin is replacing data and reloading; all browser sessions will be signed out.''),
     bp_importPassword := [], bp_importPassphrase := [], bp_restoreConfirmation := []\<rparr>"

definition importBackup :: "host \<Rightarrow> AppLocale \<Rightarrow> (form call \<Rightarrow> failure + RestoreAccepted) \<Rightarrow>
    (nat \<Rightarrow> failure + bool) \<Rightarrow> backup_page \<Rightarrow> backup_page \<times> form call list" where
  "importBackup h l post readyz p = (case (canImport p, bp_file p) of
     (True, Some f) \<Rightarrow>
       (let c = import_call p f in
        (case post c of
           Inl e \<Rightarrow> (import_started p)\<lparr>bp_error := failure_message h e, bp_restarting := False, bp_busy := Idle\<rparr>
         | Inr result \<Rightarrow> (waitForReload l readyz (import_accepted l result (import_started p)))\<lparr>bp_busy := Idle\<rparr>,
         [c]))
   | _ \<Rightarrow> (p, []))"

section \<open>Properties\<close>

lemma ready_attempt_fst:
  "fst (ready_attempt (Suc n) a readyz) = (if readyz a = Inr True then Some a else fst (ready_attempt n (Suc a) readyz))"
  by (simp split: prod.split)

lemma ready_attempt_bounds: "fst (ready_attempt n a readyz) = Some k \<Longrightarrow> a \<le> k \<and> k < a + n \<and> readyz k = Inr True"
proof (induction n arbitrary: a)
  case (Suc n)
  show ?case using Suc.prems Suc.IH [of "Suc a"] by (auto simp: ready_attempt_fst simp del: ready_attempt.simps split: if_splits)
qed simp

lemma ready_attempt_waits:
  "sum_list (snd (ready_attempt n a readyz)) = 500 * (case fst (ready_attempt n a readyz) of Some k \<Rightarrow> k - a | None \<Rightarrow> n)"
proof (induction n arbitrary: a)
  case (Suc n)
  obtain found waits where r: "ready_attempt n (Suc a) readyz = (found, waits)" by fastforce
  have "sum_list waits = 500 * (case found of Some k \<Rightarrow> k - Suc a | None \<Rightarrow> n)" using Suc.IH [of "Suc a"] r by simp
  moreover have "found = Some k \<Longrightarrow> Suc a \<le> k" for k using ready_attempt_bounds [of n "Suc a" readyz k] r by simp
  ultimately show ?case using r by (cases found) (fastforce simp: diff_Suc split: nat.split)+
qed simp

lemma ready_attempt_complete:
  "readyz k = Inr True \<Longrightarrow> a \<le> k \<Longrightarrow> k < a + n \<Longrightarrow> \<exists>j \<le> k. fst (ready_attempt n a readyz) = Some j"
proof (induction n arbitrary: a)
  case (Suc n)
  show ?case
  proof (cases "readyz a = Inr True")
    case False
    then have "Suc a \<le> k" using Suc.prems(1,2) by (cases "k = a") auto
    then show ?thesis using Suc.IH [of "Suc a"] Suc.prems(1,3) False by (auto split: prod.splits)
  qed (use Suc.prems(2) in auto)
qed simp

text \<open>
  C36: When the restored server becomes ready within the 120 attempts, the page goes to the login
  page, and the timeouts it has waited for add up to at most 1200 ms plus 500 ms per failed
  attempt (the requests take their own time).
\<close>

theorem reload_found:
  assumes "readyz k = Inr True" and "k < 120"
  shows "bp_assigned (waitForReload l readyz p) = Some (js ''/login?restored=1'') \<and> reload_timeouts readyz \<le> 1200 + 500 * k"
proof -
  obtain j where "j \<le> k" "fst (ready_attempt 120 0 readyz) = Some j"
    using ready_attempt_complete [of readyz k 0 120] assms by auto
  then show ?thesis using ready_attempt_waits [of 120 0 readyz] by (simp add: waitForReload_def reload_timeouts_def)
qed

theorem reload_found_witness:
  "bp_assigned (waitForReload en_US (\<lambda>n. if n = 7 then Inr True else Inl (EngineError (js ''TypeError''))) backup_init) =
     Some (js ''/login?restored=1'')"
  using reload_found [of "\<lambda>n. if n = 7 then Inr True else Inl (EngineError (js ''TypeError''))" 7 en_US backup_init] by simp

theorem reload_gives_up:
  assumes "\<And>k. k < 120 \<Longrightarrow> readyz k \<noteq> Inr True"
  shows "bp_assigned (waitForReload l readyz p) = bp_assigned p \<and> \<not> bp_restarting (waitForReload l readyz p) \<and>
    bp_error (waitForReload l readyz p) \<noteq> [] \<and> reload_timeouts readyz = 61200"
proof -
  have "fst (ready_attempt 120 0 readyz) = None"
    using assms ready_attempt_bounds [of 120 0 readyz] by (cases "fst (ready_attempt 120 0 readyz)") auto
  then show ?thesis using ready_attempt_waits [of 120 0 readyz] by (simp add: waitForReload_def reload_timeouts_def text_in_def)
qed

text \<open>
  A restore is requested once, only with file, password, a passphrase of twelve characters and the
  typed confirmation; afterwards the page is not busy, and an accepted restore has cleared the secrets.
\<close>

theorem import_guarded:
  assumes "importBackup h l post readyz p = (p', calls)"
  shows "(if canImport p then (\<exists>f. bp_file p = Some f \<and> calls = [import_call p f]) \<and> bp_busy p' = Idle
    else p' = p \<and> calls = [])"
proof (cases "canImport p")
  case True
  then obtain f where "bp_file p = Some f" by (auto simp: canImport_def)
  with True assms show ?thesis by (auto simp: importBackup_def Let_def split: sum.splits)
next
  case False
  with assms show ?thesis by (simp add: importBackup_def)
qed

theorem import_clears_secrets:
  assumes "canImport p" and "bp_file p = Some f" and "post (import_call p f) = Inr result"
  shows "bp_importPassword (fst (importBackup h l post readyz p)) = [] \<and>
    bp_importPassphrase (fst (importBackup h l post readyz p)) = [] \<and>
    bp_restoreConfirmation (fst (importBackup h l post readyz p)) = []"
  using assms by (simp add: importBackup_def import_accepted_def Let_def waitForReload_def split: option.split)

theorem export_keeps_secrets_on_failure:
  assumes "canExport p" and "download (export_call p) = Inl e"
  shows "bp_exportPassphrase (fst (exportBackup h l download p)) = bp_exportPassphrase p \<and>
    bp_saved (fst (exportBackup h l download p)) = bp_saved p \<and> bp_busy (fst (exportBackup h l download p)) = Idle"
  using assms by (simp add: exportBackup_def Let_def)

end
