(* ===== verification/AdminProbes.thy ===== *)
theory AdminProbes
  imports Components Api
begin

text \<open>
  \<open>web/src/components/admin/AdminProbes.vue\<close>: the tables of service probes and carrier measurements and
  their two dialogs. Every handler is split at its request. A call of the admin API is its method,
  its path and the record that becomes its JSON body; \<open>clone\<close> (\<open>web/src/clone.ts\<close>) is the identity on
  values. A load that fails and a removal that fails reject outside of any \<open>try\<close> and change nothing.
\<close>

section \<open>Calls\<close>

text \<open>A record with identifier 0 is created, every other one is replaced under its identifier.\<close>

definition save_call :: "jsstring \<Rightarrow> number \<Rightarrow> 'b \<Rightarrow> 'b call" where
  "save_call base i v = \<lparr>call_method = (if truthy_num i then js ''PUT'' else js ''POST''),
     call_path = (if truthy_num i then base @ js ''/'' @ num_string i else base), call_body = Some v\<rparr>"

definition delete_call :: "jsstring \<Rightarrow> number \<Rightarrow> 'b call" where
  "delete_call base i = \<lparr>call_method = js ''DELETE'', call_path = base @ js ''/'' @ num_string i, call_body = None\<rparr>"

section \<open>State\<close>

record probe_page =
  pb_tasks :: "ProbeTask list"
  pb_carrierTasks :: "ProbeTask list"
  pb_nodes :: "AdminNode list"
  pb_editing :: "ProbeTask option"
  pb_carrierEditing :: "ProbeTask option"
  pb_error :: jsstring
  pb_carrierError :: jsstring
  pb_busy :: bool

definition probe_init :: probe_page where
  "probe_init = \<lparr>pb_tasks = [], pb_carrierTasks = [], pb_nodes = [], pb_editing = None, pb_carrierEditing = None,
     pb_error = [], pb_carrierError = [], pb_busy = False\<rparr>"

definition blank_probe :: ProbeTask where
  "blank_probe = \<lparr>pt_id = Fin 0, pt_name = [], pt_type = Tcp, pt_target = [], pt_interval_seconds = Fin 60,
     pt_timeout_seconds = Fin 5, pt_expected_status = Some (Fin 200), pt_expected_value = Some [], pt_node_ids = Some [],
     pt_purpose = Some Custom, pt_run_on = Some RoleMonitor, pt_target_node_id = None, pt_public = False, pt_samples = Fin 1,
     pt_enabled = True, pt_created_at = None, pt_updated_at = None\<rparr>"

section \<open>Carriers\<close>

fun purpose_string :: "probe_purpose \<Rightarrow> jsstring" where
  "purpose_string Custom = js ''custom''"
| "purpose_string LatencyPurpose = js ''latency''"
| "purpose_string CarrierTelecom = js ''carrier.telecom''"
| "purpose_string CarrierUnicom = js ''carrier.unicom''"
| "purpose_string CarrierMobile = js ''carrier.mobile''"

definition probe_carrierKey :: "ProbeTask \<Rightarrow> jsstring" where
  "probe_carrierKey task = (case pt_purpose task of None \<Rightarrow> []
     | Some s \<Rightarrow> (case split (js ''.'') (purpose_string s) of _ # k # _ \<Rightarrow> k | _ \<Rightarrow> []))"

definition probe_carrierName :: "AppLocale \<Rightarrow> ProbeTask \<Rightarrow> jsstring" where
  "probe_carrierName l task =
     (if pt_purpose task = Some CarrierTelecom then text_in l [20013, 22269, 30005, 20449] (js ''China Telecom'')
      else if pt_purpose task = Some CarrierUnicom then text_in l [20013, 22269, 32852, 36890] (js ''China Unicom'')
      else if pt_purpose task = Some CarrierMobile then text_in l [20013, 22269, 31227, 21160] (js ''China Mobile'')
      else pt_name task)"

section \<open>Handlers\<close>

definition edit_probe :: "ProbeTask \<Rightarrow> probe_page \<Rightarrow> probe_page" where
  "edit_probe task p = p\<lparr>pb_editing := Some task\<rparr>"

definition editCarrier :: "ProbeTask \<Rightarrow> probe_page \<Rightarrow> probe_page" where
  "editCarrier task p = p\<lparr>pb_carrierEditing := Some task, pb_carrierError := []\<rparr>"

definition probes_loaded :: "failure + ProbeTask list \<times> ProbeTask list \<times> AdminNode list \<Rightarrow> probe_page \<Rightarrow> probe_page" where
  "probes_loaded answer p = (case answer of Inl e \<Rightarrow> p
     | Inr (tasks, carriers, nodes) \<Rightarrow> p\<lparr>pb_tasks := tasks, pb_carrierTasks := carriers, pb_nodes := nodes\<rparr>)"

definition probe_path :: jsstring where
  "probe_path = js ''/api/v1/admin/probes''"

definition save_probe :: "probe_page \<Rightarrow> probe_page \<times> ProbeTask call option" where
  "save_probe p = (case pb_editing p of None \<Rightarrow> (p, None)
     | Some t \<Rightarrow> (p\<lparr>pb_error := []\<rparr>, Some (save_call probe_path (pt_id t) t)))"

definition store_probe :: "ProbeTask \<Rightarrow> ProbeTask list \<Rightarrow> ProbeTask list" where
  "store_probe saved = replace_or_push (\<lambda>task. strict_equal (pt_id task) (pt_id saved)) saved"

definition probe_saved :: "host \<Rightarrow> failure + ProbeTask \<Rightarrow> probe_page \<Rightarrow> probe_page" where
  "probe_saved h answer p = (case answer of
     Inl e \<Rightarrow> p\<lparr>pb_error := failure_message h e\<rparr>
   | Inr saved \<Rightarrow> p\<lparr>pb_tasks := store_probe saved (pb_tasks p), pb_editing := None\<rparr>)"

text \<open>A lone surrogate makes \<open>encodeURIComponent\<close> throw inside the \<open>try\<close>.\<close>

definition saveCarrier :: "host \<Rightarrow> probe_page \<Rightarrow> probe_page \<times> ProbeTask call option" where
  "saveCarrier h p = (case pb_carrierEditing p of None \<Rightarrow> (p, None)
     | Some t \<Rightarrow> (case encodeURIComponent (probe_carrierKey t) of
         None \<Rightarrow> (p\<lparr>pb_carrierError := failure_message h (EngineError (js ''URIError'')), pb_busy := False\<rparr>, None)
       | Some k \<Rightarrow> (p\<lparr>pb_carrierError := [], pb_busy := True\<rparr>,
           Some \<lparr>call_method = js ''PUT'', call_path = js ''/api/v1/admin/carrier-probes/'' @ k, call_body = Some t\<rparr>)))"

definition store_carrier :: "ProbeTask \<Rightarrow> ProbeTask list \<Rightarrow> ProbeTask list" where
  "store_carrier saved = update_first (\<lambda>task. strict_equal (pt_id task) (pt_id saved)) (\<lambda>_. saved)"

definition carrier_saved :: "host \<Rightarrow> failure + ProbeTask \<Rightarrow> probe_page \<Rightarrow> probe_page" where
  "carrier_saved h answer p = (case answer of
     Inl e \<Rightarrow> p\<lparr>pb_carrierError := failure_message h e, pb_busy := False\<rparr>
   | Inr saved \<Rightarrow> p\<lparr>pb_carrierTasks := store_carrier saved (pb_carrierTasks p), pb_carrierEditing := None, pb_busy := False\<rparr>)"

text \<open>\<open>agreed\<close> is the answer of \<open>confirm\<close>.\<close>

definition remove_probe :: "bool \<Rightarrow> ProbeTask \<Rightarrow> ProbeTask call option" where
  "remove_probe agreed task = (if agreed then Some (delete_call probe_path (pt_id task)) else None)"

definition drop_probe :: "number \<Rightarrow> ProbeTask list \<Rightarrow> ProbeTask list" where
  "drop_probe i = filter (\<lambda>item. \<not> strict_equal (pt_id item) i)"

definition probe_removed :: "ProbeTask \<Rightarrow> failure + unit \<Rightarrow> probe_page \<Rightarrow> probe_page" where
  "probe_removed task answer p = (case answer of Inl e \<Rightarrow> p
     | Inr _ \<Rightarrow> p\<lparr>pb_tasks := drop_probe (pt_id task) (pb_tasks p)\<rparr>)"

section \<open>The page as a state machine\<close>

text \<open>The inputs of a dialog change the record that it edits; \<open>None\<close> closes the dialog.\<close>

datatype probe_event = PLoaded "failure + ProbeTask list \<times> ProbeTask list \<times> AdminNode list"
  | PNew | PEdit ProbeTask | PInput "ProbeTask option" | PSave | PSaved "failure + ProbeTask"
  | PEditCarrier ProbeTask | PInputCarrier "ProbeTask option" | PSaveCarrier | PCarrierSaved "failure + ProbeTask"
  | PRemoved ProbeTask "failure + unit"

fun probe_step :: "host \<Rightarrow> probe_event \<Rightarrow> probe_page \<Rightarrow> probe_page" where
  "probe_step h (PLoaded a) p = probes_loaded a p"
| "probe_step h PNew p = p\<lparr>pb_editing := Some blank_probe\<rparr>"
| "probe_step h (PEdit t) p = edit_probe t p"
| "probe_step h (PInput t) p = p\<lparr>pb_editing := t\<rparr>"
| "probe_step h PSave p = fst (save_probe p)"
| "probe_step h (PSaved a) p = probe_saved h a p"
| "probe_step h (PEditCarrier t) p = editCarrier t p"
| "probe_step h (PInputCarrier t) p = p\<lparr>pb_carrierEditing := t\<rparr>"
| "probe_step h PSaveCarrier p = fst (saveCarrier h p)"
| "probe_step h (PCarrierSaved a) p = carrier_saved h a p"
| "probe_step h (PRemoved t a) p = probe_removed t a p"

section \<open>Rows\<close>

text \<open>Numbers in a JSON document are never NaN; on them \<open>===\<close> is equality.\<close>

abbreviation number_key :: "number \<Rightarrow> bool" where
  "number_key k \<equiv> k \<noteq> NaN"

lemma strict_equal_key: "number_key k \<Longrightarrow> strict_equal a k = (a = k)"
  by (auto simp: strict_equal_def)

interpretation probe_rows: keyed pt_id number_key store_probe drop_probe
  unfolding store_probe_def drop_probe_def by (rule keyed_replace_or_push) (rule strict_equal_key)

interpretation carrier_rows: keyed_rows pt_id number_key store_carrier drop_probe
  unfolding store_carrier_def drop_probe_def by (rule keyed_rows_update_first) (rule strict_equal_key)

text \<open>What the page relies on: the lists of the server have no identifier twice.\<close>

definition unique_rows :: "probe_page \<Rightarrow> bool" where
  "unique_rows p \<longleftrightarrow> distinct (map pt_id (pb_tasks p)) \<and> distinct (map pt_id (pb_carrierTasks p))"

fun sound_answer :: "probe_event \<Rightarrow> bool" where
  "sound_answer (PLoaded (Inr (ts, cs, ns))) \<longleftrightarrow> distinct (map pt_id ts) \<and> distinct (map pt_id cs)"
| "sound_answer (PSaved (Inr t)) \<longleftrightarrow> number_key (pt_id t)"
| "sound_answer (PCarrierSaved (Inr t)) \<longleftrightarrow> number_key (pt_id t)"
| "sound_answer (PRemoved t a) \<longleftrightarrow> number_key (pt_id t)"
| "sound_answer _ \<longleftrightarrow> True"

lemma carrier_distinct: "number_key (pt_id v) \<Longrightarrow> distinct (map pt_id xs) \<Longrightarrow> distinct (map pt_id (store_carrier v xs))"
proof (cases "pt_id v \<in> pt_id ` set xs")
  case False
  moreover assume k: "number_key (pt_id v)"
  ultimately have "List.find (\<lambda>task. strict_equal (pt_id task) (pt_id v)) xs = None"
    by (simp add: strict_equal_key find_key_None)
  moreover assume "distinct (map pt_id xs)"
  ultimately show ?thesis by (simp add: store_carrier_def update_first_none)
qed (simp add: carrier_rows.keys_save_known)

lemmas probe_handlers = probes_loaded_def edit_probe_def save_probe_def probe_saved_def editCarrier_def
  saveCarrier_def carrier_saved_def probe_removed_def

interpretation probe_store: store "probe_step h" sound_answer unique_rows for h
proof
  fix p e assume "unique_rows p" and "sound_answer e"
  then show "unique_rows (probe_step h e p)"
    by (cases e rule: sound_answer.cases)
      (auto simp: probe_handlers unique_rows_def probe_rows.distinct_save probe_rows.distinct_drop_key carrier_distinct
        split: option.split sum.split)
qed

text \<open>What the events do to the table of probes; every other event leaves it alone.\<close>

fun probe_action :: "probe_event \<Rightarrow> (number, ProbeTask) table_op option" where
  "probe_action (PLoaded (Inr (ts, cs, ns))) = Some (TLoad (lookup pt_id ts))"
| "probe_action (PSaved (Inr t)) = Some (TPut (pt_id t) t)"
| "probe_action (PRemoved t (Inr _)) = Some (TDelete (pt_id t))"
| "probe_action _ = None"

interpretation probe_table: refined_store "probe_step h" sound_answer unique_rows table_step probe_action
  "\<lambda>p. lookup pt_id (pb_tasks p)" for h
proof
  fix p e assume "sound_answer e"
  then show "lookup pt_id (pb_tasks (probe_step h e p)) =
      (case probe_action e of None \<Rightarrow> lookup pt_id (pb_tasks p) | Some a \<Rightarrow> table_step a (lookup pt_id (pb_tasks p)))"
    by (cases e rule: probe_action.cases)
      (auto simp: probe_handlers probe_rows.lookup_save probe_rows.lookup_drop simp del: table_step.simps(2,3)
        split: option.split sum.split)
qed

section \<open>Properties\<close>

theorem probe_rows_unique:
  assumes "list_all sound_answer es"
  shows "distinct (map pt_id (pb_tasks (fold (probe_step h) es probe_init))) \<and>
    distinct (map pt_id (pb_carrierTasks (fold (probe_step h) es probe_init)))"
  using probe_store.run_keeps [of probe_init es h] assms by (simp add: unique_rows_def probe_init_def)

theorem probe_rows_unique_witness:
  "\<forall>h. distinct (map pt_id (pb_tasks (fold (probe_step h) [PNew, PSave, PSaved (Inr (blank_probe\<lparr>pt_id := Fin 4\<rparr>)),
     PSaved (Inr (blank_probe\<lparr>pt_id := Fin 5\<rparr>)), PRemoved (blank_probe\<lparr>pt_id := Fin 4\<rparr>) (Inr ())] probe_init)))"
  using probe_rows_unique [of "[PNew, PSave, PSaved (Inr (blank_probe\<lparr>pt_id := Fin 4\<rparr>)),
     PSaved (Inr (blank_probe\<lparr>pt_id := Fin 5\<rparr>)), PRemoved (blank_probe\<lparr>pt_id := Fin 4\<rparr>) (Inr ())]"]
  by (simp del: fold.simps)

text \<open>
  C32: The list of probe tasks on the page implements a table from identifiers to tasks: whatever
  the order of saves, failures, deletions and dialogs, looking a task up in the list gives what
  the table gives after the same server-side changes.
\<close>

theorem probe_table_refines:
  assumes "list_all sound_answer es"
  shows "lookup pt_id (pb_tasks (fold (probe_step h) es probe_init)) = fold table_step (List.map_filter probe_action es) (\<lambda>_. None)"
  using probe_table.run_refines [of probe_init es h] assms by (simp add: unique_rows_def probe_init_def)

theorem probe_table_refines_witness:
  "\<forall>h. lookup pt_id (pb_tasks (fold (probe_step h) [PNew, PSave, PSaved (Inr (blank_probe\<lparr>pt_id := Fin 4\<rparr>)),
     PSaved (Inl (EngineError [])), PRemoved blank_probe (Inr ())] probe_init)) = [Fin 4 \<mapsto> blank_probe\<lparr>pt_id := Fin 4\<rparr>]"
  using probe_table_refines [of "[PNew, PSave, PSaved (Inr (blank_probe\<lparr>pt_id := Fin 4\<rparr>)),
     PSaved (Inl (EngineError [])), PRemoved blank_probe (Inr ())]"]
  by (auto simp: blank_probe_def simp del: fold.simps(2)) (auto simp: fun_eq_iff)

text \<open>Every carrier measurement is saved under the name of its carrier.\<close>

lemma probe_carrierKey_eval:
  "probe_carrierKey task = (case pt_purpose task of Some CarrierTelecom \<Rightarrow> js ''telecom'' | Some CarrierUnicom \<Rightarrow> js ''unicom''
     | Some CarrierMobile \<Rightarrow> js ''mobile'' | _ \<Rightarrow> [])"
  by (cases "pt_purpose task" rule: option.exhaust)
    (auto simp: probe_carrierKey_def split_single split: probe_purpose.split)

text \<open>
  A dialog that was opened while a save was in flight is closed by the answer of that save, and what
  was typed into it is lost.
\<close>

theorem save_closes_other_dialog:
  "pb_editing (fold (probe_step h) [PEdit a, PSave, PInput None, PEdit b, PSaved (Inr a)] p) = None"
  by (simp add: probe_handlers)

end
