(* ===== verification/AdminRules.thy ===== *)
theory AdminRules
  imports AdminProbes
begin

text \<open>
  \<open>web/src/components/admin/AdminRules.vue\<close>: alert rules, their scope and the recent alert events. The
  groups of a scope are edited as one comma-separated line.
\<close>

section \<open>State\<close>

record rule_page =
  ru_rules :: "AlertRule list"
  ru_events :: "AlertEvent list"
  ru_nodes :: "AdminNode list"
  ru_editing :: "AlertRule option"
  ru_groupScope :: jsstring
  ru_error :: jsstring

definition rule_init :: rule_page where
  "rule_init = \<lparr>ru_rules = [], ru_events = [], ru_nodes = [], ru_editing = None, ru_groupScope = [], ru_error = []\<rparr>"

definition metrics :: "jsstring list" where
  "metrics = [js ''online'', js ''cpu'', js ''memory'', js ''swap'', js ''load1'', js ''load5'', js ''load15'', js ''disk'',
     js ''temperature'', js ''gpu'', js ''traffic_sum'', js ''traffic_up'', js ''traffic_down'', js ''probe_success'',
     js ''probe_latency'', js ''probe_loss'']"

definition metricNames :: "(jsstring \<times> jsstring) list" where
  "metricNames = [(js ''online'', [22312, 32447, 29366, 24577]), (js ''cpu'', js ''CPU''), (js ''memory'', [20869, 23384]), (js ''swap'', js ''Swap''),
     (js ''load1'', [49, 32, 20998, 38047, 36127, 36733]), (js ''load5'', [53, 32, 20998, 38047, 36127, 36733]), (js ''load15'', [49, 53, 32, 20998, 38047, 36127, 36733]), (js ''disk'', [30913, 30424]),
     (js ''temperature'', [28201, 24230]), (js ''gpu'', js ''GPU''), (js ''traffic_sum'', [24635, 27969, 37327]), (js ''traffic_up'', [19978, 20256, 27969, 37327]),
     (js ''traffic_down'', [19979, 36733, 27969, 37327]), (js ''probe_success'', [25506, 27979, 25104, 21151, 29575]), (js ''probe_latency'', [25506, 27979, 24310, 36831]),
     (js ''probe_loss'', [25506, 27979, 20002, 21253])]"

text \<open>Metrics are names of the list above, so the members inherited by \<open>metricNames\<close> play no part.\<close>

definition metricLabel :: "AppLocale \<Rightarrow> jsstring \<Rightarrow> jsstring" where
  "metricLabel l metric = text_in l (case map_of metricNames metric of Some n \<Rightarrow> n | None \<Rightarrow> metric) metric"

definition blank_rule :: AlertRule where
  "blank_rule = \<lparr>ar_id = Fin 0, ar_name = [], ar_metric = js ''cpu'', ar_operator = js ''>'', ar_threshold = Fin 90,
     ar_recovery_threshold = Fin 80, ar_duration_seconds = Fin 300, ar_cooldown_seconds = Fin 1800, ar_severity = Warning,
     ar_scope = \<lparr>sc_groups = Some [], sc_node_ids = Some [], sc_excluded_node_ids = Some []\<rparr>, ar_enabled = True,
     ar_created_at = None, ar_updated_at = None\<rparr>"

section \<open>Handlers\<close>

definition rules_loaded :: "failure + AlertRule list \<times> AlertEvent list \<times> AdminNode list \<Rightarrow> rule_page \<Rightarrow> rule_page" where
  "rules_loaded answer p = (case answer of Inl e \<Rightarrow> p
     | Inr (rules, events, nodes) \<Rightarrow> p\<lparr>ru_rules := rules, ru_events := events, ru_nodes := nodes\<rparr>)"

text \<open>\<open>x ??= []\<close> on the three lists of a scope.\<close>

definition or_empty :: "'a list option \<Rightarrow> 'a list option" where
  "or_empty x = Some (case x of None \<Rightarrow> [] | Some xs \<Rightarrow> xs)"

definition full_scope :: "AlertScope \<Rightarrow> AlertScope" where
  "full_scope s = s\<lparr>sc_groups := or_empty (sc_groups s), sc_node_ids := or_empty (sc_node_ids s),
     sc_excluded_node_ids := or_empty (sc_excluded_node_ids s)\<rparr>"

definition edit_rule :: "AlertRule \<Rightarrow> rule_page \<Rightarrow> rule_page" where
  "edit_rule rule p = p\<lparr>ru_editing := Some (rule\<lparr>ar_scope := full_scope (ar_scope rule)\<rparr>),
     ru_groupScope := (case sc_groups (ar_scope rule) of None \<Rightarrow> [] | Some gs \<Rightarrow> csv_field gs)\<rparr>"

definition create_rule :: "rule_page \<Rightarrow> rule_page" where
  "create_rule p = p\<lparr>ru_editing := Some blank_rule, ru_groupScope := []\<rparr>"

definition some_entries :: "'a list option \<Rightarrow> bool" where
  "some_entries x = (case x of None \<Rightarrow> False | Some xs \<Rightarrow> xs \<noteq> [])"

definition scopeLabel :: "AppLocale \<Rightarrow> AlertRule \<Rightarrow> jsstring" where
  "scopeLabel l rule = (let s = ar_scope rule in
     if some_entries (sc_groups s) \<or> some_entries (sc_node_ids s) \<or> some_entries (sc_excluded_node_ids s)
     then text_in l [24050, 31579, 36873] (js ''Filtered'') else text_in l [20840, 23616] (js ''Global''))"

definition rule_path :: jsstring where
  "rule_path = js ''/api/v1/admin/alerts/rules''"

definition save_rule :: "rule_page \<Rightarrow> rule_page \<times> AlertRule call option" where
  "save_rule p = (case ru_editing p of None \<Rightarrow> (p, None)
     | Some r \<Rightarrow> (let r' = r\<lparr>ar_scope := (ar_scope r)\<lparr>sc_groups := Some (split_field (js '','') (ru_groupScope p))\<rparr>\<rparr> in
         (p\<lparr>ru_error := [], ru_editing := Some r'\<rparr>, Some (save_call rule_path (ar_id r') r'))))"

definition store_rule :: "AlertRule \<Rightarrow> AlertRule list \<Rightarrow> AlertRule list" where
  "store_rule saved = replace_or_push (\<lambda>rule. strict_equal (ar_id rule) (ar_id saved)) saved"

definition rule_saved :: "host \<Rightarrow> failure + AlertRule \<Rightarrow> rule_page \<Rightarrow> rule_page" where
  "rule_saved h answer p = (case answer of
     Inl e \<Rightarrow> p\<lparr>ru_error := failure_message h e\<rparr>
   | Inr saved \<Rightarrow> p\<lparr>ru_rules := store_rule saved (ru_rules p), ru_editing := None\<rparr>)"

definition remove_rule :: "bool \<Rightarrow> AlertRule \<Rightarrow> AlertRule call option" where
  "remove_rule agreed rule = (if agreed then Some (delete_call rule_path (ar_id rule)) else None)"

definition drop_rule :: "number \<Rightarrow> AlertRule list \<Rightarrow> AlertRule list" where
  "drop_rule i = filter (\<lambda>item. \<not> strict_equal (ar_id item) i)"

definition rule_removed :: "AlertRule \<Rightarrow> failure + unit \<Rightarrow> rule_page \<Rightarrow> rule_page" where
  "rule_removed rule answer p = (case answer of Inl e \<Rightarrow> p
     | Inr _ \<Rightarrow> p\<lparr>ru_rules := drop_rule (ar_id rule) (ru_rules p)\<rparr>)"

section \<open>Properties\<close>

interpretation rule_rows: keyed ar_id number_key store_rule drop_rule
  unfolding store_rule_def drop_rule_def by (rule keyed_replace_or_push) (rule strict_equal_key)

text \<open>Every metric that can be chosen has a name of its own.\<close>

theorem metric_names_complete: "map fst metricNames = metrics \<and> distinct metrics \<and> distinct (map snd metricNames)"
  by (simp add: metricNames_def metrics_def)

text \<open>
  Opening a rule and saving it unchanged sends it back under its identifier, only with the missing
  lists of the scope filled in, as long as no group needs the comma.
\<close>

theorem rule_edit_roundtrip:
  assumes "list_all clean_entry (the (or_empty (sc_groups (ar_scope rule))))"
  shows "snd (save_rule (edit_rule rule p)) =
    Some (save_call rule_path (ar_id rule) (rule\<lparr>ar_scope := full_scope (ar_scope rule)\<rparr>))"
proof -
  have g: "split_field (js '','') (case sc_groups (ar_scope rule) of None \<Rightarrow> [] | Some gs \<Rightarrow> csv_field gs) =
      the (or_empty (sc_groups (ar_scope rule)))"
    using assms csv_roundtrip [of "the (or_empty (sc_groups (ar_scope rule)))"]
    by (auto simp: list_all_iff or_empty_def csv_field_def split: option.splits)
  have "(full_scope s)\<lparr>sc_groups := Some (the (or_empty (sc_groups s)))\<rparr> = full_scope s" for s
    by (cases s) (simp add: full_scope_def or_empty_def)
  then show ?thesis by (simp add: save_rule_def edit_rule_def Let_def g del: js_simps)
qed

theorem rule_edit_roundtrip_witness:
  "\<forall>p. snd (save_rule (edit_rule (blank_rule\<lparr>ar_id := Fin 3, ar_scope := \<lparr>sc_groups = Some [js ''edge'', js ''core''],
       sc_node_ids = None, sc_excluded_node_ids = None\<rparr>\<rparr>) p)) =
     Some \<lparr>call_method = js ''PUT'', call_path = rule_path @ js ''/'' @ num_string (Fin 3),
       call_body = Some (blank_rule\<lparr>ar_id := Fin 3, ar_scope := \<lparr>sc_groups = Some [js ''edge'', js ''core''],
       sc_node_ids = Some [], sc_excluded_node_ids = Some []\<rparr>\<rparr>)\<rparr>"
  using rule_edit_roundtrip [of "blank_rule\<lparr>ar_id := Fin 3, ar_scope := \<lparr>sc_groups = Some [js ''edge'', js ''core''],
       sc_node_ids = None, sc_excluded_node_ids = None\<rparr>\<rparr>"]
  by (simp add: clean_entry_def trim_def is_white_def white_units_def save_call_def truthy_num_def full_scope_def
    or_empty_def blank_rule_def del: num_string.simps)

text \<open>A group whose name has a comma in it becomes two groups when the rule is opened and saved.\<close>

theorem comma_group_splits:
  "ar_scope rule = \<lparr>sc_groups = Some [js ''a,b''], sc_node_ids = Some [], sc_excluded_node_ids = Some []\<rparr> \<Longrightarrow>
   \<exists>r. call_body (the (snd (save_rule (edit_rule rule p)))) = Some r \<and> sc_groups (ar_scope r) = Some [js ''a'', js ''b'']"
  by (simp add: save_rule_def edit_rule_def Let_def save_call_def csv_field_def split_field_def trimmed_parts_def
    split_single trim_def is_white_def white_units_def)

end
