(* ===== verification/AdminNodes.thy ===== *)
theory AdminNodes
  imports AdminProbes DateLaws
begin

text \<open>
  \<open>web/src/components/admin/AdminNodes.vue\<close>: the node table and the node dialog with quota, tags,
  expiry, traffic correction and the configuration of the agent. Handlers are split at their
  requests; saving a node is three requests, one after the other, and what each of them sends is
  read when it is sent.
\<close>

section \<open>State\<close>

record nodes_page =
  no_nodes :: "AdminNode list"
  no_editing :: "AdminNode option"
  no_agentConfig :: "AgentConfig option"
  no_tags :: jsstring
  no_expires :: jsstring
  no_includeNICs :: jsstring
  no_excludeNICs :: jsstring
  no_includeMounts :: jsstring
  no_trafficCorrection :: "TrafficCorrectionStatus option"
  no_correctionRX :: number
  no_correctionTX :: number
  no_correctionUnit :: TrafficCorrectionUnit
  no_correctionBusy :: bool
  no_correctionNotice :: jsstring
  no_trafficLimitGiB :: number
  no_busy :: bool
  no_error :: jsstring
  no_uninstallCopied :: bool

definition nodes_init :: nodes_page where
  "nodes_init = \<lparr>no_nodes = [], no_editing = None, no_agentConfig = None, no_tags = [], no_expires = [], no_includeNICs = [],
     no_excludeNICs = [], no_includeMounts = [], no_trafficCorrection = None, no_correctionRX = Fin 0,
     no_correctionTX = Fin 0, no_correctionUnit = GiB, no_correctionBusy = False, no_correctionNotice = [],
     no_trafficLimitGiB = Fin 0, no_busy = False, no_error = [], no_uninstallCopied = False\<rparr>"

definition uninstallCommand :: "jsstring \<Rightarrow> jsstring" where
  "uninstallCommand origin = js ''curl -fsSL '' @ origin @ js ''/uninstall.sh | sh''"

definition windowsUninstallCommand :: "jsstring \<Rightarrow> jsstring" where
  "windowsUninstallCommand origin = js ''irm '' @ origin @ js ''/uninstall.ps1 | iex''"

section \<open>Loading and opening\<close>

definition nodes_loaded :: "failure + AdminNode list \<Rightarrow> nodes_page \<Rightarrow> nodes_page" where
  "nodes_loaded answer p = (case answer of Inl e \<Rightarrow> p | Inr nodes \<Rightarrow> p\<lparr>no_nodes := nodes\<rparr>)"

definition node_path :: "jsstring \<Rightarrow> jsstring" where
  "node_path i = js ''/api/v1/admin/nodes/'' @ i"

definition edit_node :: "AdminNode \<Rightarrow> nodes_page \<Rightarrow> nodes_page \<times> jsstring list" where
  "edit_node node p = (p\<lparr>no_editing := Some node, no_tags := csv_field (pn_tags node),
       no_expires := (case pn_expires_at node of None \<Rightarrow> [] | Some s \<Rightarrow> slice 0 10 s),
       no_trafficLimitGiB := trafficLimitInGiB (Some (pn_traffic_limit node)),
       no_error := [], no_correctionNotice := [], no_agentConfig := None, no_trafficCorrection := None\<rparr>,
     [node_path (pn_id node) @ js ''/agent-config'', node_path (pn_id node) @ js ''/traffic-correction''])"

definition syncCorrectionInputs :: "nodes_page \<Rightarrow> nodes_page" where
  "syncCorrectionInputs p = (case no_trafficCorrection p of None \<Rightarrow> p
     | Some c \<Rightarrow> p\<lparr>no_correctionRX := trafficValueInUnit (tc_rx_bytes c) (no_correctionUnit p),
         no_correctionTX := trafficValueInUnit (tc_tx_bytes c) (no_correctionUnit p)\<rparr>)"

definition list_field :: "jsstring list option \<Rightarrow> jsstring" where
  "list_field xs = (case xs of None \<Rightarrow> [] | Some ys \<Rightarrow> csv_field ys)"

definition node_opened :: "host \<Rightarrow> failure + AgentConfig \<times> TrafficCorrectionStatus \<Rightarrow> nodes_page \<Rightarrow> nodes_page" where
  "node_opened h answer p = (case answer of
     Inl e \<Rightarrow> p\<lparr>no_error := failure_message h e\<rparr>
   | Inr (config, correction) \<Rightarrow> syncCorrectionInputs (p\<lparr>no_agentConfig := Some config, no_trafficCorrection := Some correction,
       no_includeNICs := list_field (ac_include_nics config), no_excludeNICs := list_field (ac_exclude_nics config),
       no_includeMounts := list_field (ac_include_mountpoints config),
       no_correctionUnit := suggestedTrafficUnit [tc_rx_bytes correction, tc_tx_bytes correction]\<rparr>))"

section \<open>Traffic correction\<close>

definition changeCorrectionUnit :: "TrafficCorrectionUnit \<Rightarrow> nodes_page \<Rightarrow> nodes_page" where
  "changeCorrectionUnit next p =
     (let rxBytes = trafficBytesFrom (no_correctionRX p) (no_correctionUnit p);
          txBytes = trafficBytesFrom (no_correctionTX p) (no_correctionUnit p) in
      p\<lparr>no_correctionUnit := next, no_correctionRX := trafficValueInUnit rxBytes next,
        no_correctionTX := trafficValueInUnit txBytes next\<rparr>)"

text \<open>The body of a correction is the pair \<open>rx_bytes\<close>, \<open>tx_bytes\<close>.\<close>

definition applyTrafficCorrection :: "AppLocale \<Rightarrow> nodes_page \<Rightarrow> nodes_page \<times> (number \<times> number) call option" where
  "applyTrafficCorrection l p = (case (no_editing p, no_trafficCorrection p) of
     (Some node, Some _) \<Rightarrow>
       (let rxBytes = trafficBytesFrom (no_correctionRX p) (no_correctionUnit p);
            txBytes = trafficBytesFrom (no_correctionTX p) (no_correctionUnit p) in
        if \<not> isFinite rxBytes \<or> \<not> isFinite txBytes
        then (p\<lparr>no_error := text_in l [35831, 36755, 20837, 26377, 25928, 19988, 19981, 36807, 22823, 30340, 38750, 36127, 27969, 37327, 20540, 12290]
          (js ''Enter valid non-negative traffic totals within the supported range.'')\<rparr>, None)
        else (p\<lparr>no_correctionBusy := True, no_error := [], no_correctionNotice := []\<rparr>,
          Some \<lparr>call_method = js ''PUT'', call_path = node_path (pn_id node) @ js ''/traffic-correction'',
            call_body = Some (rxBytes, txBytes)\<rparr>))
   | _ \<Rightarrow> (p, None))"

definition correction_answered :: "host \<Rightarrow> jsstring \<Rightarrow> failure + TrafficCorrectionStatus \<Rightarrow> nodes_page \<Rightarrow> nodes_page" where
  "correction_answered h notice answer p = (case answer of
     Inl e \<Rightarrow> p\<lparr>no_error := failure_message h e, no_correctionBusy := False\<rparr>
   | Inr c \<Rightarrow> (syncCorrectionInputs (p\<lparr>no_trafficCorrection := Some c\<rparr>))\<lparr>no_correctionNotice := notice, no_correctionBusy := False\<rparr>)"

definition correction_applied :: "host \<Rightarrow> AppLocale \<Rightarrow> failure + TrafficCorrectionStatus \<Rightarrow> nodes_page \<Rightarrow> nodes_page" where
  "correction_applied h l = correction_answered h (text_in l [26657, 27491, 24050, 24212, 29992, 65292, 26412, 21608, 26399, 21518, 32493, 27969, 37327, 20250, 32487, 32493, 32047, 21152, 12290]
     (js ''Correction applied; later traffic in this period will continue accumulating.''))"

definition clearTrafficCorrection :: "nodes_page \<Rightarrow> nodes_page \<times> (number \<times> number) call option" where
  "clearTrafficCorrection p = (case (no_editing p, no_trafficCorrection p) of
     (Some node, Some _) \<Rightarrow> (p\<lparr>no_correctionBusy := True, no_error := [], no_correctionNotice := []\<rparr>,
       Some \<lparr>call_method = js ''DELETE'', call_path = node_path (pn_id node) @ js ''/traffic-correction'', call_body = None\<rparr>)
   | _ \<Rightarrow> (p, None))"

definition correction_cleared :: "host \<Rightarrow> AppLocale \<Rightarrow> failure + TrafficCorrectionStatus \<Rightarrow> nodes_page \<Rightarrow> nodes_page" where
  "correction_cleared h l = correction_answered h (text_in l [24050, 24674, 22797, 20026, 32, 65, 103, 101, 110, 116, 32, 21407, 22987, 32479, 35745, 12290] (js ''Restored to the original Agent totals.''))"

section \<open>Saving\<close>

datatype node_body = NodeBody AdminNode | ConfigBody "AgentConfig option" | LatencyBody bool

text \<open>The expiry that is sent: \<open>Inl\<close> when \<open>toISOString\<close> throws.\<close>

definition sent_expiry :: "host \<Rightarrow> jsstring \<Rightarrow> failure + jsstring option" where
  "sent_expiry h expires = (if expires = [] then Inr None
     else (case toISOString (date_time h (expires @ js ''T00:00:00Z'')) of
       None \<Rightarrow> Inl (EngineError (js ''RangeError'')) | Some s \<Rightarrow> Inr (Some s)))"

text \<open>Up to the first request; the rest of the handler keeps the identifier and the latency flag.\<close>

definition save_node :: "host \<Rightarrow> AppLocale \<Rightarrow> nodes_page \<Rightarrow> nodes_page \<times> node_body call option" where
  "save_node h l p = (case (no_editing p, no_agentConfig p) of
     (Some node, Some config) \<Rightarrow>
       (let p1 = p\<lparr>no_busy := True, no_error := []\<rparr>; limit = trafficLimitBytesFromGiB (no_trafficLimitGiB p) in
        if \<not> isFinite limit
        then (p1\<lparr>no_error := text_in l [35831, 36755, 20837, 26377, 25928, 19988, 19981, 36807, 22823, 30340, 38750, 36127, 32, 71, 105, 66, 32, 27969, 37327, 39069, 24230, 12290]
          (js ''Enter a valid non-negative GiB quota within the supported range.''), no_busy := False\<rparr>, None)
        else (let n1 = node\<lparr>pn_traffic_limit := limit, pn_tags := split_field (js '','') (no_tags p)\<rparr> in
          case sent_expiry h (no_expires p) of
            Inl e \<Rightarrow> (p1\<lparr>no_editing := Some n1, no_error := failure_message h e, no_busy := False\<rparr>, None)
          | Inr expiry \<Rightarrow> (let n2 = n1\<lparr>pn_expires_at := expiry\<rparr>;
              c = config\<lparr>ac_include_nics := Some (split_field (js '','') (no_includeNICs p)),
                ac_exclude_nics := Some (split_field (js '','') (no_excludeNICs p)),
                ac_include_mountpoints := Some (split_field (js '','') (no_includeMounts p))\<rparr> in
              (p1\<lparr>no_editing := Some n2, no_agentConfig := Some c\<rparr>,
               Some \<lparr>call_method = js ''PUT'', call_path = node_path (pn_id n2), call_body = Some (NodeBody n2)\<rparr>))))
   | _ \<Rightarrow> (p, None))"

definition save_failed :: "host \<Rightarrow> failure \<Rightarrow> nodes_page \<Rightarrow> nodes_page" where
  "save_failed h e p = p\<lparr>no_error := failure_message h e, no_busy := False\<rparr>"

definition node_saved :: "host \<Rightarrow> jsstring \<Rightarrow> failure + unit \<Rightarrow> nodes_page \<Rightarrow> nodes_page \<times> node_body call option" where
  "node_saved h nodeID answer p = (case answer of Inl e \<Rightarrow> (save_failed h e p, None)
     | Inr _ \<Rightarrow> (p, Some \<lparr>call_method = js ''PUT'', call_path = node_path nodeID @ js ''/agent-config'',
         call_body = Some (ConfigBody (no_agentConfig p))\<rparr>))"

definition config_saved :: "host \<Rightarrow> jsstring \<Rightarrow> bool \<Rightarrow> failure + unit \<Rightarrow> nodes_page \<Rightarrow> nodes_page \<times> node_body call option" where
  "config_saved h nodeID latencyEnabled answer p = (case answer of Inl e \<Rightarrow> (save_failed h e p, None)
     | Inr _ \<Rightarrow> (p, Some \<lparr>call_method = js ''PUT'', call_path = node_path nodeID @ js ''/latency'',
         call_body = Some (LatencyBody latencyEnabled)\<rparr>))"

definition store_node :: "AdminNode \<Rightarrow> AdminNode list \<Rightarrow> AdminNode list" where
  "store_node updated = map (\<lambda>node. if pn_id node = pn_id updated then updated else node)"

definition latency_saved :: "host \<Rightarrow> failure + AdminNode \<Rightarrow> nodes_page \<Rightarrow> nodes_page" where
  "latency_saved h answer p = (case answer of Inl e \<Rightarrow> save_failed h e p
     | Inr updated \<Rightarrow> p\<lparr>no_nodes := store_node updated (no_nodes p), no_editing := None, no_busy := False\<rparr>)"

section \<open>Removing and copying\<close>

definition remove_node :: "bool \<Rightarrow> AdminNode \<Rightarrow> node_body call option" where
  "remove_node agreed node = (if agreed
     then Some \<lparr>call_method = js ''DELETE'', call_path = node_path (pn_id node), call_body = None\<rparr> else None)"

definition drop_node :: "jsstring \<Rightarrow> AdminNode list \<Rightarrow> AdminNode list" where
  "drop_node i = filter (\<lambda>item. pn_id item \<noteq> i)"

definition node_removed :: "AdminNode \<Rightarrow> failure + unit \<Rightarrow> nodes_page \<Rightarrow> nodes_page" where
  "node_removed node answer p = (case answer of Inl e \<Rightarrow> p
     | Inr _ \<Rightarrow> p\<lparr>no_nodes := drop_node (pn_id node) (no_nodes p)\<rparr>)"

definition copyUninstallCommand :: "failure + unit \<Rightarrow> nodes_page \<Rightarrow> nodes_page" where
  "copyUninstallCommand answer p = (case answer of Inl e \<Rightarrow> p | Inr _ \<Rightarrow> p\<lparr>no_uninstallCopied := True\<rparr>)"

definition uninstall_copy_expired :: "nodes_page \<Rightarrow> nodes_page" where
  "uninstall_copy_expired p = p\<lparr>no_uninstallCopied := False\<rparr>"

section \<open>Properties\<close>

interpretation node_rows: keyed_rows pn_id "\<lambda>_. True" store_node drop_node
  unfolding store_node_def drop_node_def by (rule keyed_rows_map) simp

lemmas node_handlers = edit_node_def node_opened_def syncCorrectionInputs_def save_node_def node_saved_def Let_def

text \<open>A saved node replaces its row; order, number and every other row stay.\<close>

theorem saved_node_rows:
  assumes "updated_node \<in> set (no_nodes p)" and "pn_id updated_node = pn_id updated"
  shows "map pn_id (no_nodes (latency_saved h (Inr updated) p)) = map pn_id (no_nodes p) \<and>
    List.find (\<lambda>n. pn_id n = pn_id updated) (no_nodes (latency_saved h (Inr updated) p)) = Some updated \<and>
    (\<forall>k. k \<noteq> pn_id updated \<longrightarrow> List.find (\<lambda>n. pn_id n = k) (no_nodes (latency_saved h (Inr updated) p)) =
      List.find (\<lambda>n. pn_id n = k) (no_nodes p))"
proof -
  have "pn_id updated \<in> pn_id ` set (no_nodes p)" using assms by (metis image_eqI)
  then show ?thesis
    by (simp add: latency_saved_def node_rows.keys_save_known node_rows.find_save_known node_rows.find_save_other)
qed

text \<open>The correction request only ever carries byte counts that JavaScript represents exactly.\<close>

text \<open>
  C40: A traffic correction that is sent goes to the node of the dialog and carries two non-
  negative byte counts that are safe integers, whatever numbers and unit were typed.
\<close>

theorem correction_sends_safe:
  assumes "applyTrafficCorrection l p = (p', Some c)"
  shows "\<exists>rx tx node. call_body c = Some (Fin (of_int rx), Fin (of_int tx)) \<and> 0 \<le> rx \<and> rx \<le> max_safe_integer \<and>
    0 \<le> tx \<and> tx \<le> max_safe_integer \<and> no_editing p = Some node \<and> call_path c = node_path (pn_id node) @ js ''/traffic-correction''"
proof -
  let ?rx = "trafficBytesFrom (no_correctionRX p) (no_correctionUnit p)"
  let ?tx = "trafficBytesFrom (no_correctionTX p) (no_correctionUnit p)"
  obtain node where "no_editing p = Some node" "isFinite ?rx" "isFinite ?tx" "call_body c = Some (?rx, ?tx)"
    "call_path c = node_path (pn_id node) @ js ''/traffic-correction''"
    using assms by (auto simp: applyTrafficCorrection_def Let_def split: option.splits if_splits)
  then show ?thesis
    using trafficBytesFrom_safe [of "no_correctionRX p" "no_correctionUnit p"]
      trafficBytesFrom_safe [of "no_correctionTX p" "no_correctionUnit p"] by fastforce
qed

text \<open>A concrete node and its answers, for the examples.\<close>

definition example_admin :: AdminNode where
  "example_admin = \<lparr>pn_id = js ''n1'', pn_role = RoleMonitor, pn_latency_enabled = False, pn_name = js ''edge'',
     pn_group = None, pn_region = None, pn_country_code = None, pn_latitude = None, pn_longitude = None,
     pn_tags = [js ''eu'', js ''web''], pn_public_remark = None, pn_hidden = False, pn_weight = Fin 0, pn_price = Fin 0,
     pn_currency = js ''USD'', pn_billing_cycle_days = Fin 30, pn_expires_at = None, pn_auto_renewal = False,
     pn_traffic_limit = Fin 1500000000, pn_traffic_limit_type = js ''sum'', pn_traffic_reset_day = Fin 1, pn_os = None,
     pn_arch = None, pn_cpu_name = None, pn_cpu_cores = None, pn_virtualization = None,
     pn_kernel_version = None, pn_created_at = [], pn_updated_at = [], pn_last_seen_at = None,
     pn_online = True, an_hostname = None, an_private_remark = None, an_agent_version = None, an_ipv4 = None, an_ipv6 = None\<rparr>"

definition example_config :: AgentConfig where
  "example_config = \<lparr>ac_collect_interval_seconds = Fin 1, ac_persist_interval_seconds = Fin 60, ac_include_nics = Some [js ''eth0''],
     ac_exclude_nics = None, ac_include_mountpoints = Some [], ac_enable_gpu = False, ac_auto_update = True,
     ac_probe_concurrency = Fin 4, ac_config_version = Fin 1\<rparr>"

theorem correction_sends_safe_witness:
  "\<forall>l t. \<exists>p' c. applyTrafficCorrection l (nodes_init\<lparr>no_editing := Some example_admin, no_trafficCorrection := Some t,
      no_correctionRX := Fin 3, no_correctionTX := Fin 0\<rparr>) = (p', Some c) \<and>
     call_path c = node_path (js ''n1'') @ js ''/traffic-correction''"
proof (intro allI)
  fix l t
  let ?p = "nodes_init\<lparr>no_editing := Some example_admin, no_trafficCorrection := Some t, no_correctionRX := Fin 3, no_correctionTX := Fin 0\<rparr>"
  have "trafficBytesFrom (Fin 3) GiB = Fin 3221225472" "trafficBytesFrom (Fin 0) GiB = Fin 0"
    using trafficBytesFrom_int [of 3 GiB] trafficBytesFrom_int [of 0 GiB] by (simp_all add: max_safe_integer_def)
  then obtain p' c where c: "applyTrafficCorrection l ?p = (p', Some c)"
    by (simp add: applyTrafficCorrection_def nodes_init_def Let_def)
  then show "\<exists>p' c. applyTrafficCorrection l ?p = (p', Some c) \<and> call_path c = node_path (js ''n1'') @ js ''/traffic-correction''"
    using correction_sends_safe [OF c] by (auto simp: example_admin_def simp del: js_simps)
qed

section \<open>Opening and saving without a change\<close>

text \<open>
  The text of an expiry as the server sends it (RFC 3339) begins with a date. The dialog keeps the date
  and drops the rest: it sends the first instant of that day (UTC).
\<close>

definition dated :: "jsstring \<Rightarrow> bool" where
  "dated s \<longleftrightarrow> (\<exists>y m d rest. s = day_string y m d @ rest \<and> 0 \<le> y \<and> y \<le> 9999 \<and> valid_day y m d)"

definition from_midnight :: "AdminNode \<Rightarrow> AdminNode" where
  "from_midnight node = node\<lparr>pn_expires_at := map_option (\<lambda>s. slice 0 10 s @ js ''T00:00:00.000Z'') (pn_expires_at node)\<rparr>"

lemma sent_expiry_dated:
  assumes "pred_option dated e"
  shows "sent_expiry h (case e of None \<Rightarrow> [] | Some s \<Rightarrow> slice 0 10 s) = Inr (map_option (\<lambda>s. slice 0 10 s @ js ''T00:00:00.000Z'') e)"
proof (cases e)
  case (Some s)
  then obtain y m d rest where s: "s = day_string y m d @ rest" "0 \<le> y" "y \<le> 9999" "valid_day y m d"
    using assms by (auto simp: dated_def)
  have "length (day_string y m d) = 10" by (rule length_day_string) fact+
  then have c: "slice 0 10 s = day_string y m d" "day_string y m d \<noteq> []" by (auto simp: s(1) slice_def)
  show ?thesis using Some c day_roundtrip [OF s(2-4), of h] by (simp add: sent_expiry_def del: toISOString.simps js_simps)
qed (simp add: sent_expiry_def)

definition clean_list :: "jsstring list option \<Rightarrow> bool" where
  "clean_list xs \<longleftrightarrow> (case xs of None \<Rightarrow> True | Some ys \<Rightarrow> list_all clean_entry ys)"

definition full_config :: "AgentConfig \<Rightarrow> AgentConfig" where
  "full_config c = c\<lparr>ac_include_nics := Some (case ac_include_nics c of None \<Rightarrow> [] | Some xs \<Rightarrow> xs),
     ac_exclude_nics := Some (case ac_exclude_nics c of None \<Rightarrow> [] | Some xs \<Rightarrow> xs),
     ac_include_mountpoints := Some (case ac_include_mountpoints c of None \<Rightarrow> [] | Some xs \<Rightarrow> xs)\<rparr>"

lemma list_field_roundtrip:
  "clean_list xs \<Longrightarrow> split_field (js '','') (list_field xs) = (case xs of None \<Rightarrow> [] | Some ys \<Rightarrow> ys)"
  using csv_roundtrip [of "[]"] csv_roundtrip [of "the xs"]
  by (auto simp: clean_list_def list_field_def list_all_iff csv_field_def split: option.splits)

text \<open>
  C33: Opening a node and saving it without a change sends the node as it was except for its
  expiry, which becomes the first instant (UTC) of the date that its text begins with: a time of
  day is dropped, a missing expiry stays missing. The agent configuration is sent with missing
  lists filled in. This holds for a quota that is a non-negative safe integer and for tags and
  list entries that are trimmed, not empty and free of commas.
\<close>

theorem unchanged_node_sent:
  assumes "isSafeInteger (pn_traffic_limit node)" and "Fin 0 \<le> pn_traffic_limit node" and "list_all clean_entry (pn_tags node)"
    and "pred_option dated (pn_expires_at node)" and "clean_list (ac_include_nics c)" and "clean_list (ac_exclude_nics c)"
    and "clean_list (ac_include_mountpoints c)"
    and "p' = node_opened h (Inr (c, t)) (fst (edit_node node p))"
  shows "snd (save_node h l p') = Some (a_call (js ''PUT'') (node_path (pn_id node)) (Some (NodeBody (from_midnight node)))) \<and>
    snd (node_saved h (pn_id node) (Inr ()) (fst (save_node h l p'))) =
      Some (a_call (js ''PUT'') (node_path (pn_id node) @ js ''/agent-config'') (Some (ConfigBody (Some (full_config c)))))"
proof -
  have q: "trafficLimitBytesFromGiB (trafficLimitInGiB (Some (pn_traffic_limit node))) = pn_traffic_limit node"
    using assms(1,2) by (rule quota_bytes_roundtrip)
  have f: "isFinite (pn_traffic_limit node)" using assms(1) by (cases "pn_traffic_limit node") auto
  have g: "split_field (js '','') (csv_field (pn_tags node)) = pn_tags node"
    using assms(3) by (intro csv_roundtrip) (simp add: list_all_iff)
  have same: "node\<lparr>pn_traffic_limit := pn_traffic_limit node, pn_tags := pn_tags node, pn_expires_at := e\<rparr> = node\<lparr>pn_expires_at := e\<rparr>" for e
    by simp
  show ?thesis
    using assms(5-7) same
    by (simp add: assms(8) node_handlers q f g sent_expiry_dated [OF assms(4)] list_field_roundtrip full_config_def from_midnight_def a_call_def
      del: js_simps)
qed

theorem unchanged_node_sent_witness:
  "\<forall>h l c. snd (save_node h l (node_opened h (Inr (example_config, c)) (fst (edit_node
       (example_admin\<lparr>pn_expires_at := Some (js ''2030-01-31T00:00:00Z'')\<rparr>) nodes_init)))) =
     Some (a_call (js ''PUT'') (node_path (js ''n1''))
       (Some (NodeBody (example_admin\<lparr>pn_expires_at := Some (js ''2030-01-31T00:00:00.000Z'')\<rparr>))))"
proof -
  let ?n = "example_admin\<lparr>pn_expires_at := Some (js ''2030-01-31T00:00:00Z'')\<rparr>"
  have "js ''2030-01-31T00:00:00Z'' = day_string 2030 1 31 @ js ''T00:00:00Z''"
    by (simp add: day_string_def year_string_def pad_digits_def nat_digits.simps)
  moreover have "valid_day 2030 1 31" by (simp add: valid_day_def month_days_def month_offset_def)
  ultimately have "dated (js ''2030-01-31T00:00:00Z'')" unfolding dated_def
    by (intro exI [of _ 2030] exI [of _ 1] exI [of _ 31] exI [of _ "js ''T00:00:00Z''"]) (simp del: js_simps)
  then have d: "pred_option dated (pn_expires_at ?n)" by (simp del: js_simps)
  have n: "isSafeInteger (pn_traffic_limit ?n)" "Fin 0 \<le> pn_traffic_limit ?n"
    "list_all clean_entry (pn_tags ?n)" "pn_id ?n = js ''n1''"
    by (simp_all add: example_admin_def max_safe_integer_def clean_entry_def trim_def is_white_def white_units_def)
  have c: "clean_list (ac_include_nics example_config)" "clean_list (ac_exclude_nics example_config)"
    "clean_list (ac_include_mountpoints example_config)"
    by (simp_all add: example_config_def clean_list_def clean_entry_def trim_def is_white_def white_units_def)
  have "from_midnight ?n = example_admin\<lparr>pn_expires_at := Some (js ''2030-01-31T00:00:00.000Z'')\<rparr>"
    by (simp add: from_midnight_def slice_def)
  then show ?thesis using unchanged_node_sent [OF n(1-3) d c refl] n(4) by (simp del: js_simps)
qed

text \<open>
  A time of day in the expiry is lost when the node is saved: what was to expire in the evening of a
  day is saved as expired since the midnight before.
\<close>

theorem saving_drops_time_of_day:
  assumes "0 \<le> y" and "y \<le> 9999" and "valid_day y m d" and "pn_expires_at node = Some (day_string y m d @ rest)"
  shows "pn_expires_at (from_midnight node) = Some (day_string y m d @ js ''T00:00:00.000Z'')"
  using length_day_string [OF assms(1-3)] assms(4) by (simp add: from_midnight_def slice_def)

text \<open>
  An answer that arrives late, for the node that was opened before, replaces the configuration in
  the dialog; saving then sends the configuration of the first node to the second.
\<close>

theorem stale_config_saved:
  assumes "p3 = node_opened h (Inr (ca, ta)) (node_opened h (Inr (cb, tb)) (fst (edit_node b (fst (edit_node a p)))))"
    and "save_node h l p3 = (p4, Some call1)"
  shows "call_path call1 = node_path (pn_id b) \<and>
    (\<exists>sent call2. snd (node_saved h (pn_id b) (Inr ()) p4) = Some call2 \<and> call_path call2 = node_path (pn_id b) @ js ''/agent-config'' \<and>
      call_body call2 = Some (ConfigBody (Some sent)) \<and> ac_collect_interval_seconds sent = ac_collect_interval_seconds ca \<and>
      ac_enable_gpu sent = ac_enable_gpu ca \<and> ac_auto_update sent = ac_auto_update ca)"
  using assms(2) unfolding assms(1)
  by (auto simp: node_handlers simp del: js_simps split: if_splits sum.splits)

text \<open>
  The second request of a save reads the dialog when it is sent: when another node was opened in the
  meantime, that one's configuration goes to the node that was saved first.
\<close>

theorem save_sends_foreign_config:
  "snd (node_saved h (pn_id a) (Inr ()) (node_opened h (Inr (cb, tb)) (fst (edit_node b p)))) =
     Some \<lparr>call_method = js ''PUT'', call_path = node_path (pn_id a) @ js ''/agent-config'', call_body = Some (ConfigBody (Some cb))\<rparr>"
  by (simp add: node_handlers)

section \<open>Units\<close>

text \<open>Switching the unit to bytes keeps what will be sent; switching to a large unit can lose it.\<close>

theorem switch_to_bytes_exact:
  assumes "isFinite (trafficBytesFrom (no_correctionRX p) (no_correctionUnit p))"
  shows "trafficBytesFrom (no_correctionRX (changeCorrectionUnit B p)) (no_correctionUnit (changeCorrectionUnit B p)) =
    trafficBytesFrom (no_correctionRX p) (no_correctionUnit p)"
proof -
  obtain n where n: "trafficBytesFrom (no_correctionRX p) (no_correctionUnit p) = Fin (of_int n)" "0 \<le> n" "n \<le> max_safe_integer"
    using assms trafficBytesFrom_safe [of "no_correctionRX p" "no_correctionUnit p"] by auto
  then have "isSafeInteger (Fin (of_int n))" "Fin 0 \<le> Fin (of_int n)"
    by (auto simp: isSafeInteger_of_int simp del: isSafeInteger.simps)
  then show ?thesis using traffic_bytes_field_exact n(1) by (simp add: changeCorrectionUnit_def Let_def)
qed

theorem switch_to_gib_loses:
  assumes "no_correctionRX p = Fin 500" and "no_correctionUnit p = B"
  shows "trafficBytesFrom (no_correctionRX p) B = Fin 500 \<and>
    trafficBytesFrom (no_correctionRX (changeCorrectionUnit GiB p)) GiB = Fin 0"
proof -
  have b: "trafficBytesFrom (Fin 500) B = Fin 500"
    using trafficBytesFrom_int [of 500 B] by (simp add: max_safe_integer_def)
  have "fl (of_int 500 / 2 ^ unit_bits GiB) = Fin (of_int 500 / 2 ^ unit_bits GiB)" by (rule fl_div_unit) simp
  then have "trafficValueInUnit (Fin 500) GiB = parse_number (toFixed (Fin (500 / 2 ^ 30)) 3)"
    by (simp add: trafficValueInUnit_def counter_Fin unit_is_power del: toFixed.simps)
  also have "\<dots> = Fin 0" using parse_toFixed [of "500 / 2 ^ 30" 3] by (simp add: num_simps del: toFixed.simps)
  finally show ?thesis using assms b trafficBytesFrom_int [of 0 GiB]
    by (simp add: changeCorrectionUnit_def Let_def max_safe_integer_def)
qed

end
