(* ===== verification/AdminLatency.thy ===== *)
theory AdminLatency
  imports AdminProbes Latency
begin

text \<open>
  \<open>web/src/components/admin/AdminLatency.vue\<close>: measurement points and their targets. The page shows one
  answer of the server; every change is followed by a load of a new one. Saving a measurement
  point is two requests at once.
\<close>

section \<open>State\<close>

record LatencyAdminResponse =
  la_nodes :: "AdminNode list"
  la_targets :: "ProbeTask list"
  la_monitored_nodes :: "AdminNode list"
  la_latest :: "LatencyResult list"
  la_offline_after_ms :: number
  la_install_command :: jsstring
  la_windows_installer :: jsstring
  la_windows_install_command :: jsstring

record latency_admin =
  ad_data :: LatencyAdminResponse
  ad_editingTarget :: "ProbeTask option"
  ad_editingNode :: "AdminNode option"
  ad_agentConfig :: "AgentConfig option"
  ad_tagsText :: jsstring
  ad_error :: jsstring
  ad_copied :: jsstring
  ad_busy :: bool

definition latency_admin_init :: latency_admin where
  "latency_admin_init = \<lparr>ad_data = \<lparr>la_nodes = [], la_targets = [], la_monitored_nodes = [], la_latest = [],
       la_offline_after_ms = Fin 90000, la_install_command = [], la_windows_installer = [], la_windows_install_command = []\<rparr>,
     ad_editingTarget = None, ad_editingNode = None, ad_agentConfig = None, ad_tagsText = [], ad_error = [], ad_copied = [],
     ad_busy = False\<rparr>"

section \<open>Computed values\<close>

text \<open>The \<open>Map\<close> that the loop builds, result by result.\<close>

definition add_result :: "LatencyResult \<Rightarrow> (jsstring \<rightharpoonup> LatencyResult list) \<Rightarrow> (jsstring \<rightharpoonup> LatencyResult list)" where
  "add_result item m = m(lr_probe_node_id item \<mapsto>
     (case m (lr_probe_node_id item) of None \<Rightarrow> [] | Some xs \<Rightarrow> xs) @ [item])"

definition latestByProbe :: "latency_admin \<Rightarrow> (jsstring \<rightharpoonup> LatencyResult list)" where
  "latestByProbe p = fold add_result (la_latest (ad_data p)) Map.empty"

definition successRate :: "latency_admin \<Rightarrow> jsstring \<Rightarrow> number" where
  "successRate p nodeID = (let results = (case latestByProbe p nodeID of None \<Rightarrow> [] | Some xs \<Rightarrow> xs) in
     if results \<noteq> [] then num_of_nat (length (filter lr_success results)) / num_of_nat (length results) * Fin 100 else Fin 0)"

definition probe_isOnline :: "host \<Rightarrow> number \<Rightarrow> latency_admin \<Rightarrow> AdminNode \<Rightarrow> bool" where
  "probe_isOnline h now p node = (case pn_last_seen_at node of None \<Rightarrow> False
     | Some s \<Rightarrow> s \<noteq> [] \<and> now - date_time h s \<le> la_offline_after_ms (ad_data p))"

definition find_monitored :: "latency_admin \<Rightarrow> jsstring option \<Rightarrow> AdminNode option" where
  "find_monitored p i = List.find (\<lambda>item. Some (pn_id item) = i) (la_monitored_nodes (ad_data p))"

definition monitorName :: "latency_admin \<Rightarrow> jsstring option \<Rightarrow> jsstring" where
  "monitorName p i = (case find_monitored p i of Some node \<Rightarrow> pn_name node
     | None \<Rightarrow> (case i of Some s \<Rightarrow> s | None \<Rightarrow> [8212]))"

section \<open>Targets\<close>

definition blankTarget :: "latency_admin \<Rightarrow> ProbeTask" where
  "blankTarget p = (let node = (case la_monitored_nodes (ad_data p) of n # _ \<Rightarrow> Some n | [] \<Rightarrow> None) in
     \<lparr>pt_id = Fin 0, pt_name = (case node of None \<Rightarrow> [] | Some n \<Rightarrow> pn_name n), pt_type = Icmp,
      pt_target = or_text (Option.bind node an_ipv4) (or_text (Option.bind node an_ipv6) []),
      pt_interval_seconds = Fin 30, pt_timeout_seconds = Fin 2, pt_expected_status = Some (Fin 0), pt_expected_value = Some [],
      pt_node_ids = Some [], pt_purpose = Some LatencyPurpose, pt_run_on = Some RoleProbe,
      pt_target_node_id = Some (case node of None \<Rightarrow> [] | Some n \<Rightarrow> pn_id n), pt_public = True, pt_samples = Fin 3,
      pt_enabled = True, pt_created_at = None, pt_updated_at = None\<rparr>)"

definition truthy_text :: "jsstring option \<Rightarrow> jsstring option" where
  "truthy_text s = (case s of None \<Rightarrow> None | Some t \<Rightarrow> if t = [] then None else Some t)"

definition target_address :: "probe_type \<Rightarrow> AdminNode \<Rightarrow> jsstring" where
  "target_address ty node = (if ty = Icmp then or_text (an_ipv4 node) (or_text (an_ipv6 node) [])
     else (case truthy_text (an_ipv4 node) of Some a \<Rightarrow> a @ js '':443''
       | None \<Rightarrow> (case truthy_text (an_ipv6 node) of Some a \<Rightarrow> js ''['' @ a @ js '']:443'' | None \<Rightarrow> [])))"

definition selectTargetNode :: "latency_admin \<Rightarrow> latency_admin" where
  "selectTargetNode p = (case ad_editingTarget p of None \<Rightarrow> p
     | Some t \<Rightarrow> (case find_monitored p (pt_target_node_id t) of None \<Rightarrow> p
       | Some node \<Rightarrow> p\<lparr>ad_editingTarget := Some (t\<lparr>pt_name := pn_name node, pt_target := target_address (pt_type t) node\<rparr>)\<rparr>))"

definition changeTargetType :: "latency_admin \<Rightarrow> latency_admin" where
  "changeTargetType p = selectTargetNode p"

definition target_path :: jsstring where
  "target_path = js ''/api/v1/admin/latency/targets''"

definition saveTarget :: "latency_admin \<Rightarrow> latency_admin \<times> ProbeTask call option" where
  "saveTarget p = (case ad_editingTarget p of None \<Rightarrow> (p, None)
     | Some t \<Rightarrow> (p\<lparr>ad_busy := True, ad_error := []\<rparr>, Some (save_call target_path (pt_id t) t)))"

text \<open>After a save and after a removal the page loads; a failing load of a save shows its error.\<close>

definition target_saved :: "host \<Rightarrow> failure + unit \<Rightarrow> latency_admin \<Rightarrow> latency_admin \<times> bool" where
  "target_saved h answer p = (case answer of
     Inl e \<Rightarrow> (p\<lparr>ad_error := failure_message h e, ad_busy := False\<rparr>, False)
   | Inr _ \<Rightarrow> (p\<lparr>ad_editingTarget := None\<rparr>, True))"

definition latency_loaded :: "failure + LatencyAdminResponse \<Rightarrow> latency_admin \<Rightarrow> latency_admin" where
  "latency_loaded answer p = (case answer of Inl e \<Rightarrow> p | Inr d \<Rightarrow> p\<lparr>ad_data := d\<rparr>)"

definition save_reloaded :: "host \<Rightarrow> failure + LatencyAdminResponse \<Rightarrow> latency_admin \<Rightarrow> latency_admin" where
  "save_reloaded h answer p = (case answer of
     Inl e \<Rightarrow> p\<lparr>ad_error := failure_message h e, ad_busy := False\<rparr>
   | Inr d \<Rightarrow> p\<lparr>ad_data := d, ad_busy := False\<rparr>)"

definition removeTarget :: "bool \<Rightarrow> ProbeTask \<Rightarrow> ProbeTask call option" where
  "removeTarget agreed task = (if agreed then Some (delete_call target_path (pt_id task)) else None)"

definition remove_target_prompt :: "AppLocale \<Rightarrow> latency_admin \<Rightarrow> ProbeTask \<Rightarrow> jsstring" where
  "remove_target_prompt l p task = (let name = monitorName p (pt_target_node_id task) in
     text_in l ([21024, 38500, 24310, 36831, 30446, 26631, 8220] @ name @ [8221, 65311]) (js ''Delete latency target '' @ [8220] @ name @ [8221] @ js ''?''))"

section \<open>Measurement points\<close>

definition editNode :: "AdminNode \<Rightarrow> latency_admin \<Rightarrow> latency_admin \<times> jsstring" where
  "editNode node p = (p\<lparr>ad_editingNode := Some node, ad_tagsText := csv_field (pn_tags node)\<rparr>,
     js ''/api/v1/admin/nodes/'' @ pn_id node @ js ''/agent-config'')"

definition editNode_answered :: "failure + AgentConfig \<Rightarrow> latency_admin \<Rightarrow> latency_admin" where
  "editNode_answered answer p = (case answer of Inl e \<Rightarrow> p | Inr c \<Rightarrow> p\<lparr>ad_agentConfig := Some c\<rparr>)"

datatype point_body = PointBody AdminNode | PointConfig AgentConfig

definition saveNode :: "latency_admin \<Rightarrow> latency_admin \<times> point_body call list" where
  "saveNode p = (case (ad_editingNode p, ad_agentConfig p) of
     (Some node, Some config) \<Rightarrow> (let node' = node\<lparr>pn_tags := split_field (js '','') (ad_tagsText p)\<rparr> in
       (p\<lparr>ad_busy := True, ad_error := [], ad_editingNode := Some node'\<rparr>,
        [\<lparr>call_method = js ''PUT'', call_path = js ''/api/v1/admin/latency/nodes/'' @ pn_id node', call_body = Some (PointBody node')\<rparr>,
         \<lparr>call_method = js ''PUT'', call_path = js ''/api/v1/admin/nodes/'' @ pn_id node' @ js ''/agent-config'',
           call_body = Some (PointConfig config)\<rparr>]))
   | _ \<Rightarrow> (p, []))"

definition point_saved :: "host \<Rightarrow> failure + unit \<Rightarrow> latency_admin \<Rightarrow> latency_admin \<times> bool" where
  "point_saved h answer p = (case answer of
     Inl e \<Rightarrow> (p\<lparr>ad_error := failure_message h e, ad_busy := False\<rparr>, False)
   | Inr _ \<Rightarrow> (p\<lparr>ad_editingNode := None, ad_agentConfig := None\<rparr>, True))"

definition remove_point_prompt :: "AppLocale \<Rightarrow> AdminNode \<Rightarrow> jsstring" where
  "remove_point_prompt l node = (if pn_role node = RoleMonitor
     then text_in l ([20572, 29992, 8220] @ pn_name node @ [8221, 30340, 24310, 36831, 27979, 37327, 21151, 33021, 65311, 20027, 26426, 30417, 25511, 21644, 24050, 26377, 21382, 21490, 19981, 20250, 34987, 21024, 38500, 12290])
       (js ''Disable latency measurement for '' @ [8220] @ pn_name node @ [8221] @ js ''? Monitoring and existing history will be kept.'')
     else text_in l ([21024, 38500, 27979, 37327, 33410, 28857, 8220] @ pn_name node @ [8221, 21450, 20854, 24310, 36831, 21382, 21490, 65311])
       (js ''Delete measurement node '' @ [8220] @ pn_name node @ [8221] @ js '' and its latency history?''))"

definition removeNode :: "bool \<Rightarrow> AdminNode \<Rightarrow> point_body call option" where
  "removeNode agreed node = (if agreed then Some \<lparr>call_method = js ''DELETE'',
     call_path = js ''/api/v1/admin/latency/nodes/'' @ pn_id node, call_body = None\<rparr> else None)"

text \<open>\<open>copy\<close> after the clipboard has answered, and its timeout.\<close>

definition copy_command :: "failure + unit \<Rightarrow> jsstring \<Rightarrow> latency_admin \<Rightarrow> latency_admin" where
  "copy_command answer label p = (case answer of Inl e \<Rightarrow> p | Inr _ \<Rightarrow> p\<lparr>ad_copied := label\<rparr>)"

definition copy_command_expired :: "latency_admin \<Rightarrow> latency_admin" where
  "copy_command_expired p = p\<lparr>ad_copied := []\<rparr>"

section \<open>Properties\<close>

lemma add_results: "fold add_result rs m k =
    (if filter (\<lambda>r. lr_probe_node_id r = k) rs = [] then m k
     else Some ((case m k of None \<Rightarrow> [] | Some xs \<Rightarrow> xs) @ filter (\<lambda>r. lr_probe_node_id r = k) rs))"
  by (induction rs arbitrary: m) (auto simp: add_result_def)

text \<open>The map that the loop builds is the grouping of the results by probe, in their order.\<close>

theorem latestByProbe_groups:
  "latestByProbe p k = (let rs = filter (\<lambda>r. lr_probe_node_id r = k) (la_latest (ad_data p)) in
     if rs = [] then None else Some rs)"
  by (simp add: latestByProbe_def add_results Let_def)

text \<open>The health of a measurement point is a percentage.\<close>

theorem successRate_range:
  "\<exists>x. successRate p k = Fin x \<and> 0 \<le> x \<and> x \<le> 100"
proof -
  let ?rs = "filter (\<lambda>r. lr_probe_node_id r = k) (la_latest (ad_data p))"
  let ?n = "length ?rs" let ?s = "length (filter lr_success ?rs)"
  have s: "?s \<le> ?n" by (rule length_filter_le)
  show ?thesis
  proof (cases "?rs = []")
    case False
    then have pos: "0 < real ?n" by simp
    have "real ?s / real ?n \<le> of_int 1" "of_int 0 \<le> real ?s / real ?n" using s pos by (simp_all add: divide_le_eq)
    then obtain y where y: "fl (real ?s / real ?n) = Fin y" "of_int 0 \<le> y" "y \<le> of_int 1"
      using fl_between_int [of 0 1 "real ?s / real ?n"] by auto
    then have "of_int 0 \<le> y * 100" "y * 100 \<le> of_int 100" by simp_all
    then obtain z where "fl (y * 100) = Fin z" "of_int 0 \<le> z" "z \<le> of_int 100"
      using fl_between_int [of 0 100 "y * 100"] by auto
    then show ?thesis using y False pos by (simp add: successRate_def latestByProbe_groups Let_def num_of_nat_def)
  qed (simp add: successRate_def latestByProbe_groups Let_def)
qed

text \<open>Whatever is chosen, a target of a known server is addressed by one of that server's own addresses.\<close>

theorem selected_target_address:
  assumes "ad_editingTarget p = Some t" and "find_monitored p (pt_target_node_id t) = Some node"
  shows "\<exists>t'. ad_editingTarget (selectTargetNode p) = Some t' \<and> pt_target_node_id t' = Some (pn_id node) \<and>
    pt_type t' = pt_type t \<and> pt_name t' = pn_name node \<and> pt_target t' = target_address (pt_type t) node \<and>
    selectTargetNode (selectTargetNode p) = selectTargetNode p"
proof -
  have "pt_target_node_id t = Some (pn_id node)"
    using assms(2) by (auto simp: find_monitored_def dest: find_Some_mem)
  then show ?thesis using assms by (simp add: selectTargetNode_def find_monitored_def)
qed

text \<open>
  Opening a measurement point keeps the configuration of the previous one until the answer arrives,
  and for good when the request fails; saving then sends it to the point that is open now.
\<close>

theorem stale_point_config:
  assumes "ad_agentConfig p = Some old"
  shows "\<exists>b c. snd (saveNode (editNode_answered (Inl e) (fst (editNode node p)))) = [b, c] \<and>
    call_path c = js ''/api/v1/admin/nodes/'' @ pn_id node @ js ''/agent-config'' \<and> call_body c = Some (PointConfig old)"
  using assms by (simp add: saveNode_def editNode_def editNode_answered_def Let_def)

end
