(* ===== verification/JSJson.thy ===== *)
theory JSJson
  imports Types JSUri
begin

text \<open>
  \<open>JSON.stringify\<close> and \<open>JSON.parse\<close>, which the theme pages use on settings that a user edits as text.
  The members of an object keep the order of the text. Parsing is by fuel; every recursive call is
  on a shorter text, so that the length of the text is enough.
\<close>

section \<open>Printing\<close>

definition low_hex :: "nat \<Rightarrow> nat" where
  "low_hex d = (if d < 10 then 48 + d else 87 + d)"

definition escape_unit :: "nat \<Rightarrow> jsstring" where
  "escape_unit u = [92, 117, low_hex (u div 4096 mod 16), low_hex (u div 256 mod 16), low_hex (u div 16 mod 16), low_hex (u mod 16)]"

definition quote_unit :: "nat \<Rightarrow> jsstring" where
  "quote_unit u = (if u = 8 then [92, 98] else if u = 9 then [92, 116] else if u = 10 then [92, 110]
     else if u = 12 then [92, 102] else if u = 13 then [92, 114] else if u = 34 then [92, 34]
     else if u = 92 then [92, 92] else if u < 32 then escape_unit u else [u])"

fun quote_units :: "jsstring \<Rightarrow> jsstring" where
  "quote_units [] = []"
| "quote_units (u # us) =
     (if high_surrogate u then
        (case us of v # vs \<Rightarrow> if low_surrogate v then u # v # quote_units vs else escape_unit u @ quote_units us
         | [] \<Rightarrow> escape_unit u)
      else if low_surrogate u then escape_unit u @ quote_units us
      else quote_unit u @ quote_units us)"

definition json_quote :: "jsstring \<Rightarrow> jsstring" where
  "json_quote s = 34 # quote_units s @ [34]"

fun json_stringify :: "json \<Rightarrow> jsstring" where
  "json_stringify JNull = js ''null''"
| "json_stringify (JBool b) = (if b then js ''true'' else js ''false'')"
| "json_stringify (JNum n) = (if isFinite n then num_string n else js ''null'')"
| "json_stringify (JStr s) = json_quote s"
| "json_stringify (JArr vs) = 91 # join [44] (map json_stringify vs) @ [93]"
| "json_stringify (JObj ps) = 123 # join [44] (map (\<lambda>(k, v). json_quote k @ 58 # json_stringify v) ps) @ [125]"

section \<open>Parsing\<close>

definition json_space :: "nat \<Rightarrow> bool" where
  "json_space c \<longleftrightarrow> c \<in> set [32, 9, 10, 13]"

definition skip_space :: "jsstring \<Rightarrow> jsstring" where
  "skip_space s = dropWhile json_space s"

definition escaped :: "nat \<Rightarrow> nat option" where
  "escaped e = map_of [(34, 34), (92, 92), (47, 47), (98, 8), (102, 12), (110, 10), (114, 13), (116, 9)] e"

definition hex4 :: "jsstring \<Rightarrow> nat option" where
  "hex4 ds = (if length ds = 4 \<and> list_all (\<lambda>c. radix_digit c < 16) ds
     then Some (foldl (\<lambda>a c. 16 * a + radix_digit c) 0 ds) else None)"

definition cons_fst :: "'a \<Rightarrow> ('a list \<times> 'b) option \<Rightarrow> ('a list \<times> 'b) option" where
  "cons_fst x = map_option (\<lambda>(xs, r). (x # xs, r))"

text \<open>The units of a string up to its closing quote, and the rest.\<close>

function json_chars :: "jsstring \<Rightarrow> (jsstring \<times> jsstring) option" where
  "json_chars [] = None"
| "json_chars (c # cs) =
     (if c = 34 then Some ([], cs)
      else if c = 92 then
        (case cs of [] \<Rightarrow> None
         | e # r \<Rightarrow> if e = 117 then (case hex4 (take 4 r) of None \<Rightarrow> None | Some u \<Rightarrow> cons_fst u (json_chars (drop 4 r)))
             else (case escaped e of None \<Rightarrow> None | Some u \<Rightarrow> cons_fst u (json_chars r)))
      else if c < 32 then None
      else cons_fst c (json_chars cs))"
  by pat_completeness auto

termination by (relation "measure length") auto

text \<open>The rest of the text after the digits, fraction and exponent of a number.\<close>

definition after_digits :: "jsstring \<Rightarrow> jsstring option" where
  "after_digits s = (if s \<noteq> [] \<and> is_digit (hd s) then Some (dropWhile is_digit s) else None)"

definition after_fraction :: "jsstring \<Rightarrow> jsstring option" where
  "after_fraction s = (case s of c # r \<Rightarrow> if c = 46 then after_digits r else Some s | [] \<Rightarrow> Some s)"

definition after_exponent :: "jsstring \<Rightarrow> jsstring option" where
  "after_exponent s = (case s of c # r \<Rightarrow> if c = 101 \<or> c = 69
       then after_digits (if r \<noteq> [] \<and> (hd r = 43 \<or> hd r = 45) then tl r else r) else Some s
     | [] \<Rightarrow> Some s)"

definition after_integer :: "jsstring \<Rightarrow> jsstring option" where
  "after_integer s = (case s of c # r \<Rightarrow> if c = 48 then Some r else after_digits s | [] \<Rightarrow> None)"

definition json_number :: "jsstring \<Rightarrow> (json \<times> jsstring) option" where
  "json_number s = (let t = (if s \<noteq> [] \<and> hd s = 45 then tl s else s) in
     case Option.bind (Option.bind (after_integer t) after_fraction) after_exponent of
       None \<Rightarrow> None
     | Some r \<Rightarrow> Some (JNum (parse_number (take (length s - length r) s)), r))"

text \<open>Of equal keys the first gives the place and the last the value.\<close>

definition put_member :: "(jsstring \<times> json) list \<Rightarrow> jsstring \<times> json \<Rightarrow> (jsstring \<times> json) list" where
  "put_member ps kv = assign (fst kv) (snd kv) ps"

definition literal :: "jsstring \<Rightarrow> json \<Rightarrow> jsstring \<Rightarrow> (json \<times> jsstring) option" where
  "literal word v s = (if startsWith s word then Some (v, drop (length word) s) else None)"

fun json_value :: "nat \<Rightarrow> jsstring \<Rightarrow> (json \<times> jsstring) option"
  and json_items :: "nat \<Rightarrow> jsstring \<Rightarrow> (json list \<times> jsstring) option"
  and json_members :: "nat \<Rightarrow> jsstring \<Rightarrow> ((jsstring \<times> json) list \<times> jsstring) option" where
  "json_value 0 s = None"
| "json_value (Suc n) s = (case skip_space s of [] \<Rightarrow> None
     | c # r \<Rightarrow>
       if c = 110 then literal (js ''null'') JNull (c # r)
       else if c = 116 then literal (js ''true'') (JBool True) (c # r)
       else if c = 102 then literal (js ''false'') (JBool False) (c # r)
       else if c = 34 then map_option (\<lambda>(s, r'). (JStr s, r')) (json_chars r)
       else if c = 91 then
         (if skip_space r \<noteq> [] \<and> hd (skip_space r) = 93 then Some (JArr [], tl (skip_space r))
          else (case json_value n r of None \<Rightarrow> None
            | Some (v, r') \<Rightarrow> map_option (\<lambda>(vs, r''). (JArr (v # vs), r'')) (json_items n r')))
       else if c = 123 then
         (if skip_space r \<noteq> [] \<and> hd (skip_space r) = 125 then Some (JObj [], tl (skip_space r))
          else map_option (\<lambda>(ps, r'). (JObj (foldl put_member [] ps), r')) (json_members n r))
       else json_number (c # r))"
| "json_items 0 s = None"
| "json_items (Suc n) s = (case skip_space s of [] \<Rightarrow> None
     | c # r \<Rightarrow>
       if c = 93 then Some ([], r)
       else if c = 44 then (case json_value n r of None \<Rightarrow> None | Some (v, r') \<Rightarrow> cons_fst v (json_items n r'))
       else None)"
| "json_members 0 s = None"
| "json_members (Suc n) s = (case skip_space s of [] \<Rightarrow> None
     | c # r \<Rightarrow> if c \<noteq> 34 then None
       else (case json_chars r of None \<Rightarrow> None
         | Some (k, r1) \<Rightarrow> (case skip_space r1 of [] \<Rightarrow> None
           | d # r2 \<Rightarrow> if d \<noteq> 58 then None
             else (case json_value n r2 of None \<Rightarrow> None
               | Some (v, r3) \<Rightarrow> (case skip_space r3 of [] \<Rightarrow> None
                 | e # r4 \<Rightarrow> if e = 125 then Some ([(k, v)], r4)
                   else if e = 44 then cons_fst (k, v) (json_members n r4) else None)))))"

definition json_parse :: "jsstring \<Rightarrow> json option" where
  "json_parse s = (case json_value (Suc (length s)) s of None \<Rightarrow> None
     | Some (v, r) \<Rightarrow> if skip_space r = [] then Some v else None)"

section \<open>Strings\<close>

lemma radix_low_hex [simp]: "d < 16 \<Longrightarrow> radix_digit (low_hex d) = d"
  by (auto simp: radix_digit_def low_hex_def is_digit_def)

lemma hex4_escape:
  assumes "u < 65536"
  shows "hex4 [low_hex (u div 4096 mod 16), low_hex (u div 256 mod 16), low_hex (u div 16 mod 16), low_hex (u mod 16)] = Some u"
proof -
  have top: "u div 4096 mod 16 = u div 4096" using assms by simp
  have "u div 4096 = u div 256 div 16" "u div 256 = u div 16 div 16" by (simp_all add: div_mult2_eq [symmetric])
  then have "16 * (16 * (16 * (u div 4096) + u div 256 mod 16) + u div 16 mod 16) + u mod 16 = u"
    using mult_div_mod_eq [of 16 "u div 256"] mult_div_mod_eq [of 16 "u div 16"] mult_div_mod_eq [of 16 u] by simp
  moreover have "u div 4096 < 16" using assms by simp
  ultimately show ?thesis unfolding top by (simp add: hex4_def)
qed

lemma chars_escape: "u < 65536 \<Longrightarrow> json_chars (escape_unit u @ r) = cons_fst u (json_chars r)"
  using hex4_escape [of u] by (simp add: escape_unit_def)

lemma chars_quote: "u < 65536 \<Longrightarrow> json_chars (quote_unit u @ r) = cons_fst u (json_chars r)"
  using chars_escape [of u r] by (auto simp: quote_unit_def escaped_def)

lemma chars_plain: "32 \<le> u \<Longrightarrow> u \<noteq> 34 \<Longrightarrow> u \<noteq> 92 \<Longrightarrow> json_chars (u # r) = cons_fst u (json_chars r)"
  by simp

lemma cons_fst_Some [simp]: "cons_fst x (Some (xs, r)) = Some (x # xs, r)"
  by (simp add: cons_fst_def)

lemma json_chars_quoted:
  assumes "\<forall>u \<in> set s. u < 65536"
  shows "json_chars (quote_units s @ 34 # r) = Some (s, r)"
  using assms
proof (induction s rule: quote_units.induct)
  case (2 u us)
  show ?case
  proof (cases "high_surrogate u")
    case high: True
    show ?thesis
    proof (cases us)
      case Nil
      then show ?thesis using high "2.prems" by (simp add: chars_escape)
    next
      case (Cons v vs)
      have u: "32 \<le> u" "u \<noteq> 34" "u \<noteq> 92" using high by (auto simp: high_surrogate_def)
      show ?thesis
      proof (cases "low_surrogate v")
        case True
        then have "32 \<le> v" "v \<noteq> 34" "v \<noteq> 92" by (auto simp: low_surrogate_def)
        then show ?thesis using Cons high True u "2.IH"(1) [OF high Cons True] "2.prems" by (simp add: chars_plain del: json_chars.simps)
      next
        case False
        then show ?thesis using Cons high "2.IH"(2) [OF high Cons False] "2.prems" by (simp add: chars_escape)
      qed
    qed
  next
    case False
    then show ?thesis using "2.IH"(3,4) "2.prems" by (auto simp: chars_escape chars_quote)
  qed
qed simp

section \<open>Numbers\<close>

lemma nat_digits_no_zero: "nat_digits n = 48 # cs \<Longrightarrow> cs = []"
proof (induction n arbitrary: cs rule: nat_digits.induct)
  case (1 n)
  show ?case
  proof (cases "n < 10")
    case True
    then show ?thesis using "1.prems" by (subst (asm) nat_digits.simps) auto
  next
    case False
    then have e: "nat_digits (n div 10) @ [48 + n mod 10] = 48 # cs" using "1.prems" by (subst (asm) nat_digits.simps) simp
    then obtain ds where d: "nat_digits (n div 10) = 48 # ds" by (cases "nat_digits (n div 10)") auto
    then have "ds = []" using "1.IH" [OF False] by simp
    then have "digits_value (nat_digits (n div 10)) = 0" using d by (simp add: digits_value_def)
    then show ?thesis using False by simp
  qed
qed

lemma after_nat_digits:
  assumes "r = [] \<or> \<not> is_digit (hd r)"
  shows "after_integer (nat_digits n @ r) = Some r"
proof -
  have all: "\<forall>c \<in> set (nat_digits n). is_digit c" using nat_digits_are_digits by blast
  have drop: "dropWhile is_digit (nat_digits n @ r) = r"
    using all assms by (subst dropWhile_append2) (auto simp: dropWhile_eq_self_iff)
  obtain c cs where c: "nat_digits n = c # cs" by (cases "nat_digits n") auto
  show ?thesis
  proof (cases "c = 48")
    case True
    have "cs = []"
      using True c nat_digits_no_zero by simp
    then show ?thesis using True c by (simp add: after_integer_def)
  next
    case False
    then show ?thesis using c drop all by (simp add: after_integer_def after_digits_def)
  qed
qed

definition delimited :: "jsstring \<Rightarrow> bool" where
  "delimited r \<longleftrightarrow> r = [] \<or> hd r \<in> set [44, 93, 125]"

lemma delimited_simps [simp]: "delimited []" "delimited (44 # r)" "delimited (93 # r)" "delimited (125 # r)"
  by (simp_all add: delimited_def)

lemma after_delimited: "delimited r \<Longrightarrow> after_fraction r = Some r" "delimited r \<Longrightarrow> after_exponent r = Some r"
  "delimited r \<Longrightarrow> r = [] \<or> \<not> is_digit (hd r)"
  by (cases r; auto simp: delimited_def after_fraction_def after_exponent_def is_digit_def)+

lemma parse_nat_digits: "parse_number (nat_digits n) = fl (of_nat n)"
  using parse_fixed_digits [of 0 n] by (simp add: fixed_digits_def)

lemma decimal_nat_digits: "parse_decimal (nat_digits n) = fl (of_nat n)"
proof -
  have all: "\<And>c. c \<in> set (nat_digits n) \<Longrightarrow> is_digit c" by (rule nat_digits_are_digits)
  have "takeWhile is_digit (nat_digits n) = nat_digits n" "dropWhile is_digit (nat_digits n) = []"
    using all by (simp_all add: takeWhile_eq_all_conv)
  note tw = this
  show ?thesis unfolding parse_decimal_def tw by (simp add: digits_value_def [of "[]"])
qed

lemma parse_negative: "parse_number (45 # nat_digits n) = negate_num (fl (of_nat n))"
proof -
  have all: "\<And>c. c \<in> set (nat_digits n) \<Longrightarrow> is_digit c" by (rule nat_digits_are_digits)
  then have "\<not> is_white (last (nat_digits n))" by (simp add: digit_not_white)
  then have "trim (45 # nat_digits n) = 45 # nat_digits n"
    by (simp add: trim_id_iff) (simp add: is_white_def white_units_def)
  moreover have "nat_digits n \<noteq> js ''Infinity''"
    using all [of 73] by (auto simp: is_digit_def)
  ultimately show ?thesis by (simp add: parse_number_def parse_unsigned_def decimal_nat_digits lower_unit_def Let_def)
qed

lemma json_number_int:
  assumes "\<bar>n\<bar> < 2 ^ 53" and "delimited r"
  shows "json_number (int_string n @ r) = Some (JNum (Fin (of_int n)), r)"
proof -
  have after: "Option.bind (Option.bind (after_integer (nat_digits k @ r)) after_fraction) after_exponent = Some r" for k
    using after_nat_digits [OF after_delimited(3) [OF assms(2)]] after_delimited [OF assms(2)] by simp
  have f: "fl (of_nat (nat \<bar>n\<bar>)) = Fin (of_int \<bar>n\<bar>)"
    using fl_of_nat [of "nat \<bar>n\<bar>"] assms(1) by simp
  show ?thesis
  proof (cases "n < 0")
    case True
    then show ?thesis using after f by (simp add: json_number_def int_string_def Let_def parse_negative)
  next
    case False
    obtain c cs where c: "nat_digits (nat n) = c # cs" by (cases "nat_digits (nat n)") auto
    then have "c \<noteq> 45" using nat_digits_are_digits [of c "nat n"] by (auto simp: is_digit_def)
    then show ?thesis using after [of "nat n"] f False c parse_nat_digits [of "nat n"]
      by (simp add: json_number_def int_string_def Let_def)
  qed
qed

section \<open>Fuel\<close>

lemma length_skip: "length (skip_space s) \<le> length s"
  unfolding skip_space_def by (rule length_dropWhile_le)

lemma skip_Cons: "skip_space s = c # r \<Longrightarrow> length r < length s"
  using length_skip [of s] by simp

lemma chars_shorter: "json_chars s = Some (x, r) \<Longrightarrow> length r < length s"
proof (induction s arbitrary: x rule: json_chars.induct)
  case (2 c cs)
  then show ?case
    by (fastforce simp: cons_fst_def split: if_splits list.splits option.splits)
qed simp

lemma digits_shorter: "after_digits s = Some r \<Longrightarrow> length r \<le> length s"
  by (auto simp: after_digits_def length_dropWhile_le split: if_splits)

lemma integer_shorter: "after_integer t = Some a \<Longrightarrow> length a \<le> length t"
  by (cases t) (auto simp: after_integer_def split: if_splits dest: digits_shorter)

lemma number_shorter: "json_number s = Some (v, r) \<Longrightarrow> length r \<le> length s"
proof -
  assume "json_number s = Some (v, r)"
  then obtain a b where ab: "after_integer (if s \<noteq> [] \<and> hd s = 45 then tl s else s) = Some a" "after_fraction a = Some b"
    "after_exponent b = Some r"
    by (auto simp: json_number_def Let_def bind_eq_Some_conv split: option.splits)
  have "length r \<le> length b" using ab(3) by (cases b) (auto simp: after_exponent_def split: if_splits dest: digits_shorter)
  also have "\<dots> \<le> length a" using ab(2) by (cases a) (auto simp: after_fraction_def split: if_splits dest: digits_shorter)
  also have "\<dots> \<le> length (if s \<noteq> [] \<and> hd s = 45 then tl s else s)"
    using ab(1) by (rule integer_shorter)
  also have "\<dots> \<le> length s" by simp
  finally show ?thesis .
qed

lemma value_cases:
  assumes "json_value (Suc n) s = Some (v, r)"
  obtains (leaf) "length r \<le> length s"
  | (array) t v1 r1 vs where "length t < length s" "json_value n t = Some (v1, r1)" "json_items n r1 = Some (vs, r)"
  | (object) t ps where "length t < length s" "json_members n t = Some (ps, r)"
proof (cases "skip_space s")
  case (Cons c t)
  have t: "length t < length s" using skip_Cons [OF Cons] .
  have u: "length (tl (skip_space t)) \<le> length s" using length_skip [of t] t by simp
  have w: "length (drop k (c # t)) \<le> length s" for k using t by simp
  consider "c = 91" "\<not> (skip_space t \<noteq> [] \<and> hd (skip_space t) = 93)" | "c = 123" "\<not> (skip_space t \<noteq> [] \<and> hd (skip_space t) = 125)"
    | "length r \<le> length s"
    using assms Cons t u w chars_shorter [of t] number_shorter [of "c # t"]
    by (fastforce simp: literal_def split: if_splits)
  then show ?thesis
  proof cases
    case 1
    then show ?thesis using assms Cons t array [of t] by (auto split: option.splits)
  next
    case 2
    then show ?thesis using assms Cons t object [of t] by auto
  qed (rule leaf)
qed (use assms in simp)

lemma parsed_shorter:
  "json_value n s = Some (v, r) \<Longrightarrow> length r \<le> length s"
  "json_items n s = Some (vs, r) \<Longrightarrow> length r \<le> length s"
  "json_members n s = Some (ps, r) \<Longrightarrow> length r \<le> length s"
proof (induction n arbitrary: s v vs ps r)
  case (Suc n)
  {
    case 1
    then show ?case by (cases rule: value_cases) (auto dest!: Suc.IH)
  next
    case 2
    then obtain c t where c: "skip_space s = c # t" by (auto split: list.splits)
    show ?case using 2 c skip_Cons [OF c]
      by (auto simp: cons_fst_def split: if_splits option.splits dest!: Suc.IH)
  next
    case 3
    then obtain c t where c: "skip_space s = c # t" by (auto split: list.splits)
    then show ?case using 3 skip_Cons [OF c]
      by (auto simp: cons_fst_def split: if_splits option.splits list.splits dest!: Suc.IH skip_Cons chars_shorter)
  }
qed simp_all

text \<open>With more fuel than units the result does not depend on the fuel.\<close>

lemma fuel_irrelevant:
  assumes "length s < n" and "length s < m"
  shows "json_value n s = json_value m s \<and> json_items n s = json_items m s \<and> json_members n s = json_members m s"
  using assms
proof (induction n arbitrary: s m)
  case (Suc n)
  then obtain k where k: "m = Suc k" by (cases m) auto
  have ih: "json_value n t = json_value k t" "json_items n t = json_items k t" "json_members n t = json_members k t"
    if "length t < length s" for t
    using Suc.IH [of t k] Suc.prems k that by auto
  show ?case
  proof (cases "skip_space s")
    case (Cons c t)
    have t: "length t < length s" using skip_Cons [OF Cons] .
    have v: "length r < length s" if "json_value k t = Some (v, r)" for v r
      using parsed_shorter(1) [OF that] t by simp
    have a: "length r2 < length s" if "json_chars t = Some (x, r1)" "skip_space r1 = d # r2" for x r1 d r2
      using chars_shorter [OF that(1)] skip_Cons [OF that(2)] t by simp
    have b: "length r4 < length s" if "length r2 < length s" "json_value k r2 = Some (v, r3)" "skip_space r3 = e # r4"
      for r2 v r3 e r4
      using parsed_shorter(1) [OF that(2)] skip_Cons [OF that(3)] that(1) by simp
    have "json_value (Suc n) s = json_value (Suc k) s" using Cons ih [OF t] v by (auto simp: ih(2) split: option.split)
    moreover have "json_items (Suc n) s = json_items (Suc k) s" using Cons ih [OF t] v by (auto simp: ih(2) split: option.split)
    moreover have "json_members (Suc n) s = json_members (Suc k) s"
      using Cons a by (auto simp: ih split: option.split list.split) (metis b ih(3))
    ultimately show ?thesis unfolding k by blast
  qed (simp add: k)
qed simp

lemma json_parse_fuel: "length s < n \<Longrightarrow> json_parse s = (case json_value n s of None \<Rightarrow> None
    | Some (v, r) \<Rightarrow> if skip_space r = [] then Some v else None)"
  using fuel_irrelevant [of s n "Suc (length s)"] by (simp add: json_parse_def)

section \<open>Round trip\<close>

text \<open>Values that text can carry without loss: whole numbers, well-formed units and objects without a key twice.\<close>

fun plain_json :: "json \<Rightarrow> bool" where
  "plain_json (JNum n) \<longleftrightarrow> isSafeInteger n"
| "plain_json (JStr s) \<longleftrightarrow> (\<forall>u \<in> set s. u < 65536)"
| "plain_json (JArr vs) \<longleftrightarrow> list_all plain_json vs"
| "plain_json (JObj ps) \<longleftrightarrow> distinct (map fst ps) \<and> list_all (\<lambda>(k, v). (\<forall>u \<in> set k. u < 65536) \<and> plain_json v) ps"
| "plain_json _ \<longleftrightarrow> True"

lemma plain_numberE:
  assumes "isSafeInteger a"
  obtains n where "a = Fin (of_int n)" "json_stringify (JNum a) = int_string n" "\<bar>n\<bar> < 2 ^ 53"
proof -
  obtain n where n: "a = Fin (of_int n)" "\<bar>n\<bar> \<le> 2 ^ 53 - 1" using assms by (rule safe_integerE)
  then have "\<bar>real_of_int n\<bar> < 2 ^ 53"
    by (metis of_int_abs of_int_less_iff of_int_numeral of_int_power zle_diff1_eq)
  then show ?thesis using that [of n] n by simp
qed

lemma int_string_head: "\<exists>c cs. int_string n = c # cs \<and> (c = 45 \<or> is_digit c)"
proof (cases "nat_digits (nat n)")
  case (Cons c cs)
  then show ?thesis using nat_digits_are_digits [of c "nat n"] by (auto simp: int_string_def)
qed simp

lemma stringify_head:
  "plain_json v \<Longrightarrow> \<exists>c cs. json_stringify v = c # cs \<and> \<not> json_space c \<and> c \<noteq> 93 \<and> c \<noteq> 125 \<and> c \<noteq> 44"
proof (cases v)
  case (JNum a)
  moreover assume "plain_json v"
  ultimately obtain n where "json_stringify v = int_string n" by (auto elim: plain_numberE)
  then show ?thesis using int_string_head [of n] by (auto simp: is_digit_def json_space_def)
qed (auto simp: json_space_def json_quote_def)

lemma skip_head: "\<not> json_space c \<Longrightarrow> skip_space (c # r) = c # r"
  by (simp add: skip_space_def)

lemma delimiters [simp]: "\<not> json_space 44" "\<not> json_space 93" "\<not> json_space 125" "\<not> json_space 34" "\<not> json_space 58"
  "\<not> json_space 91" "\<not> json_space 123"
  by (simp_all add: json_space_def)

lemma join_comma: "xs \<noteq> [] \<Longrightarrow> join [44] xs = hd xs @ concat (map (Cons 44) (tl xs))"
proof (induction xs rule: induct_list012)
  case (3 x y zs)
  then show ?case by simp
qed simp_all

definition reads :: "json \<Rightarrow> bool" where
  "reads v \<longleftrightarrow> (\<forall>n r. delimited r \<longrightarrow> length (json_stringify v @ r) < n \<longrightarrow>
     json_value n (json_stringify v @ r) = Some (v, r))"

lemma readsD: "reads v \<Longrightarrow> delimited r \<Longrightarrow> length (json_stringify v @ r) < n \<Longrightarrow>
    json_value n (json_stringify v @ r) = Some (v, r)"
  by (simp add: reads_def)

lemma items_read:
  assumes "\<forall>x \<in> set xs. reads x" and "length (concat (map (\<lambda>x. 44 # json_stringify x) xs) @ 93 # r) < n"
  shows "json_items n (concat (map (\<lambda>x. 44 # json_stringify x) xs) @ 93 # r) = Some (xs, r)"
  using assms
proof (induction xs arbitrary: n)
  case Nil
  then obtain m where "n = Suc m" by (cases n) auto
  then show ?case by (simp add: skip_head)
next
  case (Cons x xs)
  let ?t = "concat (map (\<lambda>x. 44 # json_stringify x) xs) @ 93 # r"
  obtain m where m: "n = Suc m" using Cons.prems(2) by (cases n) auto
  have "delimited ?t" by (cases xs) simp_all
  then have "json_value m (json_stringify x @ ?t) = Some (x, ?t)"
    using Cons.prems m by (intro readsD) auto
  moreover have "json_items m ?t = Some (xs, r)" using Cons.prems m by (intro Cons.IH) auto
  ultimately show ?case by (simp add: m skip_head)
qed

abbreviation member_text :: "jsstring \<times> json \<Rightarrow> jsstring" where
  "member_text kv \<equiv> json_quote (fst kv) @ 58 # json_stringify (snd kv)"

lemma members_read:
  assumes "\<forall>kv \<in> set (kv0 # ps). reads (snd kv) \<and> (\<forall>u \<in> set (fst kv). u < 65536)"
    and "length (member_text kv0 @ concat (map (\<lambda>kv. 44 # member_text kv) ps) @ 125 # r) < n"
  shows "json_members n (member_text kv0 @ concat (map (\<lambda>kv. 44 # member_text kv) ps) @ 125 # r) = Some (kv0 # ps, r)"
  using assms
proof (induction ps arbitrary: n kv0)
  case Nil
  then obtain m where m: "n = Suc m" by (cases n) auto
  have "json_value m (json_stringify (snd kv0) @ 125 # r) = Some (snd kv0, 125 # r)"
    using Nil m by (intro readsD) (auto simp: json_quote_def)
  then show ?case using Nil by (simp add: m skip_head json_quote_def json_chars_quoted del: json_chars.simps)
next
  case (Cons kv ps)
  let ?t = "member_text kv @ concat (map (\<lambda>kv. 44 # member_text kv) ps) @ 125 # r"
  obtain m where m: "n = Suc m" using Cons.prems(2) by (cases n) auto
  have "json_value m (json_stringify (snd kv0) @ 44 # ?t) = Some (snd kv0, 44 # ?t)"
    using Cons.prems m by (intro readsD) (auto simp: json_quote_def)
  moreover have "json_members m ?t = Some (kv # ps, r)"
    using Cons.prems m by (intro Cons.IH) (auto simp: json_quote_def)
  ultimately show ?case using Cons.prems(1)
    by (simp add: m skip_head json_quote_def json_chars_quoted del: json_chars.simps)
qed

lemma put_members: "distinct (map fst (qs @ ps)) \<Longrightarrow> foldl put_member qs ps = qs @ ps"
proof (induction ps arbitrary: qs)
  case (Cons p ps)
  then have "put_member qs p = qs @ [p]"
    by (auto simp: put_member_def assign_new)
  with Cons show ?case by simp
qed simp

lemma reads_array:
  assumes all: "\<forall>y \<in> set vs. reads y \<and> plain_json y"
  shows "reads (JArr vs)"
  unfolding reads_def
proof (intro allI impI)
  fix n r assume d: "delimited r" and len: "length (json_stringify (JArr vs) @ r) < n"
  obtain m where m: "n = Suc m" using len by (cases n) auto
  show "json_value n (json_stringify (JArr vs) @ r) = Some (JArr vs, r)"
  proof (cases vs)
    case (Cons x xs)
    obtain c cs where c: "json_stringify x = c # cs" "\<not> json_space c" "c \<noteq> 93"
      using stringify_head [of x] all Cons by auto
    let ?t = "concat (map (\<lambda>x. 44 # json_stringify x) xs) @ 93 # r"
    have printed: "json_stringify (JArr vs) @ r = 91 # json_stringify x @ ?t"
      using Cons by (simp add: join_comma comp_def)
    have "delimited ?t" by (cases xs) simp_all
    then have "json_value m (json_stringify x @ ?t) = Some (x, ?t)"
      using all Cons len m printed by (intro readsD) auto
    moreover have "json_items m ?t = Some (xs, r)" using all Cons len m printed by (intro items_read) auto
    ultimately show ?thesis unfolding printed using c Cons by (simp add: m skip_head)
  qed (simp add: m skip_head)
qed

lemma reads_object:
  assumes all: "\<forall>kv \<in> set ps. reads (snd kv) \<and> (\<forall>u \<in> set (fst kv). u < 65536)" and distinct: "distinct (map fst ps)"
  shows "reads (JObj ps)"
  unfolding reads_def
proof (intro allI impI)
  fix n r assume d: "delimited r" and len: "length (json_stringify (JObj ps) @ r) < n"
  obtain m where m: "n = Suc m" using len by (cases n) auto
  show "json_value n (json_stringify (JObj ps) @ r) = Some (JObj ps, r)"
  proof (cases ps)
    case (Cons kv qs)
    let ?t = "member_text kv @ concat (map (\<lambda>kv. 44 # member_text kv) qs) @ 125 # r"
    have printed: "json_stringify (JObj ps) @ r = 123 # ?t"
      using Cons by (simp add: join_comma comp_def case_prod_unfold)
    have "json_members m ?t = Some (kv # qs, r)" using all len m printed unfolding Cons by (intro members_read) auto
    moreover have "foldl put_member [] (kv # qs) = kv # qs"
      using distinct Cons put_members [of "[]" "kv # qs"] by simp
    ultimately show ?thesis unfolding printed using Cons by (simp add: m skip_head json_quote_def)
  qed (simp add: m skip_head)
qed

lemma reads_number:
  assumes "plain_json (JNum a)"
  shows "reads (JNum a)"
proof -
  obtain n where n: "a = Fin (of_int n)" "json_stringify (JNum a) = int_string n" "\<bar>n\<bar> < 2 ^ 53"
    using assms by (auto elim: plain_numberE)
  obtain c cs where c: "int_string n = c # cs" "c = 45 \<or> is_digit c" using int_string_head by blast
  show ?thesis unfolding reads_def n(2)
  proof (intro allI impI)
    fix m r assume d: "delimited r" and len: "length (int_string n @ r) < m"
    then obtain k where k: "m = Suc k" by (cases m) auto
    have "skip_space (int_string n @ r) = int_string n @ r" using c by (auto simp: skip_head json_space_def is_digit_def)
    then show "json_value m (int_string n @ r) = Some (JNum a, r)"
      using json_number_int [OF n(3) d] c n(1) by (auto simp: k is_digit_def)
  qed
qed

lemma reads_plain: "plain_json v \<Longrightarrow> reads v"
proof (induction v rule: json_stringify.induct)
  case (5 vs)
  then show ?case by (intro reads_array) (simp add: list_all_iff)
next
  case (6 ps)
  have "reads b" if "(a, b) \<in> set ps" "plain_json b" for a b using 6(1) [of "(a, b)" a b] that by simp
  then show ?case using 6(2) by (intro reads_object) (fastforce simp: list_all_iff)+
next
  case (4 s)
  then show ?case
    by (auto simp: reads_def json_quote_def gr0_conv_Suc skip_head json_chars_quoted less_Suc_eq_0_disj
      simp del: json_chars.simps elim!: less_natE)
qed (auto simp: reads_number; auto simp: reads_def literal_def startsWith_def skip_head json_space_def elim!: less_natE)+

lemma parse_stringify:
  assumes "plain_json v"
  shows "json_parse (json_stringify v) = Some v"
  using readsD [OF reads_plain [OF assms], of "[]" "Suc (length (json_stringify v))"]
  by (simp add: json_parse_def skip_space_def)

text \<open>Parsing what was printed gives the value back.\<close>

theorem json_roundtrip: "plain_json v \<Longrightarrow> json_parse (json_stringify v) = Some v"
  by (rule parse_stringify)

theorem json_roundtrip_witness:
  "json_parse (json_stringify (JArr [JStr [97, 10, 98], JNum (Fin 7), JObj [(js ''k'', JNull)]])) =
     Some (JArr [JStr [97, 10, 98], JNum (Fin 7), JObj [(js ''k'', JNull)]])"
  by (rule json_roundtrip) (simp add: max_safe_integer_def)

end
