(* ===== verification/AdminThemes.thy ===== *)
theory AdminThemes
  imports AdminProbes Session JSJson
begin

text \<open>
  \<open>web/src/components/admin/AdminThemes.vue\<close>: installing, activating and configuring themes. A handler
  runs to its end with the answers of its requests as arguments: \<open>send\<close> is what the server answers to its
  call; \<open>new_URL\<close> is the URL constructor of the browser. The settings of a theme are an object, kept as an association list.
\<close>

section \<open>State\<close>

record ManagedItem =
  md_key :: jsstring
  md_name :: "localized_text option"
  md_help :: "localized_text option"
  md_type :: jsstring
  md_options :: "jsstring option"
  md_default :: "json option"
  md_required :: "bool option"

record MarketTheme =
  mk_name :: localized_text
  mk_short :: jsstring
  mk_description :: "localized_text option"
  mk_version :: "jsstring option"
  mk_author :: "localized_text option"
  mk_download :: jsstring
  mk_sha256 :: jsstring

record theme_page =
  tg_themes :: "Theme list"
  tg_upload :: "blob option"
  tg_checksum :: jsstring
  tg_sourceURL :: jsstring
  tg_sourceSHA :: jsstring
  tg_error :: jsstring
  tg_status :: jsstring
  tg_busy :: bool
  tg_configuring :: "Theme option"
  tg_managedItems :: "ManagedItem list"
  tg_managedSettings :: "(jsstring \<times> json) list"
  tg_selectorText :: "(jsstring \<times> jsstring) list"
  tg_rawPanel :: jsstring
  tg_marketOpen :: bool
  tg_marketSearch :: jsstring
  tg_market :: "MarketTheme list"
  tg_location :: "jsstring option"

definition theme_init :: theme_page where
  "theme_init = \<lparr>tg_themes = [], tg_upload = None, tg_checksum = [], tg_sourceURL = [], tg_sourceSHA = [], tg_error = [],
     tg_status = [], tg_busy = False, tg_configuring = None, tg_managedItems = [], tg_managedSettings = [],
     tg_selectorText = [], tg_rawPanel = [], tg_marketOpen = False, tg_marketSearch = [], tg_market = [], tg_location = None\<rparr>"

type_synonym theme_state = "theme_page \<times> session"

section \<open>Market\<close>

definition market_text :: "AppLocale \<Rightarrow> MarketTheme \<Rightarrow> jsstring" where
  "market_text l item = join (js '' '') [localized l (Some (mk_name item)), localized l (mk_description item),
     localized l (mk_author item), mk_short item]"

definition filteredMarket :: "host \<Rightarrow> AppLocale \<Rightarrow> theme_page \<Rightarrow> MarketTheme list" where
  "filteredMarket h l p = (let query = toLowerCase h (trim (tg_marketSearch p)) in
     if query = [] then tg_market p
     else filter (\<lambda>item. includes_str (toLowerCase h (market_text l item)) query) (tg_market p))"

section \<open>Installing\<close>

definition themes_load :: "failure + Theme list \<Rightarrow> refresh_answer \<Rightarrow> theme_state \<Rightarrow> theme_state outcome" where
  "themes_load answer me ps = (case answer of Inl e \<Rightarrow> (Some e, ps)
     | Inr ts \<Rightarrow> (case refresh me (snd ps) of (r, s) \<Rightarrow> (r, (fst ps)\<lparr>tg_themes := ts\<rparr>, s)))"

text \<open>The \<open>catch\<close> and \<open>finally\<close> that the handlers share.\<close>

definition theme_settle :: "host \<Rightarrow> theme_state outcome \<Rightarrow> theme_state" where
  "theme_settle h out = (case out of
     (None, p, s) \<Rightarrow> (p\<lparr>tg_busy := False\<rparr>, s)
   | (Some e, p, s) \<Rightarrow> (p\<lparr>tg_error := failure_message h e, tg_busy := False\<rparr>, s))"

definition theme_start :: "theme_page \<Rightarrow> theme_page" where
  "theme_start p = p\<lparr>tg_busy := True, tg_error := [], tg_status := []\<rparr>"

definition upload_form :: "theme_page \<Rightarrow> blob \<Rightarrow> form" where
  "upload_form p f = [(js ''theme'', FormFile f)] @ (if tg_checksum p \<noteq> [] then [(js ''sha256'', FormText (tg_checksum p))] else [])"

definition upload_call :: "theme_page \<Rightarrow> form call option" where
  "upload_call p = map_option (\<lambda>f. a_call (js ''POST'') (js ''/api/v1/admin/themes/upload'') (Some (upload_form p f))) (tg_upload p)"

definition uploadTheme :: "host \<Rightarrow> AppLocale \<Rightarrow> (form call \<Rightarrow> failure + unit) \<Rightarrow> failure + Theme list \<Rightarrow>
    refresh_answer \<Rightarrow> theme_state \<Rightarrow> theme_state" where
  "uploadTheme h l send ts me ps = (case upload_call (fst ps) of None \<Rightarrow> ps
     | Some c \<Rightarrow> (let p = theme_start (fst ps) in theme_settle h
         (case send c of Inl e \<Rightarrow> (Some e, p, snd ps)
          | Inr _ \<Rightarrow> themes_load ts me (p\<lparr>tg_upload := None, tg_checksum := [],
              tg_status := text_in l [20027, 39064, 21253, 24050, 39564, 35777, 24182, 23433, 35013, 12290] (js ''Theme package validated and installed.'')\<rparr>, snd ps))))"

definition install_body :: "jsstring \<Rightarrow> jsstring \<Rightarrow> json" where
  "install_body url sha = JObj [(js ''url'', JStr url), (js ''sha256'', JStr sha)]"

definition install_call :: "json \<Rightarrow> json call" where
  "install_call body = a_call (js ''POST'') (js ''/api/v1/admin/themes/install'') (Some body)"

definition installURL :: "host \<Rightarrow> AppLocale \<Rightarrow> (json call \<Rightarrow> failure + unit) \<Rightarrow> failure + Theme list \<Rightarrow> refresh_answer \<Rightarrow>
    theme_state \<Rightarrow> theme_state" where
  "installURL h l send ts me ps = (let p = theme_start (fst ps) in theme_settle h
     (case send (install_call (install_body (tg_sourceURL p) (tg_sourceSHA p))) of Inl e \<Rightarrow> (Some e, p, snd ps)
      | Inr _ \<Rightarrow> themes_load ts me (p\<lparr>tg_sourceURL := [], tg_sourceSHA := [],
          tg_status := text_in l [20027, 39064, 24050, 39564, 35777, 24182, 23433, 35013, 12290] (js ''Verified release installed.'')\<rparr>, snd ps)))"

definition installMarket :: "host \<Rightarrow> AppLocale \<Rightarrow> MarketTheme \<Rightarrow> (json call \<Rightarrow> failure + unit) \<Rightarrow> failure + Theme list \<Rightarrow> refresh_answer \<Rightarrow>
    theme_state \<Rightarrow> theme_state" where
  "installMarket h l theme send ts me ps = (let p = theme_start (fst ps);
       title = localized l (Some (mk_name theme)) @ js '' '' @ (case mk_version theme of None \<Rightarrow> [] | Some v \<Rightarrow> v) in
     theme_settle h (case send (install_call (install_body (mk_download theme) (mk_sha256 theme))) of Inl e \<Rightarrow> (Some e, p, snd ps)
      | Inr _ \<Rightarrow> themes_load ts me (p\<lparr>tg_status := text_in l (title @ [32, 24050, 23433, 35013, 12290]) (title @ js '' installed.'')\<rparr>, snd ps)))"

text \<open>\<open>activate\<close> and \<open>remove\<close> have no \<open>try\<close>: their failures reject and are the result.\<close>

definition activate_call :: "jsstring \<Rightarrow> json call" where
  "activate_call short = a_call (js ''POST'') (js ''/api/v1/admin/themes/'' @ short @ js ''/activate'') None"

definition activate :: "jsstring \<Rightarrow> (json call \<Rightarrow> failure + unit) \<Rightarrow> refresh_answer \<Rightarrow> theme_state \<Rightarrow> theme_state outcome" where
  "activate short send me ps = (case send (activate_call short) of
     Inl e \<Rightarrow> (Some e, ps) | Inr _ \<Rightarrow> (case refresh me (snd ps) of (r, s) \<Rightarrow> (r, fst ps, s)))"

definition remove_theme_call :: "bool \<Rightarrow> Theme \<Rightarrow> json call option" where
  "remove_theme_call agreed theme = (if \<not> agreed then None
     else Some (a_call (js ''DELETE'') (js ''/api/v1/admin/themes/'' @ tm_short (th_manifest theme)) None))"

definition remove_theme :: "bool \<Rightarrow> Theme \<Rightarrow> (json call \<Rightarrow> failure + unit) \<Rightarrow> failure + Theme list \<Rightarrow> refresh_answer \<Rightarrow>
    theme_state \<Rightarrow> theme_state outcome" where
  "remove_theme agreed theme send ts me ps = (case remove_theme_call agreed theme of None \<Rightarrow> (None, ps)
     | Some c \<Rightarrow> (case send c of Inl e \<Rightarrow> (Some e, ps) | Inr _ \<Rightarrow> themes_load ts me ps))"

definition openMarket :: "host \<Rightarrow> failure + MarketTheme list option \<Rightarrow> theme_page \<Rightarrow> theme_page" where
  "openMarket h answer p = (let p1 = p\<lparr>tg_marketOpen := True, tg_error := []\<rparr> in
     if tg_market p \<noteq> [] then p1
     else (case answer of
       Inl e \<Rightarrow> p1\<lparr>tg_error := failure_message h e, tg_busy := False\<rparr>
     | Inr catalog \<Rightarrow> p1\<lparr>tg_market := (case catalog of None \<Rightarrow> [] | Some ms \<Rightarrow> ms), tg_busy := False\<rparr>))"

definition installedVersion :: "theme_page \<Rightarrow> jsstring \<Rightarrow> jsstring" where
  "installedVersion p short = (case List.find (\<lambda>t. tm_short (th_manifest t) = short) (tg_themes p) of
     None \<Rightarrow> [] | Some t \<Rightarrow> (case tm_version (th_manifest t) of None \<Rightarrow> [] | Some v \<Rightarrow> v))"

section \<open>Configuration\<close>

definition options :: "ManagedItem \<Rightarrow> jsstring list" where
  "options item = split_field (js '','') (case md_options item of None \<Rightarrow> [] | Some s \<Rightarrow> s)"

definition itemName :: "AppLocale \<Rightarrow> ManagedItem \<Rightarrow> jsstring" where
  "itemName l item = (let s = localized l (md_name item) in if s = [] then md_key item else s)"

text \<open>The items of \<open>configuration.data\<close>, by the fields of their interface.\<close>

definition json_text :: "json option \<Rightarrow> jsstring option" where
  "json_text v = (case v of Some (JStr s) \<Rightarrow> Some s | _ \<Rightarrow> None)"

definition json_localized :: "json option \<Rightarrow> localized_text option" where
  "json_localized v = (case v of Some (JStr s) \<Rightarrow> Some (Plain s)
     | Some (JObj ps) \<Rightarrow> Some (Table (List.map_filter (\<lambda>(k, j). case j of JStr s \<Rightarrow> Some (k, s) | _ \<Rightarrow> None) ps)) | _ \<Rightarrow> None)"

definition as_item :: "json \<Rightarrow> ManagedItem" where
  "as_item j = (let get = (\<lambda>k. opt_get (Some j) (js k)); str = (\<lambda>v. case json_text v of None \<Rightarrow> [] | Some s \<Rightarrow> s) in
     \<lparr>md_key = str (get ''key''), md_name = json_localized (get ''name''), md_help = json_localized (get ''help''),
      md_type = str (get ''type''), md_options = json_text (get ''options''), md_default = get ''default'',
      md_required = (case get ''required'' of Some (JBool b) \<Rightarrow> Some b | _ \<Rightarrow> None)\<rparr>)"

definition selector :: "ManagedItem \<Rightarrow> bool" where
  "selector item \<longleftrightarrow> md_type item = js ''nodes'' \<or> md_type item = js ''pingtasks''"

definition no_field :: "ManagedItem \<Rightarrow> bool" where
  "no_field item \<longleftrightarrow> md_key item = [] \<or> md_type item = js ''title'' \<or> md_type item = js ''textbox''"

definition initial_value :: "Theme \<Rightarrow> ManagedItem \<Rightarrow> json" where
  "initial_value theme item = (case map_of (th_settings theme) (md_key item) of Some v \<Rightarrow> v
     | None \<Rightarrow> (case md_default item of Some v \<Rightarrow> v
       | None \<Rightarrow> if md_type item = js ''switch'' then JBool False
           else if md_type item = js ''number'' then JNum (Fin 0)
           else if md_type item = js ''select'' then JStr (case options item of x # _ \<Rightarrow> x | [] \<Rightarrow> [])
           else JStr []))"

definition selector_value :: "json \<Rightarrow> jsstring" where
  "selector_value v = (case v of JArr xs \<Rightarrow> json_stringify (JArr xs) | JNull \<Rightarrow> [] | _ \<Rightarrow> json_string v)"

definition open_item :: "Theme \<Rightarrow> ManagedItem \<Rightarrow> theme_page \<Rightarrow> theme_page" where
  "open_item theme item p = (if no_field item then p
     else if selector item
     then p\<lparr>tg_selectorText := assign (md_key item) (selector_value (initial_value theme item)) (tg_selectorText p)\<rparr>
     else p\<lparr>tg_managedSettings := assign (md_key item) (initial_value theme item) (tg_managedSettings p)\<rparr>)"

definition configuration_kind :: "Theme \<Rightarrow> jsstring" where
  "configuration_kind theme = or_text (Option.bind (tm_configuration (th_manifest theme)) cf_type) (js ''managed'')"

definition configuration_data :: "Theme \<Rightarrow> json option" where
  "configuration_data theme = Option.bind (tm_configuration (th_manifest theme)) cf_data"

text \<open>A URL that cannot be built throws out of the handler; nothing has changed then.\<close>

definition openConfiguration :: "(jsstring \<Rightarrow> jsstring \<Rightarrow> failure + jsstring) \<Rightarrow> jsstring \<Rightarrow> Theme \<Rightarrow> theme_page \<Rightarrow> theme_page" where
  "openConfiguration new_URL origin theme p =
     (case (configuration_kind theme = js ''redirect'', json_text (configuration_data theme)) of
       (True, Some target) \<Rightarrow> (case new_URL target (origin @ js ''/'') of Inl e \<Rightarrow> p | Inr u \<Rightarrow> p\<lparr>tg_location := Some u\<rparr>)
     | _ \<Rightarrow> (let p1 = p\<lparr>tg_configuring := Some theme\<rparr> in
         if configuration_kind theme = js ''raw''
         then p1\<lparr>tg_rawPanel := (case json_text (configuration_data theme) of None \<Rightarrow> [] | Some s \<Rightarrow> s), tg_managedItems := []\<rparr>
         else (let items = (case configuration_data theme of Some (JArr vs) \<Rightarrow> map as_item vs | _ \<Rightarrow> []) in
           fold (open_item theme) items (p1\<lparr>tg_managedItems := items, tg_managedSettings := [], tg_selectorText := []\<rparr>))))"

definition parseSelector :: "theme_page \<Rightarrow> ManagedItem \<Rightarrow> json list" where
  "parseSelector p item = (let raw = (case map_of (tg_selectorText p) (md_key item) of None \<Rightarrow> [] | Some s \<Rightarrow> trim s) in
     if raw = [] then []
     else (case json_parse raw of Some (JArr vs) \<Rightarrow> vs
       | _ \<Rightarrow> (let parts = split_field (js '','') raw in
           if md_type item = js ''pingtasks'' then map JNum (filter isFinite (map parse_number parts)) else map JStr parts)))"

definition sent_settings :: "theme_page \<Rightarrow> (jsstring \<times> json) list" where
  "sent_settings p = fold (\<lambda>item m. if selector item then assign (md_key item) (JArr (parseSelector p item)) m else m)
     (tg_managedItems p) (tg_managedSettings p)"

definition store_theme :: "Theme \<Rightarrow> Theme list \<Rightarrow> Theme list" where
  "store_theme updated = map (\<lambda>t. if tm_short (th_manifest t) = tm_short (th_manifest updated) then updated else t)"

definition configuration_call :: "theme_page \<Rightarrow> (jsstring \<times> json) list call option" where
  "configuration_call p = map_option (\<lambda>theme. a_call (js ''PUT'')
     (js ''/api/v1/admin/themes/'' @ tm_short (th_manifest theme) @ js ''/settings'') (Some (sent_settings p))) (tg_configuring p)"

definition saveConfiguration :: "host \<Rightarrow> AppLocale \<Rightarrow> ((jsstring \<times> json) list call \<Rightarrow> failure + Theme) \<Rightarrow> theme_page \<Rightarrow> theme_page" where
  "saveConfiguration h l send p = (case configuration_call p of None \<Rightarrow> p
     | Some c \<Rightarrow> (let p1 = (theme_start p)\<lparr>tg_managedSettings := sent_settings p\<rparr> in
         (case send c of
            Inl e \<Rightarrow> p1\<lparr>tg_error := failure_message h e, tg_busy := False\<rparr>
          | Inr updated \<Rightarrow> p1\<lparr>tg_themes := store_theme updated (tg_themes p), tg_configuring := None,
              tg_status := text_in l [20027, 39064, 35774, 32622, 24050, 20445, 23384, 12290] (js ''Theme settings saved.''), tg_busy := False\<rparr>)))"

section \<open>Properties\<close>

definition field_keys :: "ManagedItem list \<Rightarrow> jsstring list" where
  "field_keys items = map md_key (filter (\<lambda>i. \<not> no_field i) items)"

lemma field_keys_Cons: "field_keys (i # is) = (if no_field i then field_keys is else md_key i # field_keys is)"
  by (simp add: field_keys_def)

lemma open_items_frame:
  "k \<notin> set (field_keys items) \<Longrightarrow> map_of (tg_selectorText (fold (open_item theme) items p)) k = map_of (tg_selectorText p) k \<and>
     map_of (tg_managedSettings (fold (open_item theme) items p)) k = map_of (tg_managedSettings p) k"
  by (induction items arbitrary: p) (auto simp: field_keys_Cons open_item_def split: if_splits)

lemma open_items_fields:
  assumes "item \<in> set items" and "\<not> no_field item" and "distinct (field_keys items)"
  shows "(if selector item
    then map_of (tg_selectorText (fold (open_item theme) items p)) (md_key item) = Some (selector_value (initial_value theme item))
    else map_of (tg_managedSettings (fold (open_item theme) items p)) (md_key item) = Some (initial_value theme item))"
  using assms(1,3)
proof (induction items arbitrary: p)
  case (Cons i "is")
  show ?case
  proof (cases "item = i")
    case True
    then have "md_key item \<notin> set (field_keys is)" using Cons.prems(2) assms(2) by (simp add: field_keys_Cons)
    then show ?thesis using open_items_frame [of "md_key item" "is" theme] True assms(2)
      by (simp add: open_item_def [of theme i p])
  next
    case False
    then show ?thesis using Cons by (auto simp: field_keys_Cons split: if_splits)
  qed
qed simp

lemma open_items_items: "tg_managedItems (fold (open_item theme) items p) = tg_managedItems p"
  by (induction items arbitrary: p) (auto simp: open_item_def)

lemma selector_field: "selector item \<Longrightarrow> no_field item \<longleftrightarrow> md_key item = []"
  by (auto simp: selector_def no_field_def)

lemma send_selectors:
  assumes "item \<in> set items" and "\<not> no_field item" and "distinct (field_keys items)"
  shows "map_of (fold (\<lambda>item m. if selector item then assign (md_key item) (JArr (f item)) m else m) items m) (md_key item) =
    (if selector item then Some (JArr (f item)) else map_of m (md_key item))"
proof -
  have frame: "map_of (fold (\<lambda>item m. if selector item then assign (md_key item) (JArr (f item)) m else m) items m) k = map_of m k"
    if "k \<notin> set (field_keys items)" "k \<noteq> []" for k items m
    using that(1) by (induction items arbitrary: m) (use that(2) in \<open>auto simp: field_keys_Cons selector_field split: if_splits\<close>)
  have key: "md_key item \<noteq> []" using assms(2) by (auto simp: no_field_def)
  from assms(1,3) show ?thesis
  proof (induction items arbitrary: m)
    case (Cons i "is")
    show ?case
    proof (cases "item = i")
      case True
      then have "md_key item \<notin> set (field_keys is)" using Cons.prems(2) assms(2) by (simp add: field_keys_Cons)
      then show ?thesis using frame [OF _ key] True by simp
    next
      case False
      then have item: "item \<in> set is" using Cons.prems(1) by simp
      then have "md_key item \<in> set (field_keys is)" using assms(2) by (auto simp: field_keys_def)
      then have "md_key item \<noteq> md_key i \<or> no_field i" and "distinct (field_keys is)"
        using Cons.prems(2) by (auto simp: field_keys_Cons split: if_splits)
      note item this
      then show ?thesis using Cons.IH key by (auto simp: selector_field)
    qed
  qed simp
qed

lemma trim_array: "trim (json_stringify (JArr vs)) = json_stringify (JArr vs)"
  by (simp add: trim_id_iff is_white_def white_units_def)

text \<open>
  Opening the configuration of a theme and saving it unchanged sends every setting that the theme has
  for a field back as it was; a selection of nodes or tasks passes through its text without loss.
\<close>

text \<open>
  C34: Opening the configuration of a theme and saving it unchanged sends every setting of a field
  back as it was; selections of nodes or tasks survive being printed and parsed as JSON.
\<close>

theorem configuration_unchanged:
  assumes "configuration_kind theme = js ''managed''" and "configuration_data theme = Some (JArr vs)"
    and "item \<in> set (map as_item vs)" and "\<not> no_field item" and "distinct (field_keys (map as_item vs))"
    and "map_of (th_settings theme) (md_key item) = Some v" and "if selector item then \<exists>xs. v = JArr xs \<and> plain_json v else True"
  shows "map_of (sent_settings (openConfiguration new_URL origin theme p)) (md_key item) = Some v"
proof -
  let ?items = "map as_item vs"
  let ?p = "openConfiguration new_URL origin theme p"
  have init: "initial_value theme item = v" using assms(6) by (simp add: initial_value_def)
  have p: "?p = fold (open_item theme) ?items
      (p\<lparr>tg_configuring := Some theme, tg_managedItems := ?items, tg_managedSettings := [], tg_selectorText := []\<rparr>)"
    using assms(1,2) by (simp add: openConfiguration_def Let_def)
  have items: "tg_managedItems ?p = ?items" by (simp add: p open_items_items)
  have fields: "if selector item then map_of (tg_selectorText ?p) (md_key item) = Some (selector_value v)
      else map_of (tg_managedSettings ?p) (md_key item) = Some v"
    using open_items_fields [OF assms(3-5), of theme] init by (simp add: p)
  have "selector item \<Longrightarrow> JArr (parseSelector ?p item) = v"
  proof -
    assume sel: "selector item"
    then obtain xs where xs: "v = JArr xs" "plain_json v" using assms(7) by auto
    then have "map_of (tg_selectorText ?p) (md_key item) = Some (json_stringify v)" using fields sel by (simp add: selector_value_def)
    moreover have "json_stringify v \<noteq> []" "trim (json_stringify v) = json_stringify v" using xs(1) trim_array by simp_all
    ultimately show "JArr (parseSelector ?p item) = v" using parse_stringify [OF xs(2)] xs(1) by (simp add: parseSelector_def)
  qed
  then show ?thesis
    using send_selectors [OF assms(3-5), of "parseSelector ?p" "tg_managedSettings ?p"] fields
    by (simp add: sent_settings_def items split: if_splits)
qed

definition example_theme :: Theme where
  "example_theme = \<lparr>th_manifest = \<lparr>tm_name = Plain (js ''Dusk''), tm_short = js ''dusk'', tm_description = None, tm_version = None,
       tm_author = None, tm_url = None, tm_preview = None, tm_configuration = Some \<lparr>cf_type = None, cf_icon = None, cf_name = None,
         cf_data = Some (JArr [JObj [(js ''key'', JStr (js ''pinned'')), (js ''type'', JStr (js ''nodes''))],
           JObj [(js ''key'', JStr (js ''dense'')), (js ''type'', JStr (js ''switch''))]])\<rparr>\<rparr>,
     th_settings = [(js ''pinned'', JArr [JStr (js ''n1''), JStr (js ''n2'')])], th_source_url = None, th_checksum = [],
     th_installed_at = [], th_updated_at = []\<rparr>"

theorem configuration_unchanged_witness:
  "\<forall>new_URL origin. map_of (sent_settings (openConfiguration new_URL origin example_theme theme_init)) (js ''pinned'') =
     Some (JArr [JStr (js ''n1''), JStr (js ''n2'')])"
proof (intro allI)
  fix new_URL origin
  let ?item = "as_item (JObj [(js ''key'', JStr (js ''pinned'')), (js ''type'', JStr (js ''nodes''))])"
  let ?vs = "[JObj [(js ''key'', JStr (js ''pinned'')), (js ''type'', JStr (js ''nodes''))],
    JObj [(js ''key'', JStr (js ''dense'')), (js ''type'', JStr (js ''switch''))]]"
  have k: "md_key ?item = js ''pinned''" "\<not> no_field ?item" "selector ?item"
    by (simp_all add: as_item_def no_field_def selector_def json_text_def)
  have "configuration_kind example_theme = js ''managed''" "configuration_data example_theme = Some (JArr ?vs)"
    "distinct (field_keys (map as_item ?vs))" "map_of (th_settings example_theme) (md_key ?item) = Some (JArr [JStr (js ''n1''), JStr (js ''n2'')])"
    "plain_json (JArr [JStr (js ''n1''), JStr (js ''n2'')])"
    by (simp_all add: example_theme_def configuration_kind_def configuration_data_def or_text_def field_keys_def as_item_def
        no_field_def json_text_def)
  then show "map_of (sent_settings (openConfiguration new_URL origin example_theme theme_init)) (js ''pinned'') =
     Some (JArr [JStr (js ''n1''), JStr (js ''n2'')])"
    using configuration_unchanged [of example_theme ?vs ?item "JArr [JStr (js ''n1''), JStr (js ''n2'')]" new_URL origin theme_init] k
    by (simp del: js_simps)
qed

text \<open>A selection of tasks typed as a comma-separated line only ever yields finite task numbers.\<close>

theorem typed_tasks_finite:
  assumes "md_type item = js ''pingtasks''" and "map_of (tg_selectorText p) (md_key item) = Some s"
    and "\<And>vs. json_parse (trim s) \<noteq> Some (JArr vs)" and "x \<in> set (parseSelector p item)"
  shows "\<exists>n. x = JNum n \<and> isFinite n"
  using assms by (auto simp: parseSelector_def Let_def split: if_splits option.splits json.splits)

text \<open>No handler leaves the page busy, whatever its requests answer.\<close>

lemma theme_settle_idle: "\<not> tg_busy (fst (theme_settle h out))"
  by (auto simp: theme_settle_def split: prod.split option.split)

theorem themes_never_stay_busy:
  "\<not> tg_busy (fst (installURL h l send ts me ps)) \<and> \<not> tg_busy (fst (installMarket h l theme send ts me ps)) \<and>
   (tg_upload (fst ps) \<noteq> None \<longrightarrow> \<not> tg_busy (fst (uploadTheme h l sendf ts me ps))) \<and>
   (tg_configuring p \<noteq> None \<longrightarrow> \<not> tg_busy (saveConfiguration h l send' p))"
  by (auto simp: upload_call_def configuration_call_def installURL_def installMarket_def uploadTheme_def saveConfiguration_def Let_def theme_settle_idle
    split: option.split sum.split)

end
