(* ===== verification/AdminNotifications.thy ===== *)
theory AdminNotifications
  imports AdminProbes
begin

text \<open>
  \<open>web/src/components/admin/AdminNotifications.vue\<close>: notification channels. The configuration of a channel
  is an object whose fields depend on its type; the recipients of a mail channel are edited as one
  line.
\<close>

section \<open>State\<close>

record channel_page =
  ch_channels :: "NotificationChannel list"
  ch_editing :: "NotificationChannel option"
  ch_config :: "(jsstring \<times> json) list"
  ch_error :: jsstring
  ch_status :: jsstring

definition channel_init :: channel_page where
  "channel_init = \<lparr>ch_channels = [], ch_editing = None, ch_config = [], ch_error = [], ch_status = []\<rparr>"

definition blank_channel :: "channel_type \<Rightarrow> NotificationChannel" where
  "blank_channel ty = \<lparr>nc_id = Fin 0, nc_name = [], nc_type = ty, nc_config = Some [], nc_enabled = True,
     nc_created_at = None, nc_updated_at = None\<rparr>"

section \<open>Handlers\<close>

definition channels_loaded :: "failure + NotificationChannel list \<Rightarrow> channel_page \<Rightarrow> channel_page" where
  "channels_loaded answer p = (case answer of Inl e \<Rightarrow> p | Inr cs \<Rightarrow> p\<lparr>ch_channels := cs\<rparr>)"

text \<open>\<open>array.join(', ')\<close>, where \<open>null\<close> is the empty string.\<close>

definition join_values :: "json list \<Rightarrow> jsstring" where
  "join_values vs = csv_field (map (\<lambda>v. if v = JNull then [] else json_string v) vs)"

definition shown_config :: "(jsstring \<times> json) list \<Rightarrow> (jsstring \<times> json) list" where
  "shown_config c = (case map_of c (js ''to'') of Some (JArr vs) \<Rightarrow> assign (js ''to'') (JStr (join_values vs)) c | _ \<Rightarrow> c)"

definition edit_channel :: "NotificationChannel \<Rightarrow> channel_page \<Rightarrow> channel_page" where
  "edit_channel channel p = p\<lparr>ch_editing := Some channel,
     ch_config := shown_config (case nc_config channel of None \<Rightarrow> [] | Some c \<Rightarrow> c)\<rparr>"

definition create_channel :: "channel_page \<Rightarrow> channel_page" where
  "create_channel p = p\<lparr>ch_editing := Some (blank_channel Webhook), ch_config := []\<rparr>"

definition changeType :: "channel_page \<Rightarrow> channel_page" where
  "changeType p = p\<lparr>ch_config := []\<rparr>"

definition recipients :: "jsstring \<Rightarrow> jsstring list" where
  "recipients s = trimmed_parts (split_class (\<lambda>c. c = 44 \<or> c = 59) [] s)"

definition outgoing_config :: "channel_type \<Rightarrow> (jsstring \<times> json) list \<Rightarrow> (jsstring \<times> json) list" where
  "outgoing_config ty c = (case (ty = Smtp, map_of c (js ''to'')) of
     (True, Some (JStr s)) \<Rightarrow> assign (js ''to'') (JArr (map JStr (recipients s))) c | _ \<Rightarrow> c)"

definition channel_path :: jsstring where
  "channel_path = js ''/api/v1/admin/notifications''"

definition save_channel :: "channel_page \<Rightarrow> channel_page \<times> NotificationChannel call option" where
  "save_channel p = (case ch_editing p of None \<Rightarrow> (p, None)
     | Some c \<Rightarrow> (p\<lparr>ch_error := [], ch_status := []\<rparr>,
         Some (save_call channel_path (nc_id c) (c\<lparr>nc_config := Some (outgoing_config (nc_type c) (ch_config p))\<rparr>))))"

text \<open>The answers of the save and of the load that follows it.\<close>

definition channel_saved :: "host \<Rightarrow> failure + unit \<Rightarrow> failure + NotificationChannel list \<Rightarrow> channel_page \<Rightarrow> channel_page" where
  "channel_saved h answer reload p = (case answer of
     Inl e \<Rightarrow> p\<lparr>ch_error := failure_message h e\<rparr>
   | Inr _ \<Rightarrow> (case reload of
       Inl e \<Rightarrow> p\<lparr>ch_editing := None, ch_error := failure_message h e\<rparr>
     | Inr cs \<Rightarrow> p\<lparr>ch_editing := None, ch_channels := cs\<rparr>))"

definition test_channel :: "AppLocale \<Rightarrow> NotificationChannel \<Rightarrow> channel_page \<Rightarrow> channel_page \<times> NotificationChannel call" where
  "test_channel l c p = (p\<lparr>ch_status := text_in l ([27491, 22312, 27979, 35797, 32] @ nc_name c @ [8230]) (js ''Testing '' @ nc_name c @ [8230])\<rparr>,
     \<lparr>call_method = js ''POST'', call_path = channel_path @ js ''/'' @ num_string (nc_id c) @ js ''/test'', call_body = None\<rparr>)"

definition channel_tested :: "host \<Rightarrow> AppLocale \<Rightarrow> NotificationChannel \<Rightarrow> failure + unit \<Rightarrow> channel_page \<Rightarrow> channel_page" where
  "channel_tested h l c answer p = (case answer of
     Inl e \<Rightarrow> p\<lparr>ch_status := failure_message h e\<rparr>
   | Inr _ \<Rightarrow> p\<lparr>ch_status := text_in l (nc_name c @ [65306, 24050, 21457, 36865]) (nc_name c @ js '': delivered'')\<rparr>)"

definition remove_channel :: "bool \<Rightarrow> NotificationChannel \<Rightarrow> NotificationChannel call option" where
  "remove_channel agreed c = (if agreed then Some (delete_call channel_path (nc_id c)) else None)"

section \<open>Properties\<close>

text \<open>Addresses as the form can carry them.\<close>

definition plain_address :: "jsstring \<Rightarrow> bool" where
  "plain_address a \<longleftrightarrow> a \<noteq> [] \<and> trim a = a \<and> 44 \<notin> set a \<and> 59 \<notin> set a"

lemma recipients_join:
  assumes "list_all plain_address as"
  shows "recipients (csv_field as) = as"
proof (cases "as")
  case Nil
  then show ?thesis by (simp add: recipients_def csv_field_def trimmed_parts_def)
next
  case (Cons a bs)
  have "split_class (\<lambda>c. c = 44 \<or> c = 59) [] (join [44, 32] as) = hd as # map ((#) 32) (tl as)"
    using assms Cons by (subst split_class_join) (auto simp: plain_address_def list_all_iff)
  then have "recipients (csv_field as) = trimmed_parts (a # map ((#) 32) bs)"
    by (simp add: recipients_def csv_field_def Cons)
  moreover have "map trim (a # map ((#) 32) bs) = a # bs"
    using assms Cons by (auto simp: plain_address_def list_all_iff comp_def intro: map_idI)
  ultimately show ?thesis
    using assms Cons by (auto simp: trimmed_parts_def plain_address_def list_all_iff intro: filter_True)
qed

text \<open>A mail channel that is opened and saved unchanged is sent back as it was.\<close>

theorem channel_unchanged:
  assumes "nc_type c = Smtp" and "nc_config c = Some cfg" and "map_of cfg (js ''to'') = Some (JArr (map JStr as))"
    and "list_all plain_address as"
  shows "snd (save_channel (edit_channel c p)) = Some (save_call channel_path (nc_id c) c)"
proof -
  have "map (\<lambda>v. if v = JNull then [] else json_string v) (map JStr as) = as" by (induction "as") simp_all
  then have "shown_config cfg = assign (js ''to'') (JStr (csv_field as)) cfg"
    by (simp add: shown_config_def assms(3) join_values_def del: js_simps)
  then have "outgoing_config Smtp (shown_config cfg) = cfg"
    using assms(3,4) by (simp add: outgoing_config_def recipients_join assign_same del: js_simps)
  then show ?thesis using assms(1,2) by (cases c) (simp add: save_channel_def edit_channel_def)
qed

theorem channel_unchanged_witness:
  "\<forall>p. snd (save_channel (edit_channel ((blank_channel Smtp)\<lparr>nc_config := Some [(js ''to'', JArr (map JStr [js ''a@b'', js ''c@d'']))]\<rparr>) p)) =
     Some (save_call channel_path (Fin 0) ((blank_channel Smtp)\<lparr>nc_config := Some [(js ''to'', JArr (map JStr [js ''a@b'', js ''c@d'']))]\<rparr>))"
  using channel_unchanged [of "(blank_channel Smtp)\<lparr>nc_config := Some [(js ''to'', JArr (map JStr [js ''a@b'', js ''c@d'']))]\<rparr>"
    "[(js ''to'', JArr (map JStr [js ''a@b'', js ''c@d'']))]" "[js ''a@b'', js ''c@d'']"]
  by (simp add: blank_channel_def plain_address_def trim_def is_white_def white_units_def)

end
