(* ===== verification/AdminSecurity.thy ===== *)
theory AdminSecurity
  imports AdminProbes DateLaws
begin

text \<open>
  \<open>web/src/components/admin/AdminSecurity.vue\<close>: two-factor authentication, password, API keys, share
  links and browser sessions. Every action runs under \<open>act\<close>, which clears the messages and turns a
  failure into an error message. An action is split at its requests: what it sends, and what it does
  with the answer, which may arrive after those of other actions.
\<close>

section \<open>State\<close>

record BrowserSession =
  bs_id :: jsstring
  bs_ip_address :: jsstring
  bs_user_agent :: jsstring
  bs_created_at :: jsstring
  bs_expires_at :: jsstring
  bs_current :: bool

record APIKey =
  ak_id :: jsstring
  ak_name :: jsstring
  ak_scopes :: "jsstring list"
  ak_last_used_at :: "jsstring option"
  ak_expires_at :: "jsstring option"
  ak_created_at :: jsstring

record ShareLink =
  sl_id :: jsstring
  sl_node_ids :: "jsstring list"
  sl_expires_at :: jsstring
  sl_created_at :: jsstring
  sl_revoked_at :: "jsstring option"

record security_page =
  se_sessions :: "BrowserSession list"
  se_keys :: "APIKey list"
  se_shares :: "ShareLink list"
  se_nodes :: "AdminNode list"
  se_twoFactor :: bool
  se_setupToken :: jsstring
  se_totpSecret :: jsstring
  se_totpURL :: jsstring
  se_totpCode :: jsstring
  se_recoveryCodes :: "jsstring list"
  se_disablePassword :: jsstring
  se_keyName :: jsstring
  se_keyDays :: number
  se_revealedKey :: jsstring
  se_shareNodes :: "jsstring list"
  se_shareExpiry :: jsstring
  se_revealedShare :: jsstring
  se_currentPassword :: jsstring
  se_newPassword :: jsstring
  se_status :: jsstring
  sec_error :: jsstring
  se_location :: "jsstring option"

text \<open>The proposed expiry of a share link: one week from now, as the text of a \<open>datetime-local\<close> input.\<close>

definition default_expiry :: "number \<Rightarrow> jsstring option" where
  "default_expiry now = map_option (slice 0 16) (toISOString (now + Fin 7 * Fin 86400000))"

definition security_init :: "number \<Rightarrow> security_page" where
  "security_init now = \<lparr>se_sessions = [], se_keys = [], se_shares = [], se_nodes = [], se_twoFactor = False, se_setupToken = [],
     se_totpSecret = [], se_totpURL = [], se_totpCode = [], se_recoveryCodes = [], se_disablePassword = [],
     se_keyName = js ''automation'', se_keyDays = Fin 365, se_revealedKey = [], se_shareNodes = [],
     se_shareExpiry = (case default_expiry now of None \<Rightarrow> [] | Some s \<Rightarrow> s), se_revealedShare = [], se_currentPassword = [],
     se_newPassword = [], se_status = [], sec_error = [], se_location = None\<rparr>"

section \<open>Requests\<close>

text \<open>What each action sends, from the fields of the page at the click.\<close>

definition beginTOTP :: "json call" where
  "beginTOTP = a_call (js ''POST'') (js ''/api/v1/admin/security/totp/setup'') None"

definition confirm_body :: "jsstring \<Rightarrow> jsstring \<Rightarrow> json" where
  "confirm_body token code = JObj [(js ''setup_token'', JStr token), (js ''code'', JStr code)]"

definition confirmTOTP :: "security_page \<Rightarrow> json call" where
  "confirmTOTP p = a_call (js ''POST'') (js ''/api/v1/admin/security/totp/confirm'') (Some (confirm_body (se_setupToken p) (se_totpCode p)))"

definition disableTOTP :: "security_page \<Rightarrow> json call" where
  "disableTOTP p = a_call (js ''DELETE'') (js ''/api/v1/admin/security/totp'') (Some (JObj [(js ''password'', JStr (se_disablePassword p))]))"

definition changePassword :: "security_page \<Rightarrow> json call" where
  "changePassword p = a_call (js ''PUT'') (js ''/api/v1/admin/security/password'')
     (Some (JObj [(js ''current_password'', JStr (se_currentPassword p)), (js ''new_password'', JStr (se_newPassword p))]))"

definition createKey :: "security_page \<Rightarrow> json call" where
  "createKey p = a_call (js ''POST'') (js ''/api/v1/admin/api-keys'')
     (Some (JObj [(js ''name'', JStr (se_keyName p)), (js ''expires_in_days'', JNum (se_keyDays p))]))"

definition revokeKey :: "bool \<Rightarrow> APIKey \<Rightarrow> json call option" where
  "revokeKey agreed key = (if agreed then Some (a_call (js ''DELETE'') (js ''/api/v1/admin/api-keys/'' @ ak_id key) None) else None)"

definition revokeSession :: "BrowserSession \<Rightarrow> failure + json call" where
  "revokeSession s = (case encodeURIComponent (bs_id s) of
     None \<Rightarrow> Inl (EngineError (js ''URIError''))
   | Some i \<Rightarrow> Inr (a_call (js ''DELETE'') (js ''/api/v1/admin/security/sessions/'' @ i) None))"

definition revokeOthers :: "json call" where
  "revokeOthers = a_call (js ''POST'') (js ''/api/v1/admin/security/sessions/revoke-others'') None"

text \<open>The expiry of a share link; \<open>toISOString\<close> throws for a text that is no date.\<close>

definition share_expiry :: "host \<Rightarrow> security_page \<Rightarrow> jsstring option" where
  "share_expiry h p = toISOString (date_time h (se_shareExpiry p))"

definition share_body :: "jsstring list \<Rightarrow> jsstring \<Rightarrow> json" where
  "share_body ids expires = JObj [(js ''node_ids'', JArr (map JStr ids)), (js ''expires_at'', JStr expires)]"

definition createShare :: "host \<Rightarrow> security_page \<Rightarrow> failure + json call" where
  "createShare h p = (case share_expiry h p of
     None \<Rightarrow> Inl (EngineError (js ''RangeError''))
   | Some expires \<Rightarrow> Inr (a_call (js ''POST'') (js ''/api/v1/admin/share-links'') (Some (share_body (se_shareNodes p) expires))))"

definition revokeShare :: "ShareLink \<Rightarrow> json call" where
  "revokeShare link = a_call (js ''DELETE'') (js ''/api/v1/admin/share-links/'' @ sl_id link) None"

section \<open>Answers\<close>

text \<open>
  What each action does with the page it finds when its request has been answered. \<open>Loaded\<close> has the
  answers of \<open>load\<close> (sessions, keys, links, nodes and the two-factor flag).
\<close>

datatype security_reply =
    Loaded "BrowserSession list" "APIKey list" "ShareLink list" "AdminNode list" "bool option"
  | Begun jsstring jsstring jsstring
  | Confirmed "jsstring list"
  | Disabled
  | PasswordChanged
  | KeyCreated jsstring
  | ShareCreated jsstring
  | Revoked
  | SessionRevoked bool

fun security_answered :: "AppLocale \<Rightarrow> security_reply \<Rightarrow> security_page \<Rightarrow> security_page" where
  "security_answered l (Loaded sessions keys shares nodes two) p = p\<lparr>se_sessions := sessions, se_keys := keys,
     se_shares := shares, se_nodes := nodes, se_twoFactor := (two = Some True)\<rparr>"
| "security_answered l (Begun secret url token) p = p\<lparr>se_totpSecret := secret, se_totpURL := url, se_setupToken := token\<rparr>"
| "security_answered l (Confirmed codes) p = p\<lparr>se_recoveryCodes := codes, se_twoFactor := True, se_setupToken := [],
     se_status := text_in l [20004, 27493, 39564, 35777, 24050, 21551, 29992, 65292, 35831, 31435, 21363, 20445, 23384, 24674, 22797, 30721, 12290]
       (js ''Two-factor authentication enabled. Save the recovery codes now.'')\<rparr>"
| "security_answered l Disabled p = p\<lparr>se_twoFactor := False, se_disablePassword := [],
     se_status := text_in l [20004, 27493, 39564, 35777, 24050, 20851, 38381, 12290] (js ''Two-factor authentication disabled.'')\<rparr>"
| "security_answered l PasswordChanged p = p\<lparr>se_currentPassword := [], se_newPassword := [],
     se_status := text_in l [23494, 30721, 24050, 26356, 25442, 12290] (js ''Password changed.'')\<rparr>"
| "security_answered l (KeyCreated token) p = p\<lparr>se_revealedKey := token\<rparr>"
| "security_answered l (ShareCreated url) p = p\<lparr>se_revealedShare := url\<rparr>"
| "security_answered l Revoked p = p"
| "security_answered l (SessionRevoked current) p = (if current then p\<lparr>se_location := Some (js ''/login'')\<rparr> else p)"

text \<open>Whether the action goes on with \<open>await load()\<close>.\<close>

fun reloads :: "security_reply \<Rightarrow> bool" where
  "reloads (KeyCreated token) = True"
| "reloads (ShareCreated url) = True"
| "reloads Revoked = True"
| "reloads (SessionRevoked current) = (\<not> current)"
| "reloads _ = False"

section \<open>Actions\<close>

text \<open>The actions that the page offers, and what of an action is still in flight.\<close>

datatype security_click = ClickLoad | ClickBegin | ClickConfirm | ClickDisable | ClickPassword | ClickCreateKey
  | ClickRevokeKey bool APIKey | ClickCreateShare | ClickRevokeShare ShareLink
  | ClickRevokeSession BrowserSession | ClickRevokeOthers

datatype security_pending = LoadPending | BeginPending | ConfirmPending | DisablePending | PasswordPending
  | KeyPending | SharePending | RevokePending | SessionPending bool

fun pending_of :: "security_reply \<Rightarrow> security_pending" where
  "pending_of (Loaded sessions keys shares nodes two) = LoadPending"
| "pending_of (Begun secret url token) = BeginPending"
| "pending_of (Confirmed codes) = ConfirmPending"
| "pending_of Disabled = DisablePending"
| "pending_of PasswordChanged = PasswordPending"
| "pending_of (KeyCreated token) = KeyPending"
| "pending_of (ShareCreated url) = SharePending"
| "pending_of Revoked = RevokePending"
| "pending_of (SessionRevoked current) = SessionPending current"

text \<open>
  An action up to its first \<open>await\<close>: it throws, sends nothing, or leaves with a call that changes the
  server (\<open>load\<close> only reads).
\<close>

fun security_request :: "host \<Rightarrow> security_click \<Rightarrow> security_page \<Rightarrow> failure + (security_pending \<times> json call option) option" where
  "security_request h ClickLoad p = Inr (Some (LoadPending, None))"
| "security_request h ClickBegin p = Inr (Some (BeginPending, Some beginTOTP))"
| "security_request h ClickConfirm p = Inr (Some (ConfirmPending, Some (confirmTOTP p)))"
| "security_request h ClickDisable p = Inr (Some (DisablePending, Some (disableTOTP p)))"
| "security_request h ClickPassword p = Inr (Some (PasswordPending, Some (changePassword p)))"
| "security_request h ClickCreateKey p = Inr (Some (KeyPending, Some (createKey p)))"
| "security_request h (ClickRevokeKey agreed key) p = Inr (map_option (\<lambda>c. (RevokePending, Some c)) (revokeKey agreed key))"
| "security_request h ClickCreateShare p = bind_result (createShare h p) (\<lambda>c. Inr (Some (SharePending, Some c)))"
| "security_request h (ClickRevokeShare link) p = Inr (Some (RevokePending, Some (revokeShare link)))"
| "security_request h (ClickRevokeSession s) p = bind_result (revokeSession s) (\<lambda>c. Inr (Some (SessionPending (bs_current s), Some c)))"
| "security_request h ClickRevokeOthers p = Inr (Some (RevokePending, Some revokeOthers))"

text \<open>The page with the requests that it awaits; buttons stay enabled meanwhile, so that several may overlap.\<close>

record security_run =
  sr_page :: security_page
  sr_pending :: "security_pending list"

definition security_start :: "number \<Rightarrow> security_run" where
  "security_start now = \<lparr>sr_page = security_init now, sr_pending = []\<rparr>"

text \<open>\<open>act\<close>: the messages are cleared and the action starts; a failure becomes the error message.\<close>

definition act :: "host \<Rightarrow> security_click \<Rightarrow> security_run \<Rightarrow> security_run" where
  "act h k r = (let p = (sr_page r)\<lparr>sec_error := [], se_status := []\<rparr> in
     case security_request h k p of
       Inl e \<Rightarrow> r\<lparr>sr_page := p\<lparr>sec_error := failure_message h e\<rparr>\<rparr>
     | Inr None \<Rightarrow> r\<lparr>sr_page := p\<rparr>
     | Inr (Some (q, c)) \<Rightarrow> r\<lparr>sr_page := p, sr_pending := sr_pending r @ [q]\<rparr>)"

definition act_answered :: "AppLocale \<Rightarrow> security_reply \<Rightarrow> security_run \<Rightarrow> security_run" where
  "act_answered l a r = r\<lparr>sr_page := security_answered l a (sr_page r),
     sr_pending := remove1 (pending_of a) (sr_pending r) @ (if reloads a then [LoadPending] else [])\<rparr>"

definition act_failed :: "host \<Rightarrow> security_pending \<Rightarrow> failure \<Rightarrow> security_run \<Rightarrow> security_run" where
  "act_failed h q e r = r\<lparr>sr_page := (sr_page r)\<lparr>sec_error := failure_message h e\<rparr>, sr_pending := remove1 q (sr_pending r)\<rparr>"

section \<open>Properties\<close>

text \<open>Revoking the own session leaves for the login page; revoking another one loads the lists again.\<close>

theorem own_session_leaves:
  assumes "revokeSession s = Inr c"
  shows "let r' = act_answered l (SessionRevoked (bs_current s)) (act h (ClickRevokeSession s) r) in
    (bs_current s \<longrightarrow> se_location (sr_page r') = Some (js ''/login'')) \<and>
    (\<not> bs_current s \<longrightarrow> se_location (sr_page r') = se_location (sr_page r) \<and> LoadPending \<in> set (sr_pending r'))"
  using assms by (simp add: act_def act_answered_def Let_def)

section \<open>The proposed expiry\<close>

lemma parse_clock_minutes:
  assumes "0 \<le> hh \<and> hh < 10 ^ 2" "0 \<le> mi \<and> mi < 10 ^ 2"
  shows "parse_clock (pad_digits 2 hh @ 58 # pad_digits 2 mi) = Some (hh, mi, 0, 0, [])"
proof -
  have "take_field 58 2 (58 # pad_digits 2 mi @ []) = Some (mi, [])" using assms(2) by (intro take_field_pad) auto
  moreover have "take_digits 2 (pad_digits 2 hh @ 58 # pad_digits 2 mi) = Some (hh, 58 # pad_digits 2 mi)"
    using assms(1) by (intro take_digits_pad) auto
  moreover have "take_field 58 2 [] = None" by (simp add: take_field_def)
  ultimately show ?thesis by (simp add: parse_clock_def)
qed

lemma slice_minutes:
  assumes "0 \<le> iso_year t" and "iso_year t \<le> 9999" and "r = t mod ms_per_day"
  shows "map_option (slice 0 16) (toISOString (Fin (of_int t))) =
    Some (day_string (iso_year t) (iso_month t) (iso_day t) @ 84 # pad_digits 2 (r div 3600000) @ 58 # pad_digits 2 (r div 60000 mod 60))"
proof -
  have r: "0 \<le> r" "r < 86400000" by (simp_all add: assms(3) ms_per_day_def)
  have "length (pad_digits 2 (r div 3600000)) = 2" "length (pad_digits 2 (r div 60000 mod 60)) = 2"
    using clock_bounds [OF r] by (intro pad_digits_correct(1); simp)+
  then show ?thesis
    using length_day_string [OF assms(1,2) iso_valid [of t]] assms(3)
    by (simp add: toISOString_fields slice_def clock_string_def del: toISOString.simps)
qed

lemma minutes_of:
  assumes "r = (t::int) mod 86400000"
  shows "t div 86400000 * 86400000 + (r div 3600000 * 3600000 + r div 60000 mod 60 * 60000) = t - t mod 60000"
proof -
  have "r div 3600000 = r div 60000 div 60" by (simp add: zdiv_zmult2_eq [symmetric])
  then have "r div 3600000 * 3600000 + r div 60000 mod 60 * 60000 = r - r mod 60000"
    using mult_div_mod_eq [of 60 "r div 60000"] mult_div_mod_eq [of 60000 r] by linarith
  moreover have "r mod 60000 = t mod 60000" unfolding assms by (simp add: mod_mod_cancel)
  moreover have "t div 86400000 * 86400000 + r = t" unfolding assms by simp
  ultimately show ?thesis by linarith
qed

lemma local_minutes_read:
  assumes "\<bar>t\<bar> \<le> 8640000000000000" and "r = t mod ms_per_day"
  shows "date_time h (day_string (iso_year t) (iso_month t) (iso_day t) @ 84 # pad_digits 2 (r div 3600000) @ 58 # pad_digits 2 (r div 60000 mod 60)) =
    time_clip (utc_of_local h (t - t mod 60000))"
proof -
  have r: "0 \<le> r" "r < 86400000" "r = t mod 86400000" by (simp_all add: assms(2) ms_per_day_def)
  note b = clock_bounds [OF r(1,2)]
  have c: "parse_clock (pad_digits 2 (r div 3600000) @ 58 # pad_digits 2 (r div 60000 mod 60)) =
      Some (r div 3600000, r div 60000 mod 60, 0, 0, [])"
    using b by (intro parse_clock_minutes) auto
  have "make_day (iso_year t) (iso_month t) (iso_day t) * ms_per_day + r div 3600000 * 3600000 + r div 60000 mod 60 * 60000 = t - t mod 60000"
    using minutes_of [OF r(3)] by (simp add: iso_make_day ms_per_day_def add.assoc)
  moreover have "valid_clock (r div 3600000) (r div 60000 mod 60) 0 0" using b by (simp add: valid_clock_def)
  ultimately show ?thesis
    by (simp add: date_time_def parse_day_string [OF iso_year_bound [OF assms(1)] iso_valid] iso_valid c parse_offset_def Let_def)
qed

text \<open>
  The proposed expiry prints the time of the UTC clock, and the form reads it as local time: it is
  one week from now only where the local time is UTC, and off by the difference elsewhere.
\<close>

theorem default_expiry_off_by_zone:
  assumes "0 \<le> t" and "t + 604800000 \<le> 8640000000000000" and "iso_year (t + 604800000) \<le> 9999" and "0 \<le> iso_year (t + 604800000)"
  shows "date_time h (se_shareExpiry (security_init (Fin (of_int t)))) =
    time_clip (utc_of_local h (t + 604800000 - (t + 604800000) mod 60000))"
proof -
  have "Fin 7 * Fin 86400000 = Fin (of_int 604800000)" by (simp add: num_simps)
  moreover have "Fin (of_int t) + Fin (of_int 604800000) = Fin (of_int (t + 604800000))"
    using fl_of_int [of "t + 604800000"] assms by simp
  ultimately have "default_expiry (Fin (of_int t)) = map_option (slice 0 16) (toISOString (Fin (of_int (t + 604800000))))"
    unfolding default_expiry_def by (simp only:)
  then show ?thesis
    using local_minutes_read [OF _ refl, of "t + 604800000" h] assms(1,2)
    by (simp only: slice_minutes [OF assms(4,3) refl]) (simp add: security_init_def)
qed

end
