(* ===== verification/AdminDashboard.thy ===== *)
theory AdminDashboard
  imports AdminProbes
begin

text \<open>
  \<open>web/src/components/admin/AdminOverview.vue\<close> and \<open>web/src/components/admin/AdminAudit.vue\<close>: the first
  page of the administration and the audit log.
\<close>

section \<open>AdminOverview.vue\<close>

record dashboard =
  da_nodes :: "AdminNode list"
  da_events :: "AlertEvent list"
  da_copied :: bool

definition dashboard_init :: dashboard where
  "dashboard_init = \<lparr>da_nodes = [], da_events = [], da_copied = False\<rparr>"

definition installCommand :: "jsstring \<Rightarrow> jsstring" where
  "installCommand origin = js ''curl -fsSL '' @ origin @ js ''/install.sh | sh''"

definition windowsInstaller :: "jsstring \<Rightarrow> jsstring" where
  "windowsInstaller origin = origin @ js ''/install.ps1''"

definition seen_recently :: "host \<Rightarrow> number \<Rightarrow> AdminNode \<Rightarrow> bool" where
  "seen_recently h now node = (case pn_last_seen_at node of None \<Rightarrow> False
     | Some s \<Rightarrow> s \<noteq> [] \<and> now - date_time h s < Fin 90000)"

definition online_nodes :: "host \<Rightarrow> number \<Rightarrow> dashboard \<Rightarrow> nat" where
  "online_nodes h now d = length (filter (seen_recently h now) (da_nodes d))"

definition capacity :: "dashboard \<Rightarrow> number" where
  "capacity d = foldl (\<lambda>total node. total + (if truthy_num (pn_traffic_limit node) then pn_traffic_limit node else Fin 0))
     (Fin 0) (da_nodes d)"

definition capacity_label :: "host \<Rightarrow> AppLocale \<Rightarrow> dashboard \<Rightarrow> jsstring" where
  "capacity_label h l d = (if truthy_num (capacity d) then bytes h (capacity d) 1 else text_in l [26410, 35774, 32622] (js ''Unbound''))"

definition firing_count :: "dashboard \<Rightarrow> nat" where
  "firing_count d = length (filter (\<lambda>e. ae_status e = Firing) (da_events d))"

definition dashboard_loaded :: "failure + AdminNode list \<times> AlertEvent list \<Rightarrow> dashboard \<Rightarrow> dashboard" where
  "dashboard_loaded answer d = (case answer of Inl e \<Rightarrow> d | Inr (nodes, events) \<Rightarrow> d\<lparr>da_nodes := nodes, da_events := events\<rparr>)"

definition copyCommand :: "failure + unit \<Rightarrow> dashboard \<Rightarrow> dashboard" where
  "copyCommand answer d = (case answer of Inl e \<Rightarrow> d | Inr _ \<Rightarrow> d\<lparr>da_copied := True\<rparr>)"

definition copyCommand_expired :: "dashboard \<Rightarrow> dashboard" where
  "copyCommand_expired d = d\<lparr>da_copied := False\<rparr>"

section \<open>AdminAudit.vue\<close>

definition audit_loaded :: "failure + AuditEntry list \<Rightarrow> AuditEntry list \<Rightarrow> AuditEntry list" where
  "audit_loaded answer entries = (case answer of Inl e \<Rightarrow> entries | Inr es \<Rightarrow> es)"

section \<open>Properties\<close>

text \<open>The declared capacity of the fleet is the exact sum of the quotas while that is a safe integer.\<close>

theorem capacity_exact:
  assumes "\<And>node. node \<in> set (da_nodes d) \<Longrightarrow> pn_traffic_limit node = Fin (of_int (quota node)) \<and> 0 \<le> quota node"
    and "sum_list (map quota (da_nodes d)) \<le> 2 ^ 53"
  shows "capacity d = Fin (of_int (sum_list (map quota (da_nodes d))))"
proof -
  let ?f = "\<lambda>total node. total + (if truthy_num (pn_traffic_limit node) then pn_traffic_limit node else Fin 0)"
  have "foldl ?f (Fin (of_int a)) ns = Fin (of_int (a + sum_list (map quota ns)))"
    if "\<forall>n \<in> set ns. pn_traffic_limit n = Fin (of_int (quota n)) \<and> 0 \<le> quota n" "0 \<le> a" "a + sum_list (map quota ns) \<le> 2 ^ 53"
    for a and ns :: "AdminNode list"
    using that
  proof (induction ns arbitrary: a)
    case (Cons n ns)
    have pos: "0 \<le> sum_list (map quota ns)" using Cons.prems(1) by (intro sum_list_nonneg) auto
    have "?f (Fin (of_int a)) n = Fin (of_int (a + quota n))"
      using Cons.prems pos fl_of_int [of "a + quota n"] fl_of_int [of a] by (auto simp: truthy_num_def)
    then show ?case using Cons.IH [of "a + quota n"] Cons.prems by (simp add: add.assoc)
  qed simp
  from this [of "da_nodes d" 0] show ?thesis using assms by (simp add: capacity_def)
qed

theorem online_at_most_all: "online_nodes h now d \<le> length (da_nodes d) \<and> firing_count d \<le> length (da_events d)"
  by (simp add: online_nodes_def firing_count_def)

end
