(* ===== verification/AdminCalls.thy ===== *)
theory AdminCalls
  imports AdminProbes AdminRules AdminNodes AdminLatency AdminNotifications AdminSettings AdminThemes AdminSecurity AdminBackups
begin

text \<open>
  What the pages of the administration ask of the API client: the handlers of
  \<open>web/src/components/admin\<close> that change something on the server send a method that changes, below one
  path, and \<open>web/src/api.ts\<close> adds the CSRF token to it. The locale \<open>admin_client\<close> is that contract, with
  one interpretation per handler.
\<close>

section \<open>From a call to a request\<close>

text \<open>
  \<open>api(path, { method, body })\<close>; \<open>encode\<close> is what the page makes of the value that it sends: the text of
  \<open>JSON.stringify\<close>, or a form.
\<close>

definition call_options :: "('b \<Rightarrow> body) \<Rightarrow> 'b call \<Rightarrow> request_init" where
  "call_options encode c = no_options\<lparr>ri_method := Some (call_method c), ri_body := map_option encode (call_body c)\<rparr>"

definition admin_root :: jsstring where
  "admin_root = js ''/api/v1/admin/''"

definition changing :: "'b call \<Rightarrow> bool" where
  "changing c \<longleftrightarrow> call_method c \<in> set [js ''PUT'', js ''POST'', js ''DELETE''] \<and> startsWith (call_path c) admin_root"

text \<open>The request leaves with its method, its path, the token and the session cookie.\<close>

definition protected :: "host \<Rightarrow> jsstring \<Rightarrow> jsstring \<Rightarrow> ('b \<Rightarrow> body) \<Rightarrow> 'b call \<Rightarrow> bool" where
  "protected h doc token encode c \<longleftrightarrow> (case prepare_request h doc (call_path c) (call_options encode c) of
     Inl _ \<Rightarrow> False
   | Inr r \<Rightarrow> fr_method r = Some (call_method c) \<and> startsWith (fr_path r) admin_root \<and>
       fr_headers r (header_name (js ''X-CSRF-Token'')) = Some (header_value token) \<and> fr_credentials r = js ''same-origin'')"

text \<open>What the client finds in the browser once the server has set the cookie.\<close>

definition has_token :: "jsstring \<Rightarrow> jsstring \<Rightarrow> bool" where
  "has_token doc token \<longleftrightarrow> cookie doc (js ''hostpin_csrf'') = Inr token \<and> token \<noteq> [] \<and> header_value_ok token"

lemma changing_not_safe: "changing c \<Longrightarrow> \<not> safe_method h (call_options f c)"
  by (auto simp: changing_def safe_method_def call_options_def toUpperCase_def is_ascii_def upper_unit_def)

lemma json_header_ok: "header_value_ok (js ''application/json'')"
  by (simp add: header_value_ok_def header_value_def header_space_def)

lemma call_headers:
  "content_headers (call_options f c) Map.empty \<in> range Inr"
  using json_header_ok by (simp add: content_headers_def header_set_def)

lemma changing_prepared:
  assumes "has_token doc token" and "changing c"
  shows "\<exists>r. prepare_request h doc (call_path c) (call_options f c) = Inr r \<and> fr_method r = Some (call_method c) \<and> fr_path r = call_path c"
proof -
  obtain hs where "content_headers (call_options f c) Map.empty = Inr hs" using call_headers [of f c] by blast
  moreover have "ri_headers (call_options f c) = []" "ri_method (call_options f c) = Some (call_method c)"
    by (simp_all add: call_options_def no_options_def)
  ultimately show ?thesis
    using assms changing_not_safe [OF assms(2), of h f]
    by (simp add: prepare_request_def csrf_headers_def bind_result_def has_token_def header_set_def)
qed

lemma changing_protected:
  assumes "has_token doc token" and "changing c"
  shows "protected h doc token f c"
proof -
  obtain r where r: "prepare_request h doc (call_path c) (call_options f c) = Inr r"
    "fr_method r = Some (call_method c)" "fr_path r = call_path c"
    using changing_prepared [OF assms] by blast
  have "cookie doc (js ''hostpin_csrf'') = Inr token" "token \<noteq> []" using assms(1) by (simp_all add: has_token_def)
  then show ?thesis
    using r csrf_header_set [OF changing_not_safe [OF assms(2)] _ _ r(1)] assms(2)
    by (simp add: protected_def changing_def)
qed

section \<open>The contract\<close>

locale admin_client =
  fixes calls :: "'s \<Rightarrow> 'b call list"
  assumes calls_change: "list_all changing (calls s)"
begin

lemma calls_protected: "has_token doc token \<Longrightarrow> list_all (protected h doc token f) (calls s)"
  using calls_change [of s] by (auto simp: list_all_iff intro: changing_protected)

end

definition opt_list :: "'a option \<Rightarrow> 'a list" where
  "opt_list v = (case v of None \<Rightarrow> [] | Some x \<Rightarrow> [x])"

lemma list_all_opt: "list_all P (opt_list v) \<longleftrightarrow> (\<forall>x. v = Some x \<longrightarrow> P x)"
  by (auto simp: opt_list_def split: option.split)

lemma startsWith_longer: "startsWith s t \<Longrightarrow> startsWith (s @ r) t"
  by (metis append_take_drop_id startsWith_append startsWith_def append_assoc)

lemma save_call_changing: "startsWith base admin_root \<Longrightarrow> changing (save_call base i v)"
  by (simp add: changing_def save_call_def startsWith_longer)

lemma delete_call_changing: "startsWith base admin_root \<Longrightarrow> changing (delete_call base i)"
  by (simp add: changing_def delete_call_def startsWith_longer)

lemma admin_paths:
  "startsWith probe_path admin_root" "startsWith rule_path admin_root" "startsWith target_path admin_root"
  "startsWith channel_path admin_root" "startsWith (node_path i) admin_root"
  by (simp_all add: probe_path_def rule_path_def target_path_def channel_path_def node_path_def admin_root_def startsWith_def)

lemmas changing_calls = list_all_opt save_call_changing delete_call_changing admin_paths startsWith_longer

lemmas literal_calls = list_all_opt changing_def startsWith_def admin_root_def node_path_def a_call_def

section \<open>The pages\<close>

interpretation probe_save: admin_client "\<lambda>p. opt_list (snd (save_probe p))"
  by unfold_locales (auto simp: changing_calls save_probe_def split: option.splits)

interpretation carrier_save: admin_client "\<lambda>p. opt_list (snd (saveCarrier h p))" for h
  by unfold_locales (auto simp: literal_calls saveCarrier_def split: option.splits)

interpretation probe_remove: admin_client "\<lambda>(agreed, task). opt_list (remove_probe agreed task)"
  by unfold_locales (auto simp: changing_calls remove_probe_def)

interpretation rule_save: admin_client "\<lambda>p. opt_list (snd (save_rule p))"
  by unfold_locales (auto simp: changing_calls save_rule_def Let_def split: option.splits)

interpretation rule_remove: admin_client "\<lambda>(agreed, rule). opt_list (remove_rule agreed rule)"
  by unfold_locales (auto simp: changing_calls remove_rule_def)

interpretation channel_save: admin_client "\<lambda>p. opt_list (snd (save_channel p))"
  by unfold_locales (auto simp: changing_calls save_channel_def split: option.splits)

interpretation channel_remove: admin_client "\<lambda>(agreed, c). opt_list (remove_channel agreed c)"
  by unfold_locales (auto simp: changing_calls remove_channel_def)

interpretation channel_test: admin_client "\<lambda>(l, c, p). [snd (test_channel l c p)]"
  by unfold_locales (auto simp: literal_calls test_channel_def channel_path_def)

interpretation target_save: admin_client "\<lambda>p. opt_list (snd (saveTarget p))"
  by unfold_locales (auto simp: changing_calls saveTarget_def split: option.splits)

interpretation target_remove: admin_client "\<lambda>(agreed, task). opt_list (removeTarget agreed task)"
  by unfold_locales (auto simp: changing_calls removeTarget_def)

interpretation point_save: admin_client "\<lambda>p. snd (saveNode p)"
  by unfold_locales (auto simp: literal_calls saveNode_def Let_def split: option.splits)

interpretation point_remove: admin_client "\<lambda>(agreed, node). opt_list (removeNode agreed node)"
  by unfold_locales (auto simp: literal_calls removeNode_def)

interpretation node_save: admin_client "\<lambda>p. opt_list (snd (save_node h l p))" for h l
  by unfold_locales (auto simp: literal_calls save_node_def Let_def split: option.splits sum.splits if_splits)

interpretation config_save: admin_client "\<lambda>(i, answer, p). opt_list (snd (node_saved h i answer p))" for h
  by unfold_locales (auto simp: literal_calls node_saved_def split: sum.splits)

interpretation flag_save: admin_client "\<lambda>(i, enabled, answer, p). opt_list (snd (config_saved h i enabled answer p))" for h
  by unfold_locales (auto simp: literal_calls config_saved_def split: sum.splits)

interpretation node_remove: admin_client "\<lambda>(agreed, node). opt_list (remove_node agreed node)"
  by unfold_locales (auto simp: literal_calls remove_node_def)

interpretation correction_save: admin_client "\<lambda>p. opt_list (snd (applyTrafficCorrection l p))" for l
  by unfold_locales (auto simp: literal_calls applyTrafficCorrection_def Let_def split: option.splits if_splits)

interpretation correction_clear: admin_client "\<lambda>p. opt_list (snd (clearTrafficCorrection p))"
  by unfold_locales (auto simp: literal_calls clearTrafficCorrection_def split: option.splits)

interpretation settings_save: admin_client "\<lambda>p. opt_list (snd (save_start p))"
  by unfold_locales (auto simp: literal_calls save_start_def Let_def split: option.splits)

interpretation pin_calls: admin_client "\<lambda>p. [snd (rotatePIN p), snd (createTemporaryPIN p)] @ opt_list (snd (revokeTemporaryPIN p))"
  by unfold_locales (auto simp: literal_calls rotatePIN_def createTemporaryPIN_def revokeTemporaryPIN_def)

interpretation theme_upload: admin_client "\<lambda>p. opt_list (upload_call p)"
  by unfold_locales (auto simp: literal_calls upload_call_def)

interpretation theme_calls: admin_client "\<lambda>(body, short, agreed, theme). [install_call body, activate_call short] @ opt_list (remove_theme_call agreed theme)"
  by unfold_locales (auto simp: literal_calls install_call_def activate_call_def remove_theme_call_def)

interpretation theme_configuration: admin_client "\<lambda>p. opt_list (configuration_call p)"
  by unfold_locales (auto simp: literal_calls configuration_call_def)

text \<open>The calls of the security page, by the click that sends them.\<close>

definition security_calls :: "host \<Rightarrow> security_click \<Rightarrow> security_page \<Rightarrow> json call list" where
  "security_calls h k p = (case security_request h k p of Inr (Some (q, Some c)) \<Rightarrow> [c] | _ \<Rightarrow> [])"

lemmas security_request_defs = security_calls_def beginTOTP_def confirmTOTP_def disableTOTP_def changePassword_def createKey_def
  revokeKey_def revokeSession_def revokeOthers_def createShare_def revokeShare_def

interpretation security_page_calls: admin_client "\<lambda>(k, p). security_calls h k p" for h
proof
  fix s :: "security_click \<times> security_page"
  obtain k p where s: "s = (k, p)" by fastforce
  show "list_all changing (case s of (k, p) \<Rightarrow> security_calls h k p)"
    unfolding s by (cases k) (auto simp: literal_calls security_request_defs bind_result_def split: option.split)
qed

interpretation backup_export: admin_client "\<lambda>p. snd (exportBackup h l download p)" for h l download
  by unfold_locales (auto simp: literal_calls exportBackup_def export_call_def Let_def)

interpretation backup_import: admin_client "\<lambda>p. snd (importBackup h l post readyz p)" for h l post readyz
  by unfold_locales (auto simp: literal_calls importBackup_def import_call_def Let_def split: option.split bool.split)

section \<open>Every change carries the token\<close>

text \<open>
  C26: Every request by which the administration pages change the server (probes, carrier
  measurements, latency targets and points, alert rules, channels, nodes, traffic corrections,
  site settings, enrollment and temporary PINs, themes, two-factor authentication, password, API
  keys, share links, sessions, backups) goes below /api/v1/admin/ with a changing method, the CSRF
  token of the cookie and same-origin credentials, whatever state the page is in, once the browser
  has the token.
\<close>

theorem admin_changes_protected:
  assumes "has_token doc token"
  shows "list_all (protected h doc token f) (opt_list (snd (save_probe p1)) @ opt_list (snd (saveCarrier h p1)) @
      opt_list (remove_probe yes task) @ opt_list (snd (saveTarget p2)) @ opt_list (removeTarget yes task)) \<and>
    list_all (protected h doc token g) (opt_list (snd (save_rule p3)) @ opt_list (remove_rule yes rule)) \<and>
    list_all (protected h doc token k) (opt_list (snd (save_channel p4)) @ [snd (test_channel l channel p4)] @ opt_list (remove_channel yes channel)) \<and>
    list_all (protected h doc token m) (snd (saveNode p2) @ opt_list (removeNode yes node)) \<and>
    list_all (protected h doc token n) (opt_list (snd (save_node h l p5)) @ opt_list (snd (node_saved h i answer p5)) @
      opt_list (snd (config_saved h i enabled answer p5)) @ opt_list (remove_node yes node)) \<and>
    list_all (protected h doc token q) (opt_list (snd (applyTrafficCorrection l p5)) @ opt_list (snd (clearTrafficCorrection p5))) \<and>
    list_all (protected h doc token u) (opt_list (snd (save_start p6))) \<and>
    list_all (protected h doc token v) ([snd (rotatePIN p6), snd (createTemporaryPIN p6)] @ opt_list (snd (revokeTemporaryPIN p6)) @
      [install_call body, activate_call short] @ opt_list (remove_theme_call yes theme) @ security_calls h click p8 @
      snd (exportBackup h l download p9)) \<and>
    list_all (protected h doc token w) (opt_list (upload_call p7) @ snd (importBackup h l post readyz p9)) \<and>
    list_all (protected h doc token x) (opt_list (configuration_call p7))"
  using probe_save.calls_protected [OF assms, of h f p1] carrier_save.calls_protected [OF assms, of h f h p1]
    probe_remove.calls_protected [OF assms, of h f "(yes, task)"] target_save.calls_protected [OF assms, of h f p2]
    target_remove.calls_protected [OF assms, of h f "(yes, task)"] rule_save.calls_protected [OF assms, of h g p3]
    rule_remove.calls_protected [OF assms, of h g "(yes, rule)"] channel_save.calls_protected [OF assms, of h k p4]
    channel_test.calls_protected [OF assms, of h k "(l, channel, p4)"] channel_remove.calls_protected [OF assms, of h k "(yes, channel)"]
    point_save.calls_protected [OF assms, of h m p2] point_remove.calls_protected [OF assms, of h m "(yes, node)"]
    node_save.calls_protected [OF assms, of h n h l p5] config_save.calls_protected [OF assms, of h n h "(i, answer, p5)"]
    flag_save.calls_protected [OF assms, of h n h "(i, enabled, answer, p5)"] node_remove.calls_protected [OF assms, of h n "(yes, node)"]
    correction_save.calls_protected [OF assms, of h q l p5] correction_clear.calls_protected [OF assms, of h q p5]
    settings_save.calls_protected [OF assms, of h u p6] pin_calls.calls_protected [OF assms, of h v p6]
    theme_calls.calls_protected [OF assms, of h v "(body, short, yes, theme)"] security_page_calls.calls_protected [OF assms, of h v h "(click, p8)"]
    backup_export.calls_protected [OF assms, of h v h l download p9] theme_upload.calls_protected [OF assms, of h w p7]
    backup_import.calls_protected [OF assms, of h w h l post readyz p9] theme_configuration.calls_protected [OF assms, of h x p7]
  by (simp del: js_simps)

theorem admin_changes_protected_witness:
  "\<exists>c. snd (save_probe (probe_init\<lparr>pb_editing := Some blank_probe\<rparr>)) = Some c \<and> call_method c = js ''POST'' \<and>
     (\<forall>h f. protected h (js ''hostpin_csrf=t'') (js ''t'') f c)"
proof -
  let ?p = "probe_init\<lparr>pb_editing := Some blank_probe\<rparr>"
  have t: "has_token (js ''hostpin_csrf=t'') (js ''t'')"
    by (simp add: has_token_def cookie_def split_def startsWith_def header_value_ok_def header_value_def header_space_def)
  have "snd (save_probe ?p) = Some (save_call probe_path (Fin 0) blank_probe)"
    by (simp add: save_probe_def) (simp add: blank_probe_def)
  moreover have "call_method (save_call probe_path (Fin 0) blank_probe) = js ''POST''" by (simp add: save_call_def truthy_num_def)
  ultimately show ?thesis
    using admin_changes_protected [OF t, where ?p1.0 = ?p] by (simp add: opt_list_def del: js_simps)
qed

end
