(* ===== verification/AdminForms.thy ===== *)
theory AdminForms
  imports AdminCalls AdminSettings
begin

text \<open>
  The buttons of the administration with their \<open>:disabled\<close> expressions, as the templates of
  \<open>web/src/components/admin\<close> bind them to the handlers. A disabled button delivers no click, and a form
  whose submit button is disabled is not submitted. Vue updates the attribute before the browser
  delivers the next click, so a click meets the state that the previous one left.
\<close>

section \<open>Pressing a button\<close>

definition press :: "('s \<Rightarrow> bool) \<Rightarrow> ('s \<Rightarrow> 's \<times> 'c list) \<Rightarrow> 's \<Rightarrow> 's \<times> 'c list" where
  "press disabled handler p = (if disabled p then (p, []) else handler p)"

text \<open>Clicks in a row, with no answer between them: the last state and everything that was sent.\<close>

fun presses :: "('s \<Rightarrow> bool) \<Rightarrow> ('s \<Rightarrow> 's \<times> 'c list) \<Rightarrow> nat \<Rightarrow> 's \<Rightarrow> 's \<times> 'c list" where
  "presses disabled handler 0 p = (p, [])"
| "presses disabled handler (Suc n) p = (case press disabled handler p of (q, sent) \<Rightarrow>
     (case presses disabled handler n q of (r, rest) \<Rightarrow> (r, sent @ rest)))"

definition with_list :: "'s \<times> 'c option \<Rightarrow> 's \<times> 'c list" where
  "with_list r = (fst r, opt_list (snd r))"

section \<open>The contract of a form\<close>

text \<open>The inputs of a form change the record that it edits, but not what identifies it.\<close>

locale bound_form =
  fixes bind :: "'e \<Rightarrow> 'r \<Rightarrow> 'r" and identity :: "'r \<Rightarrow> 'k"
  assumes bind_identity: "identity (bind e r) = identity r"
begin

lemma edits_identity: "identity (fold bind es r) = identity r"
  by (induction es arbitrary: r) (simp_all add: bind_identity)

end

section \<open>The contract of a guarded button\<close>

locale submit_button =
  fixes disabled :: "'s \<Rightarrow> bool" and handler :: "'s \<Rightarrow> 's \<times> 'c list"
  assumes sending_disables: "snd (handler p) \<noteq> [] \<Longrightarrow> disabled (fst (handler p))"
begin

lemma disabled_presses: "disabled p \<Longrightarrow> presses disabled handler n p = (p, [])"
  by (induction n) (simp_all add: press_def)

lemma one_submission: "snd (presses disabled handler n p) = [] \<or> (\<exists>q. \<not> disabled q \<and> snd (presses disabled handler n p) = snd (handler q))"
proof (induction n arbitrary: p)
  case (Suc n)
  show ?case
  proof (cases "\<not> disabled p \<and> snd (handler p) \<noteq> []")
    case True
    then have "presses disabled handler n (fst (handler p)) = (fst (handler p), [])"
      by (simp add: sending_disables disabled_presses)
    with True show ?thesis by (auto simp: press_def split: prod.split)
  next
    case False
    then have "snd (press disabled handler p) = []" by (auto simp: press_def)
    with Suc.IH [of "fst (press disabled handler p)"] show ?thesis by (auto split: prod.split)
  qed
qed simp

end

locale single_call_button = submit_button +
  assumes one_call: "length (snd (handler p)) \<le> 1"
begin

lemma at_most_one: "length (snd (presses disabled handler n p)) \<le> 1"
  using one_submission [of n p] one_call by auto

end

section \<open>The buttons\<close>

definition node_save_disabled :: "nodes_page \<Rightarrow> bool" where
  "node_save_disabled p \<longleftrightarrow> no_busy p \<or> no_agentConfig p = None"

definition correction_apply_disabled :: "nodes_page \<Rightarrow> bool" where
  "correction_apply_disabled p \<longleftrightarrow> no_correctionBusy p \<or> (case no_trafficCorrection p of None \<Rightarrow> True | Some c \<Rightarrow> \<not> tc_available c)"

definition correction_clear_disabled :: "nodes_page \<Rightarrow> bool" where
  "correction_clear_disabled p \<longleftrightarrow> no_correctionBusy p \<or> (case no_trafficCorrection p of None \<Rightarrow> True | Some c \<Rightarrow> \<not> tc_active c)"

definition target_save_disabled :: "latency_admin \<Rightarrow> bool" where
  "target_save_disabled p \<longleftrightarrow> ad_busy p"

definition point_save_disabled :: "latency_admin \<Rightarrow> bool" where
  "point_save_disabled p \<longleftrightarrow> ad_busy p \<or> ad_agentConfig p = None"

definition carrier_save_disabled :: "probe_page \<Rightarrow> bool" where
  "carrier_save_disabled p \<longleftrightarrow> pb_busy p"

definition temporary_pin_disabled :: "settings_page \<Rightarrow> bool" where
  "temporary_pin_disabled p \<longleftrightarrow> st_temporaryBusy p"

text \<open>The form of a custom probe has a submit button without \<open>:disabled\<close>.\<close>

definition probe_save_disabled :: "probe_page \<Rightarrow> bool" where
  "probe_save_disabled p \<longleftrightarrow> False"

lemmas button_defs = with_list_def opt_list_def node_save_disabled_def correction_apply_disabled_def correction_clear_disabled_def
  target_save_disabled_def point_save_disabled_def carrier_save_disabled_def temporary_pin_disabled_def

lemma length_opt_list: "length (opt_list v) \<le> 1"
  by (simp add: opt_list_def split: option.split)

interpretation node_button: single_call_button node_save_disabled "\<lambda>p. with_list (save_node h l p)" for h l
  by unfold_locales (auto simp: button_defs save_node_def Let_def simp del: js_simps split: option.splits sum.splits if_splits)

interpretation apply_button: single_call_button correction_apply_disabled "\<lambda>p. with_list (applyTrafficCorrection l p)" for l
  by unfold_locales (auto simp: button_defs applyTrafficCorrection_def Let_def simp del: js_simps split: option.splits if_splits)

interpretation clear_button: single_call_button correction_clear_disabled "\<lambda>p. with_list (clearTrafficCorrection p)"
  by unfold_locales (auto simp: button_defs clearTrafficCorrection_def simp del: js_simps split: option.splits)

interpretation target_button: single_call_button target_save_disabled "\<lambda>p. with_list (saveTarget p)"
  by unfold_locales (auto simp: button_defs saveTarget_def split: option.splits)

interpretation point_button: submit_button point_save_disabled saveNode
  by unfold_locales (auto simp: button_defs saveNode_def Let_def simp del: js_simps split: option.splits)

interpretation carrier_button: single_call_button carrier_save_disabled "\<lambda>p. with_list (saveCarrier h p)" for h
  by unfold_locales (auto simp: button_defs saveCarrier_def simp del: js_simps split: option.splits)

interpretation pin_button: single_call_button temporary_pin_disabled "\<lambda>p. (fst (createTemporaryPIN p), [snd (createTemporaryPIN p)])"
  by unfold_locales (auto simp: button_defs createTemporaryPIN_def)

interpretation revoke_button: single_call_button temporary_pin_disabled
    "\<lambda>p. with_list (revokeTemporaryPIN p)"
  by unfold_locales (auto simp: button_defs revokeTemporaryPIN_def)

text \<open>
  C30: However often the guarded buttons of the node, correction, latency target, measurement
  point, carrier and temporary PIN forms are clicked before an answer arrives, the requests of at
  most one submission are sent.
\<close>

theorem no_double_submission:
  "length (snd (presses node_save_disabled (\<lambda>p. with_list (save_node h l p)) n p1)) \<le> 1 \<and>
   length (snd (presses correction_apply_disabled (\<lambda>p. with_list (applyTrafficCorrection l p)) n p1)) \<le> 1 \<and>
   length (snd (presses correction_clear_disabled (\<lambda>p. with_list (clearTrafficCorrection p)) n p1)) \<le> 1 \<and>
   length (snd (presses target_save_disabled (\<lambda>p. with_list (saveTarget p)) n p2)) \<le> 1 \<and>
   (snd (presses point_save_disabled saveNode n p2) = [] \<or> (\<exists>q. snd (presses point_save_disabled saveNode n p2) = snd (saveNode q))) \<and>
   length (snd (presses carrier_save_disabled (\<lambda>p. with_list (saveCarrier h p)) n p3)) \<le> 1 \<and>
   length (snd (presses temporary_pin_disabled (\<lambda>p. (fst (createTemporaryPIN p), [snd (createTemporaryPIN p)])) n p4)) \<le> 1"
  using node_button.at_most_one [of h l n p1] apply_button.at_most_one [of l n p1] clear_button.at_most_one [of n p1]
    target_button.at_most_one [of n p2] point_button.one_submission [of n p2] carrier_button.at_most_one [of h n p3]
    pin_button.at_most_one [of n p4]
  by blast

text \<open>
  Two clicks on the unguarded button of a new probe send two requests that create it.
\<close>

theorem double_click_creates_two:
  assumes "pb_editing p = Some task" and "pt_id task = Fin 0"
  shows "map call_method (snd (presses probe_save_disabled (\<lambda>q. with_list (save_probe q)) 2 p)) = [js ''POST'', js ''POST'']"
  using assms by (simp add: numeral_2_eq_2 press_def probe_save_disabled_def with_list_def opt_list_def save_probe_def
      save_call_def truthy_num_def del: js_simps)

end
