(* ===== verification/Screens.thy ===== *)
theory Screens
  imports LatencyView NodeView Chart Api
begin

text \<open>
  What the templates of \<open>web/src/views/LatencyView.vue\<close> and \<open>web/src/views/NodeView.vue\<close> compute: the charts they
  hand to \<open>TimeSeriesChart.vue\<close>, the matrix of paths with its buttons, the statistics of a window, and the
  parts of the node page that depend on its state; and the bar of \<open>web/src/components/TrafficUsageBar.vue\<close>.
\<close>

section \<open>Charts\<close>

definition latency_chart :: "host \<Rightarrow> AppLocale \<Rightarrow> latency_view \<Rightarrow> chart_props" where
  "latency_chart h l v = \<lparr>cp_labels = historyLabels h v, cp_series = latencySeries v, cp_unit = Some (js ''ms''), cp_max = None,
     cp_ariaLabel = Some (text_in l [25152, 36873, 38142, 36335, 24310, 36831, 21382, 21490] (js ''Selected route latency history''))\<rparr>"

definition loss_chart :: "host \<Rightarrow> AppLocale \<Rightarrow> latency_view \<Rightarrow> chart_props" where
  "loss_chart h l v = \<lparr>cp_labels = historyLabels h v, cp_series = lossSeries v, cp_unit = Some (js ''%''), cp_max = Some (Fin 100),
     cp_ariaLabel = Some (text_in l [25152, 36873, 38142, 36335, 20002, 21253, 21382, 21490] (js ''Selected route packet loss history''))\<rparr>"

definition resource_chart :: "host \<Rightarrow> AppLocale \<Rightarrow> node_page \<Rightarrow> chart_props" where
  "resource_chart h l p = \<lparr>cp_labels = nv_labels h p, cp_series = resourceSeries l p, cp_unit = Some (js ''%''), cp_max = Some (Fin 100),
     cp_ariaLabel = Some (text_in l [67, 80, 85, 12289, 20869, 23384, 21644, 30913, 30424, 20351, 29992, 29575, 21382, 21490] (js ''CPU, memory, and disk utilization history''))\<rparr>"

definition network_chart :: "host \<Rightarrow> AppLocale \<Rightarrow> node_page \<Rightarrow> chart_props" where
  "network_chart h l p = \<lparr>cp_labels = nv_labels h p, cp_series = networkSeries l p, cp_unit = None, cp_max = None,
     cp_ariaLabel = Some (text_in l [32593, 32476, 19979, 36733, 21644, 19978, 20256, 21382, 21490] (js ''Network download and upload history''))\<rparr>"

definition carrier_chart :: "host \<Rightarrow> AppLocale \<Rightarrow> node_page \<Rightarrow> chart_props option" where
  "carrier_chart h l p = (case carrierChart h l (nv_carrierProbes p) of (labels, series) \<Rightarrow>
     if labels = [] then None
     else Some \<lparr>cp_labels = labels, cp_series = series, cp_unit = Some (js '' ms''), cp_max = None,
       cp_ariaLabel = Some (text_in l [20013, 22269, 30005, 20449, 12289, 20013, 22269, 32852, 36890, 21644, 20013, 22269, 31227, 21160, 24310, 36831, 21382, 21490] (js ''China Telecom, Unicom, and Mobile latency history''))\<rparr>)"

text \<open>A page hands over one value per label; the chart then draws on a common axis.\<close>

definition aligned :: "chart_props \<Rightarrow> bool" where
  "aligned p \<longleftrightarrow> list_all (\<lambda>s. length (cs_values s) = length (cp_labels p)) (cp_series p)"

definition drawn_aligned :: "json \<Rightarrow> bool" where
  "drawn_aligned opt = (case (opt_get (opt_get (Some opt) (js ''xAxis'')) (js ''data''), opt_get (Some opt) (js ''series'')) of
     (Some (JArr xs), Some (JArr ss)) \<Rightarrow>
       list_all (\<lambda>s. case opt_get (Some s) (js ''data'') of Some (JArr ds) \<Rightarrow> length ds = length xs | _ \<Rightarrow> False) ss
   | _ \<Rightarrow> False)"

locale chart_source =
  fixes charts :: "'s \<Rightarrow> chart_props list"
  assumes charts_aligned: "list_all aligned (charts s)"
begin

lemma drawn: "list_all (\<lambda>p. drawn_aligned (chart_option styles p)) (charts s)"
  using charts_aligned [of s]
  by (auto simp: list_all_iff aligned_def drawn_aligned_def chart_option_def x_axis_def series_option_def obj_def)

end

interpretation latency_charts: chart_source "\<lambda>v. [latency_chart h l v, loss_chart h l v]" for h l
  by unfold_locales (simp add: aligned_def latency_chart_def loss_chart_def historyLabels_def latencySeries_def lossSeries_def)

interpretation node_charts: chart_source "\<lambda>p. [resource_chart h l p, network_chart h l p]" for h l
  by unfold_locales (simp add: aligned_def resource_chart_def network_chart_def nv_labels_def resourceSeries_def networkSeries_def)

interpretation carrier_charts: chart_source "\<lambda>p. (case carrier_chart h l p of None \<Rightarrow> [] | Some c \<Rightarrow> [c])" for h l
  by unfold_locales (auto simp: aligned_def carrier_chart_def carrierChart_def Let_def list_all_iff split: option.split if_splits)

text \<open>
  Every chart that the latency page and the node page draw has one value per label in each of its
  series, in the option that the chart library gets.
\<close>

theorem charts_drawn_aligned:
  "drawn_aligned (chart_option styles (latency_chart h l v)) \<and> drawn_aligned (chart_option styles (loss_chart h l v)) \<and>
   drawn_aligned (chart_option styles (resource_chart h l p)) \<and> drawn_aligned (chart_option styles (network_chart h l p)) \<and>
   (case carrier_chart h l p of None \<Rightarrow> True | Some c \<Rightarrow> drawn_aligned (chart_option styles c))"
  using latency_charts.drawn [of styles h l v] node_charts.drawn [of styles h l p] carrier_charts.drawn [of styles h l p]
  by (auto split: option.splits)

section \<open>The matrix of paths\<close>

record cell_view =
  cw_class :: cell_class
  cw_selected :: bool
  cw_disabled :: bool
  cw_value :: jsstring
  cw_detail :: jsstring
  cw_time :: "jsstring option"

definition cell_value :: "AppLocale \<Rightarrow> LatencyResult \<Rightarrow> jsstring" where
  "cell_value l r = (if lr_success r then toFixed (lr_latency_ms r) 1 @ js '' ms'' else text_in l [22833, 36133] (js ''Fail''))"

definition cell_detail :: "AppLocale \<Rightarrow> LatencyResult \<Rightarrow> jsstring" where
  "cell_detail l r = toFixed (lr_loss_percent r) 0 @ js ''% '' @ text_in l [20002, 21253] (js ''loss'')"

definition cell_selected :: "latency_view \<Rightarrow> LatencyProbeNode \<Rightarrow> LatencyTarget \<Rightarrow> bool" where
  "cell_selected v probe t \<longleftrightarrow> map_option fst (selected v) = Some (lp_id probe) \<and> map_option snd (selected v) = Some (pn_id (lt_node t))"

definition matrix_cell :: "host \<Rightarrow> AppLocale \<Rightarrow> number \<Rightarrow> latency_view \<Rightarrow> LatencyTarget \<Rightarrow> LatencyProbeNode \<Rightarrow> cell_view" where
  "matrix_cell h l now v t probe = (let r = cell v (lp_id probe) (pn_id (lt_node t)) in
     \<lparr>cw_class = cellClass h now (lo_offline_after_ms (overview v)) r (lp_online probe) (lt_interval_seconds t),
      cw_selected = cell_selected v probe t, cw_disabled = (r = None),
      cw_value = (case r of None \<Rightarrow> [8212] | Some x \<Rightarrow> cell_value l x),
      cw_detail = (case r of None \<Rightarrow> text_in l [26242, 26080, 25968, 25454] (js ''No sample'') | Some x \<Rightarrow> cell_detail l x),
      cw_time = map_option (\<lambda>x. relativeTime h l now (Some (lr_received_at x))) r\<rparr>)"

datatype matrix_section = MatrixLoading | NoPaths | Matrix "(jsstring \<times> cell_view list) list"

definition latency_section :: "host \<Rightarrow> AppLocale \<Rightarrow> number \<Rightarrow> latency_view \<Rightarrow> matrix_section" where
  "latency_section h l now v = (if lv_loading v then MatrixLoading
     else if lo_probe_nodes (overview v) = [] \<or> lo_targets (overview v) = [] then NoPaths
     else Matrix (map (\<lambda>t. (pn_name (lt_node t), map (matrix_cell h l now v t) (lo_probe_nodes (overview v)))) (lo_targets (overview v))))"

text \<open>\<open>@click\<close> of a cell; a disabled button delivers no click.\<close>

definition cell_click :: "host \<Rightarrow> AppLocale \<Rightarrow> number \<Rightarrow> LatencyTarget \<Rightarrow> LatencyProbeNode \<Rightarrow> latency_view \<Rightarrow> latency_view" where
  "cell_click h l now t probe v = (if cw_disabled (matrix_cell h l now v t probe) then v
     else selectPath (lp_id probe) (pn_id (lt_node t)) v)"

lemma selectPath_state:
  "selected (selectPath a b v) = Some (a, b) \<and> overview (selectPath a b v) = overview v \<and> lv_loading (selectPath a b v) = lv_loading v"
  "history_requests (selectPath a b v) = history_requests v @
     [\<lparr>hr_id = historyRequestID (selectPath a b v), hr_path = (a, b), hr_hours = hours v, hr_by_load = None\<rparr>]"
  by (simp_all add: selectPath_def loadHistory_def clear_history_def Let_def)

theorem cell_click_selects:
  assumes "\<not> cw_disabled (matrix_cell h l now v t probe)" and "v' = cell_click h l now t probe v"
  shows "(\<forall>t' probe'. cw_selected (matrix_cell h l now v' t' probe') \<longleftrightarrow>
      lp_id probe' = lp_id probe \<and> pn_id (lt_node t') = pn_id (lt_node t)) \<and>
    (\<forall>t' probe'. cw_value (matrix_cell h l now v' t' probe') = cw_value (matrix_cell h l now v t' probe') \<and>
      cw_class (matrix_cell h l now v' t' probe') = cw_class (matrix_cell h l now v t' probe')) \<and>
    (\<exists>r. history_requests v' = history_requests v @ [r] \<and> hr_path r = (lp_id probe, pn_id (lt_node t)) \<and>
      hr_hours r = hours v \<and> hr_id r = historyRequestID v')"
proof -
  have v': "v' = selectPath (lp_id probe) (pn_id (lt_node t)) v" using assms by (simp add: cell_click_def)
  have "cell v' a b = cell v a b" for a b by (simp add: v' cell_def selectPath_state)
  then show ?thesis
    by (auto simp: matrix_cell_def Let_def cell_selected_def v' selectPath_state)
qed

section \<open>Windows\<close>

definition windows :: "number list" where
  "windows = [Fin 1, Fin 6, Fin 24, Fin 168, Fin 720]"

definition window_label :: "number \<Rightarrow> jsstring" where
  "window_label value = (if value < Fin 24 then num_string value @ js ''H'' else num_string (value / Fin 24) @ js ''D'')"

record window_stats =
  wt_latency :: jsstring
  wt_loss :: jsstring
  wt_count :: jsstring

definition latency_stats :: "latency_view \<Rightarrow> window_stats" where
  "latency_stats v = (let s = historySummary v; known = truthy_num (lw_sample_count s) in
     \<lparr>wt_latency = (if known then toFixed (lw_average_latency_ms s) 1 else [8212]),
      wt_loss = (if known then toFixed (lw_average_loss_percent s) 1 else [8212]),
      wt_count = num_string (lw_sample_count s)\<rparr>)"

text \<open>Switching the path or the window empties the statistics until the answer is there.\<close>

theorem switched_stats_empty:
  "wt_latency (latency_stats (selectPath a b v)) = [8212] \<and> wt_latency (latency_stats (changeWindow n v)) = [8212] \<and>
   wt_loss (latency_stats (selectPath a b v)) = [8212] \<and> wt_loss (latency_stats (changeWindow n v)) = [8212]"
  by (simp add: latency_stats_def selectPath_def changeWindow_def loadHistory_def load_done_def clear_history_def Let_def
      summarizeLatencyWindow_def window_total_def truthy_num_def num_of_nat_def split: option.split)

section \<open>The node page\<close>

datatype node_screen = NodeShown NodeSnapshot | NodeLoading | NodeUnavailable jsstring

definition node_screen_of :: "node_page \<Rightarrow> node_screen" where
  "node_screen_of p = (case nv_snapshot p of Some s \<Rightarrow> NodeShown s
     | None \<Rightarrow> if nv_loading p then NodeLoading else NodeUnavailable (nv_error p))"

definition back_link :: "node_page \<Rightarrow> jsstring" where
  "back_link p = (if nv_token p \<noteq> [] then js ''/share/'' @ nv_token p else js ''/'')"

definition node_quota :: "node_page \<Rightarrow> number option" where
  "node_quota p = (case nv_snapshot p of None \<Rightarrow> None
     | Some s \<Rightarrow> if sn_metric s \<noteq> None \<and> truthy_num (pn_traffic_limit (sn_node s)) then Some (pn_traffic_limit (sn_node s)) else None)"

text \<open>\<open>aria-valuenow\<close> of the gauge, which is there when there is a quota.\<close>

definition traffic_gauge :: "node_page \<Rightarrow> number option" where
  "traffic_gauge p = map_option (\<lambda>_. math_round (nv_trafficPercent p)) (node_quota p)"

datatype dot = DotOnline | DotOffline | DotNone

definition carrier_dot :: "PublicProbeSnapshot \<Rightarrow> dot" where
  "carrier_dot probe = (case latestProbe (pp_results probe) of None \<Rightarrow> DotNone
     | Some r \<Rightarrow> if pr_success r then DotOnline else DotOffline)"

definition carrier_latency :: "PublicProbeSnapshot \<Rightarrow> jsstring" where
  "carrier_latency probe = (case latestProbe (pp_results probe) of None \<Rightarrow> [8212]
     | Some r \<Rightarrow> if pr_success r then toFixed (pr_latency_ms r) 1 else [8212])"

text \<open>The gauge reads a whole percentage in its declared range, whatever the counters are.\<close>

theorem traffic_gauge_range:
  "case traffic_gauge p of None \<Rightarrow> True | Some n \<Rightarrow> \<exists>k. n = Fin (of_int k) \<and> 0 \<le> k \<and> k \<le> 100"
proof -
  obtain x where x: "nv_trafficPercent p = Fin x" "0 \<le> x" "x \<le> 100"
    unfolding nv_trafficPercent_def by (rule utilization_percent)
  have "0 \<le> \<lfloor>x + 1 / 2\<rfloor>" "\<lfloor>x + 1 / 2\<rfloor> \<le> 100" using x(2,3) by (simp_all add: le_floor_iff floor_le_iff)
  then show ?thesis using x(1) by (auto simp: traffic_gauge_def split: option.splits)
qed

section \<open>TrafficUsageBar.vue\<close>

record traffic_bar =
  tb_value :: jsstring
  tb_note :: jsstring
  tb_meter :: "(number \<times> jsstring \<times> number) option"

text \<open>The head of the bar, and value, text and width of the meter where there is one.\<close>

definition TrafficUsageBar :: "host \<Rightarrow> AppLocale \<Rightarrow> traffic_props \<Rightarrow> traffic_bar" where
  "TrafficUsageBar h l p = (case tu_state p of
     Metered \<Rightarrow> \<lparr>tb_value = tu_usedLabel h l p, tb_note = num_string (tu_roundedPercent p) @ js ''%'',
       tb_meter = Some (tu_roundedPercent p, tu_ariaValueText h l p, tu_usedPercent p)\<rparr>
   | Unlimited \<Rightarrow> \<lparr>tb_value = tu_usedLabel h l p, tb_note = text_in l [19981, 38480, 37327] (js ''Unlimited''), tb_meter = None\<rparr>
   | Unavailable \<Rightarrow> \<lparr>tb_value = text_in l [26242, 26080, 25968, 25454] (js ''No data''), tb_note = [], tb_meter = None\<rparr>)"

text \<open>A meter is shown exactly for a node with counters and a quota; its value and width are percentages.\<close>

theorem traffic_bar_meter:
  "(tb_meter (TrafficUsageBar h l p) = None \<longleftrightarrow> \<not> tu_hasUsage p \<or> tu_quota p \<le> Fin 0) \<and>
   (case tb_meter (TrafficUsageBar h l p) of None \<Rightarrow> True
    | Some (now, _, width) \<Rightarrow> (\<exists>n w. now = Fin (of_int n) \<and> 0 \<le> n \<and> n \<le> 100 \<and> width = Fin w \<and> 0 \<le> w \<and> w \<le> 100))"
proof -
  obtain w where w: "tu_usedPercent p = Fin w" "0 \<le> w" "w \<le> 100" by (rule tu_percent_range)
  obtain n where n: "tu_roundedPercent p = Fin (of_int n)" "0 \<le> n" "n \<le> 100" using traffic_meter_range [of p] by blast
  from w n show ?thesis by (auto simp: TrafficUsageBar_def tu_state_def split: traffic_state.splits)
qed

end
