(* ===== verification/Client.thy ===== *)
theory Client
  imports PublicViews
begin

text \<open>
  The running client: the session store, the router, the live store and the overview page that uses
  it, as \<open>web/src/App.vue\<close> shows them. \<open>client_step\<close> is one event of the user, the browser or the server:
  everything that the code awaits is a later step of its own, and other steps may come first.
  \<open>cl_calls\<close> are the submitted logins, set-ups and logouts whose requests are in flight, \<open>cl_pushes\<close> the
  paths of handlers that have changed the session and are about to call \<open>router.push\<close>, \<open>cl_nav\<close> is the
  navigation under way: first its guard runs, then the component of the page is imported. \<open>locate\<close> is
  what the router finds for a path. The stores outlive the pages: an overview that was left may still
  have its first load in flight (\<open>cl_left\<close>). Two ghosts: \<open>cl_due\<close> says that the session has changed and
  no navigation decided since has shown its page, \<open>cl_lost\<close> that the last navigation to end showed
  none (its import failed, or it was refused as a duplicate).
\<close>

section \<open>State\<close>

datatype handler_call = LoginCall login_page | SetupCall json | LogoutCall

text \<open>\<open>Guarding asked to\<close>: the guard runs for \<open>to\<close>; \<open>asked\<close> says that it awaits a refresh. \<open>Importing to\<close>: it let \<open>to\<close> proceed.\<close>

datatype navigation = Guarding bool target | Importing target

record client =
  cl_session :: session
  cl_at :: "target option"
  cl_overview :: overview_page
  cl_left :: "nat list"
  cl_calls :: "handler_call list"
  cl_pushes :: "jsstring list"
  cl_nav :: "navigation option"
  cl_due :: bool
  cl_lost :: bool

abbreviation cl_window :: "client \<Rightarrow> window" where
  "cl_window c \<equiv> ov_window (cl_overview c)"

definition overview_setup :: "(jsstring \<rightharpoonup> jsstring) \<Rightarrow> window \<Rightarrow> overview_page" where
  "overview_setup st w = \<lparr>ov_window = w, ov_group = [], ov_search = [], ov_status = AllNodes, ov_view = stored_view st,
     ov_error = [], ov_storage = st, ov_initial = None\<rparr>"

definition client_init :: "(jsstring \<rightharpoonup> jsstring) \<Rightarrow> client" where
  "client_init st = \<lparr>cl_session = session_init, cl_at = None, cl_overview = overview_setup st window_init, cl_left = [],
     cl_calls = [], cl_pushes = [], cl_nav = None, cl_due = False, cl_lost = False\<rparr>"

definition on_page :: "route \<Rightarrow> client \<Rightarrow> bool" where
  "on_page r c \<longleftrightarrow> (case cl_at c of None \<Rightarrow> False | Some t \<Rightarrow> to_name t = r)"

section \<open>Changing the page\<close>

definition leave_page :: "client \<Rightarrow> client" where
  "leave_page c = (if on_page Overview c
     then c\<lparr>cl_overview := (overview_unmount (cl_overview c))\<lparr>ov_initial := None\<rparr>,
       cl_left := (case ov_initial (cl_overview c) of None \<Rightarrow> [] | Some i \<Rightarrow> [i]) @ cl_left c\<rparr>
     else c)"

definition enter_page :: "target \<Rightarrow> client \<Rightarrow> client" where
  "enter_page to c = (let c1 = c\<lparr>cl_at := Some to\<rparr> in
     if to_name to = Overview
     then c1\<lparr>cl_overview := overview_mount (overview_setup (ov_storage (cl_overview c)) (cl_window c))\<rparr> else c1)"

text \<open>The router keeps the component of a page that is navigated to itself.\<close>

definition go :: "target \<Rightarrow> client \<Rightarrow> client" where
  "go to c = (if on_page Overview c \<and> to_name to = Overview then c\<lparr>cl_at := Some to\<rparr> else enter_page to (leave_page c))"

text \<open>The first load of an overview that was left: the rest of its \<open>onMounted\<close> runs nevertheless.\<close>

definition left_answer :: "nat \<Rightarrow> load_answer \<Rightarrow> number \<Rightarrow> window \<Rightarrow> window" where
  "left_answer i answer now w = (case load_finish answer now (w\<lparr>loads := filter (\<lambda>l. fst l \<noteq> i) (loads w)\<rparr>) of
     (None, w') \<Rightarrow> connect w' | (Some e, w') \<Rightarrow> w')"

definition client_answer :: "host \<Rightarrow> nat \<Rightarrow> load_answer \<Rightarrow> number \<Rightarrow> client \<Rightarrow> client" where
  "client_answer h i answer now c = (if i \<in> set (cl_left c)
     then c\<lparr>cl_left := removeAll i (cl_left c), cl_overview := (cl_overview c)\<lparr>ov_window := left_answer i answer now (cl_window c)\<rparr>\<rparr>
     else c\<lparr>cl_overview := overview_answer h i answer now (cl_overview c)\<rparr>)"

section \<open>Navigations and handlers\<close>

text \<open>
  A navigation replaces the one under way. The router refuses one to the location it is at (the same
  record, parameters and query) without running the guard.
\<close>

definition nav_begin :: "target \<Rightarrow> client \<Rightarrow> client" where
  "nav_begin to c = c\<lparr>cl_nav := Some (Guarding (\<not> initialized (cl_session c)) to)\<rparr>"

definition nav_end :: "client \<Rightarrow> client" where
  "nav_end c = c\<lparr>cl_nav := None, cl_lost := True\<rparr>"

inductive nav_start :: "client \<Rightarrow> target \<Rightarrow> client \<Rightarrow> bool" where
  begins: "nav_start c to (nav_begin to c)"
| duplicate: "cl_at c = Some t \<Longrightarrow> to_name t = to_name to \<Longrightarrow> nav_start c to (nav_end c)"

inductive_cases nav_startE: "nav_start c to c'"

text \<open>The guard after its refresh, if it awaited one.\<close>

definition guard_answered :: "bool \<Rightarrow> refresh_answer \<Rightarrow> client \<Rightarrow> client" where
  "guard_answered asked answer c = (if asked
     then c\<lparr>cl_session := snd (refresh answer (cl_session c)), cl_due := True\<rparr> else c)"

definition page_shown :: "target \<Rightarrow> client \<Rightarrow> client" where
  "page_shown to c = (go to c)\<lparr>cl_nav := None, cl_due := (cl_pushes c \<noteq> []), cl_lost := False\<rparr>"

text \<open>A handler whose requests have settled: the session is \<open>s\<close> now and \<open>path\<close> is pushed next, if any.\<close>

definition call_settled :: "handler_call \<Rightarrow> session \<Rightarrow> jsstring option \<Rightarrow> client \<Rightarrow> client" where
  "call_settled k s path c = c\<lparr>cl_calls := remove1 k (cl_calls c), cl_session := s,
     cl_pushes := cl_pushes c @ (case path of None \<Rightarrow> [] | Some x \<Rightarrow> [x]), cl_due := (cl_due c \<or> path \<noteq> None)\<rparr>"

section \<open>Events\<close>

datatype client_event = ClNavigate | ClGuard | ClShown | ClImportFailed | ClPush
  | ClBrowser monitor_event | ClAnswer nat load_answer number | ClUser overview_event
  | ClSubmit | ClSettled | ClRefresh

fun browser_event :: "monitor_event \<Rightarrow> bool" where
  "browser_event (Message s m now) = True"
| "browser_event (Closed s) = True"
| "browser_event (Timeout t) = True"
| "browser_event (Tick t now) = True"
| "browser_event _ = False"

fun user_event :: "overview_event \<Rightarrow> bool" where
  "user_event OvRetry = True"
| "user_event (OvSearch q) = True"
| "user_event (OvGroup g) = True"
| "user_event (OvStatus st) = True"
| "user_event (OvLayout v) = True"
| "user_event _ = False"

inductive client_step :: "host \<Rightarrow> (route \<Rightarrow> jsstring option \<Rightarrow> jsstring) \<Rightarrow> (jsstring \<Rightarrow> target) \<Rightarrow>
    client \<Rightarrow> client_event \<Rightarrow> client \<Rightarrow> bool"
  for h resolve locate where
  navigation: "nav_start c to c' \<Longrightarrow> client_step h resolve locate c ClNavigate c'"
| guard_proceeds: "cl_nav c = Some (Guarding asked to) \<Longrightarrow> c1 = guard_answered asked answer c \<Longrightarrow>
    decide (cl_session c1) to = Proceed \<Longrightarrow>
    client_step h resolve locate c ClGuard (c1\<lparr>cl_nav := Some (Importing to)\<rparr>)"
| guard_redirects: "cl_nav c = Some (Guarding asked to) \<Longrightarrow> c1 = guard_answered asked answer c \<Longrightarrow>
    decide (cl_session c1) to = Redirect r query \<Longrightarrow>
    nav_start c1 \<lparr>to_name = r, to_fullPath = resolve r query\<rparr> c' \<Longrightarrow>
    client_step h resolve locate c ClGuard c'"
| shown: "cl_nav c = Some (Importing to) \<Longrightarrow> client_step h resolve locate c ClShown (page_shown to c)"
| import_failed: "cl_nav c = Some (Importing to) \<Longrightarrow> client_step h resolve locate c ClImportFailed (nav_end c)"
| browser: "browser_event e \<Longrightarrow>
    client_step h resolve locate c (ClBrowser e) (c\<lparr>cl_overview := overview_step h (OvWindow e) (cl_overview c)\<rparr>)"
| answered: "client_step h resolve locate c (ClAnswer i answer now) (client_answer h i answer now c)"
| user: "on_page Overview c \<Longrightarrow> user_event e \<Longrightarrow>
    client_step h resolve locate c (ClUser e) (c\<lparr>cl_overview := overview_step h e (cl_overview c)\<rparr>)"
| login_sent: "on_page Login c \<Longrightarrow>
    client_step h resolve locate c ClSubmit (c\<lparr>cl_calls := LoginCall p # cl_calls c\<rparr>)"
| setup_sent: "on_page Setup c \<Longrightarrow> setup_submit q = (q', Some body) \<Longrightarrow>
    client_step h resolve locate c ClSubmit (c\<lparr>cl_calls := SetupCall body # cl_calls c\<rparr>)"
| logout_sent: "on_page Admin c \<Longrightarrow>
    client_step h resolve locate c ClSubmit (c\<lparr>cl_calls := LogoutCall # cl_calls c\<rparr>)"
| login_settled: "LoginCall p \<in> set (cl_calls c) \<Longrightarrow>
    login post answer (lg_username p) (lg_password p) (lg_totp p) (cl_session c) = (e, s') \<Longrightarrow>
    login_answered h e query p' = (p'', path) \<Longrightarrow>
    client_step h resolve locate c ClSettled (call_settled (LoginCall p) s' path c)"
| setup_settled: "SetupCall body \<in> set (cl_calls c) \<Longrightarrow>
    setup_call post answer body (cl_session c) = (e, s') \<Longrightarrow> setup_answered h e q = (q', path) \<Longrightarrow>
    client_step h resolve locate c ClSettled (call_settled (SetupCall body) s' path c)"
| logout_settled: "LogoutCall \<in> set (cl_calls c) \<Longrightarrow> logout reply (cl_session c) = (e, s') \<Longrightarrow>
    client_step h resolve locate c ClSettled (call_settled LogoutCall s' (admin_logout e) c)"
| pushed: "cl_pushes c = paths1 @ path # paths2 \<Longrightarrow> nav_start (c\<lparr>cl_pushes := paths1 @ paths2\<rparr>) (locate path) c' \<Longrightarrow>
    client_step h resolve locate c ClPush c'"
| refreshed: "refresh answer (cl_session c) = (r, s') \<Longrightarrow>
    client_step h resolve locate c ClRefresh (c\<lparr>cl_session := s'\<rparr>)"

text \<open>
  \<open>ClRefresh\<close> is a refresh outside the navigation under way: by a page of the administration, or by the
  guard of a navigation that another one replaced.
\<close>

text \<open>The states that allowed events lead to.\<close>

inductive reach :: "host \<Rightarrow> (route \<Rightarrow> jsstring option \<Rightarrow> jsstring) \<Rightarrow> (jsstring \<Rightarrow> target) \<Rightarrow>
    (client \<Rightarrow> client_event \<Rightarrow> bool) \<Rightarrow> client \<Rightarrow> bool"
  for h resolve locate allowed where
  start: "reach h resolve locate allowed (client_init st)"
| step: "reach h resolve locate allowed c \<Longrightarrow> client_step h resolve locate c e c' \<Longrightarrow> allowed c e \<Longrightarrow>
    reach h resolve locate allowed c'"

section \<open>The stores stay consistent\<close>

definition client_ok :: "client \<Rightarrow> bool" where
  "client_ok c \<longleftrightarrow> session_ok (cl_session c) \<and> window_ok (cl_window c)"

lemma window_init_ok: "window_ok window_init"
  by (simp add: window_ok_def window_init_def)

lemma settled_load_ok: "window_ok w \<Longrightarrow> load_finish answer now (w\<lparr>loads := filter P (loads w)\<rparr>) = (e, w') \<Longrightarrow> window_ok w'"
  using load_finish_ok [OF window_ok_loads [of w P], of answer now] by simp

lemma left_answer_ok: "window_ok w \<Longrightarrow> window_ok (left_answer i answer now w)"
  by (auto simp: left_answer_def connect_ok split: prod.split option.split dest: settled_load_ok)

lemma overview_answer_ok: "window_ok (ov_window p) \<Longrightarrow> window_ok (ov_window (overview_answer h i answer now p))"
  using live.step_keeps [of "ov_window p" h "Answer i answer now"]
  by (auto simp: overview_answer_def connect_ok split: prod.split option.split dest: settled_load_ok)

lemma overview_step_ok: "window_ok (ov_window p) \<Longrightarrow> window_ok (ov_window (overview_step h e p))"
proof (cases e)
  case (OvWindow m)
  then show "window_ok (ov_window p) \<Longrightarrow> ?thesis"
    using live.step_keeps [of "ov_window p" h m] by (auto simp: overview_answer_ok split: monitor_event.split)
qed (auto simp: overview_mount_def overview_answer_ok overview_retry_def overview_unmount_def setView_def load_start_ok disconnect_ok)

lemma go_ok: "client_ok c \<Longrightarrow> client_ok (go to c)"
  by (auto simp: client_ok_def go_def enter_page_def leave_page_def overview_mount_def overview_setup_def overview_unmount_def
      load_start_ok disconnect_ok Let_def)

lemma client_answer_ok: "client_ok c \<Longrightarrow> client_ok (client_answer h i answer now c)"
  by (simp add: client_ok_def client_answer_def left_answer_ok overview_answer_ok)

lemma login_keeps:
  assumes "login post answer u w k s = (e, s')" and "login_answered h e query p = (p', path)"
  shows "session_ok s \<Longrightarrow> session_ok s'" "path = None \<Longrightarrow> s' = s"
  using assms refresh_ok [of s answer]
  by (cases rule: refresh_cases [of answer s]; auto simp: login_def login_answered_def split: sum.splits)+

lemma setup_keeps:
  assumes "setup_call post answer body s = (e, s')" and "setup_answered h e q = (q', path)"
  shows "session_ok s \<Longrightarrow> session_ok s'" "path = None \<Longrightarrow> s' = s"
  using assms refresh_ok [of s answer]
  by (cases rule: refresh_cases [of answer s]; auto simp: setup_call_def setup_answered_def split: sum.splits)+

lemma logout_keeps:
  assumes "logout reply s = (e, s')"
  shows "session_ok s \<Longrightarrow> session_ok s'" "admin_logout e = None \<Longrightarrow> s' = s"
  using assms logout_ok [of s reply] by (auto simp: admin_logout_def logout_def split: sum.splits)

lemmas nav_defs = nav_begin_def nav_end_def guard_answered_def page_shown_def call_settled_def

lemma nav_start_frame:
  "nav_start c to c' \<Longrightarrow> cl_session c' = cl_session c \<and> cl_overview c' = cl_overview c \<and> cl_at c' = cl_at c \<and>
     cl_left c' = cl_left c \<and> cl_due c' = cl_due c \<and> cl_pushes c' = cl_pushes c"
  by (auto simp: nav_defs elim: nav_startE)

lemma guard_answered_ok: "client_ok c \<Longrightarrow> client_ok (guard_answered asked answer c)"
  by (simp add: guard_answered_def client_ok_def refresh_ok)

lemma call_settled_ok: "client_ok c \<Longrightarrow> session_ok s \<Longrightarrow> client_ok (call_settled k s path c)"
  by (simp add: call_settled_def client_ok_def)

lemma client_step_ok: "client_step h resolve locate c e c' \<Longrightarrow> client_ok c \<Longrightarrow> client_ok c'"
proof (induction rule: client_step.induct)
  case (refreshed answer c r s')
  then show ?case using refresh_ok [of "cl_session c" answer] by (simp add: client_ok_def)
next
  case (guard_proceeds c asked to c1 answer)
  then show ?case using guard_answered_ok [of c asked answer] by (simp add: client_ok_def)
next
  case (guard_redirects c asked to c1 answer r query c')
  then show ?case using guard_answered_ok [of c asked answer] nav_start_frame by (simp add: client_ok_def)
next
  case (shown c to)
  then show ?case using go_ok [of c to] by (simp add: page_shown_def client_ok_def)
next
  case (login_settled p c post answer e s' query p' p'' path)
  then show ?case by (blast intro: call_settled_ok login_keeps(1) dest: client_ok_def [THEN iffD1])
next
  case (setup_settled body c post answer e s' q q' path)
  then show ?case by (blast intro: call_settled_ok setup_keeps(1) dest: client_ok_def [THEN iffD1])
next
  case (logout_settled c reply e s')
  then show ?case by (blast intro: call_settled_ok logout_keeps(1) dest: client_ok_def [THEN iffD1])
qed (use nav_start_frame in \<open>auto simp: client_ok_def overview_step_ok nav_end_def intro!: client_answer_ok [unfolded client_ok_def]
    simp del: overview_step.simps\<close>)

lemma reach_ok: "reach h resolve locate allowed c \<Longrightarrow> client_ok c"
proof (induction rule: reach.induct)
  case (start st)
  show ?case by (simp add: client_ok_def client_init_def overview_setup_def window_init_ok session_ok_def session_init_def)
next
  case (step c e c')
  then show ?case by (blast intro: client_step_ok)
qed

section \<open>The page that is shown\<close>

text \<open>
  \<open>coherent\<close>: unless a navigation is due, the guard admits the shown page for the session; a page is imported
  that the guard admits, unless a handler is about to push; and a navigation that is due is on its way,
  or was lost.
\<close>

definition admitted :: "client \<Rightarrow> bool" where
  "admitted c \<longleftrightarrow> (case cl_at c of None \<Rightarrow> True | Some t \<Rightarrow> decide (cl_session c) t = Proceed)"

definition coherent :: "client \<Rightarrow> bool" where
  "coherent c \<longleftrightarrow> (\<not> cl_due c \<longrightarrow> admitted c \<and> cl_pushes c = []) \<and>
     (case cl_nav c of Some (Importing to) \<Rightarrow> cl_pushes c = [] \<longrightarrow> decide (cl_session c) to = Proceed | _ \<Rightarrow> True) \<and>
     (cl_due c \<longrightarrow> cl_nav c \<noteq> None \<or> cl_pushes c \<noteq> [] \<or> cl_lost c)"

lemma go_page [simp]: "cl_at (go to c) = Some to" "cl_session (go to c) = cl_session c" "cl_pushes (go to c) = cl_pushes c"
  by (simp_all add: go_def enter_page_def leave_page_def Let_def)

lemma client_answer_page [simp]: "cl_at (client_answer h i answer now c) = cl_at c" "cl_session (client_answer h i answer now c) = cl_session c"
  by (simp_all add: client_answer_def)

lemma admitted_frame [simp]:
  "admitted (c\<lparr>cl_nav := n\<rparr>) = admitted c" "admitted (c\<lparr>cl_lost := b\<rparr>) = admitted c" "admitted (c\<lparr>cl_due := b\<rparr>) = admitted c"
  "admitted (c\<lparr>cl_pushes := ps\<rparr>) = admitted c" "admitted (c\<lparr>cl_calls := ks\<rparr>) = admitted c"
  "admitted (c\<lparr>cl_overview := v\<rparr>) = admitted c" "admitted (c\<lparr>cl_left := is\<rparr>) = admitted c"
  by (simp_all add: admitted_def split: option.split)

lemma client_answer_frame [simp]: "cl_due (client_answer h i answer now c) = cl_due c" "cl_nav (client_answer h i answer now c) = cl_nav c"
  "cl_pushes (client_answer h i answer now c) = cl_pushes c" "cl_lost (client_answer h i answer now c) = cl_lost c"
  "admitted (client_answer h i answer now c) = admitted c"
  by (simp_all add: client_answer_def)

lemma coherent_frame [simp]:
  "coherent (c\<lparr>cl_calls := ks\<rparr>) = coherent c" "coherent (c\<lparr>cl_overview := v\<rparr>) = coherent c"
  "coherent (client_answer h i answer now c) = coherent c" "coherent c \<Longrightarrow> coherent (nav_end c)"
  by (auto simp: coherent_def nav_end_def split: option.split navigation.split)

lemma nav_start_coherent:
  "nav_start c to c' \<Longrightarrow> (\<not> cl_due c \<longrightarrow> admitted c \<and> cl_pushes c = []) \<Longrightarrow> coherent c'"
  by (auto simp: coherent_def nav_defs elim!: nav_startE)

lemma call_settled_coherent:
  "coherent c \<Longrightarrow> (path = None \<Longrightarrow> s = cl_session c) \<Longrightarrow> coherent (call_settled k s path c)"
  by (cases path) (auto simp: coherent_def call_settled_def split: option.splits navigation.splits)

lemma guard_answered_coherent:
  assumes "coherent c" and "c1 = guard_answered asked answer c"
  shows "\<not> cl_due c1 \<longrightarrow> admitted c1 \<and> cl_pushes c1 = []"
  using assms by (simp add: coherent_def guard_answered_def)

lemma client_step_coherent:
  assumes "client_step h resolve locate c e c'" and "coherent c" and "e \<noteq> ClRefresh"
  shows "coherent c'"
  using assms
proof (induction rule: client_step.induct)
  case (guard_proceeds c asked to c1 answer)
  then show ?case using guard_answered_coherent [of c c1 asked answer] by (simp add: coherent_def)
next
  case (guard_redirects c asked to c1 answer r query c')
  then show ?case using guard_answered_coherent [of c c1 asked answer] nav_start_coherent by blast
next
  case (shown c to)
  then show ?case by (auto simp: coherent_def page_shown_def admitted_def)
next
  case (login_settled p c post answer e s' query p' p'' path)
  then show ?case by (blast intro: call_settled_coherent login_keeps(2))
next
  case (setup_settled body c post answer e s' q q' path)
  then show ?case by (blast intro: call_settled_coherent setup_keeps(2))
next
  case (logout_settled c reply e s')
  then show ?case by (blast intro: call_settled_coherent logout_keeps(2))
next
  case (pushed c paths1 path paths2 c')
  then show ?case by (intro nav_start_coherent [OF pushed(2)]) (auto simp: coherent_def)
next
  case (navigation c to c')
  then show ?case by (intro nav_start_coherent [OF navigation(1)]) (simp add: coherent_def)
qed (simp_all del: overview_step.simps)

lemma reach_coherent: "reach h resolve locate (\<lambda>_ e. e \<noteq> ClRefresh) c \<Longrightarrow> coherent c"
proof (induction rule: reach.induct)
  case (start st)
  show ?case by (simp add: coherent_def admitted_def client_init_def)
next
  case (step c e c')
  then show ?case using client_step_coherent by blast
qed

text \<open>A navigation that is not disturbed, for the examples: the server answers for a user who is logged in.\<close>

definition example_session :: session where
  "example_session = \<lparr>initialized = True, setupComplete = True, loggedIn = True, username = js ''root'',
     site = Some undefined, version = js ''1.0''\<rparr>"

definition example_answer :: refresh_answer where
  "example_answer = (Inr \<lparr>me_setup_complete = True, me_logged_in = True, me_username = Some (js ''root''), me_two_factor_enabled = None, me_csrf_token = None\<rparr>,
     Inr \<lparr>site_setup_complete = True, site_authenticated = True, site_settings = undefined,
       site_version = \<lparr>ve_version = js ''1.0'', ve_commit = [], ve_protocol = Fin 1\<rparr>\<rparr>)"

definition visit :: "target \<Rightarrow> client \<Rightarrow> client" where
  "visit to c = page_shown to ((guard_answered (\<not> initialized (cl_session c)) example_answer (nav_begin to c))\<lparr>cl_nav := Some (Importing to)\<rparr>)"

lemma example_refresh [simp]: "snd (refresh example_answer session_init) = example_session"
  by (simp add: example_answer_def refresh_def session_init_def example_session_def)

lemma visit_reached:
  assumes "reach h resolve locate allowed c" and "\<forall>c. allowed c ClNavigate \<and> allowed c ClGuard \<and> allowed c ClShown"
    and "cl_session c \<in> {session_init, example_session}" and "to_name to \<notin> {Setup, Login}"
  shows "reach h resolve locate allowed (visit to c)" and "cl_session (visit to c) = example_session"
proof -
  let ?b = "nav_begin to c"
  let ?g = "guard_answered (\<not> initialized (cl_session c)) example_answer ?b"
  have s: "cl_session ?g = example_session"
    using assms(3) by (auto simp: guard_answered_def nav_begin_def session_init_def [THEN arg_cong, of initialized] example_session_def)
  then have d: "decide (cl_session ?g) to = Proceed" using assms(4) by (simp add: decide_def example_session_def)
  have "reach h resolve locate allowed ?b"
    using assms(1,2) by (blast intro: reach.step client_step.navigation nav_start.begins)
  moreover have "cl_nav ?b = Some (Guarding (\<not> initialized (cl_session c)) to)" by (simp add: nav_begin_def)
  ultimately have "reach h resolve locate allowed (?g\<lparr>cl_nav := Some (Importing to)\<rparr>)"
    using assms(2) d by (blast intro: reach.step client_step.guard_proceeds)
  moreover have "cl_nav (?g\<lparr>cl_nav := Some (Importing to)\<rparr>) = Some (Importing to)" by simp
  ultimately show "reach h resolve locate allowed (visit to c)"
    using assms(2) unfolding visit_def by (blast intro: reach.step client_step.shown)
  show "cl_session (visit to c) = example_session" using s by (simp add: visit_def page_shown_def)
qed


definition visited_admin :: "(jsstring \<rightharpoonup> jsstring) \<Rightarrow> client" where
  "visited_admin st = visit \<lparr>to_name = Admin, to_fullPath = js ''/admin''\<rparr> (client_init st)"

lemma visited_admin_state: "on_page Admin (visited_admin st)" "\<not> cl_due (visited_admin st)" "cl_pushes (visited_admin st) = []" "cl_nav (visited_admin st) = None"
  by (simp_all add: visited_admin_def visit_def page_shown_def on_page_def guard_answered_def nav_begin_def client_init_def)

lemma visited_admin_reached:
  assumes "\<forall>c. allowed c ClNavigate \<and> allowed c ClGuard \<and> allowed c ClShown"
  shows "reach h resolve locate allowed (visited_admin st)" and "cl_session (visited_admin st) = example_session"
proof -
  have "cl_session (client_init st) \<in> {session_init, example_session}" by (simp add: client_init_def)
  from visit_reached [where to = "\<lparr>to_name = Admin, to_fullPath = js ''/admin''\<rparr>", OF reach.start assms this]
  show "reach h resolve locate allowed (visited_admin st)" and "cl_session (visited_admin st) = example_session"
    unfolding visited_admin_def by simp_all
qed


text \<open>
  The navigation of a handler can be lost: when the overview cannot be imported after a logout, the
  administration stays on the screen of a session that is logged out.
\<close>

theorem lost_logout_keeps_admin:
  assumes "to_name (locate (js ''/'')) = Overview"
  shows "\<exists>c. reach h resolve locate (\<lambda>_ e. e \<noteq> ClRefresh) c \<and> on_page Admin c \<and> \<not> loggedIn (cl_session c) \<and>
    cl_nav c = None \<and> cl_pushes c = [] \<and> cl_calls c = []"
proof -
  let ?r = "reach h resolve locate (\<lambda>_ e. e \<noteq> ClRefresh)" and ?c = "visited_admin Map.empty" and ?o = "locate (js ''/'')"
  let ?s = "example_session\<lparr>loggedIn := False, username := []\<rparr>"
  let ?c1 = "?c\<lparr>cl_calls := LogoutCall # cl_calls ?c\<rparr>"
  let ?c2 = "call_settled LogoutCall ?s (admin_logout None) ?c1"
  let ?c3 = "nav_begin ?o (?c2\<lparr>cl_pushes := []\<rparr>)"
  let ?c4 = "(guard_answered False undefined ?c3)\<lparr>cl_nav := Some (Importing ?o)\<rparr>"
  have c: "?r ?c" by (rule visited_admin_reached(1)) simp
  have s: "cl_session ?c = example_session" by (rule visited_admin_reached(2) [where allowed = "\<lambda>_ _. True"]) simp
  have "client_step h resolve locate ?c ClSubmit ?c1" using visited_admin_state(1) by (rule client_step.logout_sent)
  with c have 1: "?r ?c1" by (blast intro: reach.step)
  have "client_step h resolve locate ?c1 ClSettled ?c2"
    using s by (intro client_step.logout_settled [where reply = "Inr None"]) (simp_all add: logout_def)
  with 1 have 2: "?r ?c2" by (blast intro: reach.step)
  have "client_step h resolve locate ?c2 ClPush ?c3"
    using nav_start.begins [of "?c2\<lparr>cl_pushes := []\<rparr>" ?o]
    by (intro client_step.pushed [where ?paths1.0 = "[]" and ?paths2.0 = "[]" and path = "js ''/''"])
      (simp_all only: append.simps, simp add: call_settled_def admin_logout_def visited_admin_state)
  with 2 have 3: "?r ?c3" by (blast intro: reach.step)
  have "client_step h resolve locate ?c3 ClGuard ?c4" using assms
    by (intro client_step.guard_proceeds [OF _ refl]) (simp_all add: nav_begin_def call_settled_def guard_answered_def example_session_def decide_def)
  with 3 have 4: "?r ?c4" by (blast intro: reach.step)
  have "client_step h resolve locate ?c4 ClImportFailed (nav_end ?c4)" by (rule client_step.import_failed) simp
  with 4 have "?r (nav_end ?c4)" by (blast intro: reach.step)
  moreover have "cl_calls ?c = []" by (simp add: visited_admin_def visit_def page_shown_def go_def enter_page_def leave_page_def Let_def nav_begin_def guard_answered_def client_init_def)
  ultimately show ?thesis using visited_admin_state(1) [of Map.empty]
    by (intro exI [of _ "nav_end ?c4"]) (simp add: nav_end_def guard_answered_def nav_begin_def call_settled_def on_page_def)
qed

section \<open>What a page that was left keeps open\<close>

definition released :: "window \<Rightarrow> bool" where
  "released w \<longleftrightarrow> socket w = None \<and> open_sockets w = [] \<and> timeouts w = [] \<and> intervals w = []"

text \<open>
  An answer is timely unless the overview was left meanwhile and the load was its first one or one of
  the reconnect timer.
\<close>

fun timely :: "client \<Rightarrow> client_event \<Rightarrow> bool" where
  "timely c (ClAnswer i answer now) \<longleftrightarrow> on_page Overview c \<or>
     (i \<notin> set (cl_left c) \<and> map_of (loads (cl_window c)) i \<noteq> Some ReconnectLoad)"
| "timely c _ \<longleftrightarrow> True"

definition tidy :: "client \<Rightarrow> bool" where
  "tidy c \<longleftrightarrow> client_ok c \<and> (\<not> on_page Overview c \<longrightarrow> released (cl_window c) \<and> ov_initial (cl_overview c) = None)"

lemma leave_released:
  assumes "tidy c"
  shows "released (cl_window (leave_page c)) \<and> ov_initial (cl_overview (leave_page c)) = None"
proof (cases "on_page Overview c")
  case True
  then show ?thesis using assms disconnect_ok [of "cl_window c"]
    by (simp add: leave_page_def overview_unmount_def released_def tidy_def client_ok_def)
next
  case False
  then show ?thesis using assms by (simp add: leave_page_def tidy_def)
qed

lemma go_tidy: "tidy c \<Longrightarrow> client_ok (go to c) \<Longrightarrow> tidy (go to c)"
  using leave_released [of c]
  by (auto simp: tidy_def on_page_def go_def enter_page_def Let_def split: option.splits)

lemma browser_released:
  assumes "released w" and "browser_event e"
  shows "released (monitor_step h e w)"
  using assms by (cases e) (auto simp: released_def onclose_def Let_def)

lemma view_answer_released:
  assumes "released w" and "map_of (loads w) i \<noteq> Some ReconnectLoad"
  shows "released (monitor_step h (Answer i answer now) w)"
proof -
  have "map_of (loads w) i = None \<or> map_of (loads w) i = Some ViewLoad" using assms(2) by (metis load_kind.exhaust not_None_eq)
  then show ?thesis using assms(1) by (auto simp: released_def load_finish_frame Let_def)
qed

lemma tidy_session: "tidy c \<Longrightarrow> session_ok s \<Longrightarrow> tidy (c\<lparr>cl_session := s\<rparr>)"
  by (simp add: tidy_def client_ok_def on_page_def)

lemma tidy_cong: "tidy c \<Longrightarrow> client_ok c' \<Longrightarrow> cl_overview c' = cl_overview c \<Longrightarrow> cl_at c' = cl_at c \<Longrightarrow> tidy c'"
  by (simp add: tidy_def on_page_def)

lemma client_step_tidy:
  assumes "client_step h resolve locate c e c'" and "tidy c" and "timely c e"
  shows "tidy c'"
proof -
  have ok: "client_ok c'" using client_step_ok [OF assms(1)] assms(2) by (simp add: tidy_def)
  from assms(1) show ?thesis
  proof (cases rule: client_step.cases)
    case (browser e)
    show ?thesis
    proof (cases "on_page Overview c")
      case False
      then have "released (cl_window c)" using assms(2) by (simp add: tidy_def)
      then show ?thesis using browser browser_released [of "cl_window c" e h] ok assms(2) False
        by (cases e) (auto simp: tidy_def on_page_def)
    qed (use browser ok in \<open>simp add: tidy_def on_page_def\<close>)
  next
    case (answered i answer now)
    show ?thesis
    proof (cases "on_page Overview c")
      case False
      then have "released (cl_window c)" "ov_initial (cl_overview c) = None" "i \<notin> set (cl_left c)"
        "map_of (loads (cl_window c)) i \<noteq> Some ReconnectLoad"
        using assms(2,3) answered by (auto simp: tidy_def)
      then show ?thesis using answered ok view_answer_released [of "cl_window c" i h answer now]
        by (simp add: tidy_def client_answer_def overview_answer_def del: monitor_step.simps)
    qed (use answered ok in \<open>simp add: tidy_def on_page_def\<close>)
  next
    case (user e)
    then show ?thesis using ok by (simp add: tidy_def on_page_def)
  next
    case (shown to)
    then have "client_ok (go to c)" using ok by (simp add: client_ok_def page_shown_def)
    then have "tidy (go to c)" by (rule go_tidy [OF assms(2)])
    then show ?thesis using shown ok by (elim tidy_cong) (simp_all add: page_shown_def)
  qed (use ok in \<open>auto intro!: tidy_cong [OF assms(2)] dest: nav_start_frame simp: nav_defs\<close>)
qed

text \<open>
  C5: In every run of the client in which no load of the overview is answered after the page was
  left (its first one, or one of the reconnect timer), every page other than the overview is shown
  with no socket, timeout or interval of the live store open.
\<close>

theorem left_overview_is_released:
  assumes "reach h resolve locate timely c"
  shows "\<not> on_page Overview c \<longrightarrow> released (cl_window c)"
proof -
  from assms have "tidy c"
  proof (induction rule: reach.induct)
    case (start st)
    have "client_ok (client_init st)" using reach.start reach_ok by blast
    then show ?case by (simp add: tidy_def client_init_def overview_setup_def released_def window_init_def)
  next
    case (step c e c')
    then show ?case by (blast intro: client_step_tidy)
  qed
  then show ?thesis by (simp add: tidy_def)
qed

text \<open>
  The run that leaves the overview before its first answer, for the example of a timely run and for
  the exception: when the answer arrives later, the socket is opened while another page is shown.
\<close>

definition example_left :: "(jsstring \<rightharpoonup> jsstring) \<Rightarrow> client" where
  "example_left st = visit \<lparr>to_name = LatencyRoute, to_fullPath = js ''/latency''\<rparr>
     (visit \<lparr>to_name = Overview, to_fullPath = js ''/''\<rparr> (client_init st))"

lemma example_left_reached:
  assumes "\<forall>c. allowed c ClNavigate \<and> allowed c ClGuard \<and> allowed c ClShown"
  shows "reach h resolve locate allowed (example_left st)"
proof -
  let ?o = "\<lparr>to_name = Overview, to_fullPath = js ''/''\<rparr>"
  have "cl_session (client_init st) \<in> {session_init, example_session}" by (simp add: client_init_def)
  from visit_reached [where to = ?o, OF reach.start assms this]
  have "reach h resolve locate allowed (visit ?o (client_init st))" "cl_session (visit ?o (client_init st)) = example_session" by simp_all
  then show ?thesis unfolding example_left_def by - (rule visit_reached(1) [OF _ assms], simp_all)
qed

lemma example_left_state: "cl_left (example_left st) = [1]" "\<not> on_page Overview (example_left st)"
  "cl_window (example_left st) = load_start ViewLoad window_init"
  by (simp_all add: example_left_def visit_def page_shown_def guard_answered_def nav_begin_def go_def enter_page_def leave_page_def on_page_def client_init_def overview_mount_def
      overview_setup_def overview_unmount_def window_init_def load_start_def disconnect_def Let_def)

theorem left_overview_is_released_witness:
  "\<forall>st. \<not> on_page Overview (example_left st) \<and> released (cl_window (example_left st))"
proof
  fix st
  have "reach undefined (\<lambda>r q. []) undefined timely (example_left st)" by (rule example_left_reached) simp
  from left_overview_is_released [OF this] example_left_state(2)
  show "\<not> on_page Overview (example_left st) \<and> released (cl_window (example_left st))" by blast
qed

theorem late_answer_opens_socket:
  "\<exists>c. reach h resolve locate (\<lambda>_ _. True) c \<and> \<not> on_page Overview c \<and> open_sockets (cl_window c) \<noteq> []"
proof -
  let ?c = "client_answer h 1 (Inr [], Inr []) (Fin 0) (example_left Map.empty)"
  have left: "reach h resolve locate (\<lambda>_ _. True) (example_left Map.empty)" by (rule example_left_reached) simp
  have "client_step h resolve locate (example_left Map.empty) (ClAnswer 1 (Inr [], Inr []) (Fin 0)) ?c"
    by (rule client_step.answered)
  then have "reach h resolve locate (\<lambda>_ _. True) ?c" by (rule reach.step [OF left]) simp
  moreover have "\<not> on_page Overview ?c" using example_left_state(2) by (simp add: on_page_def)
  moreover have "open_sockets (cl_window ?c) \<noteq> []"
    by (simp add: client_answer_def example_left_state left_answer_def load_finish_def connect_def disconnect_def load_start_def
        window_init_def Let_def)
  ultimately show ?thesis by blast
qed

end
