(* ===== verification/Pages.thy ===== *)
theory Pages
  imports Client Screens DateLaws
begin

text \<open>
  What the templates of the public pages and of the frame of the administration show and offer:
  \<open>PublicHeader.vue\<close>, \<open>OverviewView.vue\<close> (readouts, toolbar, table), \<open>ShareView.vue\<close>, \<open>LoginView.vue\<close>,
  \<open>SetupView.vue\<close> and \<open>AdminView.vue\<close>. A template is a function from the state of its script and of the
  stores; a click is the handler that its element names.
\<close>

section \<open>PublicHeader.vue\<close>

record header_view =
  hv_siteName :: jsstring
  hv_links :: "(jsstring \<times> jsstring) list"
  hv_appearance :: jsstring
  hv_account :: "jsstring \<times> jsstring"

definition siteName :: "session \<Rightarrow> jsstring" where
  "siteName s = (case site s of None \<Rightarrow> js ''HOSTPIN'' | Some st \<Rightarrow> ss_name st)"

definition account_link :: "session \<Rightarrow> jsstring" where
  "account_link s = (if loggedIn s then js ''/admin'' else js ''/login'')"

definition PublicHeader :: "AppLocale \<Rightarrow> jsstring \<Rightarrow> session \<Rightarrow> header_view" where
  "PublicHeader l appearance s = \<lparr>hv_siteName = siteName s,
     hv_links = [(js ''/'', text_in l [33410, 28857] (js ''Nodes'')), (js ''/latency'', text_in l [24310, 36831] (js ''Latency''))],
     hv_appearance = text_in l ([22806, 35266, 65306] @ appearance) (js ''Appearance: '' @ appearance),
     hv_account = (account_link s, if loggedIn s then text_in l [31649, 29702] (js ''Admin'') else text_in l [30331, 24405] (js ''Sign in''))\<rparr>"

section \<open>OverviewView.vue\<close>

record fleet_readout =
  fr_stamp :: jsstring
  fr_online :: nat
  fr_nodes :: nat
  fr_width :: number
  fr_cpu :: jsstring
  fr_memory :: jsstring
  fr_traffic :: jsstring

definition update_stamp :: "host \<Rightarrow> AppLocale \<Rightarrow> window \<Rightarrow> jsstring" where
  "update_stamp h l w = (case lastUpdate w of
     Some t \<Rightarrow> text_in l [26356, 26032] (js ''Updated'') @ js '' '' @ locale_time h t
   | None \<Rightarrow> text_in l [27491, 22312, 36830, 25509] (js ''Connecting''))"

definition readout :: "host \<Rightarrow> AppLocale \<Rightarrow> overview_page \<Rightarrow> fleet_readout" where
  "readout h l p = \<lparr>fr_stamp = update_stamp h l (ov_window p), fr_online = onlineCount (ov_window p),
     fr_nodes = length (nodes (ov_window p)), fr_width = online_width p, fr_cpu = toFixed (avgCPU p) 1,
     fr_memory = bytes h (totalMemory p) 0, fr_traffic = rate h (trafficRate p)\<rparr>"

definition statusOptions :: "AppLocale \<Rightarrow> (status_filter \<times> jsstring) list" where
  "statusOptions l = [(AllNodes, text_in l [20840, 37096] (js ''All'')), (OnlineNodes, text_in l [22312, 32447] (js ''Online'')),
     (OfflineNodes, text_in l [31163, 32447] (js ''Offline''))]"

text \<open>Value, label and \<open>aria-pressed\<close> of the buttons; value and label of the options.\<close>

definition status_buttons :: "AppLocale \<Rightarrow> overview_page \<Rightarrow> (status_filter \<times> jsstring \<times> bool) list" where
  "status_buttons l p = map (\<lambda>(value, label). (value, label, ov_status p = value)) (statusOptions l)"

definition group_options :: "AppLocale \<Rightarrow> overview_page \<Rightarrow> (jsstring \<times> jsstring) list" where
  "group_options l p = ([], text_in l [20840, 37096, 20998, 32452] (js ''All groups'')) # map (\<lambda>item. (item, item)) (groups (ov_window p))"

definition view_buttons :: "overview_page \<Rightarrow> (layout \<times> bool) list" where
  "view_buttons p = map (\<lambda>v. (v, ov_view p = layout_string v)) [Grid, TableLayout]"

record node_row =
  row_to :: jsstring
  row_label :: jsstring
  row_online :: bool
  row_logo :: jsstring
  row_name :: jsstring
  row_os :: "jsstring option"
  row_flag :: "jsstring option"
  row_location :: jsstring
  row_cpu :: jsstring
  row_memory :: jsstring
  row_network :: jsstring
  row_traffic :: traffic_bar
  row_uptime :: jsstring

definition pair_text :: "jsstring \<Rightarrow> jsstring \<Rightarrow> jsstring" where
  "pair_text a b = a @ js '' / '' @ b"

definition table_row :: "host \<Rightarrow> AppLocale \<Rightarrow> NodeSnapshot \<Rightarrow> node_row" where
  "table_row h l item = (let node = sn_node item; metric = sn_metric item in
     \<lparr>row_to = js ''/nodes/'' @ pn_id node,
      row_label = text_in l ([25171, 24320, 32] @ pn_name node) (js ''Open '' @ pn_name node),
      row_online = pn_online node, row_logo = SystemLogo h (pn_os node), row_name = pn_name node, row_os = pn_os node,
      row_flag = NodeFlag h (pn_country_code node),
      row_location = or_text (pn_region node) (or_text (pn_country_code node) [8212]),
      row_cpu = (case metric of None \<Rightarrow> [8212] | Some m \<Rightarrow> toFixed (ms_cpu m) 1) @ js ''%'',
      row_memory = pair_text (bytes h (zero_if_missing ms_memory_used metric) 1) (bytes h (zero_if_missing ms_memory_total metric) 1),
      row_network = pair_text (rate h (zero_if_missing ms_net_rx_bps metric)) (rate h (zero_if_missing ms_net_tx_bps metric)),
      row_traffic = TrafficUsageBar h l (traffic_of item),
      row_uptime = (case metric of None \<Rightarrow> [8212] | Some m \<Rightarrow> duration l (ms_uptime_seconds m))\<rparr>)"

definition overview_rows :: "host \<Rightarrow> AppLocale \<Rightarrow> overview_page \<Rightarrow> node_row list" where
  "overview_rows h l p = map (table_row h l) (filtered h p)"

section \<open>ShareView.vue\<close>

datatype share_content = ShareUnavailable jsstring | ShareCards "node_card list"

definition share_heading :: "host \<Rightarrow> AppLocale \<Rightarrow> share_page \<Rightarrow> jsstring option" where
  "share_heading h l p = (if sh_expiresAt p = [] then None
     else map_option (\<lambda>d. text_in l [26377, 25928, 26399, 33267] (js ''Access expires'') @ js '' '' @ d) (dateTime h l (Some (sh_expiresAt p))))"

definition share_screen :: "host \<Rightarrow> AppLocale \<Rightarrow> number \<Rightarrow> jsstring \<Rightarrow> share_page \<Rightarrow> share_content" where
  "share_screen h l now token p = (if sh_error p \<noteq> [] then ShareUnavailable (sh_error p)
     else ShareCards (map (\<lambda>item. NodeCard h l now item
       (Some (js ''/share/'' @ token @ js ''/nodes/'' @ pn_id (sn_node item)))) (sh_nodes p)))"

section \<open>LoginView.vue and SetupView.vue\<close>

record submit_view =
  sv_error :: "jsstring option"
  sv_disabled :: bool
  sv_label :: jsstring

definition shown_error :: "jsstring \<Rightarrow> jsstring option" where
  "shown_error e = (if e = [] then None else Some e)"

definition login_brand :: "session \<Rightarrow> jsstring" where
  "login_brand s = or_text (map_option ss_name (site s)) (js ''HOSTPIN'')"

definition login_form :: "AppLocale \<Rightarrow> login_page \<Rightarrow> submit_view" where
  "login_form l p = \<lparr>sv_error = shown_error (lg_error p), sv_disabled = lg_busy p,
     sv_label = (if lg_busy p then text_in l [27491, 22312, 30331, 24405, 8230] (js ''Signing in'' @ [8230]) else text_in l [30331, 24405] (js ''Sign in''))\<rparr>"

definition setup_form :: "AppLocale \<Rightarrow> setup_page \<Rightarrow> submit_view" where
  "setup_form l p = \<lparr>sv_error = shown_error (se_error p), sv_disabled = (se_busy p \<or> \<not> passwordValid p \<or> \<not> pinValid p),
     sv_label = (if se_busy p then text_in l [27491, 22312, 21021, 22987, 21270, 8230] (js ''Setting up'' @ [8230]) else text_in l [23436, 25104, 35774, 32622] (js ''Complete setup''))\<rparr>"

text \<open>The inputs of the two forms, each bound to a variable of its script.\<close>

datatype login_edit = LoginUser jsstring | LoginPassword jsstring | LoginCode jsstring

fun login_input :: "login_edit \<Rightarrow> login_page \<Rightarrow> login_page" where
  "login_input (LoginUser v) p = p\<lparr>lg_username := v\<rparr>"
| "login_input (LoginPassword v) p = p\<lparr>lg_password := v\<rparr>"
| "login_input (LoginCode v) p = p\<lparr>lg_totp := v\<rparr>"

datatype setup_edit = SetupSite jsstring | SetupDescription jsstring | SetupUser jsstring | SetupPassword jsstring
  | SetupConfirmation jsstring | SetupPIN jsstring

fun setup_input :: "setup_edit \<Rightarrow> setup_page \<Rightarrow> setup_page" where
  "setup_input (SetupSite v) p = p\<lparr>se_siteName := v\<rparr>"
| "setup_input (SetupDescription v) p = p\<lparr>se_description := v\<rparr>"
| "setup_input (SetupUser v) p = p\<lparr>se_username := v\<rparr>"
| "setup_input (SetupPassword v) p = p\<lparr>se_password := v\<rparr>"
| "setup_input (SetupConfirmation v) p = p\<lparr>se_confirmation := v\<rparr>"
| "setup_input (SetupPIN v) p = p\<lparr>se_pin := v\<rparr>"

section \<open>AdminView.vue\<close>

record nav_item =
  ni_to :: jsstring
  ni_active :: bool
  ni_icon :: jsstring
  ni_label :: jsstring

record admin_frame =
  af_brand :: jsstring
  af_nav :: "nav_item list"
  af_user :: jsstring
  af_version :: jsstring
  af_title :: jsstring
  af_clock :: jsstring
  af_view :: view_component

definition nav_icons :: "jsstring list" where
  "nav_icons = [[8961], [9638], [8961], [9651], [8961], [9671], [9680], [9881], [8644], [9022], [8801]]"

definition nav_items :: "AppLocale \<Rightarrow> jsstring option \<Rightarrow> nav_item list" where
  "nav_items l param = map (\<lambda>((key, label), icon). \<lparr>ni_to = js ''/admin/'' @ key, ni_active = (section_of param = key),
     ni_icon = icon, ni_label = label\<rparr>) (zip (admin_nav l) nav_icons)"

text \<open>\<open>now\<close> is the time at which the template is rendered.\<close>

definition utc_clock :: "number \<Rightarrow> jsstring option" where
  "utc_clock now = map_option (slice 11 19) (toISOString now)"

definition AdminView :: "AppLocale \<Rightarrow> number \<Rightarrow> jsstring option \<Rightarrow> session \<Rightarrow> admin_frame option" where
  "AdminView l now param s = map_option (\<lambda>clock. \<lparr>af_brand = or_text (map_option ss_name (site s)) (js ''HOSTPIN''),
     af_nav = nav_items l param, af_user = username s, af_version = js ''HOSTPIN '' @ version s,
     af_title = currentLabel l param, af_clock = js ''UTC '' @ clock, af_view = current_view param\<rparr>) (utc_clock now)"

section \<open>Links lead where they say\<close>

text \<open>
  The account link of the header is never redirected once the server is set up, also when the
  session could not be fetched: it names the administration exactly for a user who may enter it.
\<close>

theorem account_link_proceeds:
  assumes "session_ok s" and "initialized s \<longrightarrow> setupComplete s"
    and "to_name (locate (js ''/admin'')) = Admin" and "to_name (locate (js ''/login'')) = Login"
  shows "decide s (locate (fst (hv_account (PublicHeader l appearance s)))) = Proceed"
  using assms by (auto simp: PublicHeader_def account_link_def decide_def session_ok_def)

theorem account_link_proceeds_witness:
  "decide example_session ((\<lambda>path. \<lparr>to_name = (if path = js ''/admin'' then Admin else Login), to_fullPath = path\<rparr>)
     (fst (hv_account (PublicHeader en_US (js ''dark'') example_session)))) = Proceed"
  by (rule account_link_proceeds [where locate = "\<lambda>path. \<lparr>to_name = (if path = js ''/admin'' then Admin else Login), to_fullPath = path\<rparr>"])
    (simp_all add: example_session_def session_ok_def)

text \<open>Every link of the navigation opens the page whose title it shows, and is then the only active one.\<close>

lemma nav_keys_distinct: "distinct (map fst (admin_nav l))"
  by (simp add: admin_nav_def)

theorem nav_items_open_their_page:
  "list_all2 (\<lambda>(key, label) item. ni_to item = js ''/admin/'' @ key \<and> ni_label item = label \<and>
      currentLabel l (Some key) = label \<and> (\<exists>v. current_view (Some key) = Section v) \<and>
      map ni_active (nav_items l (Some key)) = map (\<lambda>i. ni_to i = ni_to item) (nav_items l (Some key)))
    (admin_nav l) (nav_items l param)"
  by (simp add: nav_items_def nav_icons_def admin_nav_def currentLabel_def current_view_def admin_views_def section_of_def or_text_def)

section \<open>Forms\<close>

text \<open>
  The button of the set-up form is enabled exactly when a click posts, and what has to be typed enables it.
\<close>

theorem setup_button_posts:
  assumes "\<not> se_busy p"
  shows "(\<not> sv_disabled (setup_form l p) \<longleftrightarrow> snd (setup_submit p) = Some (setup_body p)) \<and>
    (sv_disabled (setup_form l p) \<longleftrightarrow> setup_submit p = (p, None))"
  using assms by (auto simp: setup_form_def setup_submit_def)

theorem typed_setup_enables:
  assumes "\<not> se_busy p" and "12 \<le> length pw" and "6 \<le> length pin"
  shows "\<not> sv_disabled (setup_form l (fold setup_input [SetupPassword pw, SetupConfirmation pw, SetupPIN pin] p))"
  using assms by (simp add: setup_form_def passwordValid_def pinValid_def)

section \<open>The toolbar of the overview\<close>

text \<open>Every group that the list offers has nodes to show, and every node of a group is offered under it.\<close>

lemma set_groups: "set (groups w) = {g. g \<noteq> [] \<and> (\<exists>item \<in> set (nodes w). pn_group (sn_node item) = Some g)}"
proof -
  have "set (List.map_filter f xs) = {y. \<exists>x \<in> set xs. f x = Some y}" for f :: "NodeSnapshot \<Rightarrow> jsstring option" and xs
    by (induction xs) (auto simp: map_filter_simps split: option.split)
  then show ?thesis by (auto simp: groups_def)
qed

theorem offered_groups_match:
  assumes "g \<in> fst ` set (group_options l p)" and "nodes (ov_window p) \<noteq> []"
    and "ov_search p = []" and "ov_status p = AllNodes"
  shows "filtered h (p\<lparr>ov_group := g\<rparr>) \<noteq> []"
proof (cases "g = []")
  case True
  then show ?thesis using assms(2-4) by (auto simp: filtered_def node_matches_def status_matches_def toLowerCase_def is_ascii_def Let_def filter_empty_conv)
next
  case False
  then obtain item where "item \<in> set (nodes (ov_window p))" "pn_group (sn_node item) = Some g"
    using assms(1) by (auto simp: group_options_def set_groups image_iff)
  then show ?thesis using assms(3,4) by (auto simp: filtered_def node_matches_def status_matches_def toLowerCase_def is_ascii_def Let_def filter_empty_conv)
qed

text \<open>The status buttons split the nodes: what all show is what online and offline show together.\<close>

theorem status_buttons_partition:
  "filtered h (p\<lparr>ov_status := OnlineNodes\<rparr>) = filter (\<lambda>item. pn_online (sn_node item)) (filtered h (p\<lparr>ov_status := AllNodes\<rparr>)) \<and>
   filtered h (p\<lparr>ov_status := OfflineNodes\<rparr>) = filter (\<lambda>item. \<not> pn_online (sn_node item)) (filtered h (p\<lparr>ov_status := AllNodes\<rparr>)) \<and>
   length (filter (\<lambda>(_, _, pressed). pressed) (status_buttons l p)) = 1"
  by (auto simp: filtered_def node_matches_def status_matches_def Let_def status_buttons_def statusOptions_def conj_ac intro!: filter_cong)
    (cases "ov_status p"; simp)+

text \<open>The bar under the number of nodes that are online has a width between 0 and 100 percent.\<close>

theorem online_width_range:
  "\<exists>x. fr_width (readout h l p) = Fin x \<and> 0 \<le> x \<and> x \<le> 100"
proof (cases "nodes (ov_window p) = []")
  case False
  let ?n = "real (length (nodes (ov_window p)))"
  have "0 < ?n" "real (onlineCount (ov_window p)) \<le> ?n" using False by (simp_all add: onlineCount_def)
  then obtain q where q: "fl (real (onlineCount (ov_window p)) / ?n) = Fin q" "0 \<le> q" "q \<le> 1"
    using fl_between_int [of 0 1 "real (onlineCount (ov_window p)) / ?n"] by auto
  then obtain x where "fl (q * 100) = Fin x" "0 \<le> x" "x \<le> 100" using fl_between_int [of 0 100 "q * 100"] by auto
  then show ?thesis using False q(1) \<open>0 < ?n\<close> by (simp add: readout_def online_width_def)
qed (simp add: readout_def online_width_def)

text \<open>The clock of the administration shows hours, minutes and seconds of the day in UTC.\<close>

theorem utc_clock_time:
  assumes "0 \<le> iso_year t" and "iso_year t \<le> 9999"
  shows "utc_clock (Fin (of_int t)) = Some (pad_digits 2 (t mod ms_per_day div 3600000) @ [58] @
    pad_digits 2 (t mod ms_per_day div 60000 mod 60) @ [58] @ pad_digits 2 (t mod ms_per_day div 1000 mod 60))"
proof -
  let ?r = "t mod ms_per_day"
  have "0 \<le> ?r div 3600000" "?r div 3600000 < 24" by (simp_all add: ms_per_day_def)
  then have "length (pad_digits 2 (?r div 3600000)) = 2" "length (pad_digits 2 (?r div 60000 mod 60)) = 2"
    "length (pad_digits 2 (?r div 1000 mod 60)) = 2" by (auto intro!: pad_digits_correct(1))
  then show ?thesis using length_day_string [OF assms iso_valid]
    by (simp add: utc_clock_def toISOString_fields slice_def clock_string_def del: toISOString.simps)
qed

end
