(* ===== verification/Readouts.thy ===== *)
theory Readouts
  imports Screens
begin

text \<open>
  The rest of the templates of \<open>web/src/views/NodeView.vue\<close> and \<open>web/src/views/LatencyView.vue\<close>: the readouts of
  a node, its inventory and probe cards, the strips for traffic and billing, the windows, and the
  summary, headings and mobile matrix of the latency page. Texts are strings in the current language.
\<close>

section \<open>Shared pieces\<close>

fun type_label :: "probe_type \<Rightarrow> jsstring" where
  "type_label Icmp = js ''ICMP''"
| "type_label Tcp = js ''TCP''"
| "type_label Http = js ''HTTP''"
| "type_label Dns = js ''DNS''"

definition dash :: jsstring where "dash = [8212]"
definition middot :: jsstring where "middot = [32, 183, 32]"

definition dash_if_missing :: "('m \<Rightarrow> jsstring) \<Rightarrow> 'm option \<Rightarrow> jsstring" where
  "dash_if_missing f m = (case m of None \<Rightarrow> dash | Some v \<Rightarrow> f v)"

text \<open>\<open>x ? f(x) : d\<close> on an optional number.\<close>

definition if_truthy :: "number option \<Rightarrow> (number \<Rightarrow> jsstring) \<Rightarrow> jsstring \<Rightarrow> jsstring" where
  "if_truthy v f d = (case v of None \<Rightarrow> d | Some n \<Rightarrow> if truthy_num n then f n else d)"

definition slashed :: "jsstring \<Rightarrow> jsstring \<Rightarrow> jsstring" where
  "slashed a b = a @ js '' / '' @ b"

definition celsius :: "number \<Rightarrow> jsstring" where
  "celsius t = toFixed t 1 @ [176, 67]"

section \<open>The node page\<close>

record node_heading =
  nh_online :: bool
  nh_pill :: jsstring
  nh_name :: jsstring
  nh_remark :: jsstring
  nh_report :: jsstring

definition node_heading_of :: "host \<Rightarrow> AppLocale \<Rightarrow> number \<Rightarrow> NodeSnapshot \<Rightarrow> node_heading" where
  "node_heading_of h l now s = (let node = sn_node s in
     \<lparr>nh_online = pn_online node,
      nh_pill = (if pn_online node then text_in l [22312, 32447] (js ''Online'') else text_in l [31163, 32447] (js ''Offline'')),
      nh_name = pn_name node,
      nh_remark = or_text (pn_public_remark node)
        (or_text (pn_os node) (text_in l [26410, 30693, 31995, 32479] (js ''Unknown OS'')) @ middot @ or_text (pn_arch node) dash),
      nh_report = text_in l [26368, 21518, 19978, 25253] (js ''Last report'') @ js '' '' @ relativeTime h l now (last_report s)\<rparr>)"

definition memoryPercent :: "MetricSample option \<Rightarrow> number" where
  "memoryPercent m = percent (zero_if_missing ms_memory_used m) (zero_if_missing ms_memory_total m)"

definition diskPercent :: "MetricSample option \<Rightarrow> number" where
  "diskPercent m = percent (zero_if_missing ms_disk_used m) (zero_if_missing ms_disk_total m)"

record node_readouts =
  nr_cpu :: jsstring
  nr_cpu_bar :: metric_bar
  nr_memory :: "jsstring \<times> jsstring"
  nr_disk :: "jsstring \<times> jsstring"
  nr_uptime :: jsstring
  nr_processes :: jsstring

definition node_readouts_of :: "host \<Rightarrow> AppLocale \<Rightarrow> MetricSample option \<Rightarrow> node_readouts" where
  "node_readouts_of h l m =
     (let part = (\<lambda>used whole. slashed (bytes h (zero_if_missing used m) 1) (bytes h (zero_if_missing whole m) 1));
          processes = dash_if_missing (\<lambda>v. num_string (ms_processes v)) m in
      \<lparr>nr_cpu = dash_if_missing (\<lambda>v. toFixed (ms_cpu v) 1) m, nr_cpu_bar = MetricBar [] (zero_if_missing ms_cpu m) [],
       nr_memory = (toFixed (memoryPercent m) 1, part ms_memory_used ms_memory_total),
       nr_disk = (toFixed (diskPercent m) 1, part ms_disk_used ms_disk_total),
       nr_uptime = duration l (zero_if_missing ms_uptime_seconds m),
       nr_processes = text_in l (processes @ [32, 20010, 36827, 31243]) (processes @ js '' processes'')\<rparr>)"

definition machine_panel :: "AppLocale \<Rightarrow> NodeSnapshot \<Rightarrow> jsstring list" where
  "machine_panel l s = (let node = sn_node s; m = sn_metric s in
     [or_text (pn_cpu_name node) dash, if_truthy (pn_cpu_cores node) num_string dash, or_text (pn_kernel_version node) dash,
      or_text (pn_virtualization node) (text_in l [26410, 30693] (js ''Unknown'')),
      dash_if_missing (\<lambda>v. slashed (toFixed (ms_load1 v) 2) (slashed (toFixed (ms_load5 v) 2) (toFixed (ms_load15 v) 2))) m,
      if_truthy (Option.bind m ms_temperature) celsius dash])"

definition network_now :: "host \<Rightarrow> AppLocale \<Rightarrow> MetricSample option \<Rightarrow> (jsstring \<times> jsstring) list" where
  "network_now h l m =
     (let total = (\<lambda>f. let b = bytes h (zero_if_missing f m) 1 in text_in l ([32047, 35745, 32] @ b) (b @ js '' total'')) in
      [([8595, 32] @ rate h (zero_if_missing ms_net_rx_bps m), total ms_net_rx_bytes),
       ([8593, 32] @ rate h (zero_if_missing ms_net_tx_bps m), total ms_net_tx_bytes),
       (dash_if_missing (\<lambda>v. num_string (ms_tcp_connections v)) m @ js '' TCP'', dash_if_missing (\<lambda>v. num_string (ms_udp_connections v)) m @ js '' UDP'')])"

record carrier_card =
  cc_key :: jsstring
  cc_name :: jsstring
  cc_method :: jsstring
  cc_dot :: dot
  cc_latency :: jsstring
  cc_loss :: jsstring
  cc_interval :: jsstring

definition carrier_card_of :: "AppLocale \<Rightarrow> PublicProbeSnapshot \<Rightarrow> carrier_card" where
  "carrier_card_of l probe = (let task = pp_task probe in
     \<lparr>cc_key = carrierKey (pt_purpose task), cc_name = carrierName l (pt_purpose task),
      cc_method = type_label (pt_type task) @ middot @ num_string (pt_samples task) @ js '' '' @ text_in l [27425, 47, 36718] (js ''samples''),
      cc_dot = carrier_dot probe, cc_latency = carrier_latency probe,
      cc_loss = text_in l [20002, 21253] (js ''Loss'') @ js '' '' @ toFixed (carrierLoss probe) 1 @ js ''%'',
      cc_interval = num_string (pt_interval_seconds task) @ js ''s''\<rparr>)"

record carrier_section =
  ca_note :: jsstring
  ca_cards :: "carrier_card list"
  ca_legend :: "(jsstring \<times> jsstring) list"
  ca_chart :: "chart_props option"

definition carrier_section_of :: "host \<Rightarrow> AppLocale \<Rightarrow> node_page \<Rightarrow> carrier_section option" where
  "carrier_section_of h l p = (let n = num_string (nv_hours p); probes = nv_carrierProbes p in
     if probes = [] then None
     else Some \<lparr>ca_note = text_in l ([24403, 21069, 26381, 21153, 22120, 20027, 21160, 36830, 25509, 19977, 32593, 27979, 35797, 30446, 26631, 32, 183, 32, 26368, 36817, 32] @ n @ [32, 23567, 26102]) (js ''Measured outbound by this server'' @ middot @ js ''last '' @ n @ js '' hours''),
       ca_cards = map (carrier_card_of l) probes,
       ca_legend = map (\<lambda>probe. (carrierColor (pt_purpose (pp_task probe)), carrierName l (pt_purpose (pp_task probe)))) probes,
       ca_chart = carrier_chart h l p\<rparr>)"

definition disk_row :: "host \<Rightarrow> DiskMetric \<Rightarrow> jsstring list" where
  "disk_row h d = (let speed = (\<lambda>v. rate h (case v of None \<Rightarrow> Fin 0 | Some n \<Rightarrow> n)) in
     [dm_mountpoint d, or_text (dm_filesystem d) dash, slashed (bytes h (dm_used d) 1) (bytes h (dm_total d) 1),
      slashed (speed (dm_read_bps d)) (speed (dm_write_bps d))])"

definition gpu_card :: "host \<Rightarrow> AppLocale \<Rightarrow> GPUMetric \<Rightarrow> jsstring list" where
  "gpu_card h l g = (let size = (\<lambda>v. bytes h (case v of None \<Rightarrow> Fin 0 | Some n \<Rightarrow> n) 1) in
     [js ''GPU '' @ num_string (gm_index g), gm_name g, toFixed (gm_utilization g) 1 @ js ''%'',
      slashed (size (gm_memory_used g)) (size (gm_memory_total g)) @ js '' VRAM'' @ middot @
        if_truthy (gm_temperature g) celsius (text_in l [26080, 28201, 24230, 20256, 24863, 22120] (js ''No temperature sensor''))])"

record service_card =
  sv_online :: bool
  sv_name :: jsstring
  sv_method :: jsstring
  sv_latency :: jsstring
  sv_available :: jsstring
  sv_samples :: jsstring

definition service_card_of :: "AppLocale \<Rightarrow> PublicProbeSnapshot \<Rightarrow> service_card" where
  "service_card_of l probe = (let task = pp_task probe; rs = pp_results probe; n = num_string (num_of_nat (length rs)) in
     \<lparr>sv_online = (case latestProbe rs of None \<Rightarrow> False | Some r \<Rightarrow> pr_success r), sv_name = pt_name task,
      sv_method = type_label (pt_type task) @ middot @ num_string (pt_interval_seconds task) @ js ''s'',
      sv_latency = dash_if_missing (\<lambda>r. toFixed (pr_latency_ms r) 1) (latestProbe rs),
      sv_available = toFixed (probeAvailability rs) 2 @ js ''% '' @ text_in l [21487, 29992] (js ''available''),
      sv_samples = text_in l (n @ [32, 20010, 26679, 26412]) (n @ js '' samples'')\<rparr>)"

record traffic_strip =
  ts_tone :: tone
  ts_heading :: jsstring
  ts_used :: jsstring
  ts_limit :: "jsstring option"
  ts_breakdown :: jsstring
  ts_gauge :: "(number \<times> number) option"
  ts_reset :: jsstring
  ts_policy :: jsstring

text \<open>The gauge is its \<open>aria-valuenow\<close> and its width.\<close>

definition traffic_strip_of :: "host \<Rightarrow> AppLocale \<Rightarrow> node_page \<Rightarrow> traffic_strip option" where
  "traffic_strip_of h l p = (case nv_snapshot p of None \<Rightarrow> None | Some s \<Rightarrow> (case sn_metric s of None \<Rightarrow> None | Some m \<Rightarrow>
     (let node = sn_node s; used = toFixed (nv_trafficPercent p) 1;
          day = num_string (if truthy_num (pn_traffic_reset_day node) then pn_traffic_reset_day node else Fin 1);
          size = (\<lambda>v. bytes h (case v of None \<Rightarrow> Fin 0 | Some n \<Rightarrow> n) 1) in
      Some \<lparr>ts_tone = nv_trafficTone p,
        ts_heading = slashed (text_in l [26412, 26376, 27969, 37327] (js ''Monthly traffic'')) (toUpperCase h (pn_traffic_limit_type node)),
        ts_used = bytes h (nv_trafficUsed p) 1,
        ts_limit = map_option (\<lambda>q. js '' / '' @ bytes h q 1) (node_quota p),
        ts_breakdown = [8595, 32] @ size (ms_monthly_rx_bytes m) @ middot @ [8593, 32] @ size (ms_monthly_tx_bytes m),
        ts_gauge = map_option (\<lambda>n. (n, nv_trafficPercent p)) (traffic_gauge p),
        ts_reset = text_in l ([27599, 26376, 32, 85, 84, 67, 32] @ day @ [32, 26085, 37325, 32622]) (js ''Reset on UTC day '' @ day),
        ts_policy = (if node_quota p \<noteq> None then text_in l ([24050, 29992, 32] @ used @ js ''%'') (used @ js ''% used'')
          else text_in l [26410, 35774, 32622, 37197, 39069] (js ''No quota''))\<rparr>)))"

record billing_strip =
  bl_price :: "jsstring option"
  bl_expires :: "jsstring option"
  bl_renewal :: jsstring

definition billing_strip_of :: "host \<Rightarrow> AppLocale \<Rightarrow> PublicNode \<Rightarrow> billing_strip option" where
  "billing_strip_of h l node =
     (let priced = truthy_num (pn_price node); dated = pn_expires_at node \<notin> {None, Some []} in
      if \<not> priced \<and> \<not> dated then None
      else Some \<lparr>bl_price = (if priced then Some (pn_currency node @ js '' '' @ slashed (num_string (pn_price node))
            (num_string (pn_billing_cycle_days node) @ text_in l [22825] (js ''d''))) else None),
        bl_expires = (if dated then map_option (\<lambda>d. text_in l [21040, 26399] (js ''Expires'') @ js '' '' @ d) (dateTime h l (pn_expires_at node)) else None),
        bl_renewal = (if pn_auto_renewal node then text_in l [33258, 21160, 32493, 36153] (js ''Auto renewal'') else text_in l [25163, 21160, 32493, 36153] (js ''Manual renewal''))\<rparr>)"

definition node_window_label :: "AppLocale \<Rightarrow> number \<Rightarrow> jsstring" where
  "node_window_label l value = (if value < Fin 24 then num_string value @ text_in l [23567, 26102] (js ''h'')
     else num_string (value / Fin 24) @ text_in l [22825] (js ''d''))"

definition node_windows :: "AppLocale \<Rightarrow> node_page \<Rightarrow> (number \<times> bool \<times> jsstring) list" where
  "node_windows l p = map (\<lambda>v. (v, nv_hours p = v, node_window_label l v)) windows"

record node_detail =
  nd_back :: jsstring
  nd_heading :: node_heading
  nd_readouts :: node_readouts
  nd_machine :: "jsstring list"
  nd_network :: "(jsstring \<times> jsstring) list"
  nd_carriers :: "carrier_section option"
  nd_disks :: "jsstring list list"
  nd_gpus :: "jsstring list list"
  nd_services :: "service_card list"
  nd_traffic :: "traffic_strip option"
  nd_billing :: "billing_strip option"
  nd_windows :: "(number \<times> bool \<times> jsstring) list"

text \<open>The page of a node that is known, section by section; an empty list of cards hides its section.\<close>

definition node_detail_of :: "host \<Rightarrow> AppLocale \<Rightarrow> number \<Rightarrow> node_page \<Rightarrow> node_detail option" where
  "node_detail_of h l now p = (case node_screen_of p of
     NodeShown s \<Rightarrow> (let m = sn_metric s in
       Some \<lparr>nd_back = back_link p, nd_heading = node_heading_of h l now s, nd_readouts = node_readouts_of h l m,
         nd_machine = machine_panel l s, nd_network = network_now h l m, nd_carriers = carrier_section_of h l p,
         nd_disks = map (disk_row h) (case Option.bind m ms_disks of None \<Rightarrow> [] | Some ds \<Rightarrow> ds),
         nd_gpus = map (gpu_card h l) (case Option.bind m ms_gpus of None \<Rightarrow> [] | Some gs \<Rightarrow> gs),
         nd_services = map (service_card_of l) (nv_probes p), nd_traffic = traffic_strip_of h l p,
         nd_billing = billing_strip_of h l (sn_node s), nd_windows = node_windows l p\<rparr>)
   | _ \<Rightarrow> None)"

section \<open>The latency page\<close>

record latency_readout =
  ly_online :: nat
  ly_probes :: nat
  ly_healthy :: nat
  ly_paths :: nat
  ly_mean :: jsstring
  ly_error :: "jsstring option"

definition latency_readout_of :: "latency_view \<Rightarrow> latency_readout" where
  "latency_readout_of v = \<lparr>ly_online = onlineProbes v, ly_probes = length (lo_probe_nodes (overview v)), ly_healthy = healthyPaths v,
     ly_paths = length (lo_latest (overview v)), ly_mean = dash_if_missing (\<lambda>n. toFixed n 1) (currentAverageLatency v),
     ly_error = (if lv_error v = [] then None else Some (lv_error v))\<rparr>"

definition probe_place :: "AppLocale \<Rightarrow> LatencyProbeNode \<Rightarrow> jsstring" where
  "probe_place l probe = or_text (lp_region probe) (or_text (lp_country_code probe) (text_in l [31169, 26377, 32593, 32476] (js ''Private edge'')))"

definition matrix_head :: "AppLocale \<Rightarrow> latency_view \<Rightarrow> (bool \<times> jsstring \<times> jsstring) list" where
  "matrix_head l v = map (\<lambda>probe. (lp_online probe, lp_name probe, probe_place l probe)) (lo_probe_nodes (overview v))"

text \<open>Link, name and description of the target of a row.\<close>

definition route_head :: "AppLocale \<Rightarrow> LatencyTarget \<Rightarrow> jsstring \<times> jsstring \<times> jsstring" where
  "route_head l t = (js ''/nodes/'' @ pn_id (lt_node t), pn_name (lt_node t),
     targetLabel l t @ middot @ type_label (lt_type t) @ middot @ num_string (lt_samples t) @ [215])"

record mobile_route =
  mr_label :: jsstring
  mr_online :: bool
  mr_name :: jsstring
  mr_place :: jsstring
  mr_cell :: cell_view

definition mobile_route_of :: "host \<Rightarrow> AppLocale \<Rightarrow> number \<Rightarrow> latency_view \<Rightarrow> LatencyTarget \<Rightarrow> LatencyProbeNode \<Rightarrow> mobile_route" where
  "mobile_route_of h l now v t probe = \<lparr>mr_label = text_in l (lp_name probe @ [32, 21040, 32] @ pn_name (lt_node t) @ [32, 30340, 24310, 36831])
       (lp_name probe @ js '' to '' @ pn_name (lt_node t) @ js '' latency''),
     mr_online = lp_online probe, mr_name = lp_name probe, mr_place = probe_place l probe, mr_cell = matrix_cell h l now v t probe\<rparr>"

definition mobile_matrix :: "host \<Rightarrow> AppLocale \<Rightarrow> number \<Rightarrow> latency_view \<Rightarrow> ((jsstring \<times> jsstring \<times> jsstring) \<times> mobile_route list) list" where
  "mobile_matrix h l now v = (if \<not> lv_loading v \<and> lo_probe_nodes (overview v) \<noteq> [] \<and> lo_targets (overview v) \<noteq> []
     then map (\<lambda>t. (route_head l t, map (mobile_route_of h l now v t) (lo_probe_nodes (overview v)))) (lo_targets (overview v)) else [])"

text \<open>\<open>selectedProbe?.name\<close> and \<open>selectedTarget?.node.name\<close>: a missing one is shown as nothing.\<close>

definition history_heading :: "latency_view \<Rightarrow> (jsstring option \<times> jsstring option) option" where
  "history_heading v = (if selected v = None then None
     else Some (map_option lp_name (selectedProbe v), map_option (\<lambda>t. pn_name (lt_node t)) (selectedTarget v)))"

definition latency_windows :: "latency_view \<Rightarrow> (number \<times> bool \<times> jsstring) list" where
  "latency_windows v = map (\<lambda>w. (w, hours v = w, window_label w)) windows"

section \<open>Properties\<close>

text \<open>Clicking a window on either page makes its button the only active one.\<close>

lemma one_window_active:
  assumes "v \<in> set windows"
  shows "filter (\<lambda>(_, active, _). active) (map (\<lambda>w. (w, v = w, f w)) windows) = [(v, True, f v)]"
  using assms by (auto simp: windows_def)

theorem window_click_active:
  assumes "v \<in> set windows"
  shows "filter (\<lambda>(_, active, _). active) (node_windows l (node_changeWindow v p)) = [(v, True, node_window_label l v)] \<and>
    filter (\<lambda>(_, active, _). active) (latency_windows (changeWindow v q)) = [(v, True, window_label v)]"
proof -
  have "nv_hours (node_changeWindow v p) = v" by (simp add: node_changeWindow_def node_load_def)
  moreover have "hours (changeWindow v q) = v"
    by (simp add: changeWindow_def loadHistory_def load_done_def clear_history_def Let_def split: option.split)
  ultimately show ?thesis using one_window_active [OF assms, of "node_window_label l"] one_window_active [OF assms, of window_label]
    by (simp add: node_windows_def latency_windows_def)
qed

text \<open>The mobile matrix has the cells of the table, in the same places.\<close>

theorem mobile_matrix_cells:
  "mobile_matrix h l now v = [] \<and> (\<forall>rows. latency_section h l now v \<noteq> Matrix rows) \<or>
   latency_section h l now v = Matrix (map (\<lambda>((_, name, _), routes). (name, map mr_cell routes)) (mobile_matrix h l now v))"
  by (auto simp: mobile_matrix_def latency_section_def route_head_def mobile_route_of_def o_def)

text \<open>
  After an answer whose results are all about listed points and targets, the heading of the history
  names both ends of the selected path.
\<close>

definition listed :: "LatencyOverview \<Rightarrow> LatencyResult \<Rightarrow> bool" where
  "listed ov r \<longleftrightarrow> list_ex (\<lambda>p. lp_id p = lr_probe_node_id r) (lo_probe_nodes ov) \<and>
     list_ex (\<lambda>t. pn_id (lt_node t) = lr_target_node_id r) (lo_targets ov)"

lemma find_some: "list_ex P xs \<Longrightarrow> \<exists>x. List.find P xs = Some x"
  by (induction xs) auto

lemma loadHistory_keeps: "selected (loadHistory b v) = selected v" "overview (loadHistory b v) = overview v"
  by (auto simp: loadHistory_def load_done_def Let_def split: option.split)

lemma path_named:
  assumes "list_ex (\<lambda>p. lp_id p = a) (lo_probe_nodes (overview v))" and "list_ex (\<lambda>t. pn_id (lt_node t) = b) (lo_targets (overview v))"
    and "selected v = Some (a, b)"
  shows "\<exists>probe target. history_heading v = Some (Some probe, Some target)"
  using find_some [OF assms(1)] find_some [OF assms(2)] assms(3) by (auto simp: history_heading_def selectedProbe_def selectedTarget_def)

theorem heading_names_path:
  assumes "list_all (listed ov) (lo_latest ov)"
  shows "case history_heading (overview_answered h first_load (Inr ov) v) of None \<Rightarrow> lo_latest ov = []
    | Some (probe, target) \<Rightarrow> probe \<noteq> None \<and> target \<noteq> None"
proof -
  let ?v = "overview_answered h first_load (Inr ov) v"
  have ov: "overview ?v = ov"
    by (simp add: overview_answered_def Let_def loadHistory_keeps clear_history_def split: option.split list.split)
  have sel: "selected ?v = (if selected v \<noteq> None \<and> \<not> selection_gone ov (selected v) then selected v
      else case lo_latest ov of [] \<Rightarrow> None | r # _ \<Rightarrow> Some (lr_probe_node_id r, lr_target_node_id r))"
    by (simp add: overview_answered_def Let_def loadHistory_keeps clear_history_def selection_gone_def split: option.split list.split)
  have "list_ex (\<lambda>p. lp_id p = a) (lo_probe_nodes ov) \<and> list_ex (\<lambda>t. pn_id (lt_node t) = b) (lo_targets ov)"
    if "selected ?v = Some (a, b)" for a b
    using that assms by (auto simp: sel selection_gone_def listed_def split: if_splits list.splits)
  then have "selected ?v = None \<or> (\<exists>probe target. history_heading ?v = Some (Some probe, Some target))"
    using path_named [of _ ?v] by (cases "selected ?v") (auto simp: ov)
  moreover have "selected ?v = None \<Longrightarrow> lo_latest ov = []" by (auto simp: sel split: if_splits list.splits)
  ultimately show ?thesis by (auto simp: history_heading_def)
qed

text \<open>The legend names the series of the carrier chart in their order and colours.\<close>

theorem legend_matches_chart:
  assumes "carrier_section_of h l p = Some c" and "ca_chart c = Some chart"
  shows "map (\<lambda>s. (cs_color s, cs_name s)) (cp_series chart) = ca_legend c"
  using assms by (auto simp: carrier_section_of_def carrier_chart_def carrierChart_def Let_def o_def split: if_splits)

text \<open>
  A failed result is a dash on the card of a carrier; the card of a service shows the latency that the
  result carries.
\<close>

theorem failed_latency_shown:
  assumes "pp_results probe = rs @ [r]" and "\<not> pr_success r"
  shows "cc_latency (carrier_card_of l probe) = dash \<and> \<not> sv_online (service_card_of l probe) \<and>
    sv_latency (service_card_of l probe) = toFixed (pr_latency_ms r) 1"
  using assms by (simp add: carrier_card_of_def service_card_of_def carrier_latency_def latestProbe_def dash_if_missing_def dash_def Let_def)

lemma strip_fields:
  assumes "traffic_strip_of h l p = Some t"
  shows "ts_tone t = nv_trafficTone p" "ts_limit t = map_option (\<lambda>q. js '' / '' @ bytes h q 1) (node_quota p)"
    "ts_gauge t = map_option (\<lambda>_. (math_round (nv_trafficPercent p), nv_trafficPercent p)) (node_quota p)"
    "node_quota p = None \<Longrightarrow> ts_policy t = text_in l [26410, 35774, 32622, 37197, 39069] (js ''No quota'')"
  using assms by (auto simp: traffic_strip_of_def traffic_gauge_def Let_def option.map_comp o_def simp del: js_simps split: option.splits)

text \<open>The strip shows limit, gauge and percentage together, exactly for a node with a quota.\<close>

theorem traffic_strip_quota:
  assumes "traffic_strip_of h l p = Some t"
  shows "(ts_limit t = None \<longleftrightarrow> node_quota p = None) \<and> (ts_gauge t = None \<longleftrightarrow> node_quota p = None) \<and>
    (case ts_gauge t of None \<Rightarrow> ts_policy t = text_in l [26410, 35774, 32622, 37197, 39069] (js ''No quota'')
     | Some (now, width) \<Rightarrow> \<exists>w n. width = Fin w \<and> 0 \<le> w \<and> w \<le> 100 \<and> now = Fin (of_int n) \<and> 0 \<le> n \<and> n \<le> 100 \<and>
         (ts_tone t = ToneCritical \<longleftrightarrow> w = 100))"
proof -
  obtain w where w: "nv_trafficPercent p = Fin w" "0 \<le> w" "w \<le> 100"
    unfolding nv_trafficPercent_def by (rule utilization_percent)
  have "0 \<le> \<lfloor>w + 1 / 2\<rfloor>" "\<lfloor>w + 1 / 2\<rfloor> \<le> 100" using w(2,3) by (simp_all add: le_floor_iff floor_le_iff)
  then have "\<exists>n. math_round (nv_trafficPercent p) = Fin (of_int n) \<and> 0 \<le> n \<and> n \<le> 100" using w(1) by auto
  moreover have "nv_trafficTone p = ToneCritical \<longleftrightarrow> w = 100" using w by (simp add: nv_trafficTone_def)
  ultimately show ?thesis using w strip_fields [OF assms] by (cases "node_quota p") (simp_all del: js_simps math_round.simps)
qed

end
