(* ===== verification/AdminScreens.thy ===== *)
theory AdminScreens
  imports AdminBackups AdminThemes AdminSettings AdminForms
begin

text \<open>
  What the templates of \<open>AdminBackups.vue\<close>, \<open>AdminThemes.vue\<close> and \<open>AdminSettings.vue\<close> (under
  \<open>web/src/components/admin\<close>) show for a state of their scripts: notices, which controls there are, which
  of them are disabled, their labels, and what the inputs are bound to.
\<close>

section \<open>AdminBackups.vue\<close>

record status_cell =
  sl_value :: jsstring
  sl_note :: jsstring

definition status_strip :: "host \<Rightarrow> AppLocale \<Rightarrow> backup_page \<Rightarrow> status_cell list" where
  "status_strip h l p = (case bp_status p of None \<Rightarrow> [] | Some s \<Rightarrow>
     [\<lparr>sl_value = driverLabel h p,
        sl_note = (if bk_available s then text_in l [25903, 25345, 22312, 32447, 24555, 29031] (js ''Online snapshot ready'')
          else text_in l [35831, 20351, 29992, 25968, 25454, 24211, 21407, 29983, 24037, 20855] (js ''Use external database tools''))\<rparr>,
      \<lparr>sl_value = js ''HPBK / V'' @ num_string (bk_format_version s),
        sl_note = (if bk_encrypted s then js ''ARGON2ID + AES-256-GCM'' else text_in l [26410, 21152, 23494] (js ''Unencrypted''))\<rparr>,
      \<lparr>sl_value = bytes h (bk_maximum_bytes s) 1, sl_note = text_in l [35299, 23494, 21518, 25968, 25454] (js ''Decrypted payload'')\<rparr>,
      \<lparr>sl_value = (if bk_external_master_key s then text_in l [22806, 37096, 25552, 20379] (js ''External'') else text_in l [25991, 20214, 20445, 23384] (js ''File-backed'')),
        sl_note = (if bk_external_master_key s then text_in l [24517, 39035, 19982, 22791, 20221, 19968, 33268] (js ''Must match archive'')
          else text_in l [38543, 31449, 28857, 24674, 22797] (js ''Restored with site''))\<rparr>])"

datatype backup_notice = BackupMessage jsstring | BackupError jsstring | RestorePending

definition backup_notices :: "backup_page \<Rightarrow> backup_notice list" where
  "backup_notices p = (if bp_message p \<noteq> [] then [BackupMessage (bp_message p)] else []) @
     (if bp_error p \<noteq> [] then [BackupError (bp_error p)] else []) @
     (case bp_status p of None \<Rightarrow> [] | Some s \<Rightarrow> if bk_pending_restore s then [RestorePending] else [])"

definition passphrase_mismatch :: "backup_page \<Rightarrow> bool" where
  "passphrase_mismatch p \<longleftrightarrow> bp_exportConfirmation p \<noteq> [] \<and> bp_exportPassphrase p \<noteq> bp_exportConfirmation p"

definition export_label :: "AppLocale \<Rightarrow> backup_page \<Rightarrow> jsstring" where
  "export_label l p = (if bp_busy p = Exporting then text_in l [27491, 22312, 29983, 25104, 22791, 20221, 8230] (js ''Creating backup'' @ [8230])
     else text_in l [23548, 20986, 21152, 23494, 22791, 20221] (js ''Export encrypted backup''))"

definition import_label :: "AppLocale \<Rightarrow> backup_page \<Rightarrow> jsstring" where
  "import_label l p = (if bp_busy p = Importing then text_in l [27491, 22312, 39564, 35777, 22791, 20221, 8230] (js ''Verifying backup'' @ [8230])
     else if bp_restarting p then text_in l [27491, 22312, 37325, 26032, 21152, 36733, 8230] (js ''Reloading'' @ [8230])
     else text_in l [23548, 20837, 24182, 26367, 25442] (js ''Import and replace''))"

record transfer_grid =
  tf_mismatch :: bool
  tf_export :: "bool \<times> jsstring"
  tf_dragging :: bool
  tf_file :: "number option"
  tf_import :: "bool \<times> jsstring"

datatype backup_body = Transfer transfer_grid | NativeGuide | NoStatus

text \<open>A button is its \<open>:disabled\<close> value and its label; the file is shown with its size in bytes.\<close>

definition backup_body_of :: "AppLocale \<Rightarrow> backup_page \<Rightarrow> backup_body" where
  "backup_body_of l p = (case bp_status p of None \<Rightarrow> NoStatus
     | Some s \<Rightarrow> if bk_available s
         then Transfer \<lparr>tf_mismatch = passphrase_mismatch p, tf_export = (\<not> canExport p, export_label l p),
           tf_dragging = bp_dragging p, tf_file = map_option (\<lambda>f. num_of_nat (length f)) (bp_file p),
           tf_import = (\<not> canImport p, import_label l p)\<rparr>
         else NativeGuide)"

text \<open>The inputs of the two forms and the file field.\<close>

datatype backup_edit = ExportPassword jsstring | ExportPassphrase jsstring | ExportConfirmation jsstring | ImportPassword jsstring
  | ImportPassphrase jsstring | RestoreConfirmation jsstring | DragEnter | DragLeave | DropFiles "blob list" | ChooseFiles "blob list"

fun backup_input :: "backup_edit \<Rightarrow> backup_page \<Rightarrow> backup_page" where
  "backup_input (ExportPassword v) p = p\<lparr>bp_exportPassword := v\<rparr>"
| "backup_input (ExportPassphrase v) p = p\<lparr>bp_exportPassphrase := v\<rparr>"
| "backup_input (ExportConfirmation v) p = p\<lparr>bp_exportConfirmation := v\<rparr>"
| "backup_input (ImportPassword v) p = p\<lparr>bp_importPassword := v\<rparr>"
| "backup_input (ImportPassphrase v) p = p\<lparr>bp_importPassphrase := v\<rparr>"
| "backup_input (RestoreConfirmation v) p = p\<lparr>bp_restoreConfirmation := v\<rparr>"
| "backup_input DragEnter p = p\<lparr>bp_dragging := True\<rparr>"
| "backup_input DragLeave p = p\<lparr>bp_dragging := False\<rparr>"
| "backup_input (DropFiles files) p = dropFile files p"
| "backup_input (ChooseFiles files) p = selectFile files p"

section \<open>AdminThemes.vue\<close>

datatype theme_notice = ThemeUpdated jsstring | ThemeRejected jsstring

definition theme_notices :: "theme_page \<Rightarrow> theme_notice list" where
  "theme_notices p = (if tg_status p \<noteq> [] then [ThemeUpdated (tg_status p)] else []) @ (if tg_error p \<noteq> [] then [ThemeRejected (tg_error p)] else [])"

definition active_theme :: "session \<Rightarrow> jsstring option" where
  "active_theme s = map_option ss_theme (site s)"

record theme_card =
  thc_preview :: "jsstring + jsstring"
  thc_caption :: jsstring
  thc_title :: jsstring
  thc_text :: jsstring
  thc_active :: bool
  thc_configure :: bool
  thc_preview_link :: jsstring
  thc_delete :: bool

definition theme_card_of :: "host \<Rightarrow> AppLocale \<Rightarrow> session \<Rightarrow> Theme \<Rightarrow> theme_card" where
  "theme_card_of h l s theme = (let m = th_manifest theme in
     \<lparr>thc_preview = (case tm_preview m of
          Some f \<Rightarrow> if f = [] then Inr (toUpperCase h (take 2 (tm_short m))) else Inl (js ''/themes/'' @ tm_short m @ js ''/'' @ f)
        | None \<Rightarrow> Inr (toUpperCase h (take 2 (tm_short m)))),
      thc_caption = or_text (tm_version m) (text_in l [26080, 29256, 26412] (js ''Unversioned'')) @ js '' / '' @ localized l (tm_author m),
      thc_title = localized l (Some (tm_name m)),
      thc_text = (let d = localized l (tm_description m) in if d = [] then tm_short m else d),
      thc_active = (active_theme s = Some (tm_short m)),
      thc_configure = (tm_configuration m \<noteq> None),
      thc_preview_link = js ''/?preview_theme='' @ tm_short m,
      thc_delete = (active_theme s \<noteq> Some (tm_short m))\<rparr>)"

text \<open>Whether the built-in theme is the active one, and the cards of the installed ones.\<close>

definition theme_grid :: "host \<Rightarrow> AppLocale \<Rightarrow> theme_state \<Rightarrow> bool \<times> theme_card list" where
  "theme_grid h l ps = (active_theme (snd ps) = Some (js ''default''), map (theme_card_of h l (snd ps)) (tg_themes (fst ps)))"

definition upload_disabled :: "theme_page \<Rightarrow> bool" where
  "upload_disabled p \<longleftrightarrow> tg_busy p \<or> tg_upload p = None"

definition install_disabled :: "theme_page \<Rightarrow> bool" where
  "install_disabled p \<longleftrightarrow> tg_busy p"

text \<open>A field of the form is its kind, the key it is bound to and what it shows.\<close>

datatype managed_field = TitleLine jsstring nat | HelpLine jsstring | Checkbox jsstring "json option"
  | SelectBox jsstring "json option" "jsstring list" | NumberBox jsstring "json option" | RichText jsstring "json option"
  | SelectorBox jsstring "jsstring option" | TextBox jsstring "json option"

definition managed_field_of :: "AppLocale \<Rightarrow> theme_page \<Rightarrow> nat \<Rightarrow> ManagedItem \<Rightarrow> managed_field" where
  "managed_field_of l p index item =
     (let k = md_key item; t = md_type item; setting = map_of (tg_managedSettings p) k in
      if t = js ''title'' then TitleLine (itemName l item) (index + 1)
      else if t = js ''textbox'' then HelpLine (itemName l item)
      else if t = js ''switch'' then Checkbox k setting
      else if t = js ''select'' then SelectBox k setting (options item)
      else if t = js ''number'' then NumberBox k setting
      else if t = js ''richtext'' then RichText k setting
      else if t = js ''nodes'' \<or> t = js ''pingtasks'' then SelectorBox k (map_of (tg_selectorText p) k)
      else TextBox k setting)"

datatype config_drawer = RawPanel jsstring | ManagedForm "managed_field list"

definition config_drawer_of :: "AppLocale \<Rightarrow> theme_page \<Rightarrow> config_drawer option" where
  "config_drawer_of l p = (case tg_configuring p of None \<Rightarrow> None
     | Some theme \<Rightarrow> Some (if Option.bind (tm_configuration (th_manifest theme)) cf_type = Some (js ''raw'') then RawPanel (tg_rawPanel p)
         else ManagedForm (map (\<lambda>(index, item). managed_field_of l p index item) (enumerate 0 (tg_managedItems p)))))"

fun field_key :: "managed_field \<Rightarrow> jsstring option" where
  "field_key (TitleLine _ _) = None"
| "field_key (HelpLine _) = None"
| "field_key (Checkbox k _) = Some k"
| "field_key (SelectBox k _ _) = Some k"
| "field_key (NumberBox k _) = Some k"
| "field_key (RichText k _) = Some k"
| "field_key (SelectorBox k _) = Some k"
| "field_key (TextBox k _) = Some k"

fun field_filled :: "managed_field \<Rightarrow> bool" where
  "field_filled (Checkbox _ v) = (v \<noteq> None)"
| "field_filled (SelectBox _ v _) = (v \<noteq> None)"
| "field_filled (NumberBox _ v) = (v \<noteq> None)"
| "field_filled (RichText _ v) = (v \<noteq> None)"
| "field_filled (SelectorBox _ v) = (v \<noteq> None)"
| "field_filled (TextBox _ v) = (v \<noteq> None)"
| "field_filled _ = True"

text \<open>The inputs of the forms, of the drawer and of the market.\<close>

datatype theme_edit = EditUpload "blob list" | EditChecksum jsstring | EditURL jsstring | EditSHA jsstring
  | EditSetting jsstring json | EditSelector jsstring jsstring | CloseConfiguration | EditSearch jsstring | CloseMarket

fun theme_input :: "theme_edit \<Rightarrow> theme_page \<Rightarrow> theme_page" where
  "theme_input (EditUpload files) p = p\<lparr>tg_upload := (case files of f # _ \<Rightarrow> Some f | [] \<Rightarrow> None)\<rparr>"
| "theme_input (EditChecksum v) p = p\<lparr>tg_checksum := v\<rparr>"
| "theme_input (EditURL v) p = p\<lparr>tg_sourceURL := v\<rparr>"
| "theme_input (EditSHA v) p = p\<lparr>tg_sourceSHA := v\<rparr>"
| "theme_input (EditSetting k v) p = p\<lparr>tg_managedSettings := assign k v (tg_managedSettings p)\<rparr>"
| "theme_input (EditSelector k v) p = p\<lparr>tg_selectorText := assign k v (tg_selectorText p)\<rparr>"
| "theme_input CloseConfiguration p = p\<lparr>tg_configuring := None\<rparr>"
| "theme_input (EditSearch v) p = p\<lparr>tg_marketSearch := v\<rparr>"
| "theme_input CloseMarket p = p\<lparr>tg_marketOpen := False\<rparr>"

definition config_title :: "AppLocale \<Rightarrow> Theme \<Rightarrow> jsstring" where
  "config_title l theme = (let t = localized l (json_localized (Option.bind (tm_configuration (th_manifest theme)) cf_name)) in
     if t = [] then localized l (Some (tm_name (th_manifest theme))) else t)"

definition save_button :: "theme_page \<Rightarrow> bool option" where
  "save_button p = (case tg_configuring p of None \<Rightarrow> None
     | Some theme \<Rightarrow> if Option.bind (tm_configuration (th_manifest theme)) cf_type = Some (js ''raw'') then None else Some (tg_busy p))"

datatype market_action = Install | Update | Reinstall

definition market_action_of :: "theme_page \<Rightarrow> MarketTheme \<Rightarrow> market_action" where
  "market_action_of p theme = (let v = installedVersion p (mk_short theme) in
     if v = [] then Install else if mk_version theme = Some v then Reinstall else Update)"

record market_entry =
  mt_caption :: jsstring
  mt_title :: jsstring
  mt_text :: jsstring
  mt_disabled :: bool
  mt_action :: market_action

definition market_entry_of :: "AppLocale \<Rightarrow> theme_page \<Rightarrow> MarketTheme \<Rightarrow> market_entry" where
  "market_entry_of l p m = \<lparr>mt_caption = or_text (mk_version m) (text_in l [26080, 29256, 26412] (js ''Unversioned'')) @ js '' / '' @ localized l (mk_author m),
     mt_title = localized l (Some (mk_name m)),
     mt_text = (let d = localized l (mk_description m) in if d = [] then mk_short m else d),
     mt_disabled = tg_busy p, mt_action = market_action_of p m\<rparr>"

definition market_drawer :: "host \<Rightarrow> AppLocale \<Rightarrow> theme_page \<Rightarrow> (market_entry list \<times> nat) option" where
  "market_drawer h l p = (if tg_marketOpen p
     then Some (map (market_entry_of l p) (filteredMarket h l p), length (filteredMarket h l p)) else None)"

section \<open>AdminSettings.vue\<close>

datatype settings_notice = SettingsSaved jsstring | SettingsFailed jsstring | WeakPIN

definition settings_notices :: "settings_page \<Rightarrow> settings_notice list" where
  "settings_notices p = (if st_status p \<noteq> [] then [SettingsSaved (st_status p)] else []) @
     (if st_error p \<noteq> [] then [SettingsFailed (st_error p)] else []) @
     (case st_settings p of None \<Rightarrow> [] | Some s \<Rightarrow> if ss_enrollment_pin_weak s then [WeakPIN] else [])"

text \<open>
  The inputs of the form, each bound to a field of \<open>settings\<close> or to \<open>sources\<close>. The inputs of the retention
  hours are given by the number that they hold.
\<close>

datatype settings_edit = EditName jsstring | EditDescription jsstring | EditHead jsstring | EditBody jsstring | EditPrivate bool
  | EditRecord bool | EditEnrollment bool | EditRaw number | EditFiveMinute number | EditHourly number | EditGeoIP bool
  | EditProvider jsstring | EditSources jsstring | EditNewPIN jsstring | EditMinutes number

fun bound_field :: "settings_edit \<Rightarrow> SiteSettings \<Rightarrow> SiteSettings" where
  "bound_field (EditName v) s = s\<lparr>ss_name := v\<rparr>"
| "bound_field (EditDescription v) s = s\<lparr>ss_description := v\<rparr>"
| "bound_field (EditHead v) s = s\<lparr>ss_custom_head := Some v\<rparr>"
| "bound_field (EditBody v) s = s\<lparr>ss_custom_body := Some v\<rparr>"
| "bound_field (EditPrivate b) s = s\<lparr>ss_private := b\<rparr>"
| "bound_field (EditRecord b) s = s\<lparr>ss_record_enabled := b\<rparr>"
| "bound_field (EditEnrollment b) s = s\<lparr>ss_enrollment_enabled := b\<rparr>"
| "bound_field (EditRaw n) s = s\<lparr>ss_raw_retention_hours := n\<rparr>"
| "bound_field (EditFiveMinute n) s = s\<lparr>ss_five_minute_retention_hours := n\<rparr>"
| "bound_field (EditHourly n) s = s\<lparr>ss_hourly_retention_hours := n\<rparr>"
| "bound_field (EditGeoIP b) s = s\<lparr>ss_geoip_enabled := b\<rparr>"
| "bound_field (EditProvider v) s = s\<lparr>ss_geoip_provider := v\<rparr>"
| "bound_field _ s = s"

definition validity_options :: "number list" where
  "validity_options = [Fin 10, Fin 30, Fin 60, Fin 360, Fin 1440]"

text \<open>The form is there once the settings are loaded.\<close>

definition settings_input :: "settings_edit \<Rightarrow> settings_page \<Rightarrow> settings_page" where
  "settings_input e p = (case st_settings p of None \<Rightarrow> p
     | Some s \<Rightarrow> (let p1 = p\<lparr>st_settings := Some (bound_field e s)\<rparr> in
         case e of EditSources v \<Rightarrow> p1\<lparr>st_sources := v\<rparr>
         | EditNewPIN v \<Rightarrow> p1\<lparr>st_newPIN := v\<rparr>
         | EditMinutes n \<Rightarrow> if n \<in> set validity_options then p1\<lparr>st_temporaryMinutes := n\<rparr> else p1
         | _ \<Rightarrow> p1))"

record pin_panel =
  pnl_generate :: "bool \<times> jsstring"
  pnl_article :: "pin_status option"
  pnl_label :: jsstring
  pnl_secret :: "(jsstring \<times> jsstring) option"
  pnl_gone :: bool
  pnl_remaining :: "jsstring option"
  pnl_expires :: "jsstring option"
  pnl_short_id :: jsstring
  pnl_revoke :: "bool option"

definition generate_label :: "AppLocale \<Rightarrow> settings_page \<Rightarrow> jsstring" where
  "generate_label l p = (if st_temporaryBusy p then text_in l [22788, 29702, 20013, 8230] (js ''Working'' @ [8230])
     else if st_temporaryPIN p \<noteq> None then text_in l [37325, 26032, 29983, 25104] (js ''Generate new'')
     else text_in l [29983, 25104, 20020, 26102, 32, 80, 73, 78] (js ''Generate temporary PIN''))"

definition temporary_panel :: "host \<Rightarrow> AppLocale \<Rightarrow> settings_page \<Rightarrow> pin_panel" where
  "temporary_panel h l p = (let plain = st_temporaryPINPlain p; shown = st_temporaryPIN p \<noteq> None in
     \<lparr>pnl_generate = (temporary_pin_disabled p, generate_label l p), pnl_article = effectiveTemporaryStatus h p,
      pnl_label = temporaryStatusLabel h l p,
      pnl_secret = (if shown \<and> plain \<noteq> []
        then Some (plain, if st_temporaryCopied p then text_in l [24050, 22797, 21046] (js ''Copied'') else text_in l [22797, 21046] (js ''Copy'')) else None),
      pnl_gone = (shown \<and> plain = [] \<and> effectiveTemporaryStatus h p = Some PinActive),
      pnl_remaining = (if temporaryRemaining h l p \<noteq> [] then Some (temporaryRemaining h l p) else None),
      pnl_expires = Option.bind (st_temporaryPIN p) (\<lambda>pin. dateTime h l (Some (tp_expires_at pin))),
      pnl_short_id = (case st_temporaryPIN p of None \<Rightarrow> [] | Some pin \<Rightarrow> take 8 (tp_id pin)),
      pnl_revoke = (if canRevokeTemporaryPIN h p then Some (temporary_pin_disabled p) else None)\<rparr>)"

section \<open>Backups: a button is enabled exactly when a click sends\<close>

lemma transfer_shown: "backup_body_of l p = Transfer g \<Longrightarrow> g = \<lparr>tf_mismatch = passphrase_mismatch p, tf_export = (\<not> canExport p, export_label l p),
    tf_dragging = bp_dragging p, tf_file = map_option (\<lambda>f. num_of_nat (length f)) (bp_file p), tf_import = (\<not> canImport p, import_label l p)\<rparr>"
  by (auto simp: backup_body_of_def split: option.splits if_splits)

theorem backup_buttons_send:
  assumes "backup_body_of l p = Transfer g"
  shows "(\<not> fst (tf_export g) \<longleftrightarrow> snd (exportBackup h l download p) \<noteq> []) \<and>
    (\<not> fst (tf_import g) \<longleftrightarrow> snd (importBackup h l post readyz p) \<noteq> []) \<and>
    (tf_mismatch g \<longrightarrow> fst (tf_export g)) \<and> (bp_busy p \<noteq> Idle \<longrightarrow> fst (tf_export g) \<and> fst (tf_import g))"
proof -
  have "snd (exportBackup h l download p) \<noteq> [] \<longleftrightarrow> canExport p" by (simp add: exportBackup_def Let_def)
  moreover have "snd (importBackup h l post readyz p) \<noteq> [] \<longleftrightarrow> canImport p"
    using import_guarded [of h l post readyz p] by (cases "importBackup h l post readyz p") (auto split: if_splits)
  moreover have "passphrase_mismatch p \<longrightarrow> \<not> canExport p" "bp_busy p \<noteq> Idle \<longrightarrow> \<not> canExport p \<and> \<not> canImport p"
    by (auto simp: passphrase_mismatch_def canExport_def canImport_def)
  ultimately show ?thesis using transfer_shown [OF assms] by simp
qed

theorem backup_buttons_send_witness:
  "let p = backup_init\<lparr>bp_status := Some \<lparr>bk_driver = js ''sqlite'', bk_available = True, bk_encrypted = True, bk_format_version = Fin 1,
      bk_pending_restore = False, bk_external_master_key = False, bk_maximum_bytes = Fin 0\<rparr>, bp_exportPassword := js ''secret'',
      bp_exportPassphrase := js ''0123456789ab'', bp_exportConfirmation := js ''0123456789ab''\<rparr> in
   \<exists>g. backup_body_of en_US p = Transfer g \<and> \<not> fst (tf_export g) \<and> (\<forall>download. snd (exportBackup undefined en_US download p) \<noteq> [])"
proof -
  let ?p = "backup_init\<lparr>bp_status := Some \<lparr>bk_driver = js ''sqlite'', bk_available = True, bk_encrypted = True, bk_format_version = Fin 1,
      bk_pending_restore = False, bk_external_master_key = False, bk_maximum_bytes = Fin 0\<rparr>, bp_exportPassword := js ''secret'',
      bp_exportPassphrase := js ''0123456789ab'', bp_exportConfirmation := js ''0123456789ab''\<rparr>"
  obtain g where g: "backup_body_of en_US ?p = Transfer g" "canExport ?p" "\<not> fst (tf_export g)"
    by (simp add: backup_body_of_def canExport_def available_def backup_init_def)
  then show ?thesis using backup_buttons_send [OF g(1), of undefined] by (auto simp: Let_def)
qed

text \<open>What has to be typed and chosen suffices: on an idle page with an available backup the buttons become enabled.\<close>

theorem typed_backup_enables:
  assumes "available p" and "bp_busy p = Idle" and "pw \<noteq> []" and "12 \<le> length phrase"
  shows "canExport (fold backup_input [ExportPassword pw, ExportPassphrase phrase, ExportConfirmation phrase] p) \<and>
    canImport (fold backup_input [DropFiles (f # fs), ImportPassphrase phrase, ImportPassword pw, RestoreConfirmation (js ''RESTORE'')] p)"
  using assms by (simp add: canExport_def canImport_def available_def dropFile_def)

text \<open>The label for reloading is never shown while the page waits for the reload.\<close>

theorem reload_label_hidden:
  "bp_busy (import_accepted l result (import_started p)) = Importing \<and>
   import_label l (import_accepted l result (import_started p)) = import_label l (import_started p)"
  by (simp add: import_accepted_def import_started_def import_label_def)

section \<open>Themes\<close>

text \<open>One theme is marked as active, and exactly the others can be deleted.\<close>

theorem one_active_theme:
  assumes "distinct (map (\<lambda>t. tm_short (th_manifest t)) (tg_themes p))"
    and "js ''default'' \<notin> (\<lambda>t. tm_short (th_manifest t)) ` set (tg_themes p)"
    and "active_theme s \<in> Some ` ({js ''default''} \<union> (\<lambda>t. tm_short (th_manifest t)) ` set (tg_themes p))"
  shows "(if fst (theme_grid h l (p, s)) then 1 else 0) + length (filter thc_active (snd (theme_grid h l (p, s)))) = 1 \<and>
    map thc_delete (snd (theme_grid h l (p, s))) = map (\<lambda>c. \<not> thc_active c) (snd (theme_grid h l (p, s)))"
proof -
  have "length (filter (\<lambda>t. Some a = Some (tm_short (th_manifest t))) ts) = (if a \<in> (\<lambda>t. tm_short (th_manifest t)) ` set ts then 1 else 0)"
    if "distinct (map (\<lambda>t. tm_short (th_manifest t)) ts)" for a and ts :: "Theme list"
    using that by (induction ts) auto
  then show ?thesis using assms by (auto simp: theme_grid_def theme_card_of_def Let_def filter_map o_def)
qed

theorem one_active_theme_witness:
  "\<forall>h l. length (filter thc_active (snd (theme_grid h l (theme_init\<lparr>tg_themes := [example_theme]\<rparr>,
     session_init\<lparr>site := Some (undefined\<lparr>ss_theme := js ''dusk''\<rparr>)\<rparr>)))) = 1"
proof (intro allI)
  fix h l
  let ?p = "theme_init\<lparr>tg_themes := [example_theme]\<rparr>" and ?s = "session_init\<lparr>site := Some (undefined\<lparr>ss_theme := js ''dusk''\<rparr>)\<rparr>"
  have "\<not> fst (theme_grid h l (?p, ?s))" by (simp add: theme_grid_def active_theme_def)
  moreover have "active_theme ?s \<in> Some ` ({js ''default''} \<union> (\<lambda>t. tm_short (th_manifest t)) ` set (tg_themes ?p))"
    by (simp add: active_theme_def example_theme_def)
  ultimately show "length (filter thc_active (snd (theme_grid h l (?p, ?s)))) = 1"
    using one_active_theme [of ?p ?s h l] by (simp add: example_theme_def)
qed

text \<open>Every input of an opened configuration that has a key shows a value.\<close>

theorem drawer_fields_filled:
  assumes "configuration_kind theme \<noteq> js ''raw''" and "configuration_data theme = Some (JArr vs)"
    and "distinct (field_keys (map as_item vs))"
  shows "\<exists>fields. config_drawer_of l (openConfiguration new_URL origin theme p) = Some (ManagedForm fields) \<and>
    length fields = length vs \<and> list_all (\<lambda>f. field_key f \<noteq> Some [] \<longrightarrow> field_filled f) fields"
proof -
  let ?items = "map as_item vs" and ?p = "openConfiguration new_URL origin theme p"
  let ?f = "\<lambda>(index, item). managed_field_of l ?p index item"
  have p: "?p = fold (open_item theme) ?items
      (p\<lparr>tg_configuring := Some theme, tg_managedItems := ?items, tg_managedSettings := [], tg_selectorText := []\<rparr>)"
    using assms(1,2) by (simp add: openConfiguration_def json_text_def Let_def split: bool.split)
  have "tg_configuring (fold (open_item theme) is q) = tg_configuring q" for "is" q
    by (induction "is" arbitrary: q) (auto simp: open_item_def)
  then have c: "tg_configuring ?p = Some theme" by (simp add: p)
  have raw: "Option.bind (tm_configuration (th_manifest theme)) cf_type \<noteq> Some (js ''raw'')"
    using assms(1) by (auto simp: configuration_kind_def or_text_def)
  have items: "tg_managedItems ?p = ?items" by (simp add: p open_items_items)
  have "field_key (managed_field_of l ?p i item) \<noteq> Some [] \<longrightarrow> field_filled (managed_field_of l ?p i item)" if "item \<in> set ?items" for i item
  proof (cases "no_field item")
    case True
    then show ?thesis by (auto simp: no_field_def managed_field_of_def Let_def)
  next
    case False
    then show ?thesis using open_items_fields [OF that False assms(3), of theme] 
      by (auto simp: p managed_field_of_def selector_def Let_def split: if_splits)
  qed
  then have "list_all (\<lambda>f. field_key f \<noteq> Some [] \<longrightarrow> field_filled f) (map ?f (enumerate 0 ?items))"
    by (auto simp: list_all_iff in_set_enumerate_eq)
  then show ?thesis using c raw items by (auto simp: config_drawer_of_def)
qed

text \<open>What is typed into an input of the drawer is what saving sends for its key.\<close>

theorem typed_setting_sent:
  assumes "item \<in> set (tg_managedItems p)" and "\<not> no_field item" and "distinct (field_keys (tg_managedItems p))" and "\<not> selector item"
  shows "map_of (sent_settings (theme_input (EditSetting (md_key item) v) p)) (md_key item) = Some v"
proof -
  let ?q = "theme_input (EditSetting (md_key item) v) p"
  have "tg_managedItems ?q = tg_managedItems p" "map_of (tg_managedSettings ?q) (md_key item) = Some v" by simp_all
  then show ?thesis using send_selectors [OF assms(1-3), of "parseSelector ?q" "tg_managedSettings ?q"] assms(4)
    by (simp add: sent_settings_def del: theme_input.simps)
qed

text \<open>An input without a key is rendered nevertheless, without a value.\<close>

theorem unkeyed_field_rendered:
  assumes "configuration_kind theme = js ''managed''" and "configuration_data theme = Some (JArr [v])"
    and "md_key (as_item v) = []" and "md_type (as_item v) = js ''switch''"
  shows "config_drawer_of l (openConfiguration new_URL origin theme p) = Some (ManagedForm [Checkbox [] None])"
proof -
  have "Option.bind (tm_configuration (th_manifest theme)) cf_type \<noteq> Some (js ''raw'')"
    using assms(1) by (auto simp: configuration_kind_def or_text_def)
  then show ?thesis using assms
    by (simp add: openConfiguration_def open_item_def no_field_def config_drawer_of_def managed_field_of_def Let_def)
qed

text \<open>The market offers an update exactly for an installed theme of another version.\<close>

theorem market_action_iff:
  "(market_action_of p m = Install \<longleftrightarrow> installedVersion p (mk_short m) = []) \<and>
   (market_action_of p m = Reinstall \<longleftrightarrow> installedVersion p (mk_short m) \<noteq> [] \<and> mk_version m = Some (installedVersion p (mk_short m)))"
  by (simp add: market_action_of_def Let_def)

section \<open>Settings\<close>

fun typed_sources :: "settings_edit list \<Rightarrow> jsstring \<Rightarrow> jsstring" where
  "typed_sources [] s = s"
| "typed_sources (EditSources v # es) s = typed_sources es v"
| "typed_sources (_ # es) s = typed_sources es s"

lemma settings_inputs:
  "st_settings p = Some s \<Longrightarrow> st_settings (fold settings_input es p) = Some (fold bound_field es s) \<and>
     st_sources (fold settings_input es p) = typed_sources es (st_sources p)"
  by (induction es "st_sources p" arbitrary: p s rule: typed_sources.induct) (simp_all add: settings_input_def Let_def)

interpretation settings_form: bound_form bound_field "\<lambda>s. (ss_theme s, ss_enrollment_pin_weak s)"
proof
  fix e s
  show "(ss_theme (bound_field e s), ss_enrollment_pin_weak (bound_field e s)) = (ss_theme s, ss_enrollment_pin_weak s)"
    by (cases e) simp_all
qed

theorem edited_settings_sent:
  assumes "st_settings p = Some s"
  shows "snd (save_start (fold settings_input es p)) =
      Some (a_call (js ''PUT'') (js ''/api/v1/admin/settings'')
        (Some ((fold bound_field es s)\<lparr>ss_theme_market_sources := Some (parsed_sources (typed_sources es (st_sources p)))\<rparr>))) \<and>
    ss_theme (fold bound_field es s) = ss_theme s \<and> ss_enrollment_pin_weak (fold bound_field es s) = ss_enrollment_pin_weak s"
  using settings_inputs [OF assms, of es] settings_form.edits_identity [of es s] by (simp add: save_start_def Let_def)

text \<open>What is typed between the request and the answer of a save is replaced by the answer.\<close>

theorem edit_during_save_lost:
  assumes "save_start p = (p1, Some c)" and "call_body c = Some sent" and "refresh me se = (r, se')"
  shows "st_settings (fst (save_answered h l (Inr sent) me (fold settings_input es p1, se))) = Some sent"
  using assms by (cases r) (simp_all add: save_answered_def Let_def)

theorem panel_shows_created_pin:
  assumes "createTemporaryPIN p = (p1, body)" and "tp_pin created = Some pin" and "pin \<noteq> []"
  shows "pnl_secret (temporary_panel h l (pin_created h l now (Inr created) p1)) = Some (pin, text_in l [22797, 21046] (js ''Copy'')) \<and>
    \<not> fst (pnl_generate (temporary_panel h l (pin_created h l now (Inr created) p1)))"
  using assms by (auto simp: temporary_panel_def createTemporaryPIN_def pin_created_def temporary_pin_disabled_def Let_def)

text \<open>The panel never shows a plaintext and the note that it is gone together; it offers to revoke exactly a live PIN.\<close>

theorem panel_consistent:
  "\<not> (pnl_secret (temporary_panel h l p) \<noteq> None \<and> pnl_gone (temporary_panel h l p)) \<and>
   (pnl_remaining (temporary_panel h l p) \<noteq> None \<longrightarrow> pnl_article (temporary_panel h l p) = Some PinActive) \<and>
   (pnl_revoke (temporary_panel h l p) \<noteq> None \<longleftrightarrow> pnl_article (temporary_panel h l p) \<in> {Some PinActive, Some PinUsed}) \<and>
   (pnl_article (temporary_panel h l p) = None \<longrightarrow> pnl_secret (temporary_panel h l p) = None)"
  by (auto simp: temporary_panel_def canRevokeTemporaryPIN_def temporaryRemaining_def effectiveTemporaryStatus_def Let_def
      split: option.splits if_splits)

end
