(* ===== verification/AdminTables.thy ===== *)
theory AdminTables
  imports AdminForms Readouts
begin

text \<open>
  The tables and dialogs of \<open>AdminProbes.vue\<close> and \<open>AdminLatency.vue\<close> (under \<open>web/src/components/admin\<close>): the rows,
  the inputs with the field that each is bound to, and what the inputs show. An input of a number is
  given by the number that it holds.
\<close>

section \<open>AdminProbes.vue\<close>

record carrier_tile =
  ct_key :: jsstring
  ct_name :: jsstring
  ct_state :: jsstring
  ct_dot :: bool
  ct_target :: jsstring
  ct_note :: jsstring

definition carrier_tile_of :: "AppLocale \<Rightarrow> ProbeTask \<Rightarrow> carrier_tile" where
  "carrier_tile_of l task = \<lparr>ct_key = probe_carrierKey task, ct_name = probe_carrierName l task,
     ct_state = (if pt_enabled task then text_in l [27491, 22312, 27979, 37327] (js ''Active'') else text_in l [24050, 26242, 20572] (js ''Paused'')),
     ct_dot = pt_enabled task, ct_target = pt_target task,
     ct_note = type_label (pt_type task) @ middot @ num_string (pt_samples task) @ js '' '' @ text_in l [27425, 47, 36718] (js ''samples'') @
       middot @ num_string (pt_interval_seconds task) @ js ''s''\<rparr>"

definition assignment_text :: "AppLocale \<Rightarrow> jsstring list option \<Rightarrow> jsstring" where
  "assignment_text l ids = (case ids of
     Some (i # is) \<Rightarrow> (let n = num_string (num_of_nat (length (i # is))) in text_in l (n @ [32, 20010, 33410, 28857]) (n @ js '' nodes''))
   | _ \<Rightarrow> text_in l [20840, 37096, 33410, 28857] (js ''All nodes''))"

definition probe_row :: "AppLocale \<Rightarrow> ProbeTask \<Rightarrow> jsstring list" where
  "probe_row l task = (let t = num_string (pt_timeout_seconds task) in
     [pt_name task, js ''#'' @ num_string (pt_id task), type_label (pt_type task), pt_target task,
      slashed (num_string (pt_interval_seconds task) @ js ''s'') (text_in l ([36229, 26102, 32] @ t @ js ''s'') (t @ js ''s timeout'')),
      assignment_text l (pt_node_ids task)])"

definition dialog_title :: "AppLocale \<Rightarrow> ProbeTask \<Rightarrow> jsstring" where
  "dialog_title l task = (if truthy_num (pt_id task) then text_in l [32534, 36753, 20219, 21153] (js ''Edit probe'') else text_in l [26032, 24314, 20219, 21153] (js ''New probe''))"

definition target_placeholder :: "probe_type \<Rightarrow> jsstring" where
  "target_placeholder ty = (if ty = Tcp then js ''host:port'' else if ty = Http then js ''https://example.com/health'' else js ''example.com'')"

definition status_input :: "ProbeTask \<Rightarrow> bool" where
  "status_input task \<longleftrightarrow> pt_type task = Http"

datatype probe_edit = ProbeName jsstring | ProbeType probe_type | ProbeTarget jsstring | ProbeInterval number | ProbeTimeout number
  | ProbeStatus number | ProbeValue jsstring | ProbeNodes "jsstring list" | ProbeEnabled bool | ProbeSamples number | ProbePublic bool

fun probe_bound :: "probe_edit \<Rightarrow> ProbeTask \<Rightarrow> ProbeTask" where
  "probe_bound (ProbeName v) t = t\<lparr>pt_name := v\<rparr>"
| "probe_bound (ProbeType v) t = t\<lparr>pt_type := v\<rparr>"
| "probe_bound (ProbeTarget v) t = t\<lparr>pt_target := v\<rparr>"
| "probe_bound (ProbeInterval n) t = t\<lparr>pt_interval_seconds := n\<rparr>"
| "probe_bound (ProbeTimeout n) t = t\<lparr>pt_timeout_seconds := n\<rparr>"
| "probe_bound (ProbeStatus n) t = t\<lparr>pt_expected_status := Some n\<rparr>"
| "probe_bound (ProbeValue v) t = t\<lparr>pt_expected_value := Some v\<rparr>"
| "probe_bound (ProbeNodes xs) t = t\<lparr>pt_node_ids := Some xs\<rparr>"
| "probe_bound (ProbeEnabled b) t = t\<lparr>pt_enabled := b\<rparr>"
| "probe_bound (ProbeSamples n) t = t\<lparr>pt_samples := n\<rparr>"
| "probe_bound (ProbePublic b) t = t\<lparr>pt_public := b\<rparr>"

text \<open>The inputs that each of the three dialogs of a task has.\<close>

fun custom_input :: "ProbeTask \<Rightarrow> probe_edit \<Rightarrow> bool" where
  "custom_input t (ProbeStatus n) = status_input t"
| "custom_input t (ProbeSamples n) = False"
| "custom_input t (ProbePublic b) = False"
| "custom_input t _ = True"

fun carrier_input :: "probe_edit \<Rightarrow> bool" where
  "carrier_input (ProbeType v) = (v = Tcp \<or> v = Icmp)"
| "carrier_input (ProbeSamples n) = True"
| "carrier_input (ProbeTarget v) = True"
| "carrier_input (ProbeInterval n) = True"
| "carrier_input (ProbeTimeout n) = True"
| "carrier_input (ProbeEnabled b) = True"
| "carrier_input _ = False"

text \<open>A selection of several nodes yields identifiers of listed nodes, in the order of the list.\<close>

definition chosen :: "AdminNode list \<Rightarrow> jsstring list \<Rightarrow> jsstring list" where
  "chosen ns xs = filter (\<lambda>i. i \<in> set xs) (map pn_id ns)"

fun probe_choice :: "AdminNode list \<Rightarrow> probe_edit \<Rightarrow> probe_edit" where
  "probe_choice ns (ProbeNodes xs) = ProbeNodes (chosen ns xs)"
| "probe_choice ns e = e"

definition edit_custom :: "probe_edit \<Rightarrow> probe_page \<Rightarrow> probe_page" where
  "edit_custom e p = (case pb_editing p of None \<Rightarrow> p
     | Some t \<Rightarrow> if custom_input t e then p\<lparr>pb_editing := Some (probe_bound (probe_choice (pb_nodes p) e) t)\<rparr> else p)"

definition edit_carrier :: "probe_edit \<Rightarrow> probe_page \<Rightarrow> probe_page" where
  "edit_carrier e p = (case pb_carrierEditing p of None \<Rightarrow> p
     | Some t \<Rightarrow> if carrier_input e then p\<lparr>pb_carrierEditing := Some (probe_bound e t)\<rparr> else p)"

section \<open>AdminLatency.vue\<close>

record point_row =
  po_online :: bool
  po_name :: jsstring
  po_place :: jsstring
  po_platform :: "jsstring \<times> jsstring"
  po_report :: "jsstring \<times> jsstring option"
  po_health :: "jsstring \<times> jsstring"
  po_hidden :: "bool \<times> jsstring"
  po_remove :: "bool \<times> jsstring"

text \<open>The button that removes is its class \<open>danger\<close> and its label.\<close>

definition point_row_of :: "host \<Rightarrow> AppLocale \<Rightarrow> number \<Rightarrow> latency_admin \<Rightarrow> AdminNode \<Rightarrow> point_row" where
  "point_row_of h l now p node =
     (let monitor = (pn_role node = RoleMonitor);
          paths = num_string (num_of_nat (case latestByProbe p (pn_id node) of None \<Rightarrow> 0 | Some xs \<Rightarrow> length xs)) in
      \<lparr>po_online = probe_isOnline h now p node, po_name = pn_name node,
       po_place = or_text (pn_region node) (or_text (pn_country_code node) (text_in l [26410, 35774, 32622, 22320, 21306] (js ''No location''))) @ middot @ pn_id node,
       po_platform = (or_text (pn_os node) dash, or_text (pn_arch node) dash @ middot @
         (if monitor then text_in l [30417, 25511, 20860, 20219] (js ''Monitor + latency'') else text_in l [32431, 27979, 37327] (js ''Probe only''))),
       po_report = (relativeTime h l now (pn_last_seen_at node), dateTime h l (pn_last_seen_at node)),
       po_health = (toFixed (successRate p (pn_id node)) 0 @ js ''%'', text_in l (paths @ [32, 26465, 24403, 21069, 38142, 36335]) (paths @ js '' current paths'')),
       po_hidden = (pn_hidden node, if pn_hidden node then text_in l [31169, 26377] (js ''Private'') else text_in l [20844, 24320] (js ''Public'')),
       po_remove = (\<not> monitor, if monitor then text_in l [20572, 29992, 24310, 36831] (js ''Disable latency'') else text_in l [21024, 38500] (js ''Delete''))\<rparr>)"

definition target_row :: "AppLocale \<Rightarrow> latency_admin \<Rightarrow> ProbeTask \<Rightarrow> jsstring list" where
  "target_row l p task =
     (let n = num_string (pt_samples task); i = num_string (pt_interval_seconds task); t = num_string (pt_timeout_seconds task) in
      [monitorName p (pt_target_node_id task), text_in l [20219, 21153] (js ''Task'') @ js '' #'' @ num_string (pt_id task),
       type_label (pt_type task), pt_target task,
       text_in l ([27599, 36718, 32] @ n @ [32, 27425, 32, 47, 32] @ i @ js ''s'') (n @ js '' samples / '' @ i @ js ''s''),
       text_in l ([27599, 27425, 36229, 26102, 32] @ t @ js ''s'') (t @ js ''s timeout each''),
       if pt_public task then text_in l [21487, 35265] (js ''Visible'') else text_in l [20165, 31649, 29702, 21592] (js ''Admin only''),
       if pt_enabled task then text_in l [21551, 29992] (js ''Active'') else text_in l [26242, 20572] (js ''Paused'')])"

definition copy_label :: "AppLocale \<Rightarrow> latency_admin \<Rightarrow> jsstring \<Rightarrow> jsstring" where
  "copy_label l p key = (if ad_copied p = key then text_in l [24050, 22797, 21046] (js ''Copied'') else text_in l [22797, 21046] (js ''Copy''))"

definition add_target_disabled :: "latency_admin \<Rightarrow> bool" where
  "add_target_disabled p \<longleftrightarrow> la_monitored_nodes (ad_data p) = []"

definition add_target :: "latency_admin \<Rightarrow> latency_admin" where
  "add_target p = (if add_target_disabled p then p else p\<lparr>ad_editingTarget := Some (blankTarget p)\<rparr>)"

text \<open>The server and the type of a target are selections whose \<open>@change\<close> derives name and address.\<close>

datatype target_edit = TargetServer jsstring | TargetType probe_type | TargetField probe_edit

fun target_input :: "probe_edit \<Rightarrow> bool" where
  "target_input (ProbeSamples n) = True"
| "target_input (ProbeTarget v) = True"
| "target_input (ProbeInterval n) = True"
| "target_input (ProbeTimeout n) = True"
| "target_input (ProbePublic b) = True"
| "target_input (ProbeEnabled b) = True"
| "target_input _ = False"

fun edit_target :: "target_edit \<Rightarrow> latency_admin \<Rightarrow> latency_admin" where
  "edit_target (TargetServer i) p = (case ad_editingTarget p of None \<Rightarrow> p
     | Some t \<Rightarrow> if i \<in> set (map pn_id (la_monitored_nodes (ad_data p)))
         then selectTargetNode (p\<lparr>ad_editingTarget := Some (t\<lparr>pt_target_node_id := Some i\<rparr>)\<rparr>) else p)"
| "edit_target (TargetType ty) p = (case ad_editingTarget p of None \<Rightarrow> p
     | Some t \<Rightarrow> if ty = Icmp \<or> ty = Tcp then changeTargetType (p\<lparr>ad_editingTarget := Some (t\<lparr>pt_type := ty\<rparr>)\<rparr>) else p)"
| "edit_target (TargetField e) p = (case ad_editingTarget p of None \<Rightarrow> p
     | Some t \<Rightarrow> if target_input e then p\<lparr>ad_editingTarget := Some (probe_bound e t)\<rparr> else p)"

datatype point_edit = PointName jsstring | PointRegion jsstring | PointCountry jsstring | PointTags jsstring | PointPublicRemark jsstring
  | PointPrivateRemark jsstring | PointHidden bool | PointHeartbeat number | PointConcurrency number | PointUpdate bool

fun point_bound :: "point_edit \<Rightarrow> AdminNode \<Rightarrow> AdminNode" where
  "point_bound (PointName v) n = n\<lparr>pn_name := v\<rparr>"
| "point_bound (PointRegion v) n = n\<lparr>pn_region := Some v\<rparr>"
| "point_bound (PointCountry v) n = n\<lparr>pn_country_code := Some v\<rparr>"
| "point_bound (PointPublicRemark v) n = n\<lparr>pn_public_remark := Some v\<rparr>"
| "point_bound (PointPrivateRemark v) n = n\<lparr>an_private_remark := Some v\<rparr>"
| "point_bound (PointHidden b) n = n\<lparr>pn_hidden := b\<rparr>"
| "point_bound _ n = n"

fun config_bound :: "point_edit \<Rightarrow> AgentConfig \<Rightarrow> AgentConfig" where
  "config_bound (PointHeartbeat n) c = c\<lparr>ac_collect_interval_seconds := n\<rparr>"
| "config_bound (PointConcurrency n) c = c\<lparr>ac_probe_concurrency := n\<rparr>"
| "config_bound (PointUpdate b) c = c\<lparr>ac_auto_update := b\<rparr>"
| "config_bound _ c = c"

text \<open>The inputs of the configuration are there once it is loaded.\<close>

definition edit_point :: "point_edit \<Rightarrow> latency_admin \<Rightarrow> latency_admin" where
  "edit_point e p = (case ad_editingNode p of None \<Rightarrow> p
     | Some n \<Rightarrow> (let p1 = p\<lparr>ad_editingNode := Some (point_bound e n), ad_agentConfig := map_option (config_bound e) (ad_agentConfig p)\<rparr> in
         case e of PointTags v \<Rightarrow> p1\<lparr>ad_tagsText := v\<rparr> | _ \<Rightarrow> p1))"

section \<open>Forms keep what they edit\<close>

definition task_identity :: "ProbeTask \<Rightarrow> number \<times> probe_purpose option \<times> node_role option" where
  "task_identity t = (pt_id t, pt_purpose t, pt_run_on t)"

lemma probe_bound_identity [simp]: "task_identity (probe_bound e t) = task_identity t"
  by (cases e) (simp_all add: task_identity_def)

lemma task_identity_updates [simp]: "task_identity (t\<lparr>pt_type := ty\<rparr>) = task_identity t"
  "task_identity (t\<lparr>pt_target_node_id := i\<rparr>) = task_identity t" "task_identity (t\<lparr>pt_name := v, pt_target := a\<rparr>) = task_identity t"
  by (simp_all add: task_identity_def)

interpretation custom_form: bound_form edit_custom "\<lambda>p. map_option task_identity (pb_editing p)"
  by unfold_locales (simp add: edit_custom_def split: option.split)

interpretation carrier_form: bound_form edit_carrier "\<lambda>p. map_option task_identity (pb_carrierEditing p)"
  by unfold_locales (simp add: edit_carrier_def split: option.split)

lemma selectTargetNode_identity: "map_option task_identity (ad_editingTarget (selectTargetNode p)) = map_option task_identity (ad_editingTarget p)"
  by (simp add: selectTargetNode_def split: option.split)

interpretation target_form: bound_form edit_target "\<lambda>p. map_option task_identity (ad_editingTarget p)"
proof
  fix e p
  show "map_option task_identity (ad_editingTarget (edit_target e p)) = map_option task_identity (ad_editingTarget p)"
    by (cases e; cases "ad_editingTarget p") (simp_all add: changeTargetType_def selectTargetNode_identity del: map_option_eq_Some)
qed

interpretation point_form: bound_form edit_point "\<lambda>p. (map_option pn_id (ad_editingNode p), ad_agentConfig p = None)"
proof
  fix e p
  show "(map_option pn_id (ad_editingNode (edit_point e p)), ad_agentConfig (edit_point e p) = None) =
      (map_option pn_id (ad_editingNode p), ad_agentConfig p = None)"
    by (cases e) (simp_all add: edit_point_def Let_def split: option.split)
qed

text \<open>Where a request goes, and with which method.\<close>

definition address :: "'b call \<Rightarrow> jsstring \<times> jsstring" where
  "address c = (call_method c, call_path c)"

lemma save_addresses:
  "map_option address (snd (save_probe p)) = map_option (\<lambda>i. address (save_call probe_path (fst i) ())) (map_option task_identity (pb_editing p))"
  "map_option address (snd (saveTarget q)) = map_option (\<lambda>i. address (save_call target_path (fst i) ())) (map_option task_identity (ad_editingTarget q))"
  by (simp_all add: save_probe_def saveTarget_def save_call_def address_def task_identity_def split: option.split)

definition carrier_address :: "number \<times> probe_purpose option \<times> node_role option \<Rightarrow> (jsstring \<times> jsstring) option" where
  "carrier_address i = map_option (\<lambda>k. (js ''PUT'', js ''/api/v1/admin/carrier-probes/'' @ k))
     (encodeURIComponent (probe_carrierKey (blank_probe\<lparr>pt_purpose := fst (snd i)\<rparr>)))"

lemma carrier_save_address:
  "map_option address (snd (saveCarrier h p)) = Option.bind (map_option task_identity (pb_carrierEditing p)) carrier_address"
  by (simp add: saveCarrier_def carrier_address_def address_def task_identity_def probe_carrierKey_def split: option.split)

lemma point_save_addresses:
  "map address (snd (saveNode p)) = (case (map_option pn_id (ad_editingNode p), ad_agentConfig p = None) of
     (Some i, False) \<Rightarrow> [(js ''PUT'', js ''/api/v1/admin/latency/nodes/'' @ i), (js ''PUT'', js ''/api/v1/admin/nodes/'' @ i @ js ''/agent-config'')]
   | _ \<Rightarrow> [])"
  by (simp add: saveNode_def address_def Let_def split: option.split)

text \<open>The dialog of a carrier can only choose between the two methods that it offers.\<close>

theorem carrier_method_restricted:
  assumes "pb_carrierEditing p = Some t" and "pt_type t \<in> {Tcp, Icmp}"
  shows "\<exists>t'. pb_carrierEditing (fold edit_carrier es p) = Some t' \<and> pt_type t' \<in> {Tcp, Icmp} \<and> pt_node_ids t' = pt_node_ids t"
  using assms
proof (induction es arbitrary: p t)
  case (Cons e es)
  let ?t = "if carrier_input e then probe_bound e t else t"
  have "pb_carrierEditing (edit_carrier e p) = Some ?t" using Cons.prems(1) by (simp add: edit_carrier_def)
  moreover have "pt_type ?t \<in> {Tcp, Icmp}" "pt_node_ids ?t = pt_node_ids t" using Cons.prems(2) by (cases e; auto)+
  ultimately show ?case using Cons.IH [of "edit_carrier e p" ?t] by simp
qed simp

text \<open>A target in the dialog is about a listed server and is measured by a method that the dialog offers.\<close>

definition target_listed :: "latency_admin \<Rightarrow> bool" where
  "target_listed p \<longleftrightarrow> (case ad_editingTarget p of None \<Rightarrow> True
     | Some t \<Rightarrow> pt_target_node_id t \<in> Some ` pn_id ` set (la_monitored_nodes (ad_data p)) \<and> pt_type t \<in> {Icmp, Tcp})"

lemma selectTargetNode_listed [simp]: "target_listed (selectTargetNode p) = target_listed p"
  by (simp add: target_listed_def selectTargetNode_def split: option.split)

lemma probe_bound_listed:
  "target_input e \<Longrightarrow> pt_target_node_id (probe_bound e t) = pt_target_node_id t \<and> pt_type (probe_bound e t) = pt_type t"
  by (cases e) simp_all

lemma target_listed_edited:
  "target_listed (p\<lparr>ad_editingTarget := Some t\<rparr>) \<longleftrightarrow>
     pt_target_node_id t \<in> Some ` pn_id ` set (la_monitored_nodes (ad_data p)) \<and> pt_type t \<in> {Icmp, Tcp}"
  by (simp add: target_listed_def)

interpretation target_store: store edit_target "\<lambda>_. True" target_listed
proof
  fix p e assume "target_listed p"
  moreover from this have "pt_target_node_id t \<in> Some ` pn_id ` set (la_monitored_nodes (ad_data p)) \<and> pt_type t \<in> {Icmp, Tcp}"
    if "ad_editingTarget p = Some t" for t using that by (simp add: target_listed_def)
  ultimately show "target_listed (edit_target e p)"
    by (cases e; cases "ad_editingTarget p") (auto simp: changeTargetType_def target_listed_edited probe_bound_listed)
qed

text \<open>
  Whatever is typed and chosen after a click on the button for a new target, saving creates a target
  (and replaces none) for one of the listed servers.
\<close>

theorem added_target_created:
  assumes "\<not> add_target_disabled p"
  shows "\<exists>t c. snd (saveTarget (fold edit_target es (add_target p))) = Some c \<and> address c = (js ''POST'', target_path) \<and>
    call_body c = Some t \<and> pt_target_node_id t \<in> Some ` pn_id ` set (la_monitored_nodes (ad_data (fold edit_target es (add_target p))))"
proof -
  let ?q = "fold edit_target es (add_target p)"
  have t: "ad_editingTarget (add_target p) = Some (blankTarget p)" using assms by (simp add: add_target_def)
  have "map_option address (snd (saveTarget ?q)) = Some (js ''POST'', target_path)"
    by (simp only: save_addresses target_form.edits_identity t)
      (simp add: task_identity_def blankTarget_def address_def save_call_def truthy_num_def Let_def)
  then obtain c where c: "snd (saveTarget ?q) = Some c" "address c = (js ''POST'', target_path)" by auto
  have "target_listed (add_target p)"
    using assms by (cases "la_monitored_nodes (ad_data p)") (simp_all add: target_listed_def add_target_def add_target_disabled_def blankTarget_def)
  then have "target_listed ?q" by (rule target_store.run_keeps) (simp add: list_all_iff)
  moreover obtain u where "ad_editingTarget ?q = Some u" "call_body c = Some u"
    using c(1) by (auto simp: saveTarget_def save_call_def split: option.splits)
  ultimately show ?thesis using c by (auto simp: target_listed_def)
qed

end
