(* ===== verification/AdminDialogs.thy ===== *)
theory AdminDialogs
  imports AdminTables AdminRules AdminNotifications AdminNodes AdminSecurity AdminDashboard
begin

text \<open>
  The templates of \<open>AdminRules.vue\<close>, \<open>AdminNotifications.vue\<close>, \<open>AdminNodes.vue\<close>, \<open>AdminSecurity.vue\<close>, \<open>AdminOverview.vue\<close>
  and \<open>AdminAudit.vue\<close> (under \<open>web/src/components/admin\<close>): cards and rows, and the inputs of the dialogs with
  the fields they are bound to. An input of a number is given by the number that it holds.
\<close>

section \<open>AdminRules.vue\<close>

record rule_card =
  rc_severity :: alert_severity
  rc_name :: jsstring
  rc_state :: jsstring
  rc_metric :: jsstring
  rc_condition :: jsstring
  rc_recover :: jsstring
  rc_times :: "jsstring \<times> jsstring"
  rc_scope :: jsstring

definition enabled_text :: "AppLocale \<Rightarrow> jsstring \<Rightarrow> bool \<Rightarrow> jsstring" where
  "enabled_text l active b = (if b then text_in l [21551, 29992] active else text_in l [26242, 20572] (js ''Paused''))"

definition rule_card_of :: "AppLocale \<Rightarrow> AlertRule \<Rightarrow> rule_card" where
  "rule_card_of l r = \<lparr>rc_severity = ar_severity r, rc_name = ar_name r, rc_state = enabled_text l (js ''Enabled'') (ar_enabled r),
     rc_metric = metricLabel l (ar_metric r), rc_condition = ar_operator r @ js '' '' @ num_string (ar_threshold r),
     rc_recover = text_in l [24674, 22797, 20540] (js ''Recover'') @ js '' '' @ num_string (ar_recovery_threshold r),
     rc_times = (num_string (ar_duration_seconds r) @ js ''s'', num_string (ar_cooldown_seconds r) @ js ''s''), rc_scope = scopeLabel l r\<rparr>"

definition event_row :: "host \<Rightarrow> AppLocale \<Rightarrow> AlertEvent \<Rightarrow> jsstring \<times> jsstring \<times> jsstring \<times> jsstring option" where
  "event_row h l e = (slashed (pn_name (ae_node e)) (ae_type e), ae_message e,
     if ae_status e = Firing then text_in l [35302, 21457] (js ''Firing'') else text_in l [24674, 22797] (js ''Resolved''),
     dateTime h l (Some (ae_occurred_at e)))"

definition operators :: "jsstring list" where
  "operators = [js ''>'', js ''>='', js ''<'', js ''<='', js ''=='']"

datatype rule_edit = RuleName jsstring | RuleMetric jsstring | RuleOperator jsstring | RuleThreshold number | RuleRecovery number
  | RuleDuration number | RuleCooldown number | RuleSeverity alert_severity | RuleGroups jsstring | RuleNodes "jsstring list"
  | RuleExcluded "jsstring list" | RuleEnabled bool

fun rule_bound :: "AdminNode list \<Rightarrow> rule_edit \<Rightarrow> AlertRule \<Rightarrow> AlertRule" where
  "rule_bound ns (RuleName v) r = r\<lparr>ar_name := v\<rparr>"
| "rule_bound ns (RuleMetric v) r = (if v \<in> set metrics then r\<lparr>ar_metric := v\<rparr> else r)"
| "rule_bound ns (RuleOperator v) r = (if v \<in> set operators then r\<lparr>ar_operator := v\<rparr> else r)"
| "rule_bound ns (RuleThreshold n) r = r\<lparr>ar_threshold := n\<rparr>"
| "rule_bound ns (RuleRecovery n) r = r\<lparr>ar_recovery_threshold := n\<rparr>"
| "rule_bound ns (RuleDuration n) r = r\<lparr>ar_duration_seconds := n\<rparr>"
| "rule_bound ns (RuleCooldown n) r = r\<lparr>ar_cooldown_seconds := n\<rparr>"
| "rule_bound ns (RuleSeverity v) r = r\<lparr>ar_severity := v\<rparr>"
| "rule_bound ns (RuleGroups v) r = r"
| "rule_bound ns (RuleNodes xs) r = r\<lparr>ar_scope := (ar_scope r)\<lparr>sc_node_ids := Some (chosen ns xs)\<rparr>\<rparr>"
| "rule_bound ns (RuleExcluded xs) r = r\<lparr>ar_scope := (ar_scope r)\<lparr>sc_excluded_node_ids := Some (chosen ns xs)\<rparr>\<rparr>"
| "rule_bound ns (RuleEnabled b) r = r\<lparr>ar_enabled := b\<rparr>"

definition rule_input :: "rule_edit \<Rightarrow> rule_page \<Rightarrow> rule_page" where
  "rule_input e p = (case ru_editing p of None \<Rightarrow> p
     | Some r \<Rightarrow> (let p1 = p\<lparr>ru_editing := Some (rule_bound (ru_nodes p) e r)\<rparr> in case e of RuleGroups v \<Rightarrow> p1\<lparr>ru_groupScope := v\<rparr> | _ \<Rightarrow> p1))"

section \<open>AdminNotifications.vue\<close>

fun channel_glyph :: "channel_type \<Rightarrow> jsstring" where
  "channel_glyph Smtp = js ''@''"
| "channel_glyph Telegram = [8599]"
| "channel_glyph Bark = [9673]"
| "channel_glyph Webhook = [123, 125]"

definition truthy_json :: "json \<Rightarrow> bool" where
  "truthy_json v = (case v of JNull \<Rightarrow> False | JBool b \<Rightarrow> b | JNum n \<Rightarrow> truthy_num n | JStr s \<Rightarrow> s \<noteq> [] | _ \<Rightarrow> True)"

definition config_flag :: "(jsstring \<times> json) list \<Rightarrow> jsstring \<Rightarrow> bool" where
  "config_flag c k = (case map_of c k of None \<Rightarrow> False | Some v \<Rightarrow> truthy_json v)"

definition channel_note :: "AppLocale \<Rightarrow> NotificationChannel \<Rightarrow> jsstring" where
  "channel_note l c = (if config_flag (case nc_config c of None \<Rightarrow> [] | Some m \<Rightarrow> m) (js ''configured'')
     then text_in l [20973, 25454, 24050, 21152, 23494, 20445, 23384] (js ''Credentials encrypted'') else text_in l [37197, 32622, 19981, 21487, 29992] (js ''Configuration unavailable''))"

text \<open>The keys that the inputs of each type of channel are bound to.\<close>

fun channel_keys :: "channel_type \<Rightarrow> jsstring list" where
  "channel_keys Webhook = [js ''url'', js ''secret'']"
| "channel_keys Telegram = [js ''bot_token'', js ''chat_id'', js ''api_base'']"
| "channel_keys Bark = [js ''device_key'', js ''endpoint'', js ''group'']"
| "channel_keys Smtp = [js ''host'', js ''port'', js ''from'', js ''to'', js ''username'', js ''password'', js ''require_tls'', js ''implicit_tls'']"

datatype channel_edit = ChannelName jsstring | ChannelType channel_type | ChannelConfig jsstring json | ChannelEnabled bool

definition channel_input :: "channel_edit \<Rightarrow> channel_page \<Rightarrow> channel_page" where
  "channel_input e p = (case ch_editing p of None \<Rightarrow> p
     | Some c \<Rightarrow> (case e of
         ChannelName v \<Rightarrow> p\<lparr>ch_editing := Some (c\<lparr>nc_name := v\<rparr>)\<rparr>
       | ChannelType ty \<Rightarrow> changeType (p\<lparr>ch_editing := Some (c\<lparr>nc_type := ty\<rparr>)\<rparr>)
       | ChannelConfig k v \<Rightarrow> if k \<in> set (channel_keys (nc_type c)) then p\<lparr>ch_config := assign k v (ch_config p)\<rparr> else p
       | ChannelEnabled b \<Rightarrow> p\<lparr>ch_editing := Some (c\<lparr>nc_enabled := b\<rparr>)\<rparr>))"

section \<open>AdminNodes.vue\<close>

definition admin_node_row :: "host \<Rightarrow> AppLocale \<Rightarrow> AdminNode \<Rightarrow> jsstring list \<times> jsstring option \<times> jsstring list" where
  "admin_node_row h l n =
     ([pn_name n, pn_id n, or_text (pn_group n) dash, or_text (pn_region n) (or_text (pn_country_code n) dash), or_text (pn_os n) dash,
       (case pn_arch n of None \<Rightarrow> [] | Some a \<Rightarrow> a) @ middot @ (case pn_cpu_cores n of None \<Rightarrow> [] | Some c \<Rightarrow> num_string c) @ js ''C''],
      dateTime h l (pn_last_seen_at n),
      (if pn_hidden n then text_in l [38544, 34255] (js ''Hidden'') else text_in l [20844, 24320] (js ''Public'')) #
        (if pn_latency_enabled n then [text_in l [24310, 36831] (js ''Latency'')] else []))"

datatype node_edit = NodeName jsstring | NodeGroup jsstring | NodeRegion jsstring | NodeCountry jsstring | NodeTags jsstring
  | NodePublicRemark jsstring | NodePrivateRemark jsstring | NodePrice number | NodeCurrency jsstring | NodeCycle number
  | NodeExpires jsstring | NodeWeight number | NodeQuota number | NodeMode jsstring | NodeResetDay number | NodeHidden bool
  | NodeRenewal bool | NodeLatency bool | NodeCollect number | NodePersist number | NodeIncludeNICs jsstring | NodeExcludeNICs jsstring
  | NodeMounts jsstring | NodeGPU bool | NodeUpdate bool | NodeCorrectionRX number | NodeCorrectionTX number
  | NodeCorrectionUnit TrafficCorrectionUnit

definition traffic_modes :: "jsstring list" where
  "traffic_modes = [js ''sum'', js ''max'', js ''up'', js ''down'']"

fun node_bound :: "node_edit \<Rightarrow> AdminNode \<Rightarrow> AdminNode" where
  "node_bound (NodeName v) n = n\<lparr>pn_name := v\<rparr>"
| "node_bound (NodeGroup v) n = n\<lparr>pn_group := Some v\<rparr>"
| "node_bound (NodeRegion v) n = n\<lparr>pn_region := Some v\<rparr>"
| "node_bound (NodeCountry v) n = n\<lparr>pn_country_code := Some v\<rparr>"
| "node_bound (NodePublicRemark v) n = n\<lparr>pn_public_remark := Some v\<rparr>"
| "node_bound (NodePrivateRemark v) n = n\<lparr>an_private_remark := Some v\<rparr>"
| "node_bound (NodePrice x) n = n\<lparr>pn_price := x\<rparr>"
| "node_bound (NodeCurrency v) n = n\<lparr>pn_currency := v\<rparr>"
| "node_bound (NodeCycle x) n = n\<lparr>pn_billing_cycle_days := x\<rparr>"
| "node_bound (NodeWeight x) n = n\<lparr>pn_weight := x\<rparr>"
| "node_bound (NodeMode v) n = (if v \<in> set traffic_modes then n\<lparr>pn_traffic_limit_type := v\<rparr> else n)"
| "node_bound (NodeResetDay x) n = n\<lparr>pn_traffic_reset_day := x\<rparr>"
| "node_bound (NodeHidden b) n = n\<lparr>pn_hidden := b\<rparr>"
| "node_bound (NodeRenewal b) n = n\<lparr>pn_auto_renewal := b\<rparr>"
| "node_bound (NodeLatency b) n = n\<lparr>pn_latency_enabled := b\<rparr>"
| "node_bound _ n = n"

fun node_config_bound :: "node_edit \<Rightarrow> AgentConfig \<Rightarrow> AgentConfig" where
  "node_config_bound (NodeCollect x) c = c\<lparr>ac_collect_interval_seconds := x\<rparr>"
| "node_config_bound (NodePersist x) c = c\<lparr>ac_persist_interval_seconds := x\<rparr>"
| "node_config_bound (NodeGPU b) c = c\<lparr>ac_enable_gpu := b\<rparr>"
| "node_config_bound (NodeUpdate b) c = c\<lparr>ac_auto_update := b\<rparr>"
| "node_config_bound _ c = c"

text \<open>
  The inputs that are bound to variables of the script. Those of the collection are shown once the
  configuration was loaded, those of the correction while one can be made.
\<close>

definition correction_fields :: "nodes_page \<Rightarrow> bool" where
  "correction_fields p = (case no_trafficCorrection p of None \<Rightarrow> False | Some c \<Rightarrow> tc_available c)"

fun node_text_bound :: "node_edit \<Rightarrow> nodes_page \<Rightarrow> nodes_page" where
  "node_text_bound (NodeTags v) p = p\<lparr>no_tags := v\<rparr>"
| "node_text_bound (NodeExpires v) p = p\<lparr>no_expires := v\<rparr>"
| "node_text_bound (NodeQuota x) p = p\<lparr>no_trafficLimitGiB := x\<rparr>"
| "node_text_bound (NodeIncludeNICs v) p = (if no_agentConfig p = None then p else p\<lparr>no_includeNICs := v\<rparr>)"
| "node_text_bound (NodeExcludeNICs v) p = (if no_agentConfig p = None then p else p\<lparr>no_excludeNICs := v\<rparr>)"
| "node_text_bound (NodeMounts v) p = (if no_agentConfig p = None then p else p\<lparr>no_includeMounts := v\<rparr>)"
| "node_text_bound (NodeCorrectionRX x) p = (if correction_fields p then p\<lparr>no_correctionRX := x\<rparr> else p)"
| "node_text_bound (NodeCorrectionTX x) p = (if correction_fields p then p\<lparr>no_correctionTX := x\<rparr> else p)"
| "node_text_bound (NodeCorrectionUnit u) p = (if correction_fields p then changeCorrectionUnit u p else p)"
| "node_text_bound _ p = p"

definition node_input :: "node_edit \<Rightarrow> nodes_page \<Rightarrow> nodes_page" where
  "node_input e p = (case no_editing p of None \<Rightarrow> p
     | Some n \<Rightarrow> node_text_bound e (p\<lparr>no_editing := Some (node_bound e n), no_agentConfig := map_option (node_config_bound e) (no_agentConfig p)\<rparr>))"

record correction_panel =
  cp_period :: jsstring
  cp_adjusted :: jsstring
  cp_raw :: jsstring
  cp_shown :: jsstring
  cp_fields :: bool
  cp_footer :: "jsstring option"
  cp_notice :: jsstring
  cp_clear_disabled :: bool
  cp_apply :: "bool \<times> jsstring"

definition correction_panel_of :: "host \<Rightarrow> AppLocale \<Rightarrow> nodes_page \<Rightarrow> correction_panel option" where
  "correction_panel_of h l p = map_option (\<lambda>c.
     (let day = slice 0 10 (tc_period_start c); totals = (\<lambda>rx tx. [8595, 32] @ bytes h rx 1 @ middot @ [8593, 32] @ bytes h tx 1) in
      \<lparr>cp_period = text_in l ([24403, 21069, 21608, 26399, 22987, 20110, 32] @ day @ js '' UTC'') (js ''Current period began '' @ day @ js '' UTC''),
       cp_adjusted = (if tc_active c then text_in l [24050, 26657, 27491] (js ''Adjusted'') else text_in l [21407, 22987, 32479, 35745] (js ''Raw totals'')),
       cp_raw = totals (tc_raw_rx_bytes c) (tc_raw_tx_bytes c), cp_shown = totals (tc_rx_bytes c) (tc_tx_bytes c),
       cp_fields = tc_available c,
       cp_footer = (if tc_updated_at c \<in> {None, Some []} then Some (text_in l [26657, 27491, 21482, 24433, 21709, 24403, 21069, 21608, 26399, 65292, 19979, 20010, 21608, 26399, 33258, 21160, 22833, 25928, 12290] (js ''Corrections apply only to this period and expire automatically.''))
         else map_option (\<lambda>d. text_in l ([19978, 27425, 35843, 25972, 65306] @ d) (js ''Last adjusted: '' @ d)) (dateTime h l (tc_updated_at c))),
       cp_notice = no_correctionNotice p, cp_clear_disabled = correction_clear_disabled p,
       cp_apply = (correction_apply_disabled p, if no_correctionBusy p then text_in l [22788, 29702, 20013, 8230] (js ''Applying'' @ [8230])
         else text_in l [24212, 29992, 26657, 27491] (js ''Apply correction''))\<rparr>)) (no_trafficCorrection p)"

section \<open>AdminSecurity.vue\<close>

datatype totp_panel = TotpOffer | TotpSecret jsstring jsstring | TotpDisable

definition totp_panel_of :: "security_page \<Rightarrow> totp_panel" where
  "totp_panel_of p = (if \<not> se_twoFactor p \<and> se_setupToken p = [] then TotpOffer
     else if se_setupToken p \<noteq> [] then TotpSecret (se_totpSecret p) (se_totpURL p) else TotpDisable)"

text \<open>The expiry of a key, and the state of a link with whether it can be revoked.\<close>

definition key_expiry :: "host \<Rightarrow> AppLocale \<Rightarrow> APIKey \<Rightarrow> jsstring option" where
  "key_expiry h l k = (if ak_expires_at k \<in> {None, Some []} then Some (text_in l [27704, 19981, 36807, 26399] (js ''No expiry''))
     else map_option (\<lambda>d. text_in l [21040, 26399] (js ''EXP'') @ js '' '' @ d) (dateTime h l (ak_expires_at k)))"

definition link_row :: "host \<Rightarrow> AppLocale \<Rightarrow> ShareLink \<Rightarrow> jsstring \<times> jsstring option \<times> bool" where
  "link_row h l s = (let n = num_string (num_of_nat (length (sl_node_ids s))); revoked = sl_revoked_at s \<notin> {None, Some []} in
     (text_in l (n @ [32, 20010, 33410, 28857]) (n @ js '' nodes''),
      if revoked then Some (text_in l [24050, 25764, 38144] (js ''Revoked''))
      else map_option (\<lambda>d. text_in l [21040, 26399] (js ''EXP'') @ js '' '' @ d) (dateTime h l (Some (sl_expires_at s))),
      \<not> revoked))"

definition session_title :: "AppLocale \<Rightarrow> BrowserSession \<Rightarrow> jsstring" where
  "session_title l s = (if bs_current s then text_in l [24403, 21069, 20250, 35805] (js ''This session'') else bs_ip_address s)"

section \<open>AdminOverview.vue and AdminAudit.vue\<close>

record dashboard_view =
  dv_nodes :: "nat \<times> nat"
  dv_events :: "nat \<times> nat"
  dv_capacity :: jsstring
  dv_copy :: jsstring
  dv_recent :: "(event_status \<times> jsstring \<times> jsstring \<times> jsstring option) list"
  dv_list :: "(bool \<times> jsstring \<times> jsstring \<times> jsstring) list"

definition dashboard_view_of :: "host \<Rightarrow> AppLocale \<Rightarrow> number \<Rightarrow> dashboard \<Rightarrow> dashboard_view" where
  "dashboard_view_of h l now d = \<lparr>dv_nodes = (length (da_nodes d), online_nodes h now d), dv_events = (firing_count d, length (da_events d)),
     dv_capacity = capacity_label h l d,
     dv_copy = (if da_copied d then text_in l [24050, 22797, 21046] (js ''Copied'') else text_in l [22797, 21046] (js ''Copy'')),
     dv_recent = map (\<lambda>e. (ae_status e, pn_name (ae_node e), ae_message e, dateTime h l (Some (ae_occurred_at e)))) (da_events d),
     dv_list = map (\<lambda>n. (seen_recently h now n, pn_name n, or_text (pn_group n) (text_in l [26410, 20998, 32452] (js ''Ungrouped'')),
       or_text (pn_os n) (text_in l [26410, 30693, 31995, 32479] (js ''Unknown'')))) (take 12 (da_nodes d))\<rparr>"

definition audit_row :: "host \<Rightarrow> AppLocale \<Rightarrow> AuditEntry \<Rightarrow> jsstring option \<times> jsstring list" where
  "audit_row h l e = (dateTime h l (Some (au_occurred_at e)), [au_actor e, au_action e, au_target e, au_detail e])"

section \<open>Forms keep what they edit\<close>

interpretation rule_form: bound_form rule_input "\<lambda>p. map_option ar_id (ru_editing p)"
proof
  fix e p
  show "map_option ar_id (ru_editing (rule_input e p)) = map_option ar_id (ru_editing p)"
    by (cases e) (simp_all add: rule_input_def Let_def split: option.split)
qed

interpretation channel_form: bound_form channel_input "\<lambda>p. map_option nc_id (ch_editing p)"
  by unfold_locales (auto simp: channel_input_def changeType_def split: option.split channel_edit.split)

interpretation node_form: bound_form node_input "\<lambda>p. map_option pn_id (no_editing p)"
proof
  fix e p
  show "map_option pn_id (no_editing (node_input e p)) = map_option pn_id (no_editing p)"
    by (cases e) (simp_all add: node_input_def changeCorrectionUnit_def Let_def split: option.split)
qed

section \<open>The node dialog saves what was typed\<close>

text \<open>
  The node that the labels of the inputs promise: each field has what was typed into its input last,
  or what it had before; a traffic mode is one of the list.
\<close>

definition typed_node :: "node_edit list \<Rightarrow> AdminNode \<Rightarrow> AdminNode" where
  "typed_node es n = n\<lparr>
     pn_name := newest (\<lambda>e. case e of NodeName v \<Rightarrow> Some v | _ \<Rightarrow> None) (pn_name n) es,
     pn_group := newest (\<lambda>e. case e of NodeGroup v \<Rightarrow> Some (Some v) | _ \<Rightarrow> None) (pn_group n) es,
     pn_region := newest (\<lambda>e. case e of NodeRegion v \<Rightarrow> Some (Some v) | _ \<Rightarrow> None) (pn_region n) es,
     pn_country_code := newest (\<lambda>e. case e of NodeCountry v \<Rightarrow> Some (Some v) | _ \<Rightarrow> None) (pn_country_code n) es,
     pn_public_remark := newest (\<lambda>e. case e of NodePublicRemark v \<Rightarrow> Some (Some v) | _ \<Rightarrow> None) (pn_public_remark n) es,
     an_private_remark := newest (\<lambda>e. case e of NodePrivateRemark v \<Rightarrow> Some (Some v) | _ \<Rightarrow> None) (an_private_remark n) es,
     pn_price := newest (\<lambda>e. case e of NodePrice x \<Rightarrow> Some x | _ \<Rightarrow> None) (pn_price n) es,
     pn_currency := newest (\<lambda>e. case e of NodeCurrency v \<Rightarrow> Some v | _ \<Rightarrow> None) (pn_currency n) es,
     pn_billing_cycle_days := newest (\<lambda>e. case e of NodeCycle x \<Rightarrow> Some x | _ \<Rightarrow> None) (pn_billing_cycle_days n) es,
     pn_weight := newest (\<lambda>e. case e of NodeWeight x \<Rightarrow> Some x | _ \<Rightarrow> None) (pn_weight n) es,
     pn_traffic_limit_type := newest (\<lambda>e. case e of NodeMode v \<Rightarrow> if v \<in> set traffic_modes then Some v else None | _ \<Rightarrow> None) (pn_traffic_limit_type n) es,
     pn_traffic_reset_day := newest (\<lambda>e. case e of NodeResetDay x \<Rightarrow> Some x | _ \<Rightarrow> None) (pn_traffic_reset_day n) es,
     pn_hidden := newest (\<lambda>e. case e of NodeHidden b \<Rightarrow> Some b | _ \<Rightarrow> None) (pn_hidden n) es,
     pn_auto_renewal := newest (\<lambda>e. case e of NodeRenewal b \<Rightarrow> Some b | _ \<Rightarrow> None) (pn_auto_renewal n) es,
     pn_latency_enabled := newest (\<lambda>e. case e of NodeLatency b \<Rightarrow> Some b | _ \<Rightarrow> None) (pn_latency_enabled n) es\<rparr>"

definition typed_config :: "node_edit list \<Rightarrow> AgentConfig \<Rightarrow> AgentConfig" where
  "typed_config es c = c\<lparr>
     ac_collect_interval_seconds := newest (\<lambda>e. case e of NodeCollect x \<Rightarrow> Some x | _ \<Rightarrow> None) (ac_collect_interval_seconds c) es,
     ac_persist_interval_seconds := newest (\<lambda>e. case e of NodePersist x \<Rightarrow> Some x | _ \<Rightarrow> None) (ac_persist_interval_seconds c) es,
     ac_enable_gpu := newest (\<lambda>e. case e of NodeGPU b \<Rightarrow> Some b | _ \<Rightarrow> None) (ac_enable_gpu c) es,
     ac_auto_update := newest (\<lambda>e. case e of NodeUpdate b \<Rightarrow> Some b | _ \<Rightarrow> None) (ac_auto_update c) es\<rparr>"

definition typed_tags :: "node_edit list \<Rightarrow> jsstring \<Rightarrow> jsstring" where
  "typed_tags es v = newest (\<lambda>e. case e of NodeTags v \<Rightarrow> Some v | _ \<Rightarrow> None) v es"

definition typed_expires :: "node_edit list \<Rightarrow> jsstring \<Rightarrow> jsstring" where
  "typed_expires es v = newest (\<lambda>e. case e of NodeExpires v \<Rightarrow> Some v | _ \<Rightarrow> None) v es"

definition typed_quota :: "node_edit list \<Rightarrow> number \<Rightarrow> number" where
  "typed_quota es x = newest (\<lambda>e. case e of NodeQuota x \<Rightarrow> Some x | _ \<Rightarrow> None) x es"

definition typed_lists :: "node_edit list \<Rightarrow> jsstring \<times> jsstring \<times> jsstring \<Rightarrow> jsstring \<times> jsstring \<times> jsstring" where
  "typed_lists es v = (newest (\<lambda>e. case e of NodeIncludeNICs v \<Rightarrow> Some v | _ \<Rightarrow> None) (fst v) es,
     newest (\<lambda>e. case e of NodeExcludeNICs v \<Rightarrow> Some v | _ \<Rightarrow> None) (fst (snd v)) es,
     newest (\<lambda>e. case e of NodeMounts v \<Rightarrow> Some v | _ \<Rightarrow> None) (snd (snd v)) es)"

lemma fold_node_bound: "fold node_bound es n = typed_node es n"
proof (induction es arbitrary: n)
  case (Cons e es)
  show ?case unfolding fold_Cons o_apply Cons.IH by (cases e) (simp_all add: typed_node_def)
qed (simp add: typed_node_def)

lemma fold_config_bound: "fold node_config_bound es c = typed_config es c"
proof (induction es arbitrary: c)
  case (Cons e es)
  show ?case unfolding fold_Cons o_apply Cons.IH by (cases e) (simp_all add: typed_config_def)
qed (simp add: typed_config_def)

lemmas typed_texts = typed_tags_def typed_expires_def typed_quota_def typed_lists_def

lemma node_inputs:
  assumes "no_editing p = Some n" and "no_agentConfig p = Some c"
  shows "no_editing (fold node_input es p) = Some (fold node_bound es n) \<and>
    no_agentConfig (fold node_input es p) = Some (fold node_config_bound es c) \<and>
    no_tags (fold node_input es p) = typed_tags es (no_tags p) \<and> no_expires (fold node_input es p) = typed_expires es (no_expires p) \<and>
    no_trafficLimitGiB (fold node_input es p) = typed_quota es (no_trafficLimitGiB p) \<and>
    (no_includeNICs (fold node_input es p), no_excludeNICs (fold node_input es p), no_includeMounts (fold node_input es p)) =
      typed_lists es (no_includeNICs p, no_excludeNICs p, no_includeMounts p)"
  using assms
proof (induction es arbitrary: p n c)
  case (Cons e es)
  let ?q = "node_input e p"
  have q: "no_editing ?q = Some (node_bound e n)" "no_agentConfig ?q = Some (node_config_bound e c)"
    using Cons.prems by (cases e; simp add: node_input_def changeCorrectionUnit_def Let_def)+
  have t: "no_tags ?q = typed_tags [e] (no_tags p)" "no_expires ?q = typed_expires [e] (no_expires p)"
    "no_trafficLimitGiB ?q = typed_quota [e] (no_trafficLimitGiB p)"
    "(no_includeNICs ?q, no_excludeNICs ?q, no_includeMounts ?q) = typed_lists [e] (no_includeNICs p, no_excludeNICs p, no_includeMounts p)"
    using Cons.prems by (cases e; simp add: node_input_def changeCorrectionUnit_def typed_texts Let_def)+
  show ?case using Cons.IH [OF q] t by (simp add: typed_texts)
qed (simp add: typed_texts)

text \<open>
  The requests of a save that nothing interrupts: identifier and latency flag are kept from the node
  that the first request carries, the configuration is read when the first answer has arrived.
\<close>

definition node_save_calls :: "host \<Rightarrow> AppLocale \<Rightarrow> nodes_page \<Rightarrow> node_body call list" where
  "node_save_calls h l p = (case save_node h l p of
     (p1, Some c1) \<Rightarrow> (case no_editing p1 of
       Some n \<Rightarrow> c1 # opt_list (snd (node_saved h (pn_id n) (Inr ()) p1)) @
         opt_list (snd (config_saved h (pn_id n) (pn_latency_enabled n) (Inr ()) (fst (node_saved h (pn_id n) (Inr ()) p1))))
     | None \<Rightarrow> [c1])
   | (p1, None) \<Rightarrow> [])"

text \<open>
  C27: Whatever is typed and chosen in the node dialog, in any order: when the quota and the
  expiry date are valid and nothing interrupts the save, its three requests go to the node that
  was opened and carry, for every input, what was typed into it last (or what the field had
  before): names, remarks, price, billing, traffic mode, flags, quota, tags and expiry in the
  node, intervals, switches and the three lists in the agent configuration, and the latency flag.
\<close>

theorem typed_node_saved:
  assumes "no_editing p = Some n" and "no_agentConfig p = Some c"
    and "trafficLimitBytesFromGiB (typed_quota es (no_trafficLimitGiB p)) = limit" and "isFinite limit"
    and "sent_expiry h (typed_expires es (no_expires p)) = Inr expiry"
    and "typed_lists es (no_includeNICs p, no_excludeNICs p, no_includeMounts p) = (nics, excluded, mounts)"
  shows "node_save_calls h l (fold node_input es p) =
    [a_call (js ''PUT'') (node_path (pn_id n)) (Some (NodeBody ((typed_node es n)\<lparr>pn_traffic_limit := limit,
        pn_tags := split_field (js '','') (typed_tags es (no_tags p)), pn_expires_at := expiry\<rparr>))),
     a_call (js ''PUT'') (node_path (pn_id n) @ js ''/agent-config'') (Some (ConfigBody (Some ((typed_config es c)\<lparr>
        ac_include_nics := Some (split_field (js '','') nics), ac_exclude_nics := Some (split_field (js '','') excluded),
        ac_include_mountpoints := Some (split_field (js '','') mounts)\<rparr>)))),
     a_call (js ''PUT'') (node_path (pn_id n) @ js ''/latency'') (Some (LatencyBody (pn_latency_enabled (typed_node es n))))]"
proof -
  have i: "pn_id (typed_node es n) = pn_id n" by (simp add: typed_node_def)
  show ?thesis
    using node_inputs [OF assms(1,2), of es] assms(3-6) i
    by (simp add: node_save_calls_def save_node_def node_saved_def config_saved_def fold_node_bound fold_config_bound a_call_def opt_list_def
        Let_def del: js_simps)
qed

theorem typed_node_saved_witness:
  "\<forall>h l. length (node_save_calls h l (fold node_input [NodeName (js ''core''), NodeQuota (Fin 2), NodeGPU True, NodeName (js ''edge-2''), NodeTags (js ''a, b'')]
     (nodes_init\<lparr>no_editing := Some example_admin, no_agentConfig := Some example_config\<rparr>))) = 3"
proof (intro allI)
  fix h l
  let ?es = "[NodeName (js ''core''), NodeQuota (Fin 2), NodeGPU True, NodeName (js ''edge-2''), NodeTags (js ''a, b'')]"
  let ?p = "nodes_init\<lparr>no_editing := Some example_admin, no_agentConfig := Some example_config\<rparr>"
  have q: "trafficLimitBytesFromGiB (typed_quota ?es (no_trafficLimitGiB ?p)) = Fin 2147483648"
    using trafficBytesFrom_int [of 2 GiB] by (simp add: typed_quota_def trafficLimitBytesFromGiB_def max_safe_integer_def)
  have e: "sent_expiry h (typed_expires ?es (no_expires ?p)) = Inr None" by (simp add: typed_expires_def nodes_init_def sent_expiry_def)
  obtain a b c where t: "typed_lists ?es (no_includeNICs ?p, no_excludeNICs ?p, no_includeMounts ?p) = (a, b, c)" by (metis prod_cases3)
  have "no_editing ?p = Some example_admin" "no_agentConfig ?p = Some example_config" "isFinite (Fin 2147483648)" by simp_all
  from typed_node_saved [OF this(1,2) q this(3) e t, of l]
  show "length (node_save_calls h l (fold node_input ?es ?p)) = 3" by (simp del: fold.simps js_simps)
qed

section \<open>A channel is saved with its own fields only\<close>

definition own_config :: "channel_page \<Rightarrow> bool" where
  "own_config p \<longleftrightarrow> (case ch_editing p of None \<Rightarrow> True | Some c \<Rightarrow> fst ` set (ch_config p) \<subseteq> set (channel_keys (nc_type c)))"

lemma assign_keys: "fst ` set (assign k v ps) = insert k (fst ` set ps)"
  by (induction ps) auto

interpretation channel_store: store channel_input "\<lambda>_. True" own_config
  by unfold_locales (auto simp: own_config_def channel_input_def changeType_def assign_keys split: option.splits channel_edit.splits if_splits)

lemma outgoing_keys: "fst ` set (outgoing_config ty m) = fst ` set m"
proof -
  have "js ''to'' \<in> fst ` set m" if "map_of m (js ''to'') = Some v" for v
    using map_of_SomeD [OF that] by (metis fst_conv image_eqI)
  then show ?thesis by (auto simp: outgoing_config_def assign_keys insert_absorb simp del: js_simps split: option.split json.split bool.split)
qed

text \<open>
  C29: However often the type of a new notification channel is changed while its fields are filled
  in, saving sends only fields of the final type: a secret typed for one kind of channel never
  goes out with another.
\<close>

theorem new_channel_own_fields:
  assumes "snd (save_channel (fold channel_input es (create_channel p))) = Some c"
    and "call_body c = Some ch" and "nc_config ch = Some config"
  shows "fst ` set config \<subseteq> set (channel_keys (nc_type ch))"
proof -
  let ?p = "fold channel_input es (create_channel p)"
  have "own_config (create_channel p)" by (simp add: own_config_def create_channel_def)
  then have own: "own_config ?p" using channel_store.run_keeps [of "create_channel p" es] by (simp add: list_all_iff)
  obtain e where e: "ch_editing ?p = Some e" using assms(1) by (cases "ch_editing ?p") (simp_all add: save_channel_def)
  then have "nc_type ch = nc_type e" "config = outgoing_config (nc_type e) (ch_config ?p)"
    using assms by (auto simp: save_channel_def save_call_def)
  then show ?thesis using own e by (simp add: outgoing_keys own_config_def)
qed

theorem new_channel_own_fields_witness:
  "\<forall>p. \<exists>c ch config. snd (save_channel (fold channel_input [ChannelConfig (js ''secret'') (JStr (js ''s'')), ChannelType Bark,
      ChannelConfig (js ''device_key'') (JStr (js ''k''))] (create_channel p))) = Some c \<and> call_body c = Some ch \<and>
    nc_config ch = Some config \<and> fst ` set config \<subseteq> set (channel_keys (nc_type ch))"
proof
  fix p
  let ?s = "snd (save_channel (fold channel_input [ChannelConfig (js ''secret'') (JStr (js ''s'')), ChannelType Bark,
      ChannelConfig (js ''device_key'') (JStr (js ''k''))] (create_channel p)))"
  have "\<exists>c ch config. ?s = Some c \<and> call_body c = Some ch \<and> nc_config ch = Some config"
    by (simp add: create_channel_def channel_input_def changeType_def blank_channel_def save_channel_def save_call_def)
  then show "\<exists>c ch config. ?s = Some c \<and> call_body c = Some ch \<and> nc_config ch = Some config \<and> fst ` set config \<subseteq> set (channel_keys (nc_type ch))"
    using new_channel_own_fields by blast
qed

end
