(* ===== verification/AdminAccess.thy ===== *)
theory AdminAccess
  imports AdminDialogs
begin

text \<open>
  The security page as a whole (\<open>web/src/components/admin/AdminSecurity.vue\<close>): its inputs, its lists with
  their buttons, and as a step relation: what is typed and clicked, and the answers of the server in any
  order. Further the headings and
  buttons of the dialogs of \<open>AdminRules.vue\<close>, \<open>AdminNotifications.vue\<close> and \<open>AdminNodes.vue\<close>.
\<close>

section \<open>The template of AdminSecurity.vue\<close>

datatype security_edit = CurrentPassword jsstring | NewPassword jsstring | KeyName jsstring | KeyDays number
  | ShareNodes "jsstring list" | ShareExpiry jsstring | TotpCode jsstring | DisablePassword jsstring

fun security_input :: "security_edit \<Rightarrow> security_page \<Rightarrow> security_page" where
  "security_input (CurrentPassword v) p = p\<lparr>se_currentPassword := v\<rparr>"
| "security_input (NewPassword v) p = p\<lparr>se_newPassword := v\<rparr>"
| "security_input (KeyName v) p = p\<lparr>se_keyName := v\<rparr>"
| "security_input (KeyDays n) p = p\<lparr>se_keyDays := n\<rparr>"
| "security_input (ShareNodes xs) p = p\<lparr>se_shareNodes := chosen (se_nodes p) xs\<rparr>"
| "security_input (ShareExpiry v) p = p\<lparr>se_shareExpiry := v\<rparr>"
| "security_input (TotpCode v) p = p\<lparr>se_totpCode := v\<rparr>"
| "security_input (DisablePassword v) p = p\<lparr>se_disablePassword := v\<rparr>"

record key_row =
  kr_name :: jsstring
  kr_created :: "jsstring option"
  kr_used :: "jsstring option"
  kr_expiry :: "jsstring option"

definition key_row_of :: "host \<Rightarrow> AppLocale \<Rightarrow> APIKey \<Rightarrow> key_row" where
  "key_row_of h l k = \<lparr>kr_name = ak_name k,
     kr_created = map_option (\<lambda>d. text_in l [21019, 24314] (js ''Created'') @ js '' '' @ d) (dateTime h l (Some (ak_created_at k))),
     kr_used = map_option (\<lambda>d. text_in l [26368, 21518, 20351, 29992] (js ''Last used'') @ js '' '' @ d) (dateTime h l (ak_last_used_at k)),
     kr_expiry = key_expiry h l k\<rparr>"

definition session_row :: "host \<Rightarrow> AppLocale \<Rightarrow> BrowserSession \<Rightarrow> jsstring \<times> jsstring option \<times> jsstring option" where
  "session_row h l s = (session_title l s,
     map_option (\<lambda>d. bs_user_agent s @ middot @ d) (dateTime h l (Some (bs_created_at s))),
     map_option (\<lambda>d. text_in l [21040, 26399] (js ''EXP'') @ js '' '' @ d) (dateTime h l (Some (bs_expires_at s))))"

datatype security_notice = SecuritySuccess jsstring | SecurityError jsstring

definition security_notices :: "security_page \<Rightarrow> security_notice list" where
  "security_notices p = (if se_status p = [] then [] else [SecuritySuccess (se_status p)]) @
     (if sec_error p = [] then [] else [SecurityError (sec_error p)])"

record security_view =
  sv_two_factor :: jsstring
  sv_notices :: "security_notice list"
  sv_totp :: totp_panel
  sv_codes :: "jsstring list"
  sv_key :: "jsstring option"
  sv_keys :: "key_row list"
  sv_options :: "(jsstring \<times> jsstring) list"
  sv_share :: "jsstring option"
  sv_links :: "(jsstring \<times> jsstring option \<times> bool) list"
  sv_sessions :: "(jsstring \<times> jsstring option \<times> jsstring option) list"

definition shown_text :: "jsstring \<Rightarrow> jsstring option" where
  "shown_text s = (if s = [] then None else Some s)"

definition security_view_of :: "host \<Rightarrow> AppLocale \<Rightarrow> security_page \<Rightarrow> security_view" where
  "security_view_of h l p = \<lparr>sv_two_factor = (if se_twoFactor p then text_in l [24050, 24320, 21551] (js ''ON'') else text_in l [26410, 24320, 21551] (js ''OFF'')),
     sv_notices = security_notices p, sv_totp = totp_panel_of p, sv_codes = se_recoveryCodes p, sv_key = shown_text (se_revealedKey p),
     sv_keys = map (key_row_of h l) (se_keys p), sv_options = map (\<lambda>n. (pn_id n, pn_name n)) (se_nodes p),
     sv_share = shown_text (se_revealedShare p), sv_links = map (link_row h l) (se_shares p),
     sv_sessions = map (session_row h l) (se_sessions p)\<rparr>"

section \<open>The page as a machine\<close>

text \<open>
  What the page offers: the controls of the two-factor panel that is shown, and the buttons of the rows
  that are listed; a revoked link has no button.
\<close>

fun input_offered :: "security_edit \<Rightarrow> security_page \<Rightarrow> bool" where
  "input_offered (TotpCode v) p = (case totp_panel_of p of TotpSecret secret url \<Rightarrow> True | _ \<Rightarrow> False)"
| "input_offered (DisablePassword v) p = (totp_panel_of p = TotpDisable)"
| "input_offered _ p = True"

fun click_offered :: "host \<Rightarrow> AppLocale \<Rightarrow> security_click \<Rightarrow> security_page \<Rightarrow> bool" where
  "click_offered h l ClickBegin p = (totp_panel_of p = TotpOffer)"
| "click_offered h l ClickConfirm p = (case totp_panel_of p of TotpSecret secret url \<Rightarrow> True | _ \<Rightarrow> False)"
| "click_offered h l ClickDisable p = (totp_panel_of p = TotpDisable)"
| "click_offered h l (ClickRevokeKey agreed k) p = (k \<in> set (se_keys p))"
| "click_offered h l (ClickRevokeShare s) p = (s \<in> set (se_shares p) \<and> snd (snd (link_row h l s)))"
| "click_offered h l (ClickRevokeSession s) p = (s \<in> set (se_sessions p))"
| "click_offered h l _ p = True"

datatype security_event = SecInput security_edit | SecClick security_click | SecAnswer security_reply
  | SecFailed security_pending failure

inductive security_step :: "host \<Rightarrow> AppLocale \<Rightarrow> security_run \<Rightarrow> security_event \<Rightarrow> security_run \<Rightarrow> bool" for h l where
  typed: "input_offered e (sr_page r) \<Longrightarrow> security_step h l r (SecInput e) (r\<lparr>sr_page := security_input e (sr_page r)\<rparr>)"
| clicked: "click_offered h l k (sr_page r) \<Longrightarrow> security_step h l r (SecClick k) (act h k r)"
| replied: "pending_of a \<in> set (sr_pending r) \<Longrightarrow> security_step h l r (SecAnswer a) (act_answered l a r)"
| rejected: "q \<in> set (sr_pending r) \<Longrightarrow> security_step h l r (SecFailed q e) (act_failed h q e r)"

inductive_cases security_stepE: "security_step h l r e r'"

lemma act_page: "\<exists>m. sr_page (act h k r) = (sr_page r)\<lparr>sec_error := m, se_status := []\<rparr>"
proof (cases "security_request h k ((sr_page r)\<lparr>sec_error := [], se_status := []\<rparr>)")
  case (Inl e)
  then show ?thesis by (intro exI [of _ "failure_message h e"]) (simp add: act_def Let_def)
next
  case (Inr x)
  then show ?thesis by (intro exI [of _ "[]"]) (auto simp: act_def Let_def split: option.split)
qed

text \<open>A field that only inputs and answers write, neither of the messages, is a register.\<close>

definition field_of :: "(security_page \<Rightarrow> 'v) \<Rightarrow> bool" where
  "field_of f \<longleftrightarrow> (\<forall>p m n. f (p\<lparr>sec_error := m, se_status := n\<rparr>) = f p \<and> f (p\<lparr>sec_error := m\<rparr>) = f p)"

lemma field_register:
  assumes "field_of f"
    and "\<And>p e. f (security_input e p) = (case w (SecInput e) of None \<Rightarrow> f p | Some v \<Rightarrow> v)"
    and "\<And>p a. f (security_answered l a p) = (case w (SecAnswer a) of None \<Rightarrow> f p | Some v \<Rightarrow> v)"
    and "\<And>k. w (SecClick k) = None" and "\<And>q e. w (SecFailed q e) = None"
  shows "register (security_step h l) w (\<lambda>r. f (sr_page r))"
proof
  fix r e r'
  assume "security_step h l r e r'"
  then show "f (sr_page r') = (case w e of None \<Rightarrow> f (sr_page r) | Some v \<Rightarrow> v)"
  proof (cases rule: security_step.cases)
    case (clicked k)
    then show ?thesis using act_page [of h k r] assms(1,4) by (auto simp: field_of_def)
  qed (use assms in \<open>auto simp: act_answered_def act_failed_def field_of_def\<close>)
qed

section \<open>Two-factor authentication\<close>

text \<open>
  What the events of a run say about the fields of the two-factor panel: the flag that an answer
  reports, the token (none after a confirmation), secret and address of a set-up, the typed code and
  the recovery codes.
\<close>

fun flag_reported :: "security_event \<Rightarrow> bool option" where
  "flag_reported (SecAnswer (Loaded ss ks ls ns two)) = Some (two = Some True)"
| "flag_reported (SecAnswer (Confirmed codes)) = Some True"
| "flag_reported (SecAnswer Disabled) = Some False"
| "flag_reported _ = None"

fun token_given :: "security_event \<Rightarrow> jsstring option" where
  "token_given (SecAnswer (Begun secret url token)) = Some token"
| "token_given (SecAnswer (Confirmed codes)) = Some []"
| "token_given _ = None"

fun secret_given :: "security_event \<Rightarrow> (jsstring \<times> jsstring) option" where
  "secret_given (SecAnswer (Begun secret url token)) = Some (secret, url)"
| "secret_given _ = None"

fun code_typed :: "security_event \<Rightarrow> jsstring option" where
  "code_typed (SecInput (TotpCode v)) = Some v"
| "code_typed _ = None"

fun codes_given :: "security_event \<Rightarrow> jsstring list option" where
  "codes_given (SecAnswer (Confirmed codes)) = Some codes"
| "codes_given _ = None"

fun key_given :: "security_event \<Rightarrow> jsstring option" where
  "key_given (SecAnswer (KeyCreated token)) = Some token"
| "key_given _ = None"

interpretation flag: register "security_step h l" flag_reported "\<lambda>r. se_twoFactor (sr_page r)" for h l
proof (rule field_register)
  show "se_twoFactor (security_input e p) = (case flag_reported (SecInput e) of None \<Rightarrow> se_twoFactor p | Some v \<Rightarrow> v)" for p e
    by (cases e) simp_all
  show "se_twoFactor (security_answered l a p) = (case flag_reported (SecAnswer a) of None \<Rightarrow> se_twoFactor p | Some v \<Rightarrow> v)" for p a
    by (cases a) simp_all
qed (simp_all add: field_of_def)

interpretation token: register "security_step h l" token_given "\<lambda>r. se_setupToken (sr_page r)" for h l
proof (rule field_register)
  show "se_setupToken (security_input e p) = (case token_given (SecInput e) of None \<Rightarrow> se_setupToken p | Some v \<Rightarrow> v)" for p e
    by (cases e) simp_all
  show "se_setupToken (security_answered l a p) = (case token_given (SecAnswer a) of None \<Rightarrow> se_setupToken p | Some v \<Rightarrow> v)" for p a
    by (cases a) simp_all
qed (simp_all add: field_of_def)

interpretation secret: register "security_step h l" secret_given "\<lambda>r. (se_totpSecret (sr_page r), se_totpURL (sr_page r))" for h l
proof (rule field_register [where f = "\<lambda>p. (se_totpSecret p, se_totpURL p)"])
  show "(se_totpSecret (security_input e p), se_totpURL (security_input e p)) =
      (case secret_given (SecInput e) of None \<Rightarrow> (se_totpSecret p, se_totpURL p) | Some v \<Rightarrow> v)" for p e
    by (cases e) simp_all
  show "(se_totpSecret (security_answered l a p), se_totpURL (security_answered l a p)) =
      (case secret_given (SecAnswer a) of None \<Rightarrow> (se_totpSecret p, se_totpURL p) | Some v \<Rightarrow> v)" for p a
    by (cases a) simp_all
qed (simp_all add: field_of_def)

interpretation code: register "security_step h l" code_typed "\<lambda>r. se_totpCode (sr_page r)" for h l
proof (rule field_register)
  show "se_totpCode (security_input e p) = (case code_typed (SecInput e) of None \<Rightarrow> se_totpCode p | Some v \<Rightarrow> v)" for p e
    by (cases e) simp_all
  show "se_totpCode (security_answered l a p) = (case code_typed (SecAnswer a) of None \<Rightarrow> se_totpCode p | Some v \<Rightarrow> v)" for p a
    by (cases a) simp_all
qed (simp_all add: field_of_def)

interpretation codes: register "security_step h l" codes_given "\<lambda>r. se_recoveryCodes (sr_page r)" for h l
proof (rule field_register)
  show "se_recoveryCodes (security_input e p) = (case codes_given (SecInput e) of None \<Rightarrow> se_recoveryCodes p | Some v \<Rightarrow> v)" for p e
    by (cases e) simp_all
  show "se_recoveryCodes (security_answered l a p) = (case codes_given (SecAnswer a) of None \<Rightarrow> se_recoveryCodes p | Some v \<Rightarrow> v)" for p a
    by (cases a) simp_all
qed (simp_all add: field_of_def)

interpretation key: register "security_step h l" key_given "\<lambda>r. se_revealedKey (sr_page r)" for h l
proof (rule field_register)
  show "se_revealedKey (security_input e p) = (case key_given (SecInput e) of None \<Rightarrow> se_revealedKey p | Some v \<Rightarrow> v)" for p e
    by (cases e) simp_all
  show "se_revealedKey (security_answered l a p) = (case key_given (SecAnswer a) of None \<Rightarrow> se_revealedKey p | Some v \<Rightarrow> v)" for p a
    by (cases a) simp_all
qed (simp_all add: field_of_def)

lemmas run_fields = flag.run_content token.run_content secret.run_content code.run_content codes.run_content


text \<open>The ordinary set-up, as an example of a run.\<close>

definition set_up :: "number \<Rightarrow> security_run" where
  "set_up now = \<lparr>sr_page = (security_init now)\<lparr>se_totpSecret := js ''s'', se_totpURL := js ''u'', se_setupToken := js ''t''\<rparr>, sr_pending = []\<rparr>"

lemma set_up_reached: "runs (security_step h l) (security_start now) [SecClick ClickBegin, SecAnswer (Begun (js ''s'') (js ''u'') (js ''t''))] (set_up now)"
proof -
  let ?R = "runs (security_step h l) (security_start now)" and ?a = "Begun (js ''s'') (js ''u'') (js ''t'')"
  let ?r = "act h ClickBegin (security_start now)"
  note d = act_def act_answered_def security_start_def security_init_def totp_panel_of_def Let_def
  have "?R ([] @ [SecClick ClickBegin]) ?r" by (intro runs_step [OF runs_none] security_step.clicked) (simp add: d)
  then have "?R (([] @ [SecClick ClickBegin]) @ [SecAnswer ?a]) (act_answered l ?a ?r)"
    by (rule runs_step) (intro security_step.replied, simp add: d)
  moreover have "act_answered l ?a ?r = set_up now" by (simp add: d set_up_def)
  ultimately show ?thesis by simp
qed


text \<open>
  The button that starts a set-up stays enabled while its request is in flight. When it is clicked
  twice and the second answer arrives after the confirmation, the page offers to confirm a set-up
  although two-factor authentication is on, and no longer offers to switch it off.
\<close>

theorem late_setup_hides_disable:
  "\<exists>es r. runs (security_step h l) (security_start now) es r \<and> sr_pending r = [] \<and>
     newest flag_reported False es \<and> totp_panel_of (sr_page r) = TotpSecret (js ''s2'') (js ''u2'')"
proof -
  let ?r = "security_start now" and ?R = "runs (security_step h l) (security_start now)"
  let ?b = "Begun (js ''s'') (js ''u'') (js ''t'')" and ?c = "Confirmed []" and ?d = "Begun (js ''s2'') (js ''u2'') (js ''t2'')"
  let ?r1 = "act h ClickBegin ?r"
  let ?r2 = "act h ClickBegin ?r1"
  let ?r3 = "act_answered l ?b ?r2"
  let ?r4 = "act h ClickConfirm ?r3"
  let ?r5 = "act_answered l ?c ?r4"
  let ?r6 = "act_answered l ?d ?r5"
  note d = act_def act_answered_def security_start_def security_init_def totp_panel_of_def Let_def
  have "?R ([] @ [SecClick ClickBegin]) ?r1" by (intro runs_step [OF runs_none] security_step.clicked) (simp add: d)
  then have "?R (([] @ [SecClick ClickBegin]) @ [SecClick ClickBegin]) ?r2" by (rule runs_step) (intro security_step.clicked, simp add: d)
  then have "?R ((([] @ [SecClick ClickBegin]) @ [SecClick ClickBegin]) @ [SecAnswer ?b]) ?r3"
    by (rule runs_step) (intro security_step.replied, simp add: d)
  then have "?R (((([] @ [SecClick ClickBegin]) @ [SecClick ClickBegin]) @ [SecAnswer ?b]) @ [SecClick ClickConfirm]) ?r4"
    by (rule runs_step) (intro security_step.clicked, simp add: d)
  then have "?R ((((([] @ [SecClick ClickBegin]) @ [SecClick ClickBegin]) @ [SecAnswer ?b]) @ [SecClick ClickConfirm]) @ [SecAnswer ?c]) ?r5"
    by (rule runs_step) (intro security_step.replied, simp add: d)
  then have "?R (((((([] @ [SecClick ClickBegin]) @ [SecClick ClickBegin]) @ [SecAnswer ?b]) @ [SecClick ClickConfirm]) @ [SecAnswer ?c]) @ [SecAnswer ?d]) ?r6"
    by (rule runs_step) (intro security_step.replied, simp add: d)
  moreover have "sr_pending ?r6 = [] \<and> totp_panel_of (sr_page ?r6) = TotpSecret (js ''s2'') (js ''u2'')" by (simp add: d)
  moreover have "newest flag_reported False (((((([] @ [SecClick ClickBegin]) @ [SecClick ClickBegin]) @ [SecAnswer ?b]) @
      [SecClick ClickConfirm]) @ [SecAnswer ?c]) @ [SecAnswer ?d])" by simp
  ultimately show ?thesis by blast
qed

text \<open>The recovery codes of the confirmation stay on the page when two-factor authentication is switched off.\<close>

theorem codes_outlive_two_factor:
  "let q = security_answered l Disabled (security_answered l (Confirmed codes) p) in
     totp_panel_of q = TotpOffer \<and> se_recoveryCodes q = codes"
  by (simp add: totp_panel_of_def Let_def)

section \<open>Overlapping actions\<close>

text \<open>
  Whatever else is done on the page, the API key that it reveals is the one whose answer arrived last;
  keys issued before are no longer shown.
\<close>

theorem revealed_key_latest:
  "runs (security_step h l) (security_start now) es r \<Longrightarrow> sv_key (security_view_of h l (sr_page r)) = shown_text (newest key_given [] es)"
  using key.run_content [of h l "security_start now" es r] by (simp add: security_view_of_def security_start_def security_init_def)

text \<open>
  A click clears both messages, but an answer does not clear the message of another action: a success
  and an error of overlapping actions are shown together.
\<close>

theorem overlapping_notices:
  assumes "failure_message h e \<noteq> []"
  shows "length (security_notices (sr_page (act_failed h KeyPending e (act_answered l PasswordChanged (act h ClickCreateKey (act h ClickPassword r)))))) = 2"
  using assms by (simp add: security_notices_def act_def act_answered_def act_failed_def text_in_def Let_def)

text \<open>
  A selection is not revised when the nodes are loaded again: a node that is no longer listed stays
  selected, although no option shows it, and is sent with the next link.
\<close>

theorem unlisted_node_shared:
  "let p = security_answered l (Loaded [] [] [] [] None) (security_input (ShareNodes [pn_id n])
       (security_answered l (Loaded [] [] [] [n] None) (security_init now))) in
   sv_options (security_view_of h l p) = [] \<and> (\<forall>expires. share_expiry h p = Some expires \<longrightarrow>
     createShare h p = Inr (a_call (js ''POST'') (js ''/api/v1/admin/share-links'') (Some (share_body [pn_id n] expires))))"
  by (simp add: createShare_def security_view_of_def chosen_def security_init_def Let_def)

section \<open>Dialogs\<close>

record dialog_view =
  dg_over :: jsstring
  dg_title :: jsstring
  dg_error :: "jsstring option"
  dg_save :: "bool \<times> jsstring"

definition edit_or_new :: "AppLocale \<Rightarrow> number \<Rightarrow> jsstring \<times> jsstring \<Rightarrow> jsstring \<times> jsstring \<Rightarrow> jsstring" where
  "edit_or_new l i edit new = (if truthy_num i then text_in l (fst edit) (snd edit) else text_in l (fst new) (snd new))"

definition rule_dialog :: "AppLocale \<Rightarrow> rule_page \<Rightarrow> dialog_view option" where
  "rule_dialog l p = map_option (\<lambda>r. \<lparr>dg_over = text_in l [21578, 35686, 35268, 21017] (js ''Alert rule''),
     dg_title = edit_or_new l (ar_id r) ([32534, 36753, 35268, 21017], js ''Edit rule'') ([26032, 24314, 35268, 21017], js ''New rule''),
     dg_error = shown_text (ru_error p), dg_save = (False, text_in l [20445, 23384, 35268, 21017] (js ''Save rule''))\<rparr>) (ru_editing p)"

definition scope_options :: "AppLocale \<Rightarrow> rule_page \<Rightarrow> (jsstring \<times> jsstring) list" where
  "scope_options l p = map (\<lambda>n. (pn_id n, slashed (pn_name n) (or_text (pn_group n) (text_in l [26410, 20998, 32452] (js ''Ungrouped''))))) (ru_nodes p)"

definition channel_dialog :: "AppLocale \<Rightarrow> channel_page \<Rightarrow> dialog_view option" where
  "channel_dialog l p = map_option (\<lambda>c. \<lparr>dg_over = text_in l [36890, 30693, 28192, 36947] (js ''Notification channel''),
     dg_title = edit_or_new l (nc_id c) ([32534, 36753, 28192, 36947], js ''Edit channel'') ([26032, 24314, 28192, 36947], js ''New channel''),
     dg_error = shown_text (ch_error p), dg_save = (False, text_in l [20445, 23384, 28192, 36947] (js ''Save channel''))\<rparr>) (ch_editing p)"

text \<open>The hint beside the secret of each type of channel.\<close>

fun secret_key :: "channel_type \<Rightarrow> jsstring" where
  "secret_key Webhook = js ''secret''"
| "secret_key Telegram = js ''bot_token''"
| "secret_key Bark = js ''device_key''"
| "secret_key Smtp = js ''password''"

definition secret_hint :: "AppLocale \<Rightarrow> channel_type \<Rightarrow> (jsstring \<times> json) list \<Rightarrow> jsstring" where
  "secret_hint l ty config = (if config_flag config (secret_key ty @ js ''_configured'') then text_in l [30041, 31354, 20445, 25345, 19981, 21464] (js ''Leave blank to keep'')
     else if ty = Webhook then text_in l [21487, 36873] (js ''Optional'') else [])"

definition node_dialog :: "AppLocale \<Rightarrow> nodes_page \<Rightarrow> dialog_view option" where
  "node_dialog l p = map_option (\<lambda>n. \<lparr>dg_over = slashed (text_in l [33410, 28857] (js ''Node'')) (slice 0 8 (pn_id n)),
     dg_title = text_in l ([32534, 36753, 32] @ pn_name n) (js ''Edit '' @ pn_name n), dg_error = shown_text (no_error p),
     dg_save = (node_save_disabled p, if no_busy p then text_in l [27491, 22312, 20445, 23384, 8230] (js ''Saving'' @ [8230]) else text_in l [20445, 23384, 33410, 28857] (js ''Save node''))\<rparr>)
     (no_editing p)"

definition collection_version :: "nodes_page \<Rightarrow> jsstring option" where
  "collection_version p = map_option (\<lambda>c. js ''V'' @ num_string (ac_config_version c)) (no_agentConfig p)"

definition uninstall_panel :: "AppLocale \<Rightarrow> jsstring \<Rightarrow> nodes_page \<Rightarrow> jsstring \<times> jsstring \<times> jsstring" where
  "uninstall_panel l origin p = (uninstallCommand origin,
     if no_uninstallCopied p then text_in l [24050, 22797, 21046] (js ''Copied'') else text_in l [22797, 21046] (js ''Copy''), windowsUninstallCommand origin)"

fun channel_type_label :: "channel_type \<Rightarrow> jsstring" where
  "channel_type_label Smtp = js ''SMTP''"
| "channel_type_label Telegram = js ''TELEGRAM''"
| "channel_type_label Bark = js ''BARK''"
| "channel_type_label Webhook = js ''WEBHOOK''"

definition channel_card_of :: "AppLocale \<Rightarrow> NotificationChannel \<Rightarrow> jsstring list \<times> bool" where
  "channel_card_of l c = ([channel_glyph (nc_type c), channel_type_label (nc_type c), nc_name c, channel_note l c,
     enabled_text l (js ''Active'') (nc_enabled c)], \<not> nc_enabled c)"

text \<open>
  Opening a dialog does not clear the error of a rule or a channel: after a save that failed, the
  dialog of another one shows that error. The dialog of a node starts without one.
\<close>

theorem error_shown_in_other_dialog:
  "map_option dg_error (rule_dialog l (edit_rule r (rule_saved h (Inl e) p))) = Some (shown_text (failure_message h e))"
  "map_option dg_error (channel_dialog l (edit_channel c (channel_saved h (Inl e) reload q))) = Some (shown_text (failure_message h e))"
  "map_option dg_error (node_dialog l (fst (edit_node n (save_failed h e u)))) = Some None"
  by (simp_all add: rule_dialog_def edit_rule_def rule_saved_def channel_dialog_def edit_channel_def channel_saved_def
      node_dialog_def edit_node_def save_failed_def shown_text_def)

text \<open>
  Changing the type of a channel withdraws the hint that a blank secret keeps the stored one.
\<close>

theorem hint_gone_after_type_change:
  "ch_editing p = Some c \<Longrightarrow> secret_hint l ty (ch_config (channel_input (ChannelType ty) p)) =
     (if ty = Webhook then text_in l [21487, 36873] (js ''Optional'') else [])"
  by (simp add: channel_input_def changeType_def secret_hint_def config_flag_def)

end
