(* ===== verification/Spec2Isabelle.thy ===== *)
theory Spec2Isabelle
  imports Traffic I18n NodeAssets Latency JSDate Types Format Api Session Monitor LatencyView Components PublicViews NodeView
    DateLaws AdminSettings AdminBackups AdminProbes AdminRules AdminNodes AdminLatency
    AdminThemes AdminNotifications AdminSecurity AdminDashboard Chart AdminCalls AdminForms Screens
    Client Pages Readouts AdminScreens AdminTables AdminDialogs AdminAccess
begin

text \<open>
  The web client of Hostpin (\<open>web/src\<close>, TypeScript and Vue), as definitions that follow the source file by
  file, with the theorems that make it correct.

  \<^bold>\<open>The program.\<close> Hostpin monitors hosts. A Go server collects samples that agents send and serves a
  JSON API; the client is a single-page application. Its parts are: the API client (\<open>api.ts\<close>), through
  which every request goes; the session store and the router (\<open>stores/session.ts\<close>, \<open>router.ts\<close>), which
  decide what a visitor may see; the live store (\<open>stores/monitor.ts\<close>), which keeps the nodes and their
  samples up to date over a web socket; the pages for visitors (\<open>views/*.vue\<close>) and the components they
  share (\<open>components/*.vue\<close>); the pages of the administration (\<open>components/admin/*.vue\<close>); and the pure
  modules for traffic, latency, formats, languages and assets. The answers of the server, the browser
  (clock, storage, languages, sockets, timers, clipboard, dialogs, \<open>Intl\<close>, \<open>Math.log\<close>), path matching of
  the router library (\<open>resolve\<close>, \<open>locate\<close>), the URL constructor and the chart library are arguments of the definitions.

  \<^bold>\<open>The language.\<close> \<open>JSNumber\<close> has binary64 numbers: reals rounded to nearest even, with infinities and
  NaN; zero has no sign, and no source line tells the two zeros apart. \<open>JSString\<close> has strings as lists of
  UTF-16 units, with trimming, splitting, number printing (shortest digits) and number parsing. \<open>JSDate\<close>
  has \<open>Date\<close>: proleptic Gregorian days, ISO printing and parsing; \<open>DateLaws\<close> proves that what
  \<open>toISOString\<close> prints is read back. \<open>JSUri\<close> has \<open>encodeURIComponent\<close> and its inverse over UTF-8. \<open>JSJson\<close>
  has \<open>JSON.stringify\<close> and \<open>JSON.parse\<close> and their round trip. \<open>Prelude\<close> has the shared lists and the
  interfaces (locales).

  \<^bold>\<open>Interfaces.\<close> \<open>store\<close>: a step function, the events that may happen, an invariant that each step keeps;
  it yields the invariant of every run. Every stateful part interprets it on its own step function:
  \<open>Monitor\<close> (three times: live, until disconnect, after disconnect), \<open>LatencyView\<close>, \<open>Session\<close>, \<open>I18n\<close>,
  \<open>NodeView\<close>, \<open>AdminSettings\<close>, \<open>AdminProbes\<close>, \<open>Chart\<close>, \<open>AdminTables\<close> (targets), \<open>AdminDialogs\<close>
  (channels), \<open>AdminAccess\<close>. \<open>observed_store\<close>: moreover an observation that does not
  change (\<open>I18n\<close>, \<open>PublicViews\<close>). \<open>refined_store\<close>: moreover an abstract machine that the steps implement
  (\<open>AdminProbes\<close>, over a table; \<open>AdminDialogs\<close>, two-factor authentication over three states;
  \<open>AdminAccess\<close>, the revealed key over a register). \<open>keyed_rows\<close>, \<open>keyed\<close>: saving and deleting rows by key (probes, carriers,
  rules, nodes). \<open>sample_sink\<close>: delivery of samples to nodes (\<open>Monitor\<close> and the share page). \<open>grid_rounding\<close>:
  rounding to a grid (\<open>JSNumber\<close>). \<open>admin_client\<close>: handlers that send changes (\<open>AdminCalls\<close>, eighteen
  handlers). \<open>submit_button\<close>, \<open>single_call_button\<close>: buttons that sending disables (\<open>AdminForms\<close>, eight
  buttons). \<open>bound_form\<close>: dialogs whose inputs keep the identity of what they edit (declared in \<open>AdminForms\<close>;
  settings in \<open>AdminScreens\<close>, four dialogs in \<open>AdminTables\<close>, three in \<open>AdminDialogs\<close>). \<open>chart_source\<close>: pages that
  draw charts (\<open>Screens\<close>). Relations: \<open>nav_step\<close> and \<open>nav_ends\<close> (\<open>Navigation\<close>), \<open>client_step\<close> and its reachable
  states \<open>reach\<close> (\<open>Client\<close>).

  \<^bold>\<open>Theories and sources.\<close>
  \<^item> \<open>Types\<close>: \<open>types.ts\<close>, one record per interface, one datatype per union of literals.
  \<^item> \<open>Traffic\<close>: \<open>traffic.ts\<close>. Usage, utilization and unit conversion; range, exactness, round trip and
    the largest quota.
  \<^item> \<open>I18n\<close>: \<open>i18n.ts\<close> as a machine over locale choices and browser language changes.
  \<^item> \<open>NodeAssets\<close>: \<open>nodeAssets.ts\<close>, \<open>NodeFlag.vue\<close>, \<open>SystemLogo.vue\<close>.
  \<^item> \<open>Latency\<close>: \<open>latency.ts\<close>, the accumulation loop in rounded arithmetic and the bounds of its averages.
  \<^item> \<open>Format\<close>: \<open>format.ts\<close> against whole-number specifications (\<open>duration_spec\<close>, \<open>elapsed_spec\<close>).
  \<^item> \<open>Api\<close>: \<open>api.ts\<close>. A request is prepared, sent and turned into a value or a \<open>failure\<close>; CSRF token,
    content type, error mapping and download names.
  \<^item> \<open>Session\<close>: \<open>stores/session.ts\<close> and \<open>router.ts\<close>. A navigation runs the guard until it proceeds.
  \<^item> \<open>Monitor\<close>: \<open>stores/monitor.ts\<close>. The record \<open>window\<close> holds the store and what it has open in the browser
    (sockets, intervals, timeouts, loads in flight); every handler is a step, split where the source awaits.
  \<^item> \<open>LatencyView\<close>, \<open>NodeView\<close>, \<open>PublicViews\<close>: \<open>views/*.vue\<close>, with the requests in flight as part of the state,
    so that answers may come in any order.
  \<^item> \<open>Components\<close>, \<open>Chart\<close>: \<open>components/*.vue\<close> and \<open>App.vue\<close>.
  \<^item> \<open>AdminSettings\<close>, \<open>AdminBackups\<close>, \<open>AdminProbes\<close>, \<open>AdminRules\<close>, \<open>AdminNodes\<close>, \<open>AdminLatency\<close>, \<open>AdminThemes\<close>,
    \<open>AdminNotifications\<close>, \<open>AdminSecurity\<close>, \<open>AdminDashboard\<close> (\<open>AdminOverview.vue\<close>, \<open>AdminAudit.vue\<close>): the pages of
    the administration. A handler that sends a request returns the page and the \<open>call\<close>; the answer is
    handled by a second definition. Where no other handler can intervene with a different result, the
    answers are arguments of one definition.
  \<^item> \<open>AdminCalls\<close>: the administration on top of the API client. \<open>AdminForms\<close>: its buttons with their
    \<open>:disabled\<close> expressions, and that a guarded button submits once.
  \<^item> \<open>Screens\<close>: what the templates of the latency page and the node page compute and hand to the charts.
  \<^item> \<open>Navigation\<close>: the guard of \<open>router.ts\<close> as a step relation, equivalent to the function of \<open>Session\<close>.
  \<^item> \<open>Client\<close>: the running application of \<open>App.vue\<close>. Session, router, live store and the mounted overview as
    one state; navigation, login, set-up, logout, answers and browser events as one step relation.
  \<^item> \<open>Pages\<close>: the templates of the overview, the share page, login, set-up, the header and the frame of the
    administration. \<open>Readouts\<close>: those of the node page and the latency page. \<open>AdminScreens\<close> (settings, backups,
    themes), \<open>AdminTables\<close> (probes, latency) and \<open>AdminDialogs\<close> (rules, channels, nodes, two-factor
    authentication, dashboard, audit log): those of the administration. \<open>AdminAccess\<close>: the security page as one
    machine, and the frames of the dialogs. A record or datatype per piece of the template says what is
    shown in which branch; a datatype of edits and one function per dialog say what each input writes.
  \<^item> This theory: the quota from the dialog of a node to its traffic bar.

  \<^bold>\<open>What is shown.\<close> Invariants and safety: no leaked socket or timer and reconnection until disconnect
  (\<open>Monitor\<close>); history of the selected path only (\<open>LatencyView\<close>); no administration without login and
  every navigation ends (\<open>Session\<close>, \<open>Navigation\<close>); in every run of the client the shown page is one the session
  admits, and the overview leaves nothing open behind (\<open>Client\<close>); a share link shows its node only (\<open>NodeView\<close>); a shown PIN belongs to the
  shown record (\<open>AdminSettings\<close>); released charts (\<open>Chart\<close>); every change carries the CSRF token (\<open>AdminCalls\<close>); no double submission
  (\<open>AdminForms\<close>); what is typed into a dialog never changes where it is saved, and a channel is saved with
  its own fields only (\<open>AdminDialogs\<close>).
  Refinement: the task list implements a table (\<open>AdminProbes\<close>), the two-factor panel a machine of three states
  (\<open>AdminDialogs\<close>). Round trips: quotas, file names, nodes,
  rules, channels and theme settings survive their forms. Bounds and equivalence in rounded arithmetic:
  \<open>Traffic\<close>, \<open>Latency\<close>, \<open>Format\<close>. Where the code does not do what it means to, the theorem says what it does
  (for example \<open>disconnect_race\<close>, \<open>late_answer_opens_socket\<close>, \<open>stale_config_saved\<close>, \<open>window_race\<close>,
  \<open>late_poll_hides_plaintext\<close>, \<open>edit_during_save_lost\<close>, \<open>codes_outlive_two_factor\<close>). What the templates show
  agrees with what the handlers do: a link opens the page it names, a button is enabled exactly when its
  handler sends, legends and headings match the charts (\<open>Pages\<close>, \<open>Readouts\<close>, \<open>AdminScreens\<close>).

  \<^bold>\<open>Bounds and fuel.\<close> \<open>navigate\<close> runs the guard with fuel; three runs are enough from every consistent
  session (\<open>navigation_settles\<close>). \<open>ready_attempt\<close> has the 120 attempts of the source. \<open>json_parse\<close> has one
  unit of fuel per character and one more, which is proved enough for every printed value. Exactness is
  stated for whole numbers up to \<open>2^52\<close> or \<open>2^53\<close>, the range in which sums and integers are not rounded.

  \<^bold>\<open>Not modelled.\<close> Fixed markup, captions without a value, icons and styles: they have no state. The
  validation by HTML attributes (\<open>required\<close>, \<open>min\<close>, \<open>max\<close>, \<open>type\<close>) and text that a numeric input hands over
  unparsed: edits carry values of the field's type. \<open>main.ts\<close> and the build files: they only start and bundle
  the application. \<open>clone.ts\<close>: a copy of a value is that value. The object URLs of downloads. The Go server
  and agent: their answers are arguments. The bundles under \<open>internal/webui/dist\<close> are generated from the
  modelled sources.
\<close>

section \<open>Properties that span components\<close>

text \<open>
  The traffic that counts against a quota, in whole numbers; \<open>trafficUsage\<close> is exact on it as long as
  no counter exceeds \<open>2^52\<close> bytes.
\<close>

definition usage_of :: "jsstring \<Rightarrow> int \<Rightarrow> int \<Rightarrow> int" where
  "usage_of mode rx tx = (if mode = js ''max'' then max rx tx else if mode = js ''up'' then tx
     else if mode = js ''down'' then rx else rx + tx)"

lemma trafficUsage_int:
  assumes "0 \<le> rx" and "rx \<le> 2 ^ 52" and "0 \<le> tx" and "tx \<le> 2 ^ 52"
  shows "trafficUsage (Some (Fin (of_int rx))) (Some (Fin (of_int tx))) (Some mode) = Fin (of_int (usage_of mode rx tx))"
proof -
  have "fl (of_int (rx + tx)) = Fin (of_int (rx + tx))" using assms by (intro fl_of_int) simp
  then show ?thesis using assms
    by (simp add: trafficUsage_def usage_of_def counter_Fin of_int_max del: js_simps)
qed

lemma saved_quota:
  assumes "no_trafficLimitGiB p = Fin (of_int g)" and "0 < g" and "g \<le> 2 ^ 53"
    and "save_node h l p = (p', Some c)" and "call_body c = Some (NodeBody n)"
  shows "pn_traffic_limit n = Fin (of_int (g * 2 ^ 30)) \<and> g * 2 ^ 30 \<le> 2 ^ 53"
proof -
  have q: "pn_traffic_limit n = trafficLimitBytesFromGiB (Fin (of_int g))" "isFinite (pn_traffic_limit n)"
    using assms(1,4,5) by (auto simp: save_node_def Let_def simp del: js_simps split: option.splits if_splits sum.splits)
  then show ?thesis
    using trafficBytesFrom_int [of g GiB] assms(2,3)
    by (auto simp: trafficLimitBytesFromGiB_def max_safe_integer_def split: if_splits)
qed

text \<open>
  C31: A quota typed as whole GiB in the node dialog turns the traffic bar of that node critical
  exactly when the traffic that counts under its mode reaches that many GiB, through the
  conversion, the request and the meter.
\<close>

theorem quota_typed_is_metered:
  assumes "no_trafficLimitGiB p = Fin (of_int g)" and "0 < g" and "g \<le> 2 ^ 53"
    and "save_node h l p = (p', Some c)" and "call_body c = Some (NodeBody n)"
    and "sn_node s = PublicNode.truncate n" and "sn_metric s = Some m"
    and "ms_monthly_rx_bytes m = Some (Fin (of_int rx))" and "0 \<le> rx" and "rx \<le> 2 ^ 52"
    and "ms_monthly_tx_bytes m = Some (Fin (of_int tx))" and "0 \<le> tx" and "tx \<le> 2 ^ 52"
  shows "tu_tone (traffic_of s) = ToneCritical \<longleftrightarrow> g * 2 ^ 30 \<le> usage_of (pn_traffic_limit_type n) rx tx"
proof (rule traffic_critical_iff)
  show "tu_used (traffic_of s) = Fin (of_int (usage_of (pn_traffic_limit_type n) rx tx))"
    using trafficUsage_int [of rx tx] assms(6-13) by (simp add: tu_used_def traffic_of_def PublicNode.truncate_def del: js_simps)
  show "0 \<le> usage_of (pn_traffic_limit_type n) rx tx" using assms(9,12) by (simp add: usage_of_def le_max_iff_disj)
  show "tu_trafficLimit (traffic_of s) = Fin (of_int (g * 2 ^ 30))" "g * 2 ^ 30 \<le> 2 ^ 53"
    using saved_quota [OF assms(1-5)] assms(6) by (simp_all add: traffic_of_def PublicNode.truncate_def)
qed (use assms(2) in simp)

theorem quota_typed_is_metered_witness:
  "\<forall>h l. \<exists>p' c n. save_node h l (nodes_init\<lparr>no_editing := Some example_admin, no_agentConfig := Some example_config,
      no_trafficLimitGiB := Fin (of_int 2)\<rparr>) = (p', Some c) \<and> call_body c = Some (NodeBody n) \<and>
    tu_tone (traffic_of \<lparr>sn_node = PublicNode.truncate n, sn_metric = Some ((example_sample [])\<lparr>ms_monthly_rx_bytes := Some (Fin (of_int 2147483000)),
      ms_monthly_tx_bytes := Some (Fin (of_int 648))\<rparr>)\<rparr>) = ToneCritical"
proof (intro allI)
  fix h l
  let ?p = "nodes_init\<lparr>no_editing := Some example_admin, no_agentConfig := Some example_config, no_trafficLimitGiB := Fin (of_int 2)\<rparr>"
  let ?m = "(example_sample [])\<lparr>ms_monthly_rx_bytes := Some (Fin (of_int 2147483000)), ms_monthly_tx_bytes := Some (Fin (of_int 648))\<rparr>"
  have q: "trafficLimitBytesFromGiB (Fin (of_int 2)) = Fin (of_int (2 * 2 ^ 30))"
    using trafficBytesFrom_int [of 2 GiB] by (simp add: trafficLimitBytesFromGiB_def max_safe_integer_def)
  have s: "\<exists>p' c n. save_node h l ?p = (p', Some c) \<and> call_body c = Some (NodeBody n) \<and> pn_traffic_limit_type n = js ''sum''"
    using q by (simp add: save_node_def Let_def nodes_init_def sent_expiry_def example_admin_def)
  then obtain p' c n where s: "save_node h l ?p = (p', Some c)" "call_body c = Some (NodeBody n)" "pn_traffic_limit_type n = js ''sum''"
    by blast
  have "tu_tone (traffic_of \<lparr>sn_node = PublicNode.truncate n, sn_metric = Some ?m\<rparr>) = ToneCritical \<longleftrightarrow>
      2 * 2 ^ 30 \<le> usage_of (pn_traffic_limit_type n) 2147483000 648"
    by (rule quota_typed_is_metered [OF _ _ _ s(1,2), where m = ?m]) simp_all
  then show "\<exists>p' c n. save_node h l ?p = (p', Some c) \<and> call_body c = Some (NodeBody n) \<and>
      tu_tone (traffic_of \<lparr>sn_node = PublicNode.truncate n, sn_metric = Some ?m\<rparr>) = ToneCritical"
    using s by (auto simp: usage_of_def)
qed

end
